(* ===== verification/Prelude.thy ===== *)
theory Prelude
  imports Main "HOL-Library.Word" "HOL-Library.List_Lexorder" "HOL-Library.Char_ord"
begin

text \<open>
  Shared vocabulary of the development: names for the fixed-width integers of the C++ sources,
  the collections of rewrite rules the component proofs draw on, the byte view of
  \<^verbatim>\<open>std::string\<close>, and the two number printers of the C++ standard library that the sources
  call (\<^verbatim>\<open>std::to_string\<close> on unsigned integers and the \<^verbatim>\<open>%0Nx\<close> conversion of
  \<^verbatim>\<open>snprintf\<close>), each with the fact that it loses no information.
\<close>

unbundle bit_operations_syntax

type_synonym u8 = "8 word"
type_synonym u16 = "16 word"
type_synonym u32 = "32 word"
type_synonym u64 = "64 word"

text \<open>
  Signed integers are the same bit patterns, read by \<^term>\<open>sint\<close>. A \<^verbatim>\<open>double\<close> is only ever
  stored and copied bit by bit by the modelled code, so it is its 64-bit pattern.
\<close>

type_synonym i32 = "32 word"
type_synonym i64 = "64 word"
type_synonym f64 = "64 word"

type_synonym bytes = "u8 list"

named_theorems rd_simps \<open>what a reader returns on the bytes its writer produced\<close>
named_theorems enum_simps \<open>conversions between enumerations and their byte codes\<close>
named_theorems store_defs \<open>definitions of the fleet-state operations\<close>

lemma xor_cancel_right: "(a :: 'a::len word) XOR b = c XOR b \<longleftrightarrow> a = c"
  by (auto simp: bit_eq_iff bit_xor_iff)

lemma xor_cancel_left: "b XOR (a :: 'a::len word) = b XOR c \<longleftrightarrow> a = c"
  by (auto simp: bit_eq_iff bit_xor_iff)

subsection \<open>Characters and bytes\<close>

definition byte_of_char :: "char \<Rightarrow> u8" where
  "byte_of_char c = word_of_nat (of_char c)"

definition char_of_byte :: "u8 \<Rightarrow> char" where
  "char_of_byte b = char_of (unat b)"

lemma char_of_byte_of_char [simp]: "char_of_byte (byte_of_char c) = c"
  by (simp add: byte_of_char_def char_of_byte_def unat_of_nat)

lemma byte_of_char_of_byte [simp]: "byte_of_char (char_of_byte b) = b"
proof -
  have "unat b < 2 ^ LENGTH(8)" by (rule unsigned_less)
  then have "unat b mod 256 = unat b" by simp
  then show ?thesis
    by (simp add: byte_of_char_def char_of_byte_def)
qed

definition bytes_of_string :: "string \<Rightarrow> bytes" where
  "bytes_of_string s = map byte_of_char s"

definition string_of_bytes :: "bytes \<Rightarrow> string" where
  "string_of_bytes bs = map char_of_byte bs"

lemma string_of_bytes_of_string [simp]: "string_of_bytes (bytes_of_string s) = s"
  by (simp add: bytes_of_string_def string_of_bytes_def comp_def)

lemma bytes_of_string_of_bytes [simp]: "bytes_of_string (string_of_bytes bs) = bs"
  by (simp add: bytes_of_string_def string_of_bytes_def comp_def)

lemma length_bytes_of_string [simp]: "length (bytes_of_string s) = length s"
  by (simp add: bytes_of_string_def)

lemma length_string_of_bytes [simp]: "length (string_of_bytes bs) = length bs"
  by (simp add: string_of_bytes_def)

subsection \<open>Printing numbers\<close>

fun digits_of :: "nat \<Rightarrow> nat \<Rightarrow> nat list" where
  "digits_of b n = (if b \<le> 1 \<or> n < b then [n] else digits_of b (n div b) @ [n mod b])"

declare digits_of.simps [simp del]

definition digit_char :: "nat \<Rightarrow> char" where
  "digit_char d = (''0123456789abcdef'' ! d)"

text \<open>\<^verbatim>\<open>std::to_string\<close> of an unsigned and of a signed value.\<close>

definition dec_string :: "nat \<Rightarrow> string" where
  "dec_string n = map digit_char (digits_of 10 n)"

definition int_string :: "int \<Rightarrow> string" where
  "int_string i = (if i < 0 then ''-'' @ dec_string (nat (- i)) else dec_string (nat i))"

text \<open>The \<^verbatim>\<open>%0Nx\<close> conversion: lower-case hexadecimal, padded with zeros to at least N digits.\<close>

definition hex_string :: "nat \<Rightarrow> nat \<Rightarrow> string" where
  "hex_string w n = (let ds = map digit_char (digits_of 16 n)
                     in replicate (w - length ds) (CHR ''0'') @ ds)"

definition value_of :: "nat \<Rightarrow> nat list \<Rightarrow> nat" where
  "value_of b ds = foldl (\<lambda>a d. a * b + d) 0 ds"

lemma value_of_snoc [simp]: "value_of b (ds @ [d]) = value_of b ds * b + d"
  by (simp add: value_of_def)

lemma value_of_digits_of: "value_of b (digits_of b n) = n"
proof (induction b n rule: digits_of.induct)
  case (1 b n)
  show ?case
  proof (cases "b \<le> 1 \<or> n < b")
    case True
    then show ?thesis by (simp add: digits_of.simps [of b n] value_of_def)
  next
    case False
    with "1.IH" show ?thesis
      by (simp add: digits_of.simps [of b n])
  qed
qed

lemma digits_of_less: "1 < b \<Longrightarrow> d \<in> set (digits_of b n) \<Longrightarrow> d < b"
proof (induction b n rule: digits_of.induct)
  case (1 b n)
  show ?case
  proof (cases "n < b")
    case True
    with "1.prems" show ?thesis by (simp add: digits_of.simps [of b n])
  next
    case False
    with "1.prems" have "d \<in> set (digits_of b (n div b)) \<or> d = n mod b"
      by (auto simp: digits_of.simps [of b n])
    with False "1.prems"(1) "1.IH" show ?thesis by auto
  qed
qed

lemma value_of_zeros: "value_of b (replicate k 0 @ ds) = value_of b ds"
  by (induction k) (simp_all add: value_of_def)

definition char_digit :: "char \<Rightarrow> nat" where
  "char_digit c = length (takeWhile (\<lambda>x. x \<noteq> c) ''0123456789abcdef'')"

lemma less_16_cases:
  "(d :: nat) < 16 \<Longrightarrow> d \<in> {0, 1, 2, 3, 4, 5, 6, 7, 8, 9, 10, 11, 12, 13, 14, 15}"
  by (simp only: insert_iff empty_iff) arith

lemma char_digit_char: "d < 16 \<Longrightarrow> char_digit (digit_char d) = d"
  by (drule less_16_cases) (auto simp: char_digit_def digit_char_def)

lemma digit_char_neq_sep:
  "d < 16 \<Longrightarrow> digit_char d \<notin> {CHR ''|'', CHR ''.'', CHR '':''}"
  by (drule less_16_cases) (auto simp: digit_char_def)

lemma digits_of_10_less: "d \<in> set (digits_of 10 n) \<Longrightarrow> d < 16"
  using digits_of_less [of 10 d n] by simp

lemma digits_of_16_less: "d \<in> set (digits_of 16 n) \<Longrightarrow> d < 16"
  using digits_of_less [of 16 d n] by simp

lemma dec_string_inj: "dec_string m = dec_string n \<Longrightarrow> m = n"
proof -
  assume "dec_string m = dec_string n"
  then have "map char_digit (dec_string m) = map char_digit (dec_string n)" by simp
  moreover have "map char_digit (dec_string k) = digits_of 10 k" for k
    by (auto simp: dec_string_def intro!: map_idI char_digit_char dest: digits_of_10_less)
  ultimately have "value_of 10 (digits_of 10 m) = value_of 10 (digits_of 10 n)" by simp
  then show "m = n" by (simp add: value_of_digits_of)
qed

lemma hex_string_inj: "hex_string w m = hex_string v n \<Longrightarrow> m = n"
proof -
  assume "hex_string w m = hex_string v n"
  then have eq: "map char_digit (hex_string w m) = map char_digit (hex_string v n)" by simp
  have z: "char_digit (CHR ''0'') = 0" by (simp add: char_digit_def)
  have "value_of 16 (map char_digit (hex_string u k)) = k" for u k
  proof -
    have "map char_digit (map digit_char (digits_of 16 k)) = digits_of 16 k"
      by (auto intro!: map_idI char_digit_char dest: digits_of_16_less)
    then show ?thesis
      by (simp add: hex_string_def Let_def z value_of_zeros value_of_digits_of del: map_map)
  qed
  with eq show "m = n" by metis
qed

lemma dec_string_chars: "c \<in> set (dec_string n) \<Longrightarrow> c \<notin> {CHR ''|'', CHR ''.'', CHR '':''}"
  by (auto simp: dec_string_def dest!: digits_of_10_less dest: digit_char_neq_sep)

lemma hex_string_chars:
  "c \<in> set (hex_string w n) \<Longrightarrow> c \<notin> {CHR ''|'', CHR ''.'', CHR '':''}"
  by (auto simp: hex_string_def Let_def dest!: digits_of_16_less dest: digit_char_neq_sep)

subsection \<open>Splitting at a separator\<close>

text \<open>Two strings that end in the same separator and contain it nowhere before agree piecewise.\<close>

lemma sep_append_inj:
  assumes "c \<notin> set xs" and "c \<notin> set xs'" and "xs @ c # ys = xs' @ c # ys'"
  shows "xs = xs' \<and> ys = ys'"
  using assms
proof (induction xs arbitrary: xs')
  case Nil
  then show ?case by (cases xs') auto
next
  case (Cons x xs)
  then show ?case by (cases xs') auto
qed

end
