(* ===== verification/Core_Types.thy ===== *)
theory Core_Types
  imports Prelude
begin

text \<open>
  The value types of \<^verbatim>\<open>core/strong.hpp\<close>, \<^verbatim>\<open>core/result.hpp\<close>, \<^verbatim>\<open>core/clock.hpp\<close> and
  \<^verbatim>\<open>types/\<close>: identifiers and generations that are distinct types per tag, the status
  codes, the error record, and the two result classes. \<open>Result<T>\<close> is a sum type. The
  specialisation \<open>Result<void>\<close> is a record with its two members, because its constructors
  and its \<^verbatim>\<open>ok()\<close> do not fit together and callers branch on \<^verbatim>\<open>ok()\<close>.
\<close>

subsection \<open>Identifiers and generations (core/strong.hpp)\<close>

datatype (dead 'tag) StrongId = StrongId (id_value: u64)

definition id_is_zero :: "'tag StrongId \<Rightarrow> bool" where
  "id_is_zero i \<longleftrightarrow> id_value i = 0"

instantiation StrongId :: (type) linorder
begin
definition less_eq_StrongId :: "'a StrongId \<Rightarrow> 'a StrongId \<Rightarrow> bool" where
  "less_eq_StrongId a b \<longleftrightarrow> id_value a \<le> id_value b"
definition less_StrongId :: "'a StrongId \<Rightarrow> 'a StrongId \<Rightarrow> bool" where
  "less_StrongId a b \<longleftrightarrow> id_value a < id_value b"
instance
  by standard (auto simp: less_eq_StrongId_def less_StrongId_def intro: StrongId.expand)
end

datatype (dead 'tag) Generation = Generation (gen_value: u64)

definition gen_next :: "'tag Generation \<Rightarrow> 'tag Generation" where
  "gen_next g = Generation (gen_value g + 1)"

definition gen_after :: "'tag Generation \<Rightarrow> 'tag Generation \<Rightarrow> bool" where
  "gen_after g h \<longleftrightarrow> gen_value g > gen_value h"

instantiation Generation :: (type) linorder
begin
definition less_eq_Generation :: "'a Generation \<Rightarrow> 'a Generation \<Rightarrow> bool" where
  "less_eq_Generation a b \<longleftrightarrow> gen_value a \<le> gen_value b"
definition less_Generation :: "'a Generation \<Rightarrow> 'a Generation \<Rightarrow> bool" where
  "less_Generation a b \<longleftrightarrow> gen_value a < gen_value b"
instance
  by standard (auto simp: less_eq_Generation_def less_Generation_def intro: Generation.expand)
end

lemma gen_after_iff: "gen_after g h \<longleftrightarrow> h < g"
  by (simp add: gen_after_def less_Generation_def)

text \<open>Rolling forward is a strict increase except at the top of the 64-bit range, where it wraps.\<close>

lemma gen_next_greater: "gen_value g \<noteq> - 1 \<Longrightarrow> g < gen_next g"
proof -
  assume "gen_value g \<noteq> - 1"
  then have "gen_value g + 1 \<noteq> 0" by (metis max_word_wrap)
  then have "gen_value g < gen_value g + 1" by uint_arith
  then show ?thesis by (simp add: less_Generation_def gen_next_def)
qed

subsection \<open>Tags (types/ids.hpp, types/generations.hpp)\<close>

datatype NodeIdTag = NodeIdTag
datatype WorkerIdTag = WorkerIdTag
datatype WorkerBootIdTag = WorkerBootIdTag
datatype DeviceIdTag = DeviceIdTag
datatype CapabilityIdTag = CapabilityIdTag
datatype RegistrationIdTag = RegistrationIdTag
datatype CoordinatorIdTag = CoordinatorIdTag
datatype AgentIdTag = AgentIdTag

type_synonym NodeId = "NodeIdTag StrongId"
type_synonym WorkerId = "WorkerIdTag StrongId"
type_synonym WorkerBootId = "WorkerBootIdTag StrongId"
type_synonym DeviceId = "DeviceIdTag StrongId"
type_synonym CapabilityId = "CapabilityIdTag StrongId"
type_synonym RegistrationId = "RegistrationIdTag StrongId"
type_synonym CoordinatorId = "CoordinatorIdTag StrongId"
type_synonym AgentId = "AgentIdTag StrongId"

datatype CoordinatorEpochTag = CoordinatorEpochTag
datatype FleetGenerationTag = FleetGenerationTag
datatype NodeGenerationTag = NodeGenerationTag
datatype DeviceGenerationTag = DeviceGenerationTag
datatype ObservationGenerationTag = ObservationGenerationTag
datatype CapabilityGenerationTag = CapabilityGenerationTag
datatype HealthGenerationTag = HealthGenerationTag
datatype RegistrationGenerationTag = RegistrationGenerationTag

type_synonym CoordinatorEpoch = "CoordinatorEpochTag Generation"
type_synonym FleetGeneration = "FleetGenerationTag Generation"
type_synonym NodeGeneration = "NodeGenerationTag Generation"
type_synonym DeviceGeneration = "DeviceGenerationTag Generation"
type_synonym ObservationGeneration = "ObservationGenerationTag Generation"
type_synonym CapabilityGeneration = "CapabilityGenerationTag Generation"
type_synonym HealthGeneration = "HealthGenerationTag Generation"
type_synonym RegistrationGeneration = "RegistrationGenerationTag Generation"

subsection \<open>Versions and time (types/versions.hpp, core/clock.hpp, version.hpp)\<close>

record SemanticVersion =
  sv_major :: u32
  sv_minor :: u32
  sv_patch :: u32

definition SemanticVersion_less :: "SemanticVersion \<Rightarrow> SemanticVersion \<Rightarrow> bool" where
  "SemanticVersion_less a b =
     (if sv_major a \<noteq> sv_major b then sv_major a < sv_major b
      else if sv_minor a \<noteq> sv_minor b then sv_minor a < sv_minor b
      else sv_patch a < sv_patch b)"

definition SemanticVersion_eq :: "SemanticVersion \<Rightarrow> SemanticVersion \<Rightarrow> bool" where
  "SemanticVersion_eq a b \<longleftrightarrow> sv_major a = sv_major b \<and> sv_minor a = sv_minor b \<and> sv_patch a = sv_patch b"

definition SemanticVersion_greater :: "SemanticVersion \<Rightarrow> SemanticVersion \<Rightarrow> bool" where
  "SemanticVersion_greater a b = SemanticVersion_less b a"

text \<open>The comparisons make a total order.\<close>

lemma SemanticVersion_trichotomy:
  "SemanticVersion_less a b \<or> SemanticVersion_eq a b \<or> SemanticVersion_greater a b"
  "SemanticVersion_less a b \<Longrightarrow> \<not> SemanticVersion_eq a b \<and> \<not> SemanticVersion_greater a b"
  by (auto simp: SemanticVersion_less_def SemanticVersion_eq_def SemanticVersion_greater_def split: if_splits)

lemma SemanticVersion_less_trans:
  "SemanticVersion_less a b \<Longrightarrow> SemanticVersion_less b c \<Longrightarrow> SemanticVersion_less a c"
  by (auto simp: SemanticVersion_less_def split: if_splits)

record RuntimeVersion =
  rv_major :: u32
  rv_minor :: u32

type_synonym Timestamp = i64
type_synonym DurationMs = i64

abbreviation kInvalidTimestamp :: Timestamp where
  "kInvalidTimestamp \<equiv> 0"

text \<open>The clock of the tests: it stands still until it is set or advanced, and wraps.\<close>

record DeterministicClock =
  dc_t :: Timestamp

definition dc_now :: "DeterministicClock \<Rightarrow> Timestamp" where
  "dc_now c = dc_t c"

definition dc_set :: "Timestamp \<Rightarrow> DeterministicClock \<Rightarrow> DeterministicClock" where
  "dc_set t c = c\<lparr>dc_t := t\<rparr>"

definition dc_advance :: "DurationMs \<Rightarrow> DeterministicClock \<Rightarrow> DeterministicClock" where
  "dc_advance ms c = c\<lparr>dc_t := dc_t c + ms\<rparr>"

lemma dc_advance_advance: "dc_advance a (dc_advance b c) = dc_advance (b + a) c"
  by (simp add: dc_advance_def add.assoc)

lemma dc_advance_set: "dc_now (dc_advance ms (dc_set t c)) = t + ms"
  by (simp add: dc_advance_def dc_set_def dc_now_def)

definition id_to_string :: "'t StrongId \<Rightarrow> string" where
  "id_to_string i = dec_string (unat (id_value i))"

definition gen_to_string :: "'t Generation \<Rightarrow> string" where
  "gen_to_string g = dec_string (unat (gen_value g))"

definition RuntimeVersion_to_string :: "RuntimeVersion \<Rightarrow> string" where
  "RuntimeVersion_to_string v = dec_string (unat (rv_major v)) @ ''.'' @ dec_string (unat (rv_minor v))"

definition SemanticVersion_to_string :: "SemanticVersion \<Rightarrow> string" where
  "SemanticVersion_to_string v =
     dec_string (unat (sv_major v)) @ ''.'' @ dec_string (unat (sv_minor v)) @ ''.'' @ dec_string (unat (sv_patch v))"

definition kProductName :: string where
  "kProductName = ''GPU Fleet Agent''"

definition kPublisher :: string where
  "kPublisher = ''Summon Software Labs''"

definition version_string :: string where
  "version_string = ''1.0.0''"

definition protocol_version :: u32 where
  "protocol_version = 1"

definition store_schema_version :: u32 where
  "store_schema_version = 1"

subsection \<open>Status codes, errors, results (core/result.hpp)\<close>

datatype Status =
    Ok | Corrupt | Truncated | OutOfBounds | InvalidEnum | InvalidGeneration
  | ProtocolMismatch | VersionMismatch | Duplicate | UnknownMessage | Malformed | Stale
  | NotAuthoritative | NotFound | AlreadyExists | Quarantined | Drained | Unsupported
  | Io | IdentityMismatch | CapacityExceeded | Rejected | Internal

definition Status_to_string :: "Status \<Rightarrow> string" where
  "Status_to_string s =
     (case s of
        Ok \<Rightarrow> ''ok'' | Corrupt \<Rightarrow> ''corrupt'' | Truncated \<Rightarrow> ''truncated'' | OutOfBounds \<Rightarrow> ''out_of_bounds''
      | InvalidEnum \<Rightarrow> ''invalid_enum'' | InvalidGeneration \<Rightarrow> ''invalid_generation''
      | ProtocolMismatch \<Rightarrow> ''protocol_mismatch'' | VersionMismatch \<Rightarrow> ''version_mismatch''
      | Duplicate \<Rightarrow> ''duplicate'' | UnknownMessage \<Rightarrow> ''unknown_message'' | Malformed \<Rightarrow> ''malformed''
      | Stale \<Rightarrow> ''stale'' | NotAuthoritative \<Rightarrow> ''not_authoritative'' | NotFound \<Rightarrow> ''not_found''
      | AlreadyExists \<Rightarrow> ''already_exists'' | Quarantined \<Rightarrow> ''quarantined'' | Drained \<Rightarrow> ''drained''
      | Unsupported \<Rightarrow> ''unsupported'' | Io \<Rightarrow> ''io'' | IdentityMismatch \<Rightarrow> ''identity_mismatch''
      | CapacityExceeded \<Rightarrow> ''capacity_exceeded'' | Rejected \<Rightarrow> ''rejected'' | Internal \<Rightarrow> ''internal'')"

text \<open>No two status codes print alike.\<close>

lemma Status_to_string_inj: "Status_to_string s = Status_to_string t \<Longrightarrow> s = t"
  by (cases s; cases t; simp add: Status_to_string_def)

record Error =
  code :: Status
  message :: string

definition error_result :: "Status \<Rightarrow> string \<Rightarrow> Error" where
  "error_result c m = \<lparr>code = c, message = m\<rparr>"

lemma error_result_sel [simp]:
  "code (error_result c m) = c" "message (error_result c m) = m"
  by (simp_all add: error_result_def)

text \<open>\<open>Result<T>\<close> holds either an error (\<open>Inl\<close>) or a value (\<open>Inr\<close>).\<close>

type_synonym 'a Result = "Error + 'a"

text \<open>
  \<open>Result<void>\<close>: the members are \<^verbatim>\<open>has_error_\<close>, initialised to \<^verbatim>\<open>false\<close>, and
  \<^verbatim>\<open>error_\<close>. The constructors from an error set only \<^verbatim>\<open>error_\<close>.
\<close>

record ResultVoid =
  has_error :: bool
  void_error :: Error

definition void_ok_result :: ResultVoid where
  "void_ok_result = \<lparr>has_error = False, void_error = \<lparr>code = Internal, message = ''''\<rparr>\<rparr>"

definition void_of_error :: "Error \<Rightarrow> ResultVoid" where
  "void_of_error e = \<lparr>has_error = False, void_error = e\<rparr>"

definition void_ok :: "ResultVoid \<Rightarrow> bool" where
  "void_ok r \<longleftrightarrow> \<not> has_error r"

lemma void_ok_of_error [simp]: "void_ok (void_of_error e)"
  by (simp add: void_ok_def void_of_error_def)

lemma void_ok_ok_result [simp]: "void_ok void_ok_result"
  by (simp add: void_ok_def void_ok_result_def)

lemma void_error_of_error [simp]: "void_error (void_of_error e) = e"
  by (simp add: void_of_error_def)

end
