(* ===== verification/Crc32.thy ===== *)
theory Crc32
  imports Core_Types
begin

text \<open>
  CRC-32 as computed by \<^verbatim>\<open>crc32\<close> in \<^verbatim>\<open>core/codec.hpp\<close>, bit by bit with the reflected IEEE
  polynomial, and what it detects: the single-bit step is linear and injective, and so is the
  processing of up to four bytes, hence two inputs of equal length that differ only inside one
  window of at most four consecutive bytes never have the same checksum.
\<close>

definition kCrc32Polynomial :: u32 where
  "kCrc32Polynomial = 0xEDB88320"

definition crc_bit :: "u32 \<Rightarrow> u32" where
  "crc_bit crc = drop_bit 1 crc XOR (if crc AND 1 \<noteq> 0 then kCrc32Polynomial else 0)"

definition crc_byte :: "u32 \<Rightarrow> u8 \<Rightarrow> u32" where
  "crc_byte crc b = (crc_bit ^^ 8) (crc XOR ucast b)"

definition crc32 :: "bytes \<Rightarrow> u32" where
  "crc32 data = foldl crc_byte 0xFFFFFFFF data XOR 0xFFFFFFFF"

subsection \<open>The single-bit step\<close>

lemma bit_crc_bit:
  "bit (crc_bit c) n \<longleftrightarrow> (bit c (Suc n) \<noteq> (bit c 0 \<and> bit kCrc32Polynomial n))"
  by (auto simp: crc_bit_def bit_xor_iff bit_drop_bit_eq and_one_eq mod_2_eq_odd bit_0)

lemma crc_bit_xor: "crc_bit (x XOR y) = crc_bit x XOR crc_bit y"
  by (rule bit_eqI) (auto simp: bit_crc_bit bit_xor_iff)

lemma crc_bits_xor: "(crc_bit ^^ n) (x XOR y) = (crc_bit ^^ n) x XOR (crc_bit ^^ n) y"
  by (induction n) (simp_all add: crc_bit_xor)

lemma bit_poly_31: "bit kCrc32Polynomial 31"
  by (simp add: kCrc32Polynomial_def)

lemma bit_u32_high: "bit (c :: u32) n \<Longrightarrow> n < 32"
  using bit_imp_le_length [of c n] by simp

lemma crc_bit_inj: "inj crc_bit"
proof (rule injI)
  fix x y assume eq: "crc_bit x = crc_bit y"
  have "\<not> bit x 32" "\<not> bit y 32" by (auto dest: bit_u32_high)
  with eq bit_crc_bit [of x 31] bit_crc_bit [of y 31] bit_poly_31
  have b0: "bit x 0 = bit y 0" by (simp add: eval_nat_numeral)
  show "x = y"
  proof (rule bit_eqI)
    fix n show "bit x n = bit y n"
    proof (cases n)
      case 0 with b0 show ?thesis by simp
    next
      case (Suc m)
      from eq have "bit (crc_bit x) m = bit (crc_bit y) m" by simp
      with b0 Suc show ?thesis by (simp only: bit_crc_bit) blast
    qed
  qed
qed

lemma crc_bits_inj: "inj (crc_bit ^^ n)"
  by (rule inj_fn) (rule crc_bit_inj)

lemma crc_bit_even: "\<not> bit x 0 \<Longrightarrow> crc_bit x = drop_bit 1 x"
  by (rule bit_eqI) (simp add: bit_crc_bit bit_drop_bit_eq del: bit_0)

text \<open>While the low bits are clear, the steps just shift.\<close>

lemma crc_bits_clear: "(\<And>i. i < n \<Longrightarrow> \<not> bit x i) \<Longrightarrow> (crc_bit ^^ n) x = drop_bit n x"
proof (induction n arbitrary: x)
  case 0
  then show ?case by simp
next
  case (Suc n)
  have "\<not> bit x 0" by (rule Suc.prems) simp
  then have step: "crc_bit x = drop_bit 1 x" by (rule crc_bit_even)
  have "(crc_bit ^^ n) (drop_bit 1 x) = drop_bit n (drop_bit 1 x)"
    by (rule Suc.IH) (simp add: bit_drop_bit_eq Suc.prems)
  then show ?case
    by (simp add: funpow_Suc_right step del: funpow.simps)
qed

lemma crc_bits_push_bit:
  assumes "\<And>i. bit y i \<Longrightarrow> i + n < 32"
  shows "(crc_bit ^^ n) (push_bit n y) = y"
proof -
  have "(crc_bit ^^ n) (push_bit n y) = drop_bit n (push_bit n y)"
    by (rule crc_bits_clear) (simp add: bit_push_bit_iff)
  also have "\<dots> = y"
    by (rule bit_eqI) (auto simp: bit_drop_bit_eq bit_push_bit_iff dest: assms)
  finally show ?thesis .
qed

subsection \<open>Windows of up to four bytes\<close>

fun le_word :: "bytes \<Rightarrow> u32" where
  "le_word [] = 0"
| "le_word (b # bs) = ucast b XOR push_bit 8 (le_word bs)"

lemma bit_ucast_u8: "bit (ucast (b :: u8) :: u32) n \<longleftrightarrow> bit b n"
  by (auto simp: bit_ucast_iff dest: bit_imp_le_length)

lemma bit_u8_high: "bit (b :: u8) n \<Longrightarrow> n < 8"
  using bit_imp_le_length [of b n] by simp

lemma bit_le_word_less: "bit (le_word bs) n \<Longrightarrow> n < 8 * length bs"
proof (induction bs arbitrary: n)
  case Nil
  then show ?case by simp
next
  case (Cons b bs)
  then consider "bit b n" | "8 \<le> n" "bit (le_word bs) (n - 8)"
    by (auto simp: bit_xor_iff bit_ucast_u8 bit_push_bit_iff)
  then show ?case
    using Cons.IH [of "n - 8"] by cases (auto dest: bit_u8_high)
qed

lemma foldl_crc_byte:
  "length bs \<le> 4 \<Longrightarrow> foldl crc_byte c bs = (crc_bit ^^ (8 * length bs)) (c XOR le_word bs)"
proof (induction bs arbitrary: c)
  case Nil
  then show ?case by simp
next
  case (Cons b bs)
  have shift: "(crc_bit ^^ 8) (push_bit 8 (le_word bs)) = le_word bs"
    using Cons.prems by (intro crc_bits_push_bit) (auto dest: bit_le_word_less)
  have "foldl crc_byte c (b # bs) = (crc_bit ^^ (8 * length bs)) (crc_byte c b XOR le_word bs)"
    using Cons by simp
  also have "crc_byte c b XOR le_word bs
      = (crc_bit ^^ 8) (c XOR ucast b) XOR (crc_bit ^^ 8) (push_bit 8 (le_word bs))"
    by (simp only: crc_byte_def shift)
  also have "\<dots> = (crc_bit ^^ 8) (c XOR le_word (b # bs))"
    by (simp only: crc_bits_xor [symmetric] le_word.simps xor.assoc)
  finally show ?case
    by (simp add: funpow_add add.commute [of 8] del: le_word.simps)
qed

lemma le_word_inj:
  "length bs = length bs' \<Longrightarrow> length bs \<le> 4 \<Longrightarrow> le_word bs = le_word bs' \<Longrightarrow> bs = bs'"
proof (induction bs arbitrary: bs')
  case Nil
  then show ?case by simp
next
  case (Cons b bs)
  then obtain d ds where bs': "bs' = d # ds" by (cases bs') auto
  from Cons.prems bs' have eq: "bit (le_word (b # bs)) n = bit (le_word (d # ds)) n" for n by simp
  have "b = d"
  proof (rule bit_eqI)
    fix n assume "possible_bit TYPE(8 word) n"
    then have "n < 8" by simp
    with eq [of n] show "bit b n = bit d n"
      by (simp add: bit_xor_iff bit_ucast_u8 bit_push_bit_iff)
  qed
  have "le_word bs = le_word ds"
  proof (rule bit_eqI)
    fix n
    have hi: "\<not> bit (le_word xs) n" if "length xs \<le> 3" "24 \<le> n" for xs
      using that by (auto dest: bit_le_word_less)
    show "bit (le_word bs) n = bit (le_word ds) n"
    proof (cases "n < 24")
      case True
      with eq [of "n + 8"] show ?thesis
        by (auto simp: bit_xor_iff bit_ucast_u8 bit_push_bit_iff dest: bit_u8_high)
    next
      case False
      with hi [of bs] hi [of ds] Cons.prems bs' show ?thesis by simp
    qed
  qed
  with Cons.IH [of ds] Cons.prems bs' \<open>b = d\<close> show ?case by simp
qed

lemma crc_byte_inj_state: "crc_byte c b = crc_byte c' b \<Longrightarrow> c = c'"
proof -
  assume "crc_byte c b = crc_byte c' b"
  then have "c XOR ucast b = c' XOR ucast b"
    unfolding crc_byte_def by (rule injD [OF crc_bits_inj])
  then show ?thesis by (simp only: xor_cancel_right)
qed

lemma foldl_crc_byte_inj_state: "foldl crc_byte c bs = foldl crc_byte c' bs \<Longrightarrow> c = c'"
  by (induction bs arbitrary: c c') (auto dest: crc_byte_inj_state)

lemma foldl_crc_byte_inj:
  assumes "length bs = length bs'" "length bs \<le> 4" "foldl crc_byte c bs = foldl crc_byte c bs'"
  shows "bs = bs'"
proof -
  from assms have "(crc_bit ^^ (8 * length bs)) (c XOR le_word bs)
      = (crc_bit ^^ (8 * length bs)) (c XOR le_word bs')"
    by (simp add: foldl_crc_byte)
  then have "c XOR le_word bs = c XOR le_word bs'"
    by (rule injD [OF crc_bits_inj])
  then have "le_word bs = le_word bs'"
    by (simp only: xor_cancel_left)
  with assms show ?thesis by (blast intro: le_word_inj)
qed

lemma crc32_window:
  assumes "length ds = length ds'" "length ds \<le> 4" "ds \<noteq> ds'"
  shows "crc32 (pre @ ds @ post) \<noteq> crc32 (pre @ ds' @ post)"
proof
  assume "crc32 (pre @ ds @ post) = crc32 (pre @ ds' @ post)"
  then have "foldl crc_byte 0xFFFFFFFF (pre @ ds @ post) = foldl crc_byte 0xFFFFFFFF (pre @ ds' @ post)"
    by (simp only: crc32_def xor_cancel_right)
  then have "foldl crc_byte (foldl crc_byte 0xFFFFFFFF pre) ds
      = foldl crc_byte (foldl crc_byte 0xFFFFFFFF pre) ds'"
    by (simp only: foldl_append) (rule foldl_crc_byte_inj_state)
  with assms show False by (blast dest: foldl_crc_byte_inj)
qed

end
