(* ===== verification/Byte_Codec.thy ===== *)
theory Byte_Codec
  imports Crc32
begin

text \<open>
  \<^verbatim>\<open>core/codec.hpp\<close>: the big-endian byte writer and the bounds-checked byte reader.

  A \<^verbatim>\<open>ByteWriter\<close> only ever appends to its buffer, so each of its methods is the list of bytes
  it appends and a sequence of calls is the concatenation of those lists. A \<^verbatim>\<open>ByteReader\<close> is a
  record of the span and the cursor. A method with a \<^verbatim>\<open>bool\<close> result and an out-parameter
  returns an option; a method with a \<open>Result\<close> returns a sum. A failed read is followed by an
  early return at every call site, so the reader after a failure is not part of the model.

  The locale \<open>bounded_reader\<close> states what every decoding step promises about the cursor, the
  locale \<open>codec\<close> that a decoder reads back what its encoder wrote, wherever the bytes stand in
  the buffer. Both are interpreted for every primitive; loops over counted elements are proved
  once inside them.
\<close>

subsection \<open>ByteWriter\<close>

abbreviation kMaxStringLen :: u32 where
  "kMaxStringLen \<equiv> 65535"

abbreviation kMaxBytesLen :: u32 where
  "kMaxBytesLen \<equiv> 0x7FFFFFFF"

definition put_u8 :: "u8 \<Rightarrow> bytes" where
  "put_u8 v = [v]"

definition put_u16 :: "u16 \<Rightarrow> bytes" where
  "put_u16 v = [ucast (drop_bit 8 v AND 0xFF), ucast (v AND 0xFF)]"

definition put_u32 :: "u32 \<Rightarrow> bytes" where
  "put_u32 v = [ucast (drop_bit 24 v AND 0xFF), ucast (drop_bit 16 v AND 0xFF),
                ucast (drop_bit 8 v AND 0xFF), ucast (v AND 0xFF)]"

definition put_u64 :: "u64 \<Rightarrow> bytes" where
  "put_u64 v = map (\<lambda>shift. ucast (drop_bit shift v AND 0xFF)) [56, 48, 40, 32, 24, 16, 8, 0]"

definition put_i64 :: "i64 \<Rightarrow> bytes" where
  "put_i64 v = put_u64 v"

definition put_f64 :: "f64 \<Rightarrow> bytes" where
  "put_f64 v = put_u64 v"

definition put_bytes :: "bytes \<Rightarrow> bytes" where
  "put_bytes b = put_u32 (word_of_nat (length b)) @ b"

text \<open>A string longer than the bound is cut to the bound before its length is written.\<close>

definition put_string :: "u32 \<Rightarrow> string \<Rightarrow> bytes" where
  "put_string max_len s =
     (let s' = (if length s > unat max_len then take (unat max_len) s else s)
      in put_u32 (word_of_nat (length s')) @ bytes_of_string s')"

definition put_bool :: "bool \<Rightarrow> bytes" where
  "put_bool b = put_u8 (if b then 1 else 0)"

subsection \<open>ByteReader\<close>

record reader =
  rdata :: bytes
  rpos :: nat

definition mk_reader :: "bytes \<Rightarrow> reader" where
  "mk_reader data = \<lparr>rdata = data, rpos = 0\<rparr>"

type_synonym 'a rd = "reader \<Rightarrow> ('a \<times> reader) option"
type_synonym 'a rd_result = "reader \<Rightarrow> ('a \<times> reader) Result"

definition rd_u8 :: "u8 rd" where
  "rd_u8 r = (if rpos r + 1 > length (rdata r) then None
              else Some (rdata r ! rpos r, r\<lparr>rpos := rpos r + 1\<rparr>))"

definition rd_u16 :: "u16 rd" where
  "rd_u16 r = (if rpos r + 2 > length (rdata r) then None
     else Some (push_bit 8 (ucast (rdata r ! rpos r)) OR ucast (rdata r ! (rpos r + 1)),
                r\<lparr>rpos := rpos r + 2\<rparr>))"

definition rd_u32 :: "u32 rd" where
  "rd_u32 r = (if rpos r + 4 > length (rdata r) then None
     else Some (push_bit 24 (ucast (rdata r ! rpos r)) OR push_bit 16 (ucast (rdata r ! (rpos r + 1)))
                  OR push_bit 8 (ucast (rdata r ! (rpos r + 2))) OR ucast (rdata r ! (rpos r + 3)),
                r\<lparr>rpos := rpos r + 4\<rparr>))"

definition rd_u64 :: "u64 rd" where
  "rd_u64 r = (if rpos r + 8 > length (rdata r) then None
     else Some (foldl (\<lambda>v i. push_bit 8 v OR ucast (rdata r ! (rpos r + i))) 0 [0..<8],
                r\<lparr>rpos := rpos r + 8\<rparr>))"

definition rd_i64 :: "i64 rd" where
  "rd_i64 r = rd_u64 r"

definition rd_f64 :: "f64 rd" where
  "rd_f64 r = rd_u64 r"

definition rd_bytes :: "u32 \<Rightarrow> bytes rd_result" where
  "rd_bytes max_len r =
     (case rd_u32 r of
        None \<Rightarrow> Inl (error_result Truncated ''byte length truncated'')
      | Some (len, r1) \<Rightarrow>
          if len > max_len then Inl (error_result OutOfBounds ''byte length exceeds bound'')
          else if rpos r1 + unat len > length (rdata r1)
          then Inl (error_result Truncated ''byte payload truncated'')
          else Inr (take (unat len) (drop (rpos r1) (rdata r1)), r1\<lparr>rpos := rpos r1 + unat len\<rparr>))"

definition rd_raw :: "u32 \<Rightarrow> bytes rd_result" where
  "rd_raw count r =
     (if rpos r + unat count > length (rdata r)
      then Inl (error_result Truncated ''raw payload truncated'')
      else Inr (take (unat count) (drop (rpos r) (rdata r)), r\<lparr>rpos := rpos r + unat count\<rparr>))"

definition rd_string :: "u32 \<Rightarrow> string rd_result" where
  "rd_string max_len r =
     (case rd_bytes max_len r of
        Inl _ \<Rightarrow> Inl (error_result Truncated ''string payload truncated'')
      | Inr (bs, r1) \<Rightarrow> Inr (string_of_bytes bs, r1))"

definition rd_done :: "reader \<Rightarrow> bool" where
  "rd_done r \<longleftrightarrow> rpos r = length (rdata r)"

definition rd_remaining :: "reader \<Rightarrow> nat" where
  "rd_remaining r = length (rdata r) - rpos r"

definition rd_skip :: "nat \<Rightarrow> reader \<Rightarrow> reader" where
  "rd_skip n r = (if rpos r + n > length (rdata r) then r\<lparr>rpos := length (rdata r)\<rparr>
                  else r\<lparr>rpos := rpos r + n\<rparr>)"

text \<open>
  The shapes in which the sources use a reader: \<open>ok_of\<close> is the test of \<^verbatim>\<open>ok()\<close> on a
  returned \<open>Result\<close>, \<open>need\<close> is \<^verbatim>\<open>if (!read) return error_result(...)\<close> followed by the rest
  of the function, \<open>rd_bind\<close> the same in a function that returns \<^verbatim>\<open>bool\<close>, \<open>rd_times\<close> a
  counted loop that appends what it reads, and \<open>rd_finish\<close> the check that nothing is left.
\<close>

definition ok_of :: "'a rd_result \<Rightarrow> 'a rd" where
  "ok_of f r = (case f r of Inl _ \<Rightarrow> None | Inr p \<Rightarrow> Some p)"

definition need :: "'a rd \<Rightarrow> Error \<Rightarrow> ('a \<Rightarrow> reader \<Rightarrow> 'b Result) \<Rightarrow> reader \<Rightarrow> 'b Result" where
  "need f e k r = (case f r of None \<Rightarrow> Inl e | Some (x, r') \<Rightarrow> k x r')"

definition rd_bind :: "'a rd \<Rightarrow> ('a \<Rightarrow> 'b rd) \<Rightarrow> 'b rd" where
  "rd_bind f k r = (case f r of None \<Rightarrow> None | Some (x, r') \<Rightarrow> k x r')"

definition rd_return :: "'a \<Rightarrow> 'a rd" where
  "rd_return x r = Some (x, r)"

definition rd_guard :: "bool \<Rightarrow> 'a rd \<Rightarrow> 'a rd" where
  "rd_guard b k r = (if b then k r else None)"

definition check :: "bool \<Rightarrow> Error \<Rightarrow> (reader \<Rightarrow> 'b Result) \<Rightarrow> reader \<Rightarrow> 'b Result" where
  "check b e k r = (if b then k r else Inl e)"

definition rd_finish :: "Error \<Rightarrow> 'b \<Rightarrow> reader \<Rightarrow> 'b Result" where
  "rd_finish e x r = (if rd_done r then Inr x else Inl e)"

fun rd_times :: "nat \<Rightarrow> 'a rd \<Rightarrow> 'a list rd" where
  "rd_times 0 f r = Some ([], r)"
| "rd_times (Suc n) f r =
     (case f r of None \<Rightarrow> None
      | Some (x, r1) \<Rightarrow> (case rd_times n f r1 of None \<Rightarrow> None
                         | Some (xs, r2) \<Rightarrow> Some (x # xs, r2)))"

definition rd_map :: "('a \<Rightarrow> 'b) \<Rightarrow> 'a rd \<Rightarrow> 'b rd" where
  "rd_map g f r = map_option (\<lambda>(x, r'). (g x, r')) (f r)"

definition rd_bool :: "bool rd" where
  "rd_bool = rd_map (\<lambda>b. b \<noteq> 0) rd_u8"

lemmas rd_flow_defs = need_def rd_bind_def rd_return_def rd_guard_def check_def rd_finish_def

subsection \<open>The cursor stays inside the buffer\<close>

text \<open>A reader standing after \<open>pre\<close> with \<open>post\<close> still to read.\<close>

definition rd_at :: "bytes \<Rightarrow> bytes \<Rightarrow> reader" where
  "rd_at pre post = \<lparr>rdata = pre @ post, rpos = length pre\<rparr>"

definition rd_ok :: "reader \<Rightarrow> bool" where
  "rd_ok r \<longleftrightarrow> rpos r \<le> length (rdata r)"

definition rd_advances :: "reader \<Rightarrow> reader \<Rightarrow> bool" where
  "rd_advances r r' \<longleftrightarrow> rdata r' = rdata r \<and> rpos r \<le> rpos r' \<and> rpos r' \<le> length (rdata r)"

lemma mk_reader_at: "mk_reader bs = rd_at [] bs"
  by (simp add: mk_reader_def rd_at_def)

lemma rd_ok_mk_reader [simp]: "rd_ok (mk_reader bs)"
  by (simp add: mk_reader_def rd_ok_def)

lemma rd_advances_ok: "rd_advances r r' \<Longrightarrow> rd_ok r'"
  by (auto simp: rd_advances_def rd_ok_def)

lemma rd_advances_trans: "rd_advances r r1 \<Longrightarrow> rd_advances r1 r2 \<Longrightarrow> rd_advances r r2"
  by (auto simp: rd_advances_def)

lemma rd_done_at [simp]: "rd_done (rd_at pre []) \<longleftrightarrow> True"
  by (simp add: rd_done_def rd_at_def)

locale bounded_reader =
  fixes dec :: "'a rd"
  assumes dec_advances: "rd_ok r \<Longrightarrow> dec r = Some (x, r') \<Longrightarrow> rd_advances r r'"
begin

lemma rd_map_advances: "rd_ok r \<Longrightarrow> rd_map g dec r = Some (y, r') \<Longrightarrow> rd_advances r r'"
  by (auto simp: rd_map_def dest: dec_advances)

lemma rd_times_advances: "rd_ok r \<Longrightarrow> rd_times n dec r = Some (xs, r') \<Longrightarrow> rd_advances r r'"
proof (induction n arbitrary: r xs r')
  case 0
  then show ?case by (simp add: rd_advances_def rd_ok_def)
next
  case (Suc n)
  then obtain x r1 xs' where "dec r = Some (x, r1)" "rd_times n dec r1 = Some (xs', r')"
    by (auto split: option.splits)
  with Suc show ?case
    by (blast intro: rd_advances_trans dec_advances rd_advances_ok)
qed

lemma rd_times_length: "rd_times n dec r = Some (xs, r') \<Longrightarrow> length xs = n"
  by (induction n arbitrary: r xs r') (auto split: option.splits)

end

locale codec = bounded_reader dec for dec :: "'a rd" +
  fixes enc :: "'a \<Rightarrow> bytes" and wf :: "'a \<Rightarrow> bool"
  assumes dec_enc: "wf x \<Longrightarrow> dec (rd_at pre (enc x @ post)) = Some (x, rd_at (pre @ enc x) post)"
begin

lemma dec_enc_end: "wf x \<Longrightarrow> dec (rd_at pre (enc x)) = Some (x, rd_at (pre @ enc x) [])"
  using dec_enc [of x pre "[]"] by simp

lemma rd_times_enc:
  "list_all wf xs \<Longrightarrow> rd_times (length xs) dec (rd_at pre (concat (map enc xs) @ post))
     = Some (xs, rd_at (pre @ concat (map enc xs)) post)"
  by (induction xs arbitrary: pre) (simp_all add: dec_enc)

text \<open>Well-formed values have different encodings.\<close>

lemma enc_inj:
  assumes "wf x" "wf y" "enc x = enc y"
  shows "x = y"
proof -
  have "dec (rd_at [] (enc x @ [])) = Some (x, rd_at ([] @ enc x) [])"
    by (rule dec_enc) (rule assms)
  moreover have "dec (rd_at [] (enc y @ [])) = Some (y, rd_at ([] @ enc y) [])"
    by (rule dec_enc) (rule assms)
  ultimately show ?thesis using assms(3) by simp
qed

end

subsection \<open>Fixed-width integers\<close>

lemma bit_low_byte: "bit (ucast (v AND 0xFF) :: u8) n \<longleftrightarrow> n < 8 \<and> bit (v :: 'a::len word) n"
proof -
  have "(0xFF :: 'a word) = mask 8" by (simp add: mask_eq_exp_minus_1)
  then have "bit (0xFF :: 'a word) n \<longleftrightarrow> n < 8 \<and> n < LENGTH('a)"
    by (simp only: bit_mask_iff) auto
  then show ?thesis
    by (auto simp: bit_ucast_iff bit_and_iff dest: bit_imp_le_length)
qed

text \<open>One Horner step undoes one byte of the big-endian split.\<close>

lemma join_byte:
  "push_bit 8 (drop_bit (k + 8) v) OR ucast (ucast (drop_bit k v AND 0xFF) :: u8)
     = drop_bit k (v :: 'a::len word)"
proof (rule bit_eqI)
  fix n assume "possible_bit TYPE('a word) n"
  then have n: "n < LENGTH('a)" by simp
  show "bit (push_bit 8 (drop_bit (k + 8) v) OR ucast (ucast (drop_bit k v AND 0xFF) :: u8)) n
      = bit (drop_bit k v) n"
  proof (cases "n < 8")
    case True
    with n show ?thesis
      by (simp add: bit_or_iff bit_push_bit_iff bit_drop_bit_eq bit_ucast_iff [of "_ :: u8"] bit_low_byte)
  next
    case False
    with n have "k + 8 + (n - 8) = k + n" by simp
    with n False show ?thesis
      by (simp add: bit_or_iff bit_push_bit_iff bit_drop_bit_eq bit_ucast_iff [of "_ :: u8"] bit_low_byte)
  qed
qed

lemma drop_bit_word_0: "LENGTH('a) \<le> k \<Longrightarrow> drop_bit k (v :: 'a::len word) = 0"
  by (rule bit_eqI) (auto simp: bit_drop_bit_eq dest: bit_imp_le_length)

lemma rd_u8_at [rd_simps]: "rd_u8 (rd_at pre (put_u8 v @ post)) = Some (v, rd_at (pre @ put_u8 v) post)"
  by (simp add: rd_u8_def rd_at_def put_u8_def)

lemma rd_u16_at [rd_simps]:
  "rd_u16 (rd_at pre (put_u16 v @ post)) = Some (v, rd_at (pre @ put_u16 v) post)"
proof -
  have "ucast (ucast (drop_bit 8 v AND 0xFF) :: u8) = drop_bit 8 v"
    using join_byte [of 8 v] by (simp add: drop_bit_word_0)
  with join_byte [of 0 v]
  have "push_bit 8 (ucast (ucast (drop_bit 8 v AND 0xFF) :: u8)) OR ucast (ucast (v AND 0xFF) :: u8) = v"
    by simp
  then show ?thesis
    by (simp add: rd_u16_def rd_at_def put_u16_def nth_append)
qed

lemma rd_u32_at [rd_simps]:
  "rd_u32 (rd_at pre (put_u32 v @ post)) = Some (v, rd_at (pre @ put_u32 v) post)"
proof -
  let ?b = "\<lambda>k. ucast (ucast (drop_bit k v AND 0xFF) :: u8) :: u32"
  have b24: "?b 24 = drop_bit 24 v"
    using join_byte [of 24 v] by (simp add: drop_bit_word_0)
  have "push_bit 24 (?b 24) OR push_bit 16 (?b 16) OR push_bit 8 (?b 8) OR ?b 0
      = push_bit 8 (push_bit 8 (push_bit 8 (?b 24) OR ?b 16) OR ?b 8) OR ?b 0"
    by (simp add: push_bit_or or.assoc)
  also have "\<dots> = v"
    using join_byte [of 16 v] join_byte [of 8 v] join_byte [of 0 v] by (simp add: b24)
  finally show ?thesis
    by (simp add: rd_u32_def rd_at_def put_u32_def nth_append)
qed

lemma upt_0_8: "[0..<8] = [0, 1, 2, 3, 4, 5, 6, 7 :: nat]"
  by (simp add: upt_rec)

lemma rd_u64_at [rd_simps]:
  "rd_u64 (rd_at pre (put_u64 v @ post)) = Some (v, rd_at (pre @ put_u64 v) post)"
proof -
  let ?b = "\<lambda>k. ucast (ucast (drop_bit k v AND 0xFF) :: u8) :: u64"
  have b56: "?b 56 = drop_bit 56 v"
    using join_byte [of 56 v] by (simp add: drop_bit_word_0)
  have "foldl (\<lambda>x y. push_bit 8 x OR y) 0 (map ?b [56, 48, 40, 32, 24, 16, 8, 0]) = v"
    using join_byte [of 48 v] join_byte [of 40 v] join_byte [of 32 v] join_byte [of 24 v]
      join_byte [of 16 v] join_byte [of 8 v] join_byte [of 0 v]
    by (simp add: b56)
  then show ?thesis
    by (simp add: rd_u64_def rd_at_def put_u64_def upt_0_8 nth_append)
qed

lemma rd_i64_at [rd_simps]:
  "rd_i64 (rd_at pre (put_i64 v @ post)) = Some (v, rd_at (pre @ put_i64 v) post)"
  by (simp add: rd_i64_def put_i64_def rd_u64_at)

lemma rd_f64_at [rd_simps]:
  "rd_f64 (rd_at pre (put_f64 v @ post)) = Some (v, rd_at (pre @ put_f64 v) post)"
  by (simp add: rd_f64_def put_f64_def rd_u64_at)

lemma rd_bool_at [rd_simps]:
  "rd_bool (rd_at pre (put_bool v @ post)) = Some (v, rd_at (pre @ put_bool v) post)"
  by (cases v) (simp_all add: rd_bool_def rd_map_def put_bool_def rd_u8_at)

lemmas rd_int_defs = rd_u8_def rd_u16_def rd_u32_def rd_u64_def rd_i64_def rd_f64_def

lemma rd_int_advances:
  "rd_u8 r = Some (a, r') \<Longrightarrow> rd_advances r r'" "rd_u16 r = Some (b, r') \<Longrightarrow> rd_advances r r'"
  "rd_u32 r = Some (c, r') \<Longrightarrow> rd_advances r r'" "rd_u64 r = Some (d, r') \<Longrightarrow> rd_advances r r'"
  "rd_i64 r = Some (e, r') \<Longrightarrow> rd_advances r r'" "rd_f64 r = Some (f, r') \<Longrightarrow> rd_advances r r'"
  by (auto simp: rd_int_defs rd_advances_def split: if_splits)

interpretation u8_codec: codec rd_u8 put_u8 "\<lambda>_. True"
  by unfold_locales (auto simp: rd_u8_at intro: rd_int_advances)

interpretation u16_codec: codec rd_u16 put_u16 "\<lambda>_. True"
  by unfold_locales (auto simp: rd_u16_at intro: rd_int_advances)

interpretation u32_codec: codec rd_u32 put_u32 "\<lambda>_. True"
  by unfold_locales (auto simp: rd_u32_at intro: rd_int_advances)

interpretation u64_codec: codec rd_u64 put_u64 "\<lambda>_. True"
  by unfold_locales (auto simp: rd_u64_at intro: rd_int_advances)

interpretation i64_codec: codec rd_i64 put_i64 "\<lambda>_. True"
  by unfold_locales (auto simp: rd_i64_at intro: rd_int_advances)

interpretation f64_codec: codec rd_f64 put_f64 "\<lambda>_. True"
  by unfold_locales (auto simp: rd_f64_at intro: rd_int_advances)

lemma rd_bool_advances: "rd_ok r \<Longrightarrow> rd_bool r = Some (x, r') \<Longrightarrow> rd_advances r r'"
  unfolding rd_bool_def by (rule u8_codec.rd_map_advances)

interpretation bool_codec: codec rd_bool put_bool "\<lambda>_. True"
  by unfold_locales (auto simp: rd_bool_at intro: rd_bool_advances)

lemma length_put_int [simp]:
  "length (put_u8 a) = 1" "length (put_u16 b) = 2" "length (put_u32 c) = 4"
  "length (put_u64 d) = 8" "length (put_i64 e) = 8" "length (put_f64 f) = 8" "length (put_bool g) = 1"
  by (simp_all add: put_u8_def put_u16_def put_u32_def put_u64_def put_i64_def put_f64_def put_bool_def)

subsection \<open>Length-prefixed blobs and strings\<close>

lemma unat_length_u32: "n < 2 ^ 32 \<Longrightarrow> unat (word_of_nat n :: u32) = n"
  by (simp add: unat_of_nat)

lemma word_of_nat_le_u32: "n \<le> unat (m :: u32) \<Longrightarrow> word_of_nat n \<le> m"
  using unsigned_less [of m, where 'a = nat] by (simp add: word_le_nat_alt unat_of_nat)

lemma rd_bytes_at:
  assumes "length b \<le> unat max_len"
  shows "rd_bytes max_len (rd_at pre (put_bytes b @ post)) = Inr (b, rd_at (pre @ put_bytes b) post)"
proof -
  have "length b < 2 ^ 32"
    using assms unsigned_less [of max_len, where 'a = nat] by simp
  then have len: "unat (word_of_nat (length b) :: u32) = length b" by (rule unat_length_u32)
  have "rd_u32 (rd_at pre (put_bytes b @ post))
      = Some (word_of_nat (length b), rd_at (pre @ put_u32 (word_of_nat (length b))) (b @ post))"
    using rd_u32_at [of pre "word_of_nat (length b)" "b @ post"] by (simp add: put_bytes_def)
  then show ?thesis
    using word_of_nat_le_u32 [OF assms]
    by (simp add: rd_bytes_def not_less [symmetric] len) (simp add: rd_at_def put_bytes_def)
qed

lemma rd_raw_at:
  assumes "length b = unat n"
  shows "rd_raw n (rd_at pre (b @ post)) = Inr (b, rd_at (pre @ b) post)"
  using assms by (simp add: rd_raw_def rd_at_def)

lemma put_string_short: "length s \<le> unat m \<Longrightarrow> put_string m s = put_bytes (bytes_of_string s)"
  by (simp add: put_string_def put_bytes_def)

lemma rd_string_at:
  "length s \<le> unat max_len \<Longrightarrow> length s \<le> unat m \<Longrightarrow>
   ok_of (rd_string max_len) (rd_at pre (put_string m s @ post)) = Some (s, rd_at (pre @ put_string m s) post)"
  by (simp add: ok_of_def rd_string_def put_string_short rd_bytes_at)

lemma rd_bytes_advances: "rd_ok r \<Longrightarrow> rd_bytes m r = Inr (x, r') \<Longrightarrow> rd_advances r r'"
  by (auto simp: rd_bytes_def rd_advances_def rd_u32_def split: option.splits if_splits)

lemma rd_raw_advances: "rd_ok r \<Longrightarrow> rd_raw n r = Inr (x, r') \<Longrightarrow> rd_advances r r'"
  by (auto simp: rd_raw_def rd_advances_def split: if_splits)

lemma rd_bytes_bound: "rd_bytes m r = Inr (x, r') \<Longrightarrow> length x \<le> unat m"
  by (auto simp: rd_bytes_def word_le_nat_alt not_less split: option.splits if_splits)

lemma rd_string_bound: "rd_string m r = Inr (x, r') \<Longrightarrow> length x \<le> unat m"
  by (auto simp: rd_string_def split: sum.splits dest: rd_bytes_bound)

lemma rd_string_advances: "rd_ok r \<Longrightarrow> rd_string m r = Inr (x, r') \<Longrightarrow> rd_advances r r'"
  by (auto simp: rd_string_def split: sum.splits dest: rd_bytes_advances)

definition str_wf :: "u32 \<Rightarrow> string \<Rightarrow> bool" where
  "str_wf m s \<longleftrightarrow> length s \<le> unat m"

lemma ok_of_string_advances:
  "rd_ok r \<Longrightarrow> ok_of (rd_string m) r = Some (x, r') \<Longrightarrow> rd_advances r r'"
  by (auto simp: ok_of_def split: sum.splits dest: rd_string_advances)

interpretation string_codec: codec "ok_of (rd_string m)" "put_string m" "str_wf m" for m
  by unfold_locales (auto simp: rd_string_at str_wf_def intro: ok_of_string_advances)

lemmas rd_string_wf [rd_simps] = string_codec.dec_enc

lemmas rd_at_end [rd_simps] =
  u8_codec.dec_enc_end [OF TrueI] u16_codec.dec_enc_end [OF TrueI] u32_codec.dec_enc_end [OF TrueI]
  u64_codec.dec_enc_end [OF TrueI] i64_codec.dec_enc_end [OF TrueI] f64_codec.dec_enc_end [OF TrueI]
  bool_codec.dec_enc_end [OF TrueI] string_codec.dec_enc_end

lemma rd_blob_wf [rd_simps]:
  "length b \<le> unat m \<Longrightarrow>
   ok_of (rd_bytes m) (rd_at pre (put_bytes b @ post)) = Some (b, rd_at (pre @ put_bytes b) post)"
  by (simp add: ok_of_def rd_bytes_at)

lemma rd_blob_end [rd_simps]:
  "length b \<le> unat m \<Longrightarrow>
   ok_of (rd_bytes m) (rd_at pre (put_bytes b)) = Some (b, rd_at (pre @ put_bytes b) [])"
  using rd_blob_wf [of b m pre "[]"] by simp

subsection \<open>Enumerations\<close>

text \<open>
  The decoders turn a byte into an enumeration with \<^verbatim>\<open>static_cast\<close> and, outside the message
  type and the drain command, do not check that the byte names an enumerator; C++ keeps the
  value. An enumeration that is decoded this way has one more constructor, \<open>OTHER\<close>, for the
  bytes without a name. The locale collects what the two conversions promise; a decoder for the
  byte is then a codec.
\<close>

locale enum_code =
  fixes to_u8 :: "'e \<Rightarrow> u8" and of_u8 :: "u8 \<Rightarrow> 'e" and wf :: "'e \<Rightarrow> bool"
  assumes of_to: "wf e \<Longrightarrow> of_u8 (to_u8 e) = e"
    and to_of: "to_u8 (of_u8 b) = b"
    and wf_of: "wf (of_u8 b)"
begin

sublocale codec "rd_map of_u8 rd_u8" "\<lambda>e. put_u8 (to_u8 e)" wf
proof
  fix r r' :: reader and x :: 'e
  assume "rd_ok r" "rd_map of_u8 rd_u8 r = Some (x, r')"
  then show "rd_advances r r'" by (rule u8_codec.rd_map_advances)
next
  fix x :: 'e and pre post
  assume "wf x"
  then show "rd_map of_u8 rd_u8 (rd_at pre (put_u8 (to_u8 x) @ post))
      = Some (x, rd_at (pre @ put_u8 (to_u8 x)) post)"
    by (simp add: rd_map_def rd_u8_at of_to)
qed

lemma of_u8_inj: "of_u8 a = of_u8 b \<Longrightarrow> a = b"
  by (metis to_of)

end

subsection \<open>Inverting a successful decoding\<close>

lemma need_Inr: "need f e k r = Inr y \<longleftrightarrow> (\<exists>x r'. f r = Some (x, r') \<and> k x r' = Inr y)"
  by (auto simp: need_def split: option.splits)

lemma check_Inr: "check b e k r = Inr y \<longleftrightarrow> b \<and> k r = Inr y"
  by (simp add: check_def)

lemma rd_finish_Inr: "rd_finish e x r = Inr y \<longleftrightarrow> rd_done r \<and> y = x"
  by (auto simp: rd_finish_def)

lemma rd_bind_Some: "rd_bind f k r = Some y \<longleftrightarrow> (\<exists>x r'. f r = Some (x, r') \<and> k x r' = Some y)"
  by (auto simp: rd_bind_def split: option.splits)

lemma rd_guard_Some: "rd_guard b k r = Some y \<longleftrightarrow> b \<and> k r = Some y"
  by (simp add: rd_guard_def)

lemma rd_return_Some: "rd_return x r = Some y \<longleftrightarrow> y = (x, r)"
  by (auto simp: rd_return_def)

lemmas rd_inv = need_Inr check_Inr rd_finish_Inr rd_bind_Some rd_guard_Some rd_return_Some

lemma ok_of_string_wf: "ok_of (rd_string m) r = Some (s, r') \<Longrightarrow> str_wf m s"
  by (auto simp: ok_of_def str_wf_def split: sum.splits dest: rd_string_bound)

lemma ok_of_bytes_bound: "ok_of (rd_bytes m) r = Some (b, r') \<Longrightarrow> length b \<le> unat m"
  by (auto simp: ok_of_def split: sum.splits dest: rd_bytes_bound)

lemma rd_times_all:
  "(\<And>r x r'. f r = Some (x, r') \<Longrightarrow> P x) \<Longrightarrow> rd_times n f r = Some (xs, r') \<Longrightarrow> list_all P xs"
  by (induction n arbitrary: r xs r') (auto split: option.splits)

lemma rd_times_count: "rd_times n f r = Some (xs, r') \<Longrightarrow> length xs = n"
  by (induction n arbitrary: r xs r') (auto split: option.splits)

lemma rd_strings_wf:
  assumes "rd_times n (ok_of (rd_string m)) r = Some (xs, r')"
  shows "list_all (str_wf m) xs \<and> length xs = n"
  using assms by (auto intro: rd_times_all rd_times_count ok_of_string_wf)

text \<open>A counted list: the count is written as 32 bits and read back before the elements.\<close>

lemma unat_count [simp]: "n \<le> 4096 \<Longrightarrow> unat (word_of_nat n :: u32) = n"
  by (rule unat_length_u32) simp

lemma count_not_too_large [simp]: "n \<le> 4096 \<Longrightarrow> \<not> (4096 < (word_of_nat n :: u32))"
  by (simp add: word_less_nat_alt)

subsection \<open>Readers that return a result\<close>

definition res_bind :: "'a rd_result \<Rightarrow> ('a \<Rightarrow> reader \<Rightarrow> 'b Result) \<Rightarrow> reader \<Rightarrow> 'b Result" where
  "res_bind f k r = (case f r of Inl e \<Rightarrow> Inl e | Inr (x, r') \<Rightarrow> k x r')"

fun res_times :: "nat \<Rightarrow> 'a rd_result \<Rightarrow> 'a list rd_result" where
  "res_times 0 f r = Inr ([], r)"
| "res_times (Suc n) f r =
     (case f r of Inl e \<Rightarrow> Inl e
      | Inr (x, r1) \<Rightarrow> (case res_times n f r1 of Inl e \<Rightarrow> Inl e | Inr (xs, r2) \<Rightarrow> Inr (x # xs, r2)))"

definition res_return :: "'a \<Rightarrow> 'a rd_result" where
  "res_return x r = Inr (x, r)"

lemma ok_of_Some: "ok_of f r = Some p \<longleftrightarrow> f r = Inr p"
  by (auto simp: ok_of_def split: sum.splits)

lemma ok_of_times: "ok_of (res_times n f) = rd_times n (ok_of f)"
proof (rule ext)
  fix r
  have "rd_times n (ok_of f) r = ok_of (res_times n f) r"
    by (induction n arbitrary: r) (simp_all add: ok_of_def split: sum.splits)
  then show "ok_of (res_times n f) r = rd_times n (ok_of f) r" by simp
qed

lemma res_bind_ok: "ok_of f r = Some (x, r') \<Longrightarrow> res_bind f k r = k x r'"
  by (simp add: res_bind_def ok_of_Some)

lemma res_bind_Inr: "res_bind f k r = Inr y \<longleftrightarrow> (\<exists>x r'. ok_of f r = Some (x, r') \<and> k x r' = Inr y)"
  by (auto simp: res_bind_def ok_of_Some split: sum.splits)

lemma res_return_Inr: "res_return x r = Inr y \<longleftrightarrow> y = (x, r)"
  by (auto simp: res_return_def)

lemmas res_inv = res_bind_Inr res_return_Inr ok_of_times

text \<open>An optional value: a presence byte, then the value.\<close>

definition put_option :: "('a \<Rightarrow> bytes) \<Rightarrow> 'a option \<Rightarrow> bytes" where
  "put_option put v = (case v of None \<Rightarrow> put_u8 0 | Some x \<Rightarrow> put_u8 1 @ put x)"

definition rd_option :: "'a rd \<Rightarrow> 'a option rd" where
  "rd_option rd = rd_bind rd_u8 (\<lambda>b. if b \<noteq> 0 then rd_bind rd (\<lambda>x. rd_return (Some x)) else rd_return None)"

context codec
begin

lemma rd_option_enc:
  assumes "\<forall>x. v = Some x \<longrightarrow> wf x"
  shows "rd_option dec (rd_at pre (put_option enc v @ post)) = Some (v, rd_at (pre @ put_option enc v) post)"
  using assms
  by (cases v) (simp_all add: rd_option_def put_option_def rd_bind_def rd_return_def rd_u8_at dec_enc)

lemma rd_option_end:
  assumes "\<forall>x. v = Some x \<longrightarrow> wf x"
  shows "rd_option dec (rd_at pre (put_option enc v)) = Some (v, rd_at (pre @ put_option enc v) [])"
  using rd_option_enc [OF assms, of pre "[]"] by simp

end

lemmas rd_option_f64 [rd_simps] = f64_codec.rd_option_enc [OF allI [OF impI [OF TrueI]]]
lemmas rd_option_u64 [rd_simps] =
  u64_codec.rd_option_enc [OF allI [OF impI [OF TrueI]]] u64_codec.rd_option_end [OF allI [OF impI [OF TrueI]]]

text \<open>A 32-bit signed field is written as 64 bits and cast back.\<close>

lemma narrow_numa [simp]: "ucast (scast (n :: i32) :: i64) = n"
  by (rule bit_word_eqI) (auto simp: bit_ucast_iff bit_signed_iff)


subsection \<open>Composed readers stay inside the buffer\<close>

definition advancing :: "'a rd \<Rightarrow> bool" where
  "advancing f \<longleftrightarrow> (\<forall>r x r'. rd_ok r \<longrightarrow> f r = Some (x, r') \<longrightarrow> rd_advances r r')"

lemma advancingD: "advancing f \<Longrightarrow> rd_ok r \<Longrightarrow> f r = Some (x, r') \<Longrightarrow> rd_advances r r'"
  by (auto simp: advancing_def)

lemma advancing_ints:
  "advancing rd_u8" "advancing rd_u16" "advancing rd_u32" "advancing rd_u64" "advancing rd_i64" "advancing rd_f64"
  "advancing rd_bool" "advancing (ok_of (rd_string m))"
  by (auto simp: advancing_def intro: rd_int_advances rd_bool_advances ok_of_string_advances)

lemma advancing_bind:
  assumes "advancing f" "\<And>x. advancing (k x)"
  shows "advancing (rd_bind f k)"
  unfolding advancing_def
proof (intro allI impI)
  fix r y r'
  assume "rd_ok r" "rd_bind f k r = Some (y, r')"
  then obtain x r1 where "f r = Some (x, r1)" "k x r1 = Some (y, r')" by (auto simp: rd_bind_Some)
  with assms \<open>rd_ok r\<close> show "rd_advances r r'"
    by (meson advancingD rd_advances_ok rd_advances_trans)
qed

lemma advancing_return: "advancing (rd_return x)"
  by (auto simp: advancing_def rd_return_def rd_advances_def rd_ok_def)

lemma advancing_guard: "advancing k \<Longrightarrow> advancing (rd_guard b k)"
  by (auto simp: advancing_def rd_guard_def split: if_splits)

lemma advancing_map: "advancing f \<Longrightarrow> advancing (rd_map g f)"
  by (auto simp: advancing_def rd_map_def)

lemma advancing_times:
  assumes "advancing f"
  shows "advancing (rd_times n f)"
proof -
  have "bounded_reader f" using assms by unfold_locales (rule advancingD)
  then show ?thesis unfolding advancing_def by (blast intro: bounded_reader.rd_times_advances)
qed

lemma advancing_option: "advancing f \<Longrightarrow> advancing (rd_option f)"
  unfolding rd_option_def by (auto intro!: advancing_bind advancing_ints advancing_return)

lemmas advancing_intros = advancing_ints advancing_bind advancing_return advancing_guard advancing_map
  advancing_times advancing_option

text \<open>Forgetting the error messages turns the one kind of reader into the other.\<close>

lemma ok_of_need: "ok_of (need f e k) = rd_bind f (\<lambda>x. ok_of (k x))"
  by (auto simp: fun_eq_iff ok_of_def need_def rd_bind_def split: option.splits)

lemma ok_of_check: "ok_of (check b e k) = rd_guard b (ok_of k)"
  by (auto simp: fun_eq_iff ok_of_def check_def rd_guard_def)

lemma ok_of_return: "ok_of (res_return x) = rd_return x"
  by (auto simp: fun_eq_iff ok_of_def res_return_def rd_return_def)

lemma ok_of_if: "ok_of (if b then f else g) = (if b then ok_of f else ok_of g)"
  by simp

lemmas ok_of_flow = ok_of_need ok_of_check ok_of_return ok_of_if


end
