(* ===== verification/Identity.thy ===== *)
theory Identity
  imports Byte_Codec
begin

text \<open>
  \<^verbatim>\<open>identity/device_identity.hpp\<close>: the durable device identity, the test whether it carries
  enough information, the compute-capability order, and the canonical identity string under
  which the fleet store keeps a device.
\<close>

subsection \<open>PCI address, compute capability, vendor, MIG partition\<close>

record PciAddress =
  pci_domain :: u32
  pci_bus :: u16
  pci_device :: u16
  pci_function :: u16

definition PciAddress_to_string :: "PciAddress \<Rightarrow> string" where
  "PciAddress_to_string p =
     hex_string 4 (unat (pci_domain p)) @ '':'' @ hex_string 2 (unat (pci_bus p)) @ '':'' @
     hex_string 2 (unat (pci_device p)) @ ''.'' @ hex_string 1 (unat (pci_function p))"

record ComputeCapability =
  cc_major :: u32
  cc_minor :: u32

definition cc_zero :: ComputeCapability where
  "cc_zero = \<lparr>cc_major = 0, cc_minor = 0\<rparr>"

definition cc_to_string :: "ComputeCapability \<Rightarrow> string" where
  "cc_to_string c = dec_string (unat (cc_major c)) @ ''.'' @ dec_string (unat (cc_minor c))"

definition sm_string :: "ComputeCapability \<Rightarrow> string" where
  "sm_string c =
     (if cc_major c = 0 then ''unknown''
      else ''sm_'' @ dec_string (unat (cc_major c)) @ dec_string (unat (cc_minor c)))"

definition cc_less :: "ComputeCapability \<Rightarrow> ComputeCapability \<Rightarrow> bool" where
  "cc_less a b = (if cc_major a \<noteq> cc_major b then cc_major a < cc_major b
                  else cc_minor a < cc_minor b)"

definition cc_le :: "ComputeCapability \<Rightarrow> ComputeCapability \<Rightarrow> bool" where
  "cc_le a b \<longleftrightarrow> cc_less a b \<or> a = b"

definition cc_ge :: "ComputeCapability \<Rightarrow> ComputeCapability \<Rightarrow> bool" where
  "cc_ge a b \<longleftrightarrow> \<not> cc_less a b"

datatype AcceleratorVendor = Unknown | Nvidia | Amd | Intel | OTHER u8

primrec AcceleratorVendor_to_u8 :: "AcceleratorVendor \<Rightarrow> u8" where
  "AcceleratorVendor_to_u8 Unknown = 0"
| "AcceleratorVendor_to_u8 Nvidia = 1"
| "AcceleratorVendor_to_u8 Amd = 2"
| "AcceleratorVendor_to_u8 Intel = 3"
| "AcceleratorVendor_to_u8 (OTHER b) = b"

definition AcceleratorVendor_of_u8 :: "u8 \<Rightarrow> AcceleratorVendor" where
  "AcceleratorVendor_of_u8 b =
     (if b = 0 then Unknown else if b = 1 then Nvidia else if b = 2 then Amd
      else if b = 3 then Intel else OTHER b)"

definition AcceleratorVendor_wf :: "AcceleratorVendor \<Rightarrow> bool" where
  "AcceleratorVendor_wf v = (case v of OTHER b \<Rightarrow> b > 3 | _ \<Rightarrow> True)"

interpretation vendor_code: enum_code AcceleratorVendor_to_u8 AcceleratorVendor_of_u8 AcceleratorVendor_wf
proof unfold_locales
  fix e assume "AcceleratorVendor_wf e"
  then show "AcceleratorVendor_of_u8 (AcceleratorVendor_to_u8 e) = e"
    by (cases e) (auto simp: AcceleratorVendor_of_u8_def AcceleratorVendor_wf_def)
next
  fix b show "AcceleratorVendor_to_u8 (AcceleratorVendor_of_u8 b) = b"
    by (simp add: AcceleratorVendor_of_u8_def)
next
  fix b show "AcceleratorVendor_wf (AcceleratorVendor_of_u8 b)"
    by (auto simp: AcceleratorVendor_of_u8_def AcceleratorVendor_wf_def) unat_arith
qed

definition AcceleratorVendor_to_string :: "AcceleratorVendor \<Rightarrow> string" where
  "AcceleratorVendor_to_string v =
     (case v of Nvidia \<Rightarrow> ''nvidia'' | Amd \<Rightarrow> ''amd'' | Intel \<Rightarrow> ''intel'' | _ \<Rightarrow> ''unknown'')"

record MigPartition =
  gpu_instance_id :: u32
  compute_instance_id :: u32

definition MigPartition_empty :: "MigPartition \<Rightarrow> bool" where
  "MigPartition_empty m \<longleftrightarrow> gpu_instance_id m = 0"

subsection \<open>Device identity\<close>

record DeviceIdentity =
  di_vendor :: AcceleratorVendor
  di_vendor_name :: string
  di_uuid :: string
  di_pci :: PciAddress
  di_architecture :: string
  di_compute_capability :: ComputeCapability
  di_total_physical_memory :: u64
  di_numa_node :: i32
  di_driver_version :: string
  di_runtime_version :: RuntimeVersion
  di_mig :: MigPartition
  di_parent_device :: "DeviceId option"

definition DeviceIdentity_default :: DeviceIdentity where
  "DeviceIdentity_default =
     \<lparr>di_vendor = Unknown, di_vendor_name = '''', di_uuid = '''',
      di_pci = \<lparr>pci_domain = 0, pci_bus = 0, pci_device = 0, pci_function = 0\<rparr>,
      di_architecture = '''', di_compute_capability = cc_zero, di_total_physical_memory = 0,
      di_numa_node = - 1, di_driver_version = '''', di_runtime_version = \<lparr>rv_major = 0, rv_minor = 0\<rparr>,
      di_mig = \<lparr>gpu_instance_id = 0, compute_instance_id = 0\<rparr>, di_parent_device = None\<rparr>"

definition is_stable :: "DeviceIdentity \<Rightarrow> bool" where
  "is_stable d =
     (let has_pci = pci_domain (di_pci d) \<noteq> 0 \<or> pci_bus (di_pci d) \<noteq> 0 \<or>
                    pci_device (di_pci d) \<noteq> 0 \<or> pci_function (di_pci d) \<noteq> 0;
          has_uuid = di_uuid d \<noteq> [];
          has_arch = di_architecture d \<noteq> [] \<and> di_compute_capability d \<noteq> cc_zero
      in has_uuid \<or> (has_pci \<and> has_arch))"

definition canonical_device_identity :: "DeviceIdentity \<Rightarrow> string" where
  "canonical_device_identity d =
     AcceleratorVendor_to_string (di_vendor d) @ ''|'' @
     di_vendor_name d @ ''|'' @
     di_uuid d @ ''|'' @
     PciAddress_to_string (di_pci d) @ ''|'' @
     di_architecture d @ ''|'' @
     cc_to_string (di_compute_capability d) @ ''|'' @
     dec_string (unat (di_total_physical_memory d)) @ ''|'' @
     di_driver_version d"

subsection \<open>The printed components determine their values\<close>

lemma PciAddress_to_string_chars: "CHR ''|'' \<notin> set (PciAddress_to_string p)"
  by (auto simp: PciAddress_to_string_def dest: hex_string_chars)

lemma cc_to_string_chars: "CHR ''|'' \<notin> set (cc_to_string c)"
  by (auto simp: cc_to_string_def dest: dec_string_chars)

lemma vendor_to_string_chars: "CHR ''|'' \<notin> set (AcceleratorVendor_to_string v)"
  by (cases v) (auto simp: AcceleratorVendor_to_string_def)

lemma hex_string_unat_inj: "hex_string w (unat a) = hex_string w (unat b) \<Longrightarrow> a = b"
  by (metis hex_string_inj unsigned_word_eqI)

lemma dec_string_unat_inj: "dec_string (unat a) = dec_string (unat b) \<Longrightarrow> a = b"
  by (metis dec_string_inj unsigned_word_eqI)

lemma PciAddress_to_string_inj: "PciAddress_to_string p = PciAddress_to_string q \<Longrightarrow> p = q"
proof -
  have sep: "CHR '':'' \<notin> set (hex_string w n)" "CHR ''.'' \<notin> set (hex_string w n)" for w n
    by (auto dest: hex_string_chars)
  assume "PciAddress_to_string p = PciAddress_to_string q"
  then have "hex_string 4 (unat (pci_domain p)) = hex_string 4 (unat (pci_domain q)) \<and>
      hex_string 2 (unat (pci_bus p)) = hex_string 2 (unat (pci_bus q)) \<and>
      hex_string 2 (unat (pci_device p)) = hex_string 2 (unat (pci_device q)) \<and>
      hex_string 1 (unat (pci_function p)) = hex_string 1 (unat (pci_function q))"
    by (auto simp: PciAddress_to_string_def dest!: sep_append_inj [OF sep(1) sep(1)]
        sep_append_inj [OF sep(2) sep(2)])
  then show ?thesis
    by (intro PciAddress.equality) (auto dest: hex_string_unat_inj)
qed

lemma cc_to_string_inj: "cc_to_string c = cc_to_string d \<Longrightarrow> c = d"
proof -
  have sep: "CHR ''.'' \<notin> set (dec_string n)" for n
    by (auto dest: dec_string_chars)
  assume "cc_to_string c = cc_to_string d"
  then show ?thesis
    by (intro ComputeCapability.equality)
      (auto simp: cc_to_string_def dest!: sep_append_inj [OF sep sep] dest: dec_string_unat_inj)
qed

definition bar_free :: "DeviceIdentity \<Rightarrow> bool" where
  "bar_free d \<longleftrightarrow> CHR ''|'' \<notin> set (di_vendor_name d) \<and> CHR ''|'' \<notin> set (di_uuid d) \<and>
                 CHR ''|'' \<notin> set (di_architecture d)"

lemma canonical_fields:
  assumes "bar_free d" "bar_free e" "canonical_device_identity d = canonical_device_identity e"
  shows "AcceleratorVendor_to_string (di_vendor d) = AcceleratorVendor_to_string (di_vendor e) \<and>
    di_vendor_name d = di_vendor_name e \<and> di_uuid d = di_uuid e \<and>
    PciAddress_to_string (di_pci d) = PciAddress_to_string (di_pci e) \<and>
    di_architecture d = di_architecture e \<and>
    cc_to_string (di_compute_capability d) = cc_to_string (di_compute_capability e) \<and>
    dec_string (unat (di_total_physical_memory d)) = dec_string (unat (di_total_physical_memory e)) \<and>
    di_driver_version d = di_driver_version e"
proof -
  have dec: "CHR ''|'' \<notin> set (dec_string n)" for n by (auto dest: dec_string_chars)
  note split = sep_append_inj [where c = "CHR ''|''"]
  from assms show ?thesis
    unfolding canonical_device_identity_def bar_free_def
    by (auto dest!: split [OF vendor_to_string_chars vendor_to_string_chars]
        split [OF PciAddress_to_string_chars PciAddress_to_string_chars]
        split [OF cc_to_string_chars cc_to_string_chars] split [OF dec dec]
        dest: split [of "di_vendor_name d" "di_vendor_name e"] split [of "di_uuid d" "di_uuid e"]
        split [of "di_architecture d" "di_architecture e"])
qed

end
