(* ===== verification/Health.thy ===== *)
theory Health
  imports Byte_Codec
begin

text \<open>
  \<^verbatim>\<open>health/health_state.hpp\<close> and \<^verbatim>\<open>health/health_evaluator.hpp\<close>: the health states, and the pure
  evaluation of observed signals into a state with an explanation, as the chain of early
  returns of the source.
\<close>

datatype HealthState =
    UNKNOWN | HEALTHY | DEGRADED | UNHEALTHY | DRAINING | DRAINED | OFFLINE | LOST
  | RECOVERING | QUARANTINED | OTHER u8

primrec HealthState_to_u8 :: "HealthState \<Rightarrow> u8" where
  "HealthState_to_u8 HealthState.UNKNOWN = 0"
| "HealthState_to_u8 HealthState.HEALTHY = 1"
| "HealthState_to_u8 HealthState.DEGRADED = 2"
| "HealthState_to_u8 HealthState.UNHEALTHY = 3"
| "HealthState_to_u8 HealthState.DRAINING = 4"
| "HealthState_to_u8 HealthState.DRAINED = 5"
| "HealthState_to_u8 HealthState.OFFLINE = 6"
| "HealthState_to_u8 HealthState.LOST = 7"
| "HealthState_to_u8 HealthState.RECOVERING = 8"
| "HealthState_to_u8 HealthState.QUARANTINED = 9"
| "HealthState_to_u8 (HealthState.OTHER b) = b"

definition HealthState_of_u8 :: "u8 \<Rightarrow> HealthState" where
  "HealthState_of_u8 b =
     (if b = 0 then HealthState.UNKNOWN else if b = 1 then HealthState.HEALTHY
      else if b = 2 then HealthState.DEGRADED else if b = 3 then HealthState.UNHEALTHY
      else if b = 4 then HealthState.DRAINING else if b = 5 then HealthState.DRAINED
      else if b = 6 then HealthState.OFFLINE else if b = 7 then HealthState.LOST
      else if b = 8 then HealthState.RECOVERING else if b = 9 then HealthState.QUARANTINED
      else HealthState.OTHER b)"

definition HealthState_wf :: "HealthState \<Rightarrow> bool" where
  "HealthState_wf h = (case h of HealthState.OTHER b \<Rightarrow> b > 9 | _ \<Rightarrow> True)"

interpretation health_code: enum_code HealthState_to_u8 HealthState_of_u8 HealthState_wf
proof unfold_locales
  fix e assume "HealthState_wf e"
  then show "HealthState_of_u8 (HealthState_to_u8 e) = e"
    by (cases e) (auto simp: HealthState_of_u8_def HealthState_wf_def)
next
  fix b show "HealthState_to_u8 (HealthState_of_u8 b) = b"
    by (simp add: HealthState_of_u8_def)
next
  fix b show "HealthState_wf (HealthState_of_u8 b)"
    by (auto simp: HealthState_of_u8_def HealthState_wf_def) unat_arith
qed

definition HealthState_to_string :: "HealthState \<Rightarrow> string" where
  "HealthState_to_string h =
     (case h of
        HealthState.UNKNOWN \<Rightarrow> ''UNKNOWN'' | HealthState.HEALTHY \<Rightarrow> ''HEALTHY''
      | HealthState.DEGRADED \<Rightarrow> ''DEGRADED'' | HealthState.UNHEALTHY \<Rightarrow> ''UNHEALTHY''
      | HealthState.DRAINING \<Rightarrow> ''DRAINING'' | HealthState.DRAINED \<Rightarrow> ''DRAINED''
      | HealthState.OFFLINE \<Rightarrow> ''OFFLINE'' | HealthState.LOST \<Rightarrow> ''LOST''
      | HealthState.RECOVERING \<Rightarrow> ''RECOVERING'' | HealthState.QUARANTINED \<Rightarrow> ''QUARANTINED''
      | HealthState.OTHER _ \<Rightarrow> ''UNKNOWN'')"

definition is_health_availability_gating :: "HealthState \<Rightarrow> bool" where
  "is_health_availability_gating s \<longleftrightarrow>
     s = HealthState.QUARANTINED \<or> s = HealthState.DRAINED \<or> s = HealthState.DRAINING \<or>
     s = HealthState.OFFLINE \<or> s = HealthState.LOST \<or> s = HealthState.UNHEALTHY \<or>
     s = HealthState.UNKNOWN"

record HealthSignals =
  hs_enumerated :: bool
  hs_device_present :: bool
  hs_was_known :: bool
  hs_driver_runtime_ok :: bool
  hs_cuda_init_ok :: bool
  hs_memory_alloc_ok :: bool
  hs_kernel_exec_ok :: bool
  hs_sync_ok :: bool
  hs_mem_roundtrip_ok :: bool
  hs_fatal_error :: bool
  hs_temperature_within_limits :: bool
  hs_power_within_limits :: bool
  hs_consecutive_failures :: u32
  hs_observation_stale :: bool
  hs_explicitly_drained :: bool
  hs_inflight_work_remaining :: bool
  hs_quarantined :: bool
  hs_last_validation_ok :: bool
  hs_failure_threshold :: u32

definition HealthSignals_default :: HealthSignals where
  "HealthSignals_default =
     \<lparr>hs_enumerated = False, hs_device_present = True, hs_was_known = False,
      hs_driver_runtime_ok = False, hs_cuda_init_ok = False, hs_memory_alloc_ok = False,
      hs_kernel_exec_ok = False, hs_sync_ok = False, hs_mem_roundtrip_ok = False,
      hs_fatal_error = False, hs_temperature_within_limits = True, hs_power_within_limits = True,
      hs_consecutive_failures = 0, hs_observation_stale = False, hs_explicitly_drained = False,
      hs_inflight_work_remaining = False, hs_quarantined = False, hs_last_validation_ok = False,
      hs_failure_threshold = 3\<rparr>"

record HealthResult =
  hr_state :: HealthState
  hr_explanation :: string

definition evaluate_health :: "HealthSignals \<Rightarrow> HealthResult" where
  "evaluate_health s =
     (if hs_quarantined s then
        \<lparr>hr_state = HealthState.QUARANTINED,
         hr_explanation = ''quarantined: administratively or automatically fenced; ineligible until validly cleared''\<rparr>
      else if hs_explicitly_drained s then
        (if hs_inflight_work_remaining s then
           \<lparr>hr_state = HealthState.DRAINING,
            hr_explanation = ''draining: rejecting new eligibility, in-flight work still reported present''\<rparr>
         else
           \<lparr>hr_state = HealthState.DRAINED,
            hr_explanation = ''drained: rejecting new eligibility and awaiting drain completion''\<rparr>)
      else if \<not> hs_device_present s then
        (if \<not> hs_was_known s then
           \<lparr>hr_state = HealthState.OFFLINE,
            hr_explanation = ''offline: device not enumerable and never previously observed''\<rparr>
         else
           \<lparr>hr_state = HealthState.LOST,
            hr_explanation = ''lost: device was present but has disappeared and is not enumerable''\<rparr>)
      else if hs_fatal_error s then
        \<lparr>hr_state = HealthState.UNHEALTHY,
         hr_explanation = ''unhealthy: fatal accelerator error recorded''\<rparr>
      else if \<not> hs_driver_runtime_ok s then
        \<lparr>hr_state = HealthState.UNHEALTHY,
         hr_explanation = ''unhealthy: driver or runtime availability failed''\<rparr>
      else if \<not> hs_cuda_init_ok s then
        \<lparr>hr_state = HealthState.UNHEALTHY,
         hr_explanation = ''unhealthy: CUDA initialization failed''\<rparr>
      else if hs_consecutive_failures s \<ge> hs_failure_threshold s then
        \<lparr>hr_state = HealthState.UNHEALTHY,
         hr_explanation = ''unhealthy: repeated operation failures ('' @
           dec_string (unat (hs_consecutive_failures s)) @ '' consecutive)''\<rparr>
      else if hs_observation_stale s then
        \<lparr>hr_state = HealthState.RECOVERING,
         hr_explanation = ''recovering: last evidence is stale and is not fresh enough to be authoritative''\<rparr>
      else
        (let core_ok = hs_memory_alloc_ok s \<and> hs_kernel_exec_ok s \<and> hs_sync_ok s \<and> hs_mem_roundtrip_ok s
         in if \<not> core_ok then
              (if hs_last_validation_ok s then
                 \<lparr>hr_state = HealthState.RECOVERING,
                  hr_explanation = ''recovering: core validation not currently proven; last validation was OK''\<rparr>
               else
                 \<lparr>hr_state = HealthState.UNHEALTHY,
                  hr_explanation = ''unhealthy: core device validation not proven''\<rparr>)
            else if \<not> hs_temperature_within_limits s \<or> \<not> hs_power_within_limits s then
              \<lparr>hr_state = HealthState.DEGRADED,
               hr_explanation = ''degraded: core validation passed but temperature or power is outside limits''\<rparr>
            else
              \<lparr>hr_state = HealthState.HEALTHY,
               hr_explanation = ''healthy: enumeration, driver/runtime, and core validation all proven''\<rparr>))"

subsection \<open>What the evaluation decides\<close>

text \<open>The evidence that must be present before temperature and power are looked at.\<close>

definition core_proven :: "HealthSignals \<Rightarrow> bool" where
  "core_proven s \<longleftrightarrow>
     \<not> hs_quarantined s \<and> \<not> hs_explicitly_drained s \<and> hs_device_present s \<and> \<not> hs_fatal_error s \<and>
     hs_driver_runtime_ok s \<and> hs_cuda_init_ok s \<and>
     hs_consecutive_failures s < hs_failure_threshold s \<and> \<not> hs_observation_stale s \<and>
     hs_memory_alloc_ok s \<and> hs_kernel_exec_ok s \<and> hs_sync_ok s \<and> hs_mem_roundtrip_ok s"

lemma evaluate_health_HEALTHY:
  "hr_state (evaluate_health s) = HealthState.HEALTHY \<longleftrightarrow>
     core_proven s \<and> hs_temperature_within_limits s \<and> hs_power_within_limits s"
  by (auto simp: evaluate_health_def core_proven_def Let_def not_le)

lemma evaluate_health_DEGRADED:
  "hr_state (evaluate_health s) = HealthState.DEGRADED \<longleftrightarrow>
     core_proven s \<and> \<not> (hs_temperature_within_limits s \<and> hs_power_within_limits s)"
  by (auto simp: evaluate_health_def core_proven_def Let_def not_le)

lemma evaluate_health_wf: "HealthState_wf (hr_state (evaluate_health s))"
  by (simp add: evaluate_health_def Let_def HealthState_wf_def)

end
