(* ===== verification/Eligibility.thy ===== *)
theory Eligibility
  imports Health
begin

text \<open>
  \<^verbatim>\<open>eligibility/eligibility.hpp\<close> and \<^verbatim>\<open>eligibility/eligibility_evaluator.hpp\<close>: eligibility
  states, reasons, and the pure evaluation. The source builds one result object and sets its
  state in stages; the model names the stages (\<open>staleness\<close>, \<open>hard_gate\<close>, the final switch on
  the health baseline) and composes them in the same order.
\<close>

datatype EligibilityState =
    UNKNOWN | ELIGIBLE | DEGRADED_ELIGIBLE | INELIGIBLE | DRAINING | STALE | QUARANTINED
  | OTHER u8

primrec EligibilityState_to_u8 :: "EligibilityState \<Rightarrow> u8" where
  "EligibilityState_to_u8 EligibilityState.UNKNOWN = 0"
| "EligibilityState_to_u8 EligibilityState.ELIGIBLE = 1"
| "EligibilityState_to_u8 EligibilityState.DEGRADED_ELIGIBLE = 2"
| "EligibilityState_to_u8 EligibilityState.INELIGIBLE = 3"
| "EligibilityState_to_u8 EligibilityState.DRAINING = 4"
| "EligibilityState_to_u8 EligibilityState.STALE = 5"
| "EligibilityState_to_u8 EligibilityState.QUARANTINED = 6"
| "EligibilityState_to_u8 (EligibilityState.OTHER b) = b"

definition EligibilityState_of_u8 :: "u8 \<Rightarrow> EligibilityState" where
  "EligibilityState_of_u8 b =
     (if b = 0 then EligibilityState.UNKNOWN else if b = 1 then EligibilityState.ELIGIBLE
      else if b = 2 then EligibilityState.DEGRADED_ELIGIBLE
      else if b = 3 then EligibilityState.INELIGIBLE
      else if b = 4 then EligibilityState.DRAINING else if b = 5 then EligibilityState.STALE
      else if b = 6 then EligibilityState.QUARANTINED else EligibilityState.OTHER b)"

definition EligibilityState_wf :: "EligibilityState \<Rightarrow> bool" where
  "EligibilityState_wf e = (case e of EligibilityState.OTHER b \<Rightarrow> b > 6 | _ \<Rightarrow> True)"

interpretation elig_code: enum_code EligibilityState_to_u8 EligibilityState_of_u8 EligibilityState_wf
proof unfold_locales
  fix e assume "EligibilityState_wf e"
  then show "EligibilityState_of_u8 (EligibilityState_to_u8 e) = e"
    by (cases e) (auto simp: EligibilityState_of_u8_def EligibilityState_wf_def)
next
  fix b show "EligibilityState_to_u8 (EligibilityState_of_u8 b) = b"
    by (simp add: EligibilityState_of_u8_def)
next
  fix b show "EligibilityState_wf (EligibilityState_of_u8 b)"
    by (auto simp: EligibilityState_of_u8_def EligibilityState_wf_def) unat_arith
qed

definition EligibilityState_to_string :: "EligibilityState \<Rightarrow> string" where
  "EligibilityState_to_string e =
     (case e of
        EligibilityState.ELIGIBLE \<Rightarrow> ''ELIGIBLE''
      | EligibilityState.DEGRADED_ELIGIBLE \<Rightarrow> ''DEGRADED_ELIGIBLE''
      | EligibilityState.INELIGIBLE \<Rightarrow> ''INELIGIBLE''
      | EligibilityState.DRAINING \<Rightarrow> ''DRAINING''
      | EligibilityState.STALE \<Rightarrow> ''STALE''
      | EligibilityState.QUARANTINED \<Rightarrow> ''QUARANTINED''
      | _ \<Rightarrow> ''UNKNOWN'')"

datatype EligibilityReason =
    NONE | STALE_OBSERVATION | ARCHITECTURE_MISMATCH | INSUFFICIENT_MEMORY | DRIVER_MISMATCH
  | CUDA_UNAVAILABLE | HEALTH_FAILURE | DRAIN_POLICY | GENERATION_MISMATCH | WORKER_RESTART
  | DEVICE_DISAPPEARANCE | QUARANTINE | CAPABILITY_MISMATCH | UNKNOWN | OTHER u8

primrec EligibilityReason_to_u8 :: "EligibilityReason \<Rightarrow> u8" where
  "EligibilityReason_to_u8 NONE = 0"
| "EligibilityReason_to_u8 STALE_OBSERVATION = 1"
| "EligibilityReason_to_u8 ARCHITECTURE_MISMATCH = 2"
| "EligibilityReason_to_u8 INSUFFICIENT_MEMORY = 3"
| "EligibilityReason_to_u8 DRIVER_MISMATCH = 4"
| "EligibilityReason_to_u8 CUDA_UNAVAILABLE = 5"
| "EligibilityReason_to_u8 HEALTH_FAILURE = 6"
| "EligibilityReason_to_u8 DRAIN_POLICY = 7"
| "EligibilityReason_to_u8 GENERATION_MISMATCH = 8"
| "EligibilityReason_to_u8 WORKER_RESTART = 9"
| "EligibilityReason_to_u8 DEVICE_DISAPPEARANCE = 10"
| "EligibilityReason_to_u8 QUARANTINE = 11"
| "EligibilityReason_to_u8 CAPABILITY_MISMATCH = 12"
| "EligibilityReason_to_u8 EligibilityReason.UNKNOWN = 13"
| "EligibilityReason_to_u8 (EligibilityReason.OTHER b) = b"

definition EligibilityReason_of_u8 :: "u8 \<Rightarrow> EligibilityReason" where
  "EligibilityReason_of_u8 b =
     (if b = 0 then NONE else if b = 1 then STALE_OBSERVATION else if b = 2 then ARCHITECTURE_MISMATCH
      else if b = 3 then INSUFFICIENT_MEMORY else if b = 4 then DRIVER_MISMATCH
      else if b = 5 then CUDA_UNAVAILABLE else if b = 6 then HEALTH_FAILURE
      else if b = 7 then DRAIN_POLICY else if b = 8 then GENERATION_MISMATCH
      else if b = 9 then WORKER_RESTART else if b = 10 then DEVICE_DISAPPEARANCE
      else if b = 11 then QUARANTINE else if b = 12 then CAPABILITY_MISMATCH
      else if b = 13 then EligibilityReason.UNKNOWN else EligibilityReason.OTHER b)"

definition EligibilityReason_wf :: "EligibilityReason \<Rightarrow> bool" where
  "EligibilityReason_wf e = (case e of EligibilityReason.OTHER b \<Rightarrow> b > 13 | _ \<Rightarrow> True)"

interpretation reason_code: enum_code EligibilityReason_to_u8 EligibilityReason_of_u8 EligibilityReason_wf
proof unfold_locales
  fix e assume "EligibilityReason_wf e"
  then show "EligibilityReason_of_u8 (EligibilityReason_to_u8 e) = e"
    by (cases e) (auto simp: EligibilityReason_of_u8_def EligibilityReason_wf_def)
next
  fix b show "EligibilityReason_to_u8 (EligibilityReason_of_u8 b) = b"
    by (simp add: EligibilityReason_of_u8_def)
next
  fix b show "EligibilityReason_wf (EligibilityReason_of_u8 b)"
    by (auto simp: EligibilityReason_of_u8_def EligibilityReason_wf_def) unat_arith
qed

definition EligibilityReason_to_string :: "EligibilityReason \<Rightarrow> string" where
  "EligibilityReason_to_string r =
     (case r of
        STALE_OBSERVATION \<Rightarrow> ''stale_observation'' | ARCHITECTURE_MISMATCH \<Rightarrow> ''architecture_mismatch''
      | INSUFFICIENT_MEMORY \<Rightarrow> ''insufficient_memory'' | DRIVER_MISMATCH \<Rightarrow> ''driver_mismatch''
      | CUDA_UNAVAILABLE \<Rightarrow> ''cuda_unavailable'' | HEALTH_FAILURE \<Rightarrow> ''health_failure''
      | DRAIN_POLICY \<Rightarrow> ''drain_policy'' | GENERATION_MISMATCH \<Rightarrow> ''generation_mismatch''
      | WORKER_RESTART \<Rightarrow> ''worker_restart'' | DEVICE_DISAPPEARANCE \<Rightarrow> ''device_disappearance''
      | EligibilityReason.QUARANTINE \<Rightarrow> ''quarantine'' | CAPABILITY_MISMATCH \<Rightarrow> ''capability_mismatch''
      | _ \<Rightarrow> ''unknown'')"

record EligibilityResult =
  er_state :: EligibilityState
  er_reasons :: "EligibilityReason list"

definition has_reason :: "EligibilityResult \<Rightarrow> EligibilityReason \<Rightarrow> bool" where
  "has_reason r x \<longleftrightarrow> x \<in> set (er_reasons r)"

record EligibilityInput =
  ei_health :: HealthState
  ei_observation_fresh :: bool
  ei_observed_generation :: DeviceGeneration
  ei_current_generation :: DeviceGeneration
  ei_architecture_match :: bool
  ei_sufficient_memory :: bool
  ei_driver_match :: bool
  ei_cuda_available :: bool
  ei_capability_match :: bool
  ei_drain_active :: bool
  ei_quarantine :: bool
  ei_worker_alive :: bool
  ei_device_present :: bool
  ei_worker_restarted :: bool
  ei_required_memory :: u64
  ei_available_memory :: u64

definition EligibilityInput_default :: EligibilityInput where
  "EligibilityInput_default =
     \<lparr>ei_health = HealthState.UNKNOWN, ei_observation_fresh = False,
      ei_observed_generation = Generation 0, ei_current_generation = Generation 0,
      ei_architecture_match = True, ei_sufficient_memory = True, ei_driver_match = True,
      ei_cuda_available = False, ei_capability_match = True, ei_drain_active = False,
      ei_quarantine = False, ei_worker_alive = True, ei_device_present = True,
      ei_worker_restarted = False, ei_required_memory = 0, ei_available_memory = 0\<rparr>"

definition baseline_eligibility :: "HealthState \<Rightarrow> EligibilityState" where
  "baseline_eligibility h =
     (case h of
        HealthState.HEALTHY \<Rightarrow> EligibilityState.ELIGIBLE
      | HealthState.DEGRADED \<Rightarrow> EligibilityState.DEGRADED_ELIGIBLE
      | HealthState.DRAINING \<Rightarrow> EligibilityState.DRAINING
      | HealthState.DRAINED \<Rightarrow> EligibilityState.DRAINING
      | HealthState.QUARANTINED \<Rightarrow> EligibilityState.QUARANTINED
      | HealthState.OFFLINE \<Rightarrow> EligibilityState.INELIGIBLE
      | HealthState.LOST \<Rightarrow> EligibilityState.INELIGIBLE
      | HealthState.RECOVERING \<Rightarrow> EligibilityState.STALE
      | HealthState.UNHEALTHY \<Rightarrow> EligibilityState.INELIGIBLE
      | _ \<Rightarrow> EligibilityState.UNKNOWN)"

text \<open>The worker, generation and freshness tests: the reason that makes the scope stale, if any.\<close>

definition staleness :: "EligibilityInput \<Rightarrow> EligibilityReason option" where
  "staleness i =
     (if ei_worker_restarted i \<or> \<not> ei_worker_alive i then Some WORKER_RESTART
      else if ei_observed_generation i \<noteq> ei_current_generation i then Some GENERATION_MISMATCH
      else if \<not> ei_observation_fresh i then Some STALE_OBSERVATION
      else None)"

text \<open>Presence, CUDA, driver, architecture, memory, capability: the first that fails.\<close>

definition hard_gate :: "EligibilityInput \<Rightarrow> EligibilityReason option" where
  "hard_gate i =
     (if \<not> ei_device_present i then Some DEVICE_DISAPPEARANCE
      else if \<not> ei_cuda_available i then Some CUDA_UNAVAILABLE
      else if \<not> ei_driver_match i then Some DRIVER_MISMATCH
      else if \<not> ei_architecture_match i then Some ARCHITECTURE_MISMATCH
      else if \<not> ei_sufficient_memory i \<or> ei_available_memory i < ei_required_memory i
        then Some INSUFFICIENT_MEMORY
      else if \<not> ei_capability_match i then Some CAPABILITY_MISMATCH
      else None)"

definition evaluate_eligibility :: "EligibilityInput \<Rightarrow> EligibilityResult" where
  "evaluate_eligibility i =
     (if ei_quarantine i then \<lparr>er_state = EligibilityState.QUARANTINED, er_reasons = [QUARANTINE]\<rparr>
      else if ei_drain_active i then \<lparr>er_state = EligibilityState.DRAINING, er_reasons = [DRAIN_POLICY]\<rparr>
      else case staleness i of
        Some r \<Rightarrow> \<lparr>er_state = EligibilityState.STALE, er_reasons = [r]\<rparr>
      | None \<Rightarrow>
          (case hard_gate i of
             Some r \<Rightarrow> \<lparr>er_state = EligibilityState.INELIGIBLE, er_reasons = [r]\<rparr>
           | None \<Rightarrow>
               (case baseline_eligibility (ei_health i) of
                  EligibilityState.ELIGIBLE \<Rightarrow>
                    \<lparr>er_state = EligibilityState.ELIGIBLE, er_reasons = []\<rparr>
                | EligibilityState.DEGRADED_ELIGIBLE \<Rightarrow>
                    \<lparr>er_state = EligibilityState.DEGRADED_ELIGIBLE, er_reasons = [HEALTH_FAILURE]\<rparr>
                | EligibilityState.STALE \<Rightarrow>
                    \<lparr>er_state = EligibilityState.STALE, er_reasons = [STALE_OBSERVATION]\<rparr>
                | EligibilityState.QUARANTINED \<Rightarrow>
                    \<lparr>er_state = EligibilityState.QUARANTINED, er_reasons = [QUARANTINE]\<rparr>
                | EligibilityState.DRAINING \<Rightarrow>
                    \<lparr>er_state = EligibilityState.DRAINING, er_reasons = [DRAIN_POLICY]\<rparr>
                | _ \<Rightarrow> \<lparr>er_state = EligibilityState.INELIGIBLE, er_reasons = [HEALTH_FAILURE]\<rparr>)))"

subsection \<open>What the evaluation decides\<close>

definition usable :: "EligibilityState \<Rightarrow> bool" where
  "usable e \<longleftrightarrow> e = EligibilityState.ELIGIBLE \<or> e = EligibilityState.DEGRADED_ELIGIBLE"

text \<open>Every gate in front of the health switch, as one conjunction.\<close>

definition gates_open :: "EligibilityInput \<Rightarrow> bool" where
  "gates_open i \<longleftrightarrow>
     \<not> ei_quarantine i \<and> \<not> ei_drain_active i \<and> ei_worker_alive i \<and> \<not> ei_worker_restarted i \<and>
     ei_observed_generation i = ei_current_generation i \<and> ei_observation_fresh i \<and>
     ei_device_present i \<and> ei_cuda_available i \<and> ei_driver_match i \<and> ei_architecture_match i \<and>
     ei_sufficient_memory i \<and> ei_required_memory i \<le> ei_available_memory i \<and> ei_capability_match i"

lemma gates_open_iff:
  "gates_open i \<longleftrightarrow> \<not> ei_quarantine i \<and> \<not> ei_drain_active i \<and> staleness i = None \<and> hard_gate i = None"
  by (auto simp: gates_open_def staleness_def hard_gate_def not_le)

lemma evaluate_eligibility_ELIGIBLE:
  "er_state (evaluate_eligibility i) = EligibilityState.ELIGIBLE \<longleftrightarrow>
     gates_open i \<and> ei_health i = HealthState.HEALTHY"
  by (auto simp: gates_open_iff evaluate_eligibility_def baseline_eligibility_def
      split: option.splits HealthState.splits)

lemma evaluate_eligibility_DEGRADED:
  "er_state (evaluate_eligibility i) = EligibilityState.DEGRADED_ELIGIBLE \<longleftrightarrow>
     gates_open i \<and> ei_health i = HealthState.DEGRADED"
  by (auto simp: gates_open_iff evaluate_eligibility_def baseline_eligibility_def
      split: option.splits HealthState.splits)

lemma evaluate_eligibility_usable:
  "usable (er_state (evaluate_eligibility i)) \<longleftrightarrow>
     gates_open i \<and> ei_health i \<in> {HealthState.HEALTHY, HealthState.DEGRADED}"
  by (auto simp: usable_def evaluate_eligibility_ELIGIBLE evaluate_eligibility_DEGRADED)

lemma evaluate_eligibility_reasons:
  "(er_reasons (evaluate_eligibility i) = []) \<longleftrightarrow>
     er_state (evaluate_eligibility i) = EligibilityState.ELIGIBLE"
  by (auto simp: evaluate_eligibility_def split: option.splits EligibilityState.splits)

lemma evaluate_eligibility_one_reason: "length (er_reasons (evaluate_eligibility i)) \<le> 1"
  by (auto simp: evaluate_eligibility_def split: option.splits EligibilityState.splits)

lemma evaluate_eligibility_wf:
  "EligibilityState_wf (er_state (evaluate_eligibility i))"
  "list_all EligibilityReason_wf (er_reasons (evaluate_eligibility i))"
  by (auto simp: evaluate_eligibility_def EligibilityState_wf_def EligibilityReason_wf_def
      staleness_def hard_gate_def split: option.splits EligibilityState.splits if_splits)

end
