(* ===== verification/Observation.thy ===== *)
theory Observation
  imports Identity Eligibility
begin

text \<open>
  The observation data model: capabilities (\<^verbatim>\<open>capability/capability.hpp\<close>), the probe a device
  backend returns (\<^verbatim>\<open>device/device_backend.hpp\<close>), observations, canonical device states, drain and
  quarantine (\<^verbatim>\<open>observation/observation.hpp\<close>), and the change records with the deterministic
  comparison of two device states (\<^verbatim>\<open>observation/change.hpp\<close>).
\<close>

subsection \<open>Capabilities\<close>

datatype CapabilityKind = UNKNOWN | DISCOVERED | VALIDATED | INFERRED | OTHER u8

primrec CapabilityKind_to_u8 :: "CapabilityKind \<Rightarrow> u8" where
  "CapabilityKind_to_u8 CapabilityKind.UNKNOWN = 0"
| "CapabilityKind_to_u8 DISCOVERED = 1"
| "CapabilityKind_to_u8 VALIDATED = 2"
| "CapabilityKind_to_u8 INFERRED = 3"
| "CapabilityKind_to_u8 (CapabilityKind.OTHER b) = b"

definition CapabilityKind_of_u8 :: "u8 \<Rightarrow> CapabilityKind" where
  "CapabilityKind_of_u8 b =
     (if b = 0 then CapabilityKind.UNKNOWN else if b = 1 then DISCOVERED
      else if b = 2 then VALIDATED else if b = 3 then INFERRED else CapabilityKind.OTHER b)"

definition CapabilityKind_wf :: "CapabilityKind \<Rightarrow> bool" where
  "CapabilityKind_wf k = (case k of CapabilityKind.OTHER b \<Rightarrow> b > 3 | _ \<Rightarrow> True)"

interpretation capkind_code: enum_code CapabilityKind_to_u8 CapabilityKind_of_u8 CapabilityKind_wf
proof unfold_locales
  fix e assume "CapabilityKind_wf e"
  then show "CapabilityKind_of_u8 (CapabilityKind_to_u8 e) = e"
    by (cases e) (auto simp: CapabilityKind_of_u8_def CapabilityKind_wf_def)
next
  fix b show "CapabilityKind_to_u8 (CapabilityKind_of_u8 b) = b"
    by (simp add: CapabilityKind_of_u8_def)
next
  fix b show "CapabilityKind_wf (CapabilityKind_of_u8 b)"
    by (auto simp: CapabilityKind_of_u8_def CapabilityKind_wf_def) unat_arith
qed

definition CapabilityKind_to_string :: "CapabilityKind \<Rightarrow> string" where
  "CapabilityKind_to_string k =
     (case k of DISCOVERED \<Rightarrow> ''discovered'' | VALIDATED \<Rightarrow> ''validated'' | INFERRED \<Rightarrow> ''inferred'' | _ \<Rightarrow> ''unknown'')"

record Capability =
  cap_id :: CapabilityId
  cap_name :: string
  cap_kind :: CapabilityKind
  cap_value :: string
  cap_description :: string

text \<open>The names of the capabilities.\<close>

abbreviation capname_vendor :: string where
  "capname_vendor \<equiv> ''vendor''"

abbreviation capname_architecture :: string where
  "capname_architecture \<equiv> ''architecture''"

abbreviation capname_compute_capability :: string where
  "capname_compute_capability \<equiv> ''compute_capability''"

abbreviation capname_total_memory :: string where
  "capname_total_memory \<equiv> ''total_memory''"

abbreviation capname_usable_memory :: string where
  "capname_usable_memory \<equiv> ''usable_memory''"

abbreviation capname_cuda_available :: string where
  "capname_cuda_available \<equiv> ''cuda_available''"

abbreviation capname_runtime :: string where
  "capname_runtime \<equiv> ''runtime''"

abbreviation capname_dtypes :: string where
  "capname_dtypes \<equiv> ''dtypes''"

abbreviation capname_tensor_cores :: string where
  "capname_tensor_cores \<equiv> ''tensor_cores''"

abbreviation capname_peer_access :: string where
  "capname_peer_access \<equiv> ''peer_access''"

abbreviation capname_unified_addressing :: string where
  "capname_unified_addressing \<equiv> ''unified_addressing''"

abbreviation capname_graphs :: string where
  "capname_graphs \<equiv> ''graphs''"

abbreviation capname_cooperative_launch :: string where
  "capname_cooperative_launch \<equiv> ''cooperative_launch''"

abbreviation capname_kernel_execution :: string where
  "capname_kernel_execution \<equiv> ''kernel_execution''"

abbreviation capname_memory_roundtrip :: string where
  "capname_memory_roundtrip \<equiv> ''memory_roundtrip''"

abbreviation capname_numa :: string where
  "capname_numa \<equiv> ''numa''"

abbreviation capname_mig :: string where
  "capname_mig \<equiv> ''mig''"

abbreviation capname_driver :: string where
  "capname_driver \<equiv> ''driver''"

subsection \<open>Drain and quarantine\<close>

datatype DrainState = ACTIVE | DRAINING | DRAINED | OTHER u8

primrec DrainState_to_u8 :: "DrainState \<Rightarrow> u8" where
  "DrainState_to_u8 ACTIVE = 0"
| "DrainState_to_u8 DrainState.DRAINING = 1"
| "DrainState_to_u8 DrainState.DRAINED = 2"
| "DrainState_to_u8 (DrainState.OTHER b) = b"

definition DrainState_of_u8 :: "u8 \<Rightarrow> DrainState" where
  "DrainState_of_u8 b =
     (if b = 0 then ACTIVE else if b = 1 then DrainState.DRAINING
      else if b = 2 then DrainState.DRAINED else DrainState.OTHER b)"

definition DrainState_wf :: "DrainState \<Rightarrow> bool" where
  "DrainState_wf d = (case d of DrainState.OTHER b \<Rightarrow> b > 2 | _ \<Rightarrow> True)"

interpretation drain_code: enum_code DrainState_to_u8 DrainState_of_u8 DrainState_wf
proof unfold_locales
  fix e assume "DrainState_wf e"
  then show "DrainState_of_u8 (DrainState_to_u8 e) = e"
    by (cases e) (auto simp: DrainState_of_u8_def DrainState_wf_def)
next
  fix b show "DrainState_to_u8 (DrainState_of_u8 b) = b"
    by (simp add: DrainState_of_u8_def)
next
  fix b show "DrainState_wf (DrainState_of_u8 b)"
    by (auto simp: DrainState_of_u8_def DrainState_wf_def) unat_arith
qed

definition DrainState_to_string :: "DrainState \<Rightarrow> string" where
  "DrainState_to_string d =
     (case d of ACTIVE \<Rightarrow> ''ACTIVE'' | DrainState.DRAINING \<Rightarrow> ''DRAINING''
      | DrainState.DRAINED \<Rightarrow> ''DRAINED'' | DrainState.OTHER _ \<Rightarrow> ''ACTIVE'')"

record QuarantineRecord =
  q_reason :: string
  q_source :: string
  q_generation :: DeviceGeneration
  q_at :: Timestamp
  q_device_id :: DeviceId
  q_authority :: CoordinatorEpoch

definition QuarantineRecord_default :: QuarantineRecord where
  "QuarantineRecord_default =
     \<lparr>q_reason = '''', q_source = '''', q_generation = Generation 0, q_at = kInvalidTimestamp,
      q_device_id = StrongId 0, q_authority = Generation 0\<rparr>"

subsection \<open>Probes, observations, device states\<close>

record DeviceProbe =
  p_identity :: DeviceIdentity
  p_enumerated :: bool
  p_present :: bool
  p_driver_runtime_ok :: bool
  p_cuda_init_ok :: bool
  p_total_memory :: u64
  p_used_memory :: u64
  p_free_memory :: u64
  p_temperature_c :: "f64 option"
  p_power_w :: "f64 option"
  p_memory_alloc_ok :: bool
  p_h2d_ok :: bool
  p_kernel_exec_ok :: bool
  p_sync_ok :: bool
  p_d2h_ok :: bool
  p_verify_ok :: bool
  p_core_validation_ok :: bool
  p_validation_detail :: string
  p_capabilities :: "Capability list"

record DeviceObservation =
  o_device_id :: DeviceId
  o_observation_generation :: ObservationGeneration
  o_health_generation :: HealthGeneration
  o_observed_at :: Timestamp
  o_source_worker_boot :: WorkerBootId
  o_source_worker :: WorkerId
  o_source_node :: NodeId
  o_epoch :: CoordinatorEpoch
  o_device_generation :: DeviceGeneration
  o_identity :: DeviceIdentity
  o_health :: HealthState
  o_health_explanation :: string
  o_total_memory :: u64
  o_used_memory :: u64
  o_free_memory :: u64
  o_temperature_c :: "f64 option"
  o_power_w :: "f64 option"
  o_capabilities :: "Capability list"
  o_core_validation_ok :: bool
  o_validation_detail :: string
  o_enumerated :: bool
  o_present :: bool
  o_driver_runtime_ok :: bool
  o_cuda_init_ok :: bool
  o_memory_alloc_ok :: bool
  o_h2d_ok :: bool
  o_kernel_exec_ok :: bool
  o_sync_ok :: bool
  o_d2h_ok :: bool
  o_verify_ok :: bool

record DeviceState =
  ds_device_id :: DeviceId
  ds_generation :: DeviceGeneration
  ds_identity :: DeviceIdentity
  ds_present :: bool
  ds_health :: HealthState
  ds_health_explanation :: string
  ds_eligibility :: EligibilityState
  ds_eligibility_reasons :: "EligibilityReason list"
  ds_drain :: DrainState
  ds_quarantined :: bool
  ds_quarantine :: QuarantineRecord
  ds_total_memory :: u64
  ds_used_memory :: u64
  ds_free_memory :: u64
  ds_temperature_c :: "f64 option"
  ds_power_w :: "f64 option"
  ds_capabilities :: "Capability list"
  ds_core_validation_ok :: bool
  ds_validation_detail :: string
  ds_last_observed_at :: Timestamp
  ds_last_validated_at :: Timestamp
  ds_last_authoritative_at :: Timestamp
  ds_observation_generation :: ObservationGeneration
  ds_health_generation :: HealthGeneration
  ds_source_worker_boot :: WorkerBootId
  ds_observation_fresh :: bool

definition DeviceState_default :: DeviceState where
  "DeviceState_default =
     \<lparr>ds_device_id = StrongId 0, ds_generation = Generation 0, ds_identity = DeviceIdentity_default,
      ds_present = False, ds_health = HealthState.UNKNOWN, ds_health_explanation = '''',
      ds_eligibility = EligibilityState.UNKNOWN, ds_eligibility_reasons = [], ds_drain = ACTIVE,
      ds_quarantined = False, ds_quarantine = QuarantineRecord_default, ds_total_memory = 0,
      ds_used_memory = 0, ds_free_memory = 0, ds_temperature_c = None, ds_power_w = None,
      ds_capabilities = [], ds_core_validation_ok = False, ds_validation_detail = '''',
      ds_last_observed_at = kInvalidTimestamp, ds_last_validated_at = kInvalidTimestamp,
      ds_last_authoritative_at = kInvalidTimestamp, ds_observation_generation = Generation 0,
      ds_health_generation = Generation 0, ds_source_worker_boot = StrongId 0,
      ds_observation_fresh = False\<rparr>"

subsection \<open>Change records\<close>

datatype ChangeKind =
    DEVICE_APPEARED | DEVICE_DISAPPEARED | IDENTITY_CHANGED | DRIVER_RUNTIME_CHANGED
  | MEMORY_CAPACITY_CHANGED | HEALTH_CHANGED | CAPABILITY_CHANGED | ELIGIBILITY_CHANGED
  | WORKER_RESTARTED | OBSERVATION_STALE | DRAIN_INITIATED | DRAIN_COMPLETED
  | QUARANTINE_APPLIED | QUARANTINE_CLEARED | OTHER u8

primrec ChangeKind_to_u8 :: "ChangeKind \<Rightarrow> u8" where
  "ChangeKind_to_u8 DEVICE_APPEARED = 1"
| "ChangeKind_to_u8 DEVICE_DISAPPEARED = 2"
| "ChangeKind_to_u8 IDENTITY_CHANGED = 3"
| "ChangeKind_to_u8 DRIVER_RUNTIME_CHANGED = 4"
| "ChangeKind_to_u8 MEMORY_CAPACITY_CHANGED = 5"
| "ChangeKind_to_u8 HEALTH_CHANGED = 6"
| "ChangeKind_to_u8 CAPABILITY_CHANGED = 7"
| "ChangeKind_to_u8 ELIGIBILITY_CHANGED = 8"
| "ChangeKind_to_u8 WORKER_RESTARTED = 9"
| "ChangeKind_to_u8 OBSERVATION_STALE = 10"
| "ChangeKind_to_u8 DRAIN_INITIATED = 11"
| "ChangeKind_to_u8 DRAIN_COMPLETED = 12"
| "ChangeKind_to_u8 QUARANTINE_APPLIED = 13"
| "ChangeKind_to_u8 QUARANTINE_CLEARED = 14"
| "ChangeKind_to_u8 (ChangeKind.OTHER b) = b"

definition ChangeKind_of_u8 :: "u8 \<Rightarrow> ChangeKind" where
  "ChangeKind_of_u8 b =
     (if b = 1 then DEVICE_APPEARED else if b = 2 then DEVICE_DISAPPEARED
      else if b = 3 then IDENTITY_CHANGED else if b = 4 then DRIVER_RUNTIME_CHANGED
      else if b = 5 then MEMORY_CAPACITY_CHANGED else if b = 6 then HEALTH_CHANGED
      else if b = 7 then CAPABILITY_CHANGED else if b = 8 then ELIGIBILITY_CHANGED
      else if b = 9 then WORKER_RESTARTED else if b = 10 then OBSERVATION_STALE
      else if b = 11 then DRAIN_INITIATED else if b = 12 then DRAIN_COMPLETED
      else if b = 13 then QUARANTINE_APPLIED else if b = 14 then QUARANTINE_CLEARED
      else ChangeKind.OTHER b)"

definition ChangeKind_wf :: "ChangeKind \<Rightarrow> bool" where
  "ChangeKind_wf k = (case k of ChangeKind.OTHER b \<Rightarrow> b = 0 \<or> b > 14 | _ \<Rightarrow> True)"

interpretation changekind_code: enum_code ChangeKind_to_u8 ChangeKind_of_u8 ChangeKind_wf
proof unfold_locales
  fix e assume "ChangeKind_wf e"
  then show "ChangeKind_of_u8 (ChangeKind_to_u8 e) = e"
    by (cases e) (auto simp: ChangeKind_of_u8_def ChangeKind_wf_def)
next
  fix b show "ChangeKind_to_u8 (ChangeKind_of_u8 b) = b"
    by (simp add: ChangeKind_of_u8_def)
next
  fix b show "ChangeKind_wf (ChangeKind_of_u8 b)"
    by (auto simp: ChangeKind_of_u8_def ChangeKind_wf_def) unat_arith
qed

definition ChangeKind_to_string :: "ChangeKind \<Rightarrow> string" where
  "ChangeKind_to_string k =
     (case k of
        DEVICE_APPEARED \<Rightarrow> ''device_appeared'' | DEVICE_DISAPPEARED \<Rightarrow> ''device_disappeared''
      | IDENTITY_CHANGED \<Rightarrow> ''identity_changed'' | DRIVER_RUNTIME_CHANGED \<Rightarrow> ''driver_runtime_changed''
      | MEMORY_CAPACITY_CHANGED \<Rightarrow> ''memory_capacity_changed'' | HEALTH_CHANGED \<Rightarrow> ''health_changed''
      | CAPABILITY_CHANGED \<Rightarrow> ''capability_changed'' | ELIGIBILITY_CHANGED \<Rightarrow> ''eligibility_changed''
      | WORKER_RESTARTED \<Rightarrow> ''worker_restarted'' | OBSERVATION_STALE \<Rightarrow> ''observation_stale''
      | DRAIN_INITIATED \<Rightarrow> ''drain_initiated'' | DRAIN_COMPLETED \<Rightarrow> ''drain_completed''
      | QUARANTINE_APPLIED \<Rightarrow> ''quarantine_applied'' | QUARANTINE_CLEARED \<Rightarrow> ''quarantine_cleared''
      | ChangeKind.OTHER _ \<Rightarrow> ''unknown_change'')"

record ChangeRecord =
  cr_kind :: ChangeKind
  cr_device_id :: DeviceId
  cr_at :: Timestamp
  cr_generation :: DeviceGeneration
  cr_epoch :: CoordinatorEpoch
  cr_detail :: string
  cr_from :: string
  cr_to :: string

definition caps_key :: "Capability list \<Rightarrow> string" where
  "caps_key cs = concat (map (\<lambda>c. cap_name c @ ''='' @ cap_value c @ '';'') cs)"

definition diff_device_state ::
  "DeviceState \<Rightarrow> DeviceState \<Rightarrow> Timestamp \<Rightarrow> DeviceGeneration \<Rightarrow> CoordinatorEpoch \<Rightarrow> ChangeRecord list"
where
  "diff_device_state prior cand at gen epoch =
     (let push = (\<lambda>k detail frm to.
            [\<lparr>cr_kind = k, cr_device_id = ds_device_id cand, cr_at = at, cr_generation = gen,
              cr_epoch = epoch, cr_detail = detail, cr_from = frm, cr_to = to\<rparr>])
      in (if \<not> ds_present prior \<and> ds_present cand
          then push DEVICE_APPEARED ''device became present'' ''absent'' ''present''
          else if ds_present prior \<and> \<not> ds_present cand
          then push DEVICE_DISAPPEARED ''device became absent'' ''present'' ''absent'' else [])
       @ (if ds_identity prior \<noteq> ds_identity cand
          then push IDENTITY_CHANGED ''device identity changed''
                 (di_uuid (ds_identity prior)) (di_uuid (ds_identity cand)) else [])
       @ (if di_driver_version (ds_identity prior) \<noteq> di_driver_version (ds_identity cand)
          then push DRIVER_RUNTIME_CHANGED ''driver/runtime changed''
                 (di_driver_version (ds_identity prior)) (di_driver_version (ds_identity cand)) else [])
       @ (if ds_total_memory prior \<noteq> ds_total_memory cand \<and> ds_total_memory cand \<noteq> 0
          then push MEMORY_CAPACITY_CHANGED ''memory capacity changed''
                 (dec_string (unat (ds_total_memory prior))) (dec_string (unat (ds_total_memory cand)))
          else [])
       @ (if ds_health prior \<noteq> ds_health cand
          then push HEALTH_CHANGED ''health changed''
                 (HealthState_to_string (ds_health prior)) (HealthState_to_string (ds_health cand))
          else [])
       @ (if caps_key (ds_capabilities prior) \<noteq> caps_key (ds_capabilities cand)
          then push CAPABILITY_CHANGED ''capability set changed''
                 (caps_key (ds_capabilities prior)) (caps_key (ds_capabilities cand)) else [])
       @ (if ds_eligibility prior \<noteq> ds_eligibility cand
          then push ELIGIBILITY_CHANGED ''eligibility changed''
                 (EligibilityState_to_string (ds_eligibility prior))
                 (EligibilityState_to_string (ds_eligibility cand)) else [])
       @ (if ds_source_worker_boot prior \<noteq> ds_source_worker_boot cand
          then push WORKER_RESTARTED ''source worker incarnation changed''
                 (dec_string (unat (id_value (ds_source_worker_boot prior))))
                 (dec_string (unat (id_value (ds_source_worker_boot cand)))) else [])
       @ (if \<not> ds_observation_fresh prior \<and> ds_observation_fresh cand then []
          else if ds_observation_fresh prior \<and> \<not> ds_observation_fresh cand
          then push OBSERVATION_STALE ''observation became stale'' ''fresh'' ''stale'' else [])
       @ (if ds_drain prior = ACTIVE \<and> ds_drain cand \<noteq> ACTIVE
          then push DRAIN_INITIATED ''drain initiated''
                 (DrainState_to_string (ds_drain prior)) (DrainState_to_string (ds_drain cand))
          else if ds_drain prior = DrainState.DRAINING \<and> ds_drain cand = DrainState.DRAINED
          then push DRAIN_COMPLETED ''drain completed''
                 (DrainState_to_string (ds_drain prior)) (DrainState_to_string (ds_drain cand))
          else [])
       @ (if \<not> ds_quarantined prior \<and> ds_quarantined cand
          then push QUARANTINE_APPLIED ''quarantine applied'' ''false'' ''true''
          else if ds_quarantined prior \<and> \<not> ds_quarantined cand
          then push QUARANTINE_CLEARED ''quarantine cleared'' ''true'' ''false'' else []))"

end
