(* ===== verification/Pipeline.thy ===== *)
theory Pipeline
  imports Observation
begin

text \<open>
  \<^verbatim>\<open>observation/pipeline.hpp\<close>: normalising a backend probe into an observation, deriving health
  signals, and applying an observation to the prior device state. Time is a signed 64-bit count
  of milliseconds; the age of an observation is the wrapped 64-bit difference read as a signed
  value.
\<close>

datatype PipelineStage = Enumerate | Identify | Probe | Validate | Normalize | Compare | Publish | Commit | OTHER u8

definition PipelineStage_to_string :: "PipelineStage \<Rightarrow> string" where
  "PipelineStage_to_string s =
     (case s of
        Enumerate \<Rightarrow> ''enumerate'' | Identify \<Rightarrow> ''identify'' | Probe \<Rightarrow> ''probe'' | Validate \<Rightarrow> ''validate''
      | Normalize \<Rightarrow> ''normalize'' | Compare \<Rightarrow> ''compare'' | Publish \<Rightarrow> ''publish'' | Commit \<Rightarrow> ''commit''
      | OTHER _ \<Rightarrow> ''unknown'')"

record ObservationMetadata =
  om_device_id :: DeviceId
  om_observation_generation :: ObservationGeneration
  om_health_generation :: HealthGeneration
  om_observed_at :: Timestamp
  om_source_worker_boot :: WorkerBootId
  om_source_worker :: WorkerId
  om_source_node :: NodeId
  om_epoch :: CoordinatorEpoch
  om_device_generation :: DeviceGeneration

record ObservationPolicy =
  pol_freshness_threshold_ms :: DurationMs
  pol_required_architecture :: string
  pol_required_compute_capability :: ComputeCapability
  pol_required_memory :: u64
  pol_require_core_validation :: bool
  pol_required_capabilities :: "string list"

definition ObservationPolicy_default :: ObservationPolicy where
  "ObservationPolicy_default =
     \<lparr>pol_freshness_threshold_ms = 24 * 60 * 60 * 1000, pol_required_architecture = '''',
      pol_required_compute_capability = cc_zero, pol_required_memory = 0,
      pol_require_core_validation = True, pol_required_capabilities = []\<rparr>"

definition normalize_observation :: "DeviceProbe \<Rightarrow> ObservationMetadata \<Rightarrow> DeviceObservation" where
  "normalize_observation probe meta =
     \<lparr>o_device_id = om_device_id meta,
      o_observation_generation = om_observation_generation meta,
      o_health_generation = om_health_generation meta,
      o_observed_at = om_observed_at meta,
      o_source_worker_boot = om_source_worker_boot meta,
      o_source_worker = om_source_worker meta,
      o_source_node = om_source_node meta,
      o_epoch = om_epoch meta,
      o_device_generation = om_device_generation meta,
      o_identity = p_identity probe,
      o_health = (if p_present probe then HealthState.UNKNOWN else HealthState.OFFLINE),
      o_health_explanation = '''',
      o_total_memory = p_total_memory probe,
      o_used_memory = p_used_memory probe,
      o_free_memory = p_free_memory probe,
      o_temperature_c = p_temperature_c probe,
      o_power_w = p_power_w probe,
      o_capabilities = p_capabilities probe,
      o_core_validation_ok = p_core_validation_ok probe,
      o_validation_detail = p_validation_detail probe,
      o_enumerated = p_enumerated probe,
      o_present = p_present probe,
      o_driver_runtime_ok = p_driver_runtime_ok probe,
      o_cuda_init_ok = p_cuda_init_ok probe,
      o_memory_alloc_ok = p_memory_alloc_ok probe,
      o_h2d_ok = p_h2d_ok probe,
      o_kernel_exec_ok = p_kernel_exec_ok probe,
      o_sync_ok = p_sync_ok probe,
      o_d2h_ok = p_d2h_ok probe,
      o_verify_ok = p_verify_ok probe\<rparr>"

definition health_signals_from_probe :: "DeviceObservation \<Rightarrow> bool \<Rightarrow> bool \<Rightarrow> HealthSignals" where
  "health_signals_from_probe probe was_known observation_stale =
     HealthSignals_default
       \<lparr>hs_enumerated := o_enumerated probe,
        hs_device_present := o_present probe,
        hs_was_known := was_known,
        hs_driver_runtime_ok := o_driver_runtime_ok probe,
        hs_cuda_init_ok := o_cuda_init_ok probe,
        hs_memory_alloc_ok := o_memory_alloc_ok probe,
        hs_kernel_exec_ok := o_kernel_exec_ok probe,
        hs_sync_ok := o_sync_ok probe,
        hs_mem_roundtrip_ok := o_d2h_ok probe \<and> o_verify_ok probe,
        hs_fatal_error := False,
        hs_consecutive_failures := (if o_core_validation_ok probe then 0 else 1),
        hs_observation_stale := observation_stale,
        hs_last_validation_ok := o_core_validation_ok probe\<rparr>"

record AppliedObservation =
  ao_state :: DeviceState
  ao_changes :: "ChangeRecord list"
  ao_eligibility :: EligibilityResult
  ao_fresh :: bool
  ao_accepted :: bool

definition AppliedObservation_default :: AppliedObservation where
  "AppliedObservation_default =
     \<lparr>ao_state = DeviceState_default, ao_changes = [],
      ao_eligibility = \<lparr>er_state = EligibilityState.UNKNOWN, er_reasons = []\<rparr>,
      ao_fresh = False, ao_accepted = False\<rparr>"

definition observation_is_fresh ::
  "DeviceState \<Rightarrow> DeviceObservation \<Rightarrow> ObservationPolicy \<Rightarrow> Timestamp \<Rightarrow> bool" where
  "observation_is_fresh prior norm policy now \<longleftrightarrow>
     o_observed_at norm \<noteq> kInvalidTimestamp \<and>
     sint (now - o_observed_at norm) \<le> sint (pol_freshness_threshold_ms policy) \<and>
     (sint (o_observed_at norm) \<ge> sint (ds_last_observed_at prior) \<or>
      ds_last_observed_at prior = kInvalidTimestamp)"

text \<open>The capability loop: the flag starts as "nothing required" and a missing capability clears it.\<close>

fun capability_loop :: "bool \<Rightarrow> Capability list \<Rightarrow> string list \<Rightarrow> bool" where
  "capability_loop m caps [] = m"
| "capability_loop m caps (req # reqs) =
     (if list_ex (\<lambda>c. cap_name c = req \<and> cap_kind c \<noteq> CapabilityKind.UNKNOWN) caps
      then capability_loop m caps reqs else False)"

definition architecture_matches :: "DeviceState \<Rightarrow> ObservationPolicy \<Rightarrow> bool" where
  "architecture_matches cand policy =
     (let m = pol_required_architecture policy = '''' \<or>
              di_architecture (ds_identity cand) = pol_required_architecture policy
      in if di_compute_capability (ds_identity cand) \<noteq> cc_zero \<and>
            pol_required_compute_capability policy \<noteq> cc_zero
         then m \<and> cc_ge (di_compute_capability (ds_identity cand)) (pol_required_compute_capability policy)
         else m)"

text \<open>The candidate before eligibility is filled in.\<close>

definition candidate_state :: "DeviceState \<Rightarrow> DeviceObservation \<Rightarrow> HealthResult \<Rightarrow> bool \<Rightarrow> DeviceState" where
  "candidate_state prior norm health fresh =
     DeviceState_default
       \<lparr>ds_device_id := o_device_id norm,
        ds_generation := o_device_generation norm,
        ds_identity := o_identity norm,
        ds_present := o_present norm,
        ds_health := hr_state health,
        ds_health_explanation := hr_explanation health,
        ds_total_memory := o_total_memory norm,
        ds_used_memory := o_used_memory norm,
        ds_free_memory := o_free_memory norm,
        ds_temperature_c := o_temperature_c norm,
        ds_power_w := o_power_w norm,
        ds_capabilities := o_capabilities norm,
        ds_core_validation_ok := o_core_validation_ok norm,
        ds_validation_detail := o_validation_detail norm,
        ds_last_observed_at := o_observed_at norm,
        ds_last_validated_at := (if o_core_validation_ok norm then o_observed_at norm
                                 else ds_last_validated_at prior),
        ds_observation_generation := o_observation_generation norm,
        ds_source_worker_boot := o_source_worker_boot norm,
        ds_observation_fresh := fresh,
        ds_drain := ds_drain prior,
        ds_quarantined := ds_quarantined prior,
        ds_quarantine := ds_quarantine prior\<rparr>"

definition eligibility_input ::
  "DeviceState \<Rightarrow> DeviceObservation \<Rightarrow> ObservationPolicy \<Rightarrow> bool \<Rightarrow> EligibilityInput" where
  "eligibility_input cand norm policy fresh =
     EligibilityInput_default
       \<lparr>ei_health := ds_health cand,
        ei_observation_fresh := fresh,
        ei_observed_generation := ds_generation cand,
        ei_current_generation := ds_generation cand,
        ei_architecture_match := architecture_matches cand policy,
        ei_sufficient_memory := ds_total_memory cand \<ge> pol_required_memory policy,
        ei_driver_match := True,
        ei_cuda_available := o_driver_runtime_ok norm \<and> o_cuda_init_ok norm,
        ei_capability_match := capability_loop (pol_required_capabilities policy = [])
                                 (ds_capabilities cand) (pol_required_capabilities policy),
        ei_drain_active := ds_drain cand \<noteq> ACTIVE,
        ei_quarantine := ds_quarantined cand,
        ei_worker_alive := True,
        ei_device_present := ds_present cand,
        ei_required_memory := pol_required_memory policy,
        ei_available_memory := ds_free_memory cand\<rparr>"

definition apply_observation ::
  "DeviceState \<Rightarrow> DeviceObservation \<Rightarrow> ObservationPolicy \<Rightarrow> Timestamp \<Rightarrow> CoordinatorEpoch
     \<Rightarrow> AppliedObservation" where
  "apply_observation prior norm policy now epoch =
     (let fresh = observation_is_fresh prior norm policy now;
          hs0 = health_signals_from_probe norm (ds_present prior) (\<not> fresh);
          hs = (if \<not> o_present norm then hs0\<lparr>hs_device_present := False\<rparr> else hs0);
          health = evaluate_health hs;
          cand0 = candidate_state prior norm health fresh;
          elig = evaluate_eligibility (eligibility_input cand0 norm policy fresh);
          cand1 = cand0\<lparr>ds_eligibility := er_state elig, ds_eligibility_reasons := er_reasons elig\<rparr>;
          cand = cand1\<lparr>ds_last_authoritative_at :=
                   (if fresh \<and> ds_eligibility cand1 \<noteq> EligibilityState.STALE \<and>
                       ds_eligibility cand1 \<noteq> EligibilityState.QUARANTINED \<and>
                       ds_eligibility cand1 \<noteq> EligibilityState.DRAINING
                    then now else ds_last_authoritative_at prior)\<rparr>
      in \<lparr>ao_state = cand,
          ao_changes = diff_device_state prior cand (o_observed_at norm) (ds_generation cand) epoch,
          ao_eligibility = elig, ao_fresh = fresh, ao_accepted = True\<rparr>)"

subsection \<open>What applying an observation yields\<close>

lemma capability_loop_eq:
  "capability_loop m caps reqs \<longleftrightarrow>
     m \<and> (\<forall>req\<in>set reqs. \<exists>c\<in>set caps. cap_name c = req \<and> cap_kind c \<noteq> CapabilityKind.UNKNOWN)"
  by (induction reqs) (auto simp: list_ex_iff)

text \<open>With at least one required capability the flag starts cleared and nothing sets it.\<close>

lemma capability_loop_required: "capability_loop (reqs = []) caps reqs \<longleftrightarrow> reqs = []"
  by (cases reqs) (auto simp: capability_loop_eq)

lemmas apply_defs = apply_observation_def candidate_state_def DeviceState_default_def

text \<open>Where each field of the new state comes from.\<close>

lemma apply_observation_fields [simp]:
  "ds_device_id (ao_state (apply_observation p n pol now ep)) = o_device_id n"
  "ds_generation (ao_state (apply_observation p n pol now ep)) = o_device_generation n"
  "ds_identity (ao_state (apply_observation p n pol now ep)) = o_identity n"
  "ds_present (ao_state (apply_observation p n pol now ep)) = o_present n"
  "ds_observation_generation (ao_state (apply_observation p n pol now ep)) = o_observation_generation n"
  "ds_source_worker_boot (ao_state (apply_observation p n pol now ep)) = o_source_worker_boot n"
  "ds_observation_fresh (ao_state (apply_observation p n pol now ep)) = observation_is_fresh p n pol now"
  "ds_last_observed_at (ao_state (apply_observation p n pol now ep)) = o_observed_at n"
  "ds_drain (ao_state (apply_observation p n pol now ep)) = ds_drain p"
  "ds_quarantined (ao_state (apply_observation p n pol now ep)) = ds_quarantined p"
  "ds_quarantine (ao_state (apply_observation p n pol now ep)) = ds_quarantine p"
  by (simp_all add: apply_defs Let_def)

lemma apply_memory_fields:
  "ds_total_memory (ao_state (apply_observation p n pol now ep)) = o_total_memory n"
  "ds_free_memory (ao_state (apply_observation p n pol now ep)) = o_free_memory n"
  "ds_capabilities (ao_state (apply_observation p n pol now ep)) = o_capabilities n"
  by (simp_all add: apply_defs Let_def)

lemma apply_observation_health:
  "ds_health (ao_state (apply_observation p n pol now ep))
     = hr_state (evaluate_health (health_signals_from_probe n (ds_present p)
                                    (\<not> observation_is_fresh p n pol now)))"
  by (simp add: apply_defs Let_def health_signals_from_probe_def HealthSignals_default_def)

lemma apply_observation_eligibility:
  "ds_eligibility (ao_state (apply_observation p n pol now ep))
     = er_state (evaluate_eligibility (eligibility_input (ao_state (apply_observation p n pol now ep))
                                         n pol (observation_is_fresh p n pol now)))"
  by (simp add: apply_defs eligibility_input_def architecture_matches_def Let_def)

text \<open>The evidence in one observation that yields a healthy state.\<close>

definition probe_evidence :: "DeviceObservation \<Rightarrow> bool" where
  "probe_evidence n \<longleftrightarrow>
     o_present n \<and> o_driver_runtime_ok n \<and> o_cuda_init_ok n \<and> o_memory_alloc_ok n \<and>
     o_kernel_exec_ok n \<and> o_sync_ok n \<and> o_d2h_ok n \<and> o_verify_ok n"

lemma apply_health_HEALTHY:
  "ds_health (ao_state (apply_observation p n pol now ep)) = HealthState.HEALTHY \<longleftrightarrow>
     probe_evidence n \<and> observation_is_fresh p n pol now"
  by (auto simp: apply_observation_health evaluate_health_HEALTHY core_proven_def
      health_signals_from_probe_def HealthSignals_default_def probe_evidence_def)

text \<open>Temperature and power are never passed on, so an observation never yields DEGRADED.\<close>

lemma apply_health_not_DEGRADED:
  "ds_health (ao_state (apply_observation p n pol now ep)) \<noteq> HealthState.DEGRADED"
  by (auto simp: apply_observation_health evaluate_health_DEGRADED
      health_signals_from_probe_def HealthSignals_default_def)

lemma apply_usable:
  "usable (ds_eligibility (ao_state (apply_observation p n pol now ep))) \<longleftrightarrow>
     ds_eligibility (ao_state (apply_observation p n pol now ep)) = EligibilityState.ELIGIBLE"
proof -
  have "ds_eligibility (ao_state (apply_observation p n pol now ep)) \<noteq> EligibilityState.DEGRADED_ELIGIBLE"
    using apply_health_not_DEGRADED [of p n pol now ep]
    by (subst apply_observation_eligibility) (simp add: evaluate_eligibility_DEGRADED eligibility_input_def)
  then show ?thesis by (auto simp: usable_def)
qed

definition policy_met :: "DeviceObservation \<Rightarrow> ObservationPolicy \<Rightarrow> bool" where
  "policy_met n pol \<longleftrightarrow>
     (pol_required_architecture pol = '''' \<or> di_architecture (o_identity n) = pol_required_architecture pol) \<and>
     (di_compute_capability (o_identity n) = cc_zero \<or> pol_required_compute_capability pol = cc_zero \<or>
      cc_ge (di_compute_capability (o_identity n)) (pol_required_compute_capability pol)) \<and>
     pol_required_memory pol \<le> o_total_memory n \<and> pol_required_memory pol \<le> o_free_memory n"

lemma apply_ELIGIBLE:
  "ds_eligibility (ao_state (apply_observation p n pol now ep)) = EligibilityState.ELIGIBLE \<longleftrightarrow>
     \<not> ds_quarantined p \<and> ds_drain p = ACTIVE \<and> observation_is_fresh p n pol now \<and>
     probe_evidence n \<and> policy_met n pol \<and> pol_required_capabilities pol = []"
  by (subst apply_observation_eligibility)
    (auto simp: evaluate_eligibility_ELIGIBLE gates_open_def eligibility_input_def
      EligibilityInput_default_def capability_loop_required apply_health_HEALTHY policy_met_def
      architecture_matches_def apply_memory_fields probe_evidence_def Let_def)

subsection \<open>Justified eligibility\<close>

text \<open>
  What a usable eligibility promises about the rest of the device state. Every operation of the
  fleet store keeps it.
\<close>

definition device_justified :: "DeviceState \<Rightarrow> bool" where
  "device_justified d \<longleftrightarrow>
     (usable (ds_eligibility d) \<longrightarrow>
        ds_observation_fresh d \<and> ds_present d \<and> \<not> ds_quarantined d \<and> ds_drain d = ACTIVE \<and>
        ds_health d \<in> {HealthState.HEALTHY, HealthState.DEGRADED})"

lemma usable_cases [simp]:
  "usable EligibilityState.ELIGIBLE" "usable EligibilityState.DEGRADED_ELIGIBLE"
  "\<not> usable EligibilityState.INELIGIBLE" "\<not> usable EligibilityState.STALE"
  "\<not> usable EligibilityState.QUARANTINED" "\<not> usable EligibilityState.DRAINING"
  "\<not> usable EligibilityState.UNKNOWN"
  by (simp_all add: usable_def)

lemma apply_justified: "device_justified (ao_state (apply_observation p n pol now ep))"
  by (auto simp: device_justified_def apply_usable apply_ELIGIBLE apply_health_HEALTHY
      probe_evidence_def)

lemma device_justified_health_generation [simp]:
  "device_justified (d\<lparr>ds_health_generation := g\<rparr>) = device_justified d"
  by (simp add: device_justified_def)

end
