(* ===== verification/Registration.thy ===== *)
theory Registration
  imports Byte_Codec
begin

text \<open>
  \<^verbatim>\<open>fleet/registration.hpp\<close>: the registration a worker sends, with its encoder and decoder.
\<close>

record Registration =
  reg_node :: NodeId
  reg_worker :: WorkerId
  reg_worker_boot :: WorkerBootId
  reg_agent_version :: SemanticVersion
  reg_protocol_version :: u32
  reg_os_platform :: string
  reg_driver_version :: string
  reg_runtime_version :: RuntimeVersion
  reg_enumerated_devices :: "string list"
  reg_supported_capabilities :: "string list"
  reg_registration_generation :: RegistrationGeneration
  reg_epoch :: CoordinatorEpoch

definition put_strings :: "u32 \<Rightarrow> string list \<Rightarrow> bytes" where
  "put_strings m xs = put_u32 (word_of_nat (length xs)) @ concat (map (put_string m) xs)"

definition encode_registration :: "Registration \<Rightarrow> bytes" where
  "encode_registration r =
     put_u64 (id_value (reg_node r)) @
     put_u64 (id_value (reg_worker r)) @
     put_u64 (id_value (reg_worker_boot r)) @
     put_u32 (sv_major (reg_agent_version r)) @
     put_u32 (sv_minor (reg_agent_version r)) @
     put_u32 (sv_patch (reg_agent_version r)) @
     put_u32 (reg_protocol_version r) @
     put_string 128 (reg_os_platform r) @
     put_string 128 (reg_driver_version r) @
     put_u32 (rv_major (reg_runtime_version r)) @
     put_u32 (rv_minor (reg_runtime_version r)) @
     put_strings 256 (reg_enumerated_devices r) @
     put_strings 128 (reg_supported_capabilities r) @
     put_u64 (gen_value (reg_registration_generation r)) @
     put_u64 (gen_value (reg_epoch r))"

definition decode_registration :: "bytes \<Rightarrow> Registration Result" where
  "decode_registration data =
     need rd_u64 (error_result Truncated ''node truncated'') (\<lambda>node.
     need rd_u64 (error_result Truncated ''worker truncated'') (\<lambda>worker.
     need rd_u64 (error_result Truncated ''boot truncated'') (\<lambda>boot.
     need rd_u32 (error_result Truncated ''agent major truncated'') (\<lambda>major.
     need rd_u32 (error_result Truncated ''agent minor truncated'') (\<lambda>minor.
     need rd_u32 (error_result Truncated ''agent patch truncated'') (\<lambda>patch.
     need rd_u32 (error_result Truncated ''protocol truncated'') (\<lambda>protocol.
     need (ok_of (rd_string 128)) (error_result Truncated ''os truncated'') (\<lambda>os.
     need (ok_of (rd_string 128)) (error_result Truncated ''driver truncated'') (\<lambda>driver.
     need rd_u32 (error_result Truncated ''runtime major truncated'') (\<lambda>rmajor.
     need rd_u32 (error_result Truncated ''runtime minor truncated'') (\<lambda>rminor.
     need rd_u32 (error_result Truncated ''dev count truncated'') (\<lambda>ndev.
     check (\<not> ndev > 4096) (error_result OutOfBounds ''too many devices'') (
     need (rd_times (unat ndev) (ok_of (rd_string 256))) (error_result Truncated ''device truncated'') (\<lambda>devs.
     need rd_u32 (error_result Truncated ''cap count truncated'') (\<lambda>ncap.
     check (\<not> ncap > 4096) (error_result OutOfBounds ''too many capabilities'') (
     need (rd_times (unat ncap) (ok_of (rd_string 128))) (error_result Truncated ''capability truncated'') (\<lambda>caps.
     need rd_u64 (error_result Truncated ''reg gen truncated'') (\<lambda>gen.
     need rd_u64 (error_result Truncated ''epoch truncated'') (\<lambda>epoch.
     rd_finish (error_result Malformed ''trailing garbage after registration'')
       \<lparr>reg_node = StrongId node, reg_worker = StrongId worker, reg_worker_boot = StrongId boot,
        reg_agent_version = \<lparr>sv_major = major, sv_minor = minor, sv_patch = patch\<rparr>,
        reg_protocol_version = protocol, reg_os_platform = os, reg_driver_version = driver,
        reg_runtime_version = \<lparr>rv_major = rmajor, rv_minor = rminor\<rparr>,
        reg_enumerated_devices = devs, reg_supported_capabilities = caps,
        reg_registration_generation = Generation gen, reg_epoch = Generation epoch\<rparr>
     ))))))))))))))))))) (mk_reader data)"

definition Registration_wf :: "Registration \<Rightarrow> bool" where
  "Registration_wf r \<longleftrightarrow>
     str_wf 128 (reg_os_platform r) \<and> str_wf 128 (reg_driver_version r) \<and>
     length (reg_enumerated_devices r) \<le> 4096 \<and> list_all (str_wf 256) (reg_enumerated_devices r) \<and>
     length (reg_supported_capabilities r) \<le> 4096 \<and> list_all (str_wf 128) (reg_supported_capabilities r)"

lemma decode_encode_registration:
  assumes "Registration_wf r"
  shows "decode_registration (encode_registration r) = Inr r"
  using assms
  by (simp add: decode_registration_def encode_registration_def put_strings_def mk_reader_at
      rd_flow_defs rd_simps string_codec.rd_times_enc Registration_wf_def)

lemma decode_registration_wf: "decode_registration bs = Inr r \<Longrightarrow> Registration_wf r"
  by (auto simp: decode_registration_def rd_inv Registration_wf_def word_less_nat_alt not_less
      dest!: ok_of_string_wf rd_strings_wf)

end
