(* ===== verification/Ordered_Map.thy ===== *)
theory Ordered_Map
  imports Prelude
begin

text \<open>
  \<^verbatim>\<open>std::map\<close> as the sources use it: iteration visits the keys in increasing order, and the
  serialised snapshots depend on that order. The model is the list of entries in iteration
  order. \<open>om_put\<close> is assignment through \<^verbatim>\<open>operator[]\<close>, \<open>om_emplace\<close> is \<^verbatim>\<open>emplace\<close> and
  \<^verbatim>\<open>try_emplace\<close> (an existing entry stays), \<open>om_modify\<close> is a change made through an
  iterator. The locale \<open>std_map\<close> is the contract the store relies on; it is interpreted on
  these operations.
\<close>

type_synonym ('k, 'v) omap = "('k \<times> 'v) list"

definition om_find :: "('k, 'v) omap \<Rightarrow> 'k \<Rightarrow> 'v option" where
  "om_find m k = map_of m k"

fun om_put :: "'k::linorder \<Rightarrow> 'v \<Rightarrow> ('k, 'v) omap \<Rightarrow> ('k, 'v) omap" where
  "om_put k v [] = [(k, v)]"
| "om_put k v ((k', v') # m) =
     (if k < k' then (k, v) # (k', v') # m
      else if k = k' then (k, v) # m
      else (k', v') # om_put k v m)"

definition om_emplace :: "'k::linorder \<Rightarrow> 'v \<Rightarrow> ('k, 'v) omap \<Rightarrow> ('k, 'v) omap" where
  "om_emplace k v m = (case om_find m k of None \<Rightarrow> om_put k v m | Some _ \<Rightarrow> m)"

definition om_modify :: "'k::linorder \<Rightarrow> ('v \<Rightarrow> 'v) \<Rightarrow> ('k, 'v) omap \<Rightarrow> ('k, 'v) omap" where
  "om_modify k f m = (case om_find m k of None \<Rightarrow> m | Some v \<Rightarrow> om_put k (f v) m)"

definition om_map :: "('v \<Rightarrow> 'v) \<Rightarrow> ('k, 'v) omap \<Rightarrow> ('k, 'v) omap" where
  "om_map f m = map (\<lambda>(k, v). (k, f v)) m"

definition om_ok :: "('k::linorder, 'v) omap \<Rightarrow> bool" where
  "om_ok m \<longleftrightarrow> sorted_wrt (<) (map fst m)"

locale std_map =
  fixes ok :: "'m \<Rightarrow> bool" and find :: "'m \<Rightarrow> 'k \<Rightarrow> 'v option"
    and put :: "'k \<Rightarrow> 'v \<Rightarrow> 'm \<Rightarrow> 'm" and entries :: "'m \<Rightarrow> ('k \<times> 'v) list"
  assumes find_put: "find (put k v m) k' = (if k' = k then Some v else find m k')"
    and ok_put: "ok m \<Longrightarrow> ok (put k v m)"
    and entries_find: "ok m \<Longrightarrow> (k, v) \<in> set (entries m) \<longleftrightarrow> find m k = Some v"
begin

text \<open>A predicate that holds of every entry is kept by storing an entry that satisfies it.\<close>

lemma put_entries:
  assumes "\<And>j w. find m j = Some w \<Longrightarrow> P j w" and "P k v" and "find (put k v m) j = Some w"
  shows "P j w"
  using assms by (auto simp: find_put split: if_splits)

text \<open>Storing under one key leaves the others, and two stores under one key collapse.\<close>

lemma find_put_other: "k' \<noteq> k \<Longrightarrow> find (put k v m) k' = find m k'"
  by (simp add: find_put)

lemma find_put_put: "find (put k v (put k v' m)) = find (put k v m)"
  by (rule ext) (simp add: find_put)

end

lemma om_find_put [simp]: "om_find (om_put k v m) k' = (if k' = k then Some v else om_find m k')"
  by (induction m) (auto simp: om_find_def)

lemma keys_om_put: "fst ` set (om_put k v m) = insert k (fst ` set m)"
  by (induction k v m rule: om_put.induct) (simp_all add: insert_commute)

lemma om_ok_put [simp]: "om_ok m \<Longrightarrow> om_ok (om_put k v m)"
proof (induction m)
  case Nil
  then show ?case by (simp add: om_ok_def)
next
  case (Cons kv m)
  obtain k' v' where kv: "kv = (k', v')" by (cases kv)
  have IH: "om_ok (om_put k v m)" using Cons by (simp add: om_ok_def)
  have "fst ` set (om_put k v m) = insert k (fst ` set m)" by (rule keys_om_put)
  with Cons.prems IH kv show ?case
    by (auto simp: om_ok_def)
qed

lemma om_ok_distinct: "om_ok m \<Longrightarrow> distinct (map fst m)"
  unfolding om_ok_def using strict_sorted_iff by blast

lemma om_entries_find: "om_ok m \<Longrightarrow> (k, v) \<in> set m \<longleftrightarrow> om_find m k = Some v"
  by (auto simp: om_find_def dest!: om_ok_distinct)

lemma om_find_SomeD: "om_find m k = Some v \<Longrightarrow> (k, v) \<in> set m"
  by (simp add: om_find_def map_of_SomeD)

interpretation om: std_map om_ok om_find om_put "\<lambda>m. m"
  by unfold_locales (auto simp: om_entries_find)

lemma om_find_Nil [simp]: "om_find [] k = None"
  by (simp add: om_find_def)

lemma om_ok_Nil [simp]: "om_ok []"
  by (simp add: om_ok_def)

lemma om_find_emplace:
  "om_find (om_emplace k v m) k' =
     (if k' = k then (case om_find m k of None \<Rightarrow> Some v | Some w \<Rightarrow> Some w) else om_find m k')"
  by (auto simp: om_emplace_def split: option.splits)

lemma om_ok_emplace [simp]: "om_ok m \<Longrightarrow> om_ok (om_emplace k v m)"
  by (auto simp: om_emplace_def split: option.splits)

lemma om_find_modify:
  "om_find (om_modify k f m) k' = (if k' = k then map_option f (om_find m k) else om_find m k')"
  by (auto simp: om_modify_def split: option.splits)

lemma om_ok_modify [simp]: "om_ok m \<Longrightarrow> om_ok (om_modify k f m)"
  by (auto simp: om_modify_def split: option.splits)

lemma om_find_map: "om_find (om_map f m) k = map_option f (om_find m k)"
  by (induction m) (auto simp: om_find_def om_map_def)

lemma om_ok_map [simp]: "om_ok (om_map f m) = om_ok m"
proof -
  have "map fst (om_map f m) = map fst m"
    by (simp add: om_map_def comp_def case_prod_unfold)
  then show ?thesis by (simp add: om_ok_def)
qed

lemma length_om_put: "om_find m k = None \<Longrightarrow> length (om_put k v m) = Suc (length m)"
  by (induction m) (auto simp: om_find_def split: if_splits)

lemma length_om_put_present:
  "om_ok m \<Longrightarrow> om_find m k = Some w \<Longrightarrow> length (om_put k v m) = length m"
proof (induction m)
  case Nil
  then show ?case by simp
next
  case (Cons kv m)
  obtain k' v' where kv: "kv = (k', v')" by (cases kv)
  from Cons.prems(1) have ok: "om_ok m" and lt: "\<forall>x\<in>set m. k' < fst x"
    by (auto simp: om_ok_def kv)
  show ?case
  proof (cases "k = k'")
    case True
    then show ?thesis by (simp add: kv)
  next
    case False
    with Cons.prems(2) have f: "om_find m k = Some w" by (simp add: kv om_find_def)
    with lt have "k' < k" by (fastforce dest: om_find_SomeD)
    with False Cons.IH [OF ok f] show ?thesis by (simp add: kv)
  qed
qed

text \<open>Appending entries in key order rebuilds the same map: what a decoder does with an encoded map.\<close>

lemma om_emplace_append:
  assumes "om_ok (m @ [(k, v)])"
  shows "om_emplace k v m = m @ [(k, v)]"
proof -
  have lt: "\<forall>x\<in>set m. fst x < k" using assms by (auto simp: om_ok_def sorted_wrt_append)
  then have none: "om_find m k = None"
    by (auto simp: om_find_def map_of_eq_None_iff)
  have "om_put k v m = m @ [(k, v)]"
    using lt by (induction m) auto
  with none show ?thesis by (simp add: om_emplace_def)
qed

end
