(* ===== verification/Fleet_State.thy ===== *)
theory Fleet_State
  imports Pipeline Registration Ordered_Map
begin

text \<open>
  \<^verbatim>\<open>fleet/fleet_state.hpp\<close>: the canonical store. Each public method takes the single mutex for
  its whole body, so a method is one atomic step and is modelled as a function from the store to
  the store and its result. A method that returns early after it has already changed the store
  returns the changed store with the error.
\<close>

subsection \<open>Records\<close>

record NodeRecord =
  nr_node :: NodeId
  nr_generation :: NodeGeneration
  nr_first_seen :: Timestamp

record WorkerRecord =
  wr_worker :: WorkerId
  wr_boot :: WorkerBootId
  wr_registration_generation :: RegistrationGeneration
  wr_node :: NodeId
  wr_agent :: AgentId
  wr_agent_version :: SemanticVersion
  wr_protocol_version :: u32
  wr_os_platform :: string
  wr_driver_version :: string
  wr_device_identities :: "string list"
  wr_supported_capabilities :: "string list"
  wr_registered_at :: Timestamp
  wr_last_heartbeat :: Timestamp
  wr_registered_epoch :: CoordinatorEpoch
  wr_alive :: bool
  wr_fenced :: bool
  wr_lost :: bool

record Accounting =
  acc_registered_workers :: u64
  acc_live_workers :: u64
  acc_stale_workers :: u64
  acc_devices :: u64
  acc_eligible_devices :: u64
  acc_degraded_devices :: u64
  acc_quarantined_devices :: u64
  acc_drained_devices :: u64
  acc_active_registrations :: u64
  acc_accepted_observations :: u64

definition Accounting_zero :: Accounting where
  "Accounting_zero =
     \<lparr>acc_registered_workers = 0, acc_live_workers = 0, acc_stale_workers = 0, acc_devices = 0,
      acc_eligible_devices = 0, acc_degraded_devices = 0, acc_quarantined_devices = 0,
      acc_drained_devices = 0, acc_active_registrations = 0, acc_accepted_observations = 0\<rparr>"

definition Accounting_is_valid :: "Accounting \<Rightarrow> bool" where
  "Accounting_is_valid a \<longleftrightarrow>
     acc_registered_workers a \<ge> acc_live_workers a \<and> acc_live_workers a \<ge> acc_stale_workers a"

record StateSnapshot =
  sn_coordinator :: CoordinatorId
  sn_epoch :: CoordinatorEpoch
  sn_fleet_generation :: FleetGeneration
  sn_node_generation :: NodeGeneration
  sn_nodes :: "(NodeId, NodeRecord) omap"
  sn_workers :: "(WorkerId, WorkerRecord) omap"
  sn_devices :: "(string, DeviceState) omap"
  sn_change_log :: "ChangeRecord list"
  sn_accounting :: Accounting

record FleetStateStore =
  fs_coord :: CoordinatorId
  fs_epoch :: CoordinatorEpoch
  fs_fleet_gen :: FleetGeneration
  fs_node_gen :: NodeGeneration
  fs_nodes :: "(NodeId, NodeRecord) omap"
  fs_workers :: "(WorkerId, WorkerRecord) omap"
  fs_devices :: "(string, DeviceState) omap"
  fs_change_log :: "ChangeRecord list"
  fs_accepted_observations :: u64

definition FleetStateStore_init :: "CoordinatorId \<Rightarrow> CoordinatorEpoch \<Rightarrow> FleetStateStore" where
  "FleetStateStore_init coord initial_epoch =
     \<lparr>fs_coord = coord, fs_epoch = initial_epoch, fs_fleet_gen = Generation 1,
      fs_node_gen = Generation 1, fs_nodes = [], fs_workers = [], fs_devices = [],
      fs_change_log = [], fs_accepted_observations = 0\<rparr>"

definition FleetStateStore_new :: "CoordinatorId \<Rightarrow> FleetStateStore" where
  "FleetStateStore_new coord = FleetStateStore_init coord (Generation 0)"

definition coordinator_id :: "FleetStateStore \<Rightarrow> CoordinatorId" where
  "coordinator_id s = fs_coord s"

definition store_epoch :: "FleetStateStore \<Rightarrow> CoordinatorEpoch" where
  "store_epoch s = fs_epoch s"

subsection \<open>Private helpers\<close>

definition kMaxChangeLog :: nat where
  "kMaxChangeLog = 10000"

definition push_change :: "ChangeRecord \<Rightarrow> FleetStateStore \<Rightarrow> FleetStateStore" where
  "push_change c s =
     (let log = fs_change_log s @ [c]
      in s\<lparr>fs_change_log := (if length log > kMaxChangeLog then tl log else log)\<rparr>)"

definition recompute_device_eligibility :: "DeviceState \<Rightarrow> DeviceState" where
  "recompute_device_eligibility d =
     (let elig = evaluate_eligibility
            (EligibilityInput_default
               \<lparr>ei_health := ds_health d,
                ei_observation_fresh := ds_observation_fresh d,
                ei_observed_generation := ds_generation d,
                ei_current_generation := ds_generation d,
                ei_drain_active := ds_drain d \<noteq> ACTIVE,
                ei_quarantine := ds_quarantined d,
                ei_device_present := ds_present d,
                ei_cuda_available := ds_core_validation_ok d \<and> ds_present d,
                ei_available_memory := ds_free_memory d,
                ei_required_memory := 0\<rparr>)
      in d\<lparr>ds_eligibility := er_state elig, ds_eligibility_reasons := er_reasons elig\<rparr>)"

definition update_worker_devices_locked :: "WorkerRecord \<Rightarrow> string list \<Rightarrow> WorkerRecord" where
  "update_worker_devices_locked wr enumerated = wr\<lparr>wr_device_identities := enumerated\<rparr>"

definition worker_live :: "WorkerRecord \<Rightarrow> bool" where
  "worker_live wr \<longleftrightarrow> wr_alive wr \<and> \<not> wr_lost wr \<and> \<not> wr_fenced wr"

definition count_worker :: "WorkerRecord \<Rightarrow> Accounting \<Rightarrow> Accounting" where
  "count_worker wr a =
     (let a1 = a\<lparr>acc_registered_workers := acc_registered_workers a + 1\<rparr>;
          a2 = (if worker_live wr then a1\<lparr>acc_live_workers := acc_live_workers a1 + 1\<rparr> else a1);
          a3 = (if wr_lost wr \<or> wr_fenced wr \<or> \<not> wr_alive wr
                then a2\<lparr>acc_stale_workers := acc_stale_workers a2 + 1\<rparr> else a2)
      in if worker_live wr then a3\<lparr>acc_active_registrations := acc_active_registrations a3 + 1\<rparr> else a3)"

definition count_device :: "DeviceState \<Rightarrow> Accounting \<Rightarrow> Accounting" where
  "count_device d a =
     (let a1 = a\<lparr>acc_devices := acc_devices a + 1\<rparr>
      in case ds_eligibility d of
           EligibilityState.ELIGIBLE \<Rightarrow> a1\<lparr>acc_eligible_devices := acc_eligible_devices a1 + 1\<rparr>
         | EligibilityState.DEGRADED_ELIGIBLE \<Rightarrow> a1\<lparr>acc_degraded_devices := acc_degraded_devices a1 + 1\<rparr>
         | EligibilityState.QUARANTINED \<Rightarrow> a1\<lparr>acc_quarantined_devices := acc_quarantined_devices a1 + 1\<rparr>
         | EligibilityState.DRAINING \<Rightarrow> a1\<lparr>acc_drained_devices := acc_drained_devices a1 + 1\<rparr>
         | _ \<Rightarrow> a1)"

definition recompute_accounting_locked :: "FleetStateStore \<Rightarrow> Accounting" where
  "recompute_accounting_locked s =
     (let a = fold (\<lambda>(k, wr). count_worker wr) (fs_workers s) Accounting_zero;
          b = fold (\<lambda>(k, d). count_device d) (fs_devices s) a
      in b\<lparr>acc_accepted_observations := fs_accepted_observations s\<rparr>)"

subsection \<open>Epoch, registration, recovery\<close>

definition roll_epoch :: "CoordinatorEpoch \<Rightarrow> FleetStateStore \<Rightarrow> FleetStateStore \<times> ResultVoid" where
  "roll_epoch ne s =
     (if ne \<le> fs_epoch s
      then (s, void_of_error (error_result Stale ''epoch roll must be strictly forward''))
      else (s\<lparr>fs_epoch := ne, fs_fleet_gen := gen_next (fs_fleet_gen s)\<rparr>, void_ok_result))"

definition new_worker_record :: "Registration \<Rightarrow> Timestamp \<Rightarrow> WorkerRecord" where
  "new_worker_record reg now =
     update_worker_devices_locked
       \<lparr>wr_worker = reg_worker reg,
        wr_boot = reg_worker_boot reg,
        wr_registration_generation = reg_registration_generation reg,
        wr_node = reg_node reg,
        wr_agent = StrongId (id_value (reg_worker reg) + 1),
        wr_agent_version = reg_agent_version reg,
        wr_protocol_version = reg_protocol_version reg,
        wr_os_platform = reg_os_platform reg,
        wr_driver_version = reg_driver_version reg,
        wr_device_identities = [],
        wr_supported_capabilities = reg_supported_capabilities reg,
        wr_registered_at = now,
        wr_last_heartbeat = now,
        wr_registered_epoch = reg_epoch reg,
        wr_alive = True,
        wr_fenced = False,
        wr_lost = False\<rparr>
       (reg_enumerated_devices reg)"

definition reaffirmed :: "Registration \<Rightarrow> Timestamp \<Rightarrow> WorkerRecord \<Rightarrow> WorkerRecord" where
  "reaffirmed reg now wr =
     update_worker_devices_locked
       (wr\<lparr>wr_registration_generation := reg_registration_generation reg,
           wr_last_heartbeat := now, wr_alive := True, wr_lost := False\<rparr>)
       (reg_enumerated_devices reg)"

definition registration_id :: "Registration \<Rightarrow> RegistrationId" where
  "registration_id reg = StrongId (gen_value (reg_registration_generation reg) + 1)"

definition new_node_record :: "Registration \<Rightarrow> Timestamp \<Rightarrow> NodeRecord" where
  "new_node_record reg now =
     \<lparr>nr_node = reg_node reg, nr_generation = Generation 1, nr_first_seen = now\<rparr>"

definition register_worker ::
  "Registration \<Rightarrow> Timestamp \<Rightarrow> FleetStateStore \<Rightarrow> FleetStateStore \<times> RegistrationId Result" where
  "register_worker reg now s =
     (if reg_epoch reg \<noteq> fs_epoch s
      then (s, Inl (error_result Stale
             (''registration epoch stale ('' @ dec_string (unat (gen_value (reg_epoch reg))) @ '' != '' @
              dec_string (unat (gen_value (fs_epoch s))) @ '')'')))
      else if reg_protocol_version reg = 0
      then (s, Inl (error_result ProtocolMismatch ''zero protocol version''))
      else case om_find (fs_workers s) (reg_worker reg) of
        Some wr \<Rightarrow>
          if wr_boot wr = reg_worker_boot reg
          then if reg_registration_generation reg \<le> wr_registration_generation wr
               then (s, Inl (error_result Stale ''stale registration generation''))
               else (s\<lparr>fs_workers := om_put (reg_worker reg) (reaffirmed reg now wr) (fs_workers s)\<rparr>,
                     Inr (registration_id reg))
          else if \<not> wr_fenced wr \<and> \<not> wr_lost wr \<and> wr_alive wr
          then (s, Inl (error_result Duplicate ''duplicate registration identity already active''))
          else (s\<lparr>fs_workers := om_put (reg_worker reg) (new_worker_record reg now) (fs_workers s),
                  fs_nodes := om_emplace (reg_node reg) (new_node_record reg now) (fs_nodes s)\<rparr>,
                Inr (registration_id reg))
      | None \<Rightarrow>
          (s\<lparr>fs_workers := om_emplace (reg_worker reg) (new_worker_record reg now) (fs_workers s),
             fs_nodes := om_emplace (reg_node reg) (new_node_record reg now) (fs_nodes s)\<rparr>,
           Inr (registration_id reg)))"

definition restore_device :: "DeviceState \<Rightarrow> DeviceState" where
  "restore_device d =
     (let d1 = d\<lparr>ds_observation_fresh := False\<rparr>
      in if ds_quarantined d1 then d1\<lparr>ds_eligibility := EligibilityState.QUARANTINED\<rparr>
         else if ds_drain d1 \<noteq> ACTIVE then d1\<lparr>ds_eligibility := EligibilityState.DRAINING\<rparr>
         else d1\<lparr>ds_eligibility := EligibilityState.STALE,
                 ds_eligibility_reasons := [EligibilityReason.STALE_OBSERVATION]\<rparr>)"

definition restore :: "StateSnapshot \<Rightarrow> FleetStateStore \<Rightarrow> FleetStateStore \<times> ResultVoid" where
  "restore sn s =
     (s\<lparr>fs_coord := sn_coordinator sn, fs_epoch := sn_epoch sn,
        fs_fleet_gen := sn_fleet_generation sn, fs_node_gen := sn_node_generation sn,
        fs_nodes := sn_nodes sn, fs_workers := sn_workers sn,
        fs_devices := om_map restore_device (sn_devices sn),
        fs_change_log := sn_change_log sn, fs_accepted_observations := 0\<rparr>,
      void_ok_result)"

definition lose_device :: "DeviceState \<Rightarrow> DeviceState" where
  "lose_device d =
     (let d1 = d\<lparr>ds_observation_fresh := False\<rparr>
      in if ds_present d1
         then d1\<lparr>ds_present := False, ds_health := HealthState.LOST,
                 ds_eligibility := EligibilityState.INELIGIBLE,
                 ds_eligibility_reasons := [EligibilityReason.WORKER_RESTART]\<rparr>
         else d1)"

definition mark_worker_lost ::
  "WorkerId \<Rightarrow> Timestamp \<Rightarrow> FleetStateStore \<Rightarrow> FleetStateStore \<times> ResultVoid" where
  "mark_worker_lost w now s =
     (case om_find (fs_workers s) w of
        None \<Rightarrow> (s, void_ok_result)
      | Some wr \<Rightarrow>
          (s\<lparr>fs_workers := om_put w (wr\<lparr>wr_lost := True, wr_alive := False, wr_fenced := True\<rparr>) (fs_workers s),
             fs_devices := fold (\<lambda>d. om_modify d lose_device) (wr_device_identities wr) (fs_devices s)\<rparr>,
           void_ok_result))"

subsection \<open>Ingesting a worker's snapshot\<close>

text \<open>One accepted observation: the store update and the value left in \<^verbatim>\<open>last\<close>.\<close>

definition prior_state :: "FleetStateStore \<Rightarrow> DeviceObservation \<Rightarrow> DeviceState" where
  "prior_state s ob =
     (case om_find (fs_devices s) (canonical_device_identity (o_identity ob)) of
        None \<Rightarrow> DeviceState_default | Some d \<Rightarrow> d)"

definition applied_for ::
  "ObservationPolicy \<Rightarrow> Timestamp \<Rightarrow> FleetStateStore \<Rightarrow> DeviceObservation \<Rightarrow> AppliedObservation" where
  "applied_for policy now s ob =
     (let applied = apply_observation (prior_state s ob) ob policy now (fs_epoch s)
      in applied\<lparr>ao_state := (ao_state applied)\<lparr>ds_health_generation := o_health_generation ob\<rparr>\<rparr>)"

definition commit_observation ::
  "WorkerId \<Rightarrow> ObservationPolicy \<Rightarrow> Timestamp \<Rightarrow> DeviceObservation \<Rightarrow> FleetStateStore \<Rightarrow> FleetStateStore"
where
  "commit_observation worker policy now ob s =
     (let key = canonical_device_identity (o_identity ob);
          applied = applied_for policy now s ob;
          replaced = om_find (fs_devices s) key \<noteq> None;
          s1 = s\<lparr>fs_devices := om_put key (ao_state applied) (fs_devices s)\<rparr>;
          s2 = fold push_change (ao_changes applied) s1;
          s3 = (if replaced then s2
                else s2\<lparr>fs_workers := om_modify worker
                          (\<lambda>wr. wr\<lparr>wr_device_identities := wr_device_identities wr @ [key]\<rparr>)
                          (fs_workers s2)\<rparr>)
      in s3\<lparr>fs_accepted_observations := fs_accepted_observations s3 + 1\<rparr>)"

text \<open>What the checks at the head of the loop body decide about one observation.\<close>

datatype verdict = Reject Error | Skip | Accept

definition judge_observation ::
  "WorkerId \<Rightarrow> WorkerBootId \<Rightarrow> DeviceObservation \<Rightarrow> FleetStateStore \<Rightarrow> verdict" where
  "judge_observation worker boot ob s =
     (if o_epoch ob \<noteq> fs_epoch s
      then Reject (error_result Stale ''stale coordinator epoch in observation'')
      else if o_source_worker_boot ob \<noteq> boot
      then Reject (error_result Stale ''stale worker boot id in observation'')
      else if o_source_worker ob \<noteq> worker
      then Reject (error_result IdentityMismatch ''observation worker identity mismatch'')
      else
        let dit = om_find (fs_devices s) (canonical_device_identity (o_identity ob));
            prior = prior_state s ob;
            new_device = (dit = None);
            same_incarnation = (\<not> new_device \<and> o_source_worker_boot ob = ds_source_worker_boot prior)
        in if same_incarnation \<and> o_observation_generation ob \<le> ds_observation_generation prior then Skip
           else if same_incarnation \<and> o_device_generation ob < ds_generation prior
           then Reject (error_result InvalidGeneration ''stale device generation'')
           else if \<not> new_device \<and> o_health_generation ob < ds_health_generation prior \<and>
                   o_source_worker_boot ob = ds_source_worker_boot prior
           then Reject (error_result InvalidGeneration ''stale health generation'')
           else Accept)"

text \<open>
  The loop keeps the store, the set of keys it has seen and the last applied observation. An
  error leaves the loop at once; the observations committed before it stay in the store.
\<close>

fun ingest_loop ::
  "WorkerId \<Rightarrow> WorkerBootId \<Rightarrow> ObservationPolicy \<Rightarrow> Timestamp \<Rightarrow> DeviceObservation list \<Rightarrow>
   string set \<Rightarrow> AppliedObservation \<Rightarrow> FleetStateStore \<Rightarrow>
   FleetStateStore \<times> (string set \<times> AppliedObservation) Result" where
  "ingest_loop worker boot policy now [] seen_keys last_ao s = (s, Inr (seen_keys, last_ao))"
| "ingest_loop worker boot policy now (ob # obs) seen_keys last_ao s =
     (case judge_observation worker boot ob s of
        Reject e \<Rightarrow> (s, Inl e)
      | Skip \<Rightarrow> ingest_loop worker boot policy now obs seen_keys last_ao s
      | Accept \<Rightarrow> ingest_loop worker boot policy now obs
                   (insert (canonical_device_identity (o_identity ob)) seen_keys)
                   (applied_for policy now s ob)
                   (commit_observation worker policy now ob s))"

definition vanish_device :: "DeviceState \<Rightarrow> DeviceState" where
  "vanish_device d =
     d\<lparr>ds_present := False, ds_observation_fresh := False, ds_health := HealthState.LOST,
       ds_eligibility := EligibilityState.INELIGIBLE,
       ds_eligibility_reasons := [EligibilityReason.DEVICE_DISAPPEARANCE]\<rparr>"

definition disappear :: "string set \<Rightarrow> Timestamp \<Rightarrow> string \<Rightarrow> FleetStateStore \<Rightarrow> FleetStateStore" where
  "disappear seen_keys now key s =
     (if key \<in> seen_keys then s
      else case om_find (fs_devices s) key of
        None \<Rightarrow> s
      | Some d \<Rightarrow>
          (let s1 = push_change
                 \<lparr>cr_kind = DEVICE_DISAPPEARED, cr_device_id = ds_device_id d, cr_at = now,
                  cr_generation = ds_generation d, cr_epoch = fs_epoch s,
                  cr_detail = ''device no longer reported by worker'',
                  cr_from = ''present'', cr_to = ''absent''\<rparr> s
           in s1\<lparr>fs_devices := om_put key (vanish_device d) (fs_devices s1)\<rparr>))"

definition owned_keys :: "WorkerId \<Rightarrow> FleetStateStore \<Rightarrow> string list" where
  "owned_keys worker s =
     (case om_find (fs_workers s) worker of None \<Rightarrow> [] | Some wr \<Rightarrow> wr_device_identities wr)"

definition ingest_snapshot ::
  "WorkerId \<Rightarrow> DeviceObservation list \<Rightarrow> ObservationPolicy \<Rightarrow> Timestamp \<Rightarrow> FleetStateStore \<Rightarrow>
   FleetStateStore \<times> AppliedObservation Result" where
  "ingest_snapshot worker obs policy now s =
     (case om_find (fs_workers s) worker of
        None \<Rightarrow> (s, Inl (error_result NotFound ''unregistered worker''))
      | Some wr \<Rightarrow>
          if wr_lost wr \<or> wr_fenced wr
          then (s, Inl (error_result NotAuthoritative ''worker is fenced/lost''))
          else case ingest_loop worker (wr_boot wr) policy now obs {} AppliedObservation_default s of
            (s1, Inl e) \<Rightarrow> (s1, Inl e)
          | (s1, Inr (seen_keys, last_ao)) \<Rightarrow>
              (let s2 = fold (disappear seen_keys now) (owned_keys worker s1) s1
               in (s2\<lparr>fs_workers := om_modify worker
                        (\<lambda>wr. wr\<lparr>wr_last_heartbeat := now, wr_alive := True\<rparr>) (fs_workers s2)\<rparr>,
                   Inr last_ao)))"

subsection \<open>Heartbeat, drain, quarantine\<close>

definition heartbeat ::
  "WorkerId \<Rightarrow> WorkerBootId \<Rightarrow> CoordinatorEpoch \<Rightarrow> Timestamp \<Rightarrow> HealthGeneration \<Rightarrow> FleetStateStore \<Rightarrow>
   FleetStateStore \<times> ResultVoid" where
  "heartbeat worker boot epoch now hg s =
     (if epoch \<noteq> fs_epoch s then (s, void_of_error (error_result Stale ''stale heartbeat epoch''))
      else case om_find (fs_workers s) worker of
        None \<Rightarrow> (s, void_of_error (error_result NotFound ''unregistered worker''))
      | Some wr \<Rightarrow>
          if wr_boot wr \<noteq> boot
          then (s, void_of_error (error_result Stale ''stale heartbeat boot id''))
          else (s\<lparr>fs_workers := om_put worker
                    (wr\<lparr>wr_last_heartbeat := now, wr_alive := True, wr_lost := False\<rparr>) (fs_workers s)\<rparr>,
                void_ok_result))"

definition set_drain ::
  "WorkerId \<Rightarrow> string \<Rightarrow> DrainState \<Rightarrow> Timestamp \<Rightarrow> FleetStateStore \<Rightarrow> FleetStateStore \<times> ResultVoid" where
  "set_drain w identity d now s =
     (case om_find (fs_devices s) identity of
        None \<Rightarrow> (s, void_of_error (error_result NotFound ''device not found''))
      | Some dev \<Rightarrow>
          if ds_drain dev = d then (s, void_ok_result)
          else
            let dev' = recompute_device_eligibility (dev\<lparr>ds_drain := d\<rparr>);
                kind = (if DrainState_to_u8 d \<ge> DrainState_to_u8 DrainState.DRAINING
                        then DRAIN_INITIATED else DRAIN_COMPLETED)
            in (push_change
                  \<lparr>cr_kind = kind, cr_device_id = ds_device_id dev', cr_at = now,
                   cr_generation = ds_generation dev', cr_epoch = fs_epoch s,
                   cr_detail = ''drain state changed'', cr_from = DrainState_to_string (ds_drain dev),
                   cr_to = DrainState_to_string d\<rparr>
                  (s\<lparr>fs_devices := om_put identity dev' (fs_devices s)\<rparr>),
                void_ok_result))"

definition set_quarantine ::
  "WorkerId \<Rightarrow> string \<Rightarrow> QuarantineRecord \<Rightarrow> Timestamp \<Rightarrow> FleetStateStore \<Rightarrow> FleetStateStore \<times> ResultVoid"
where
  "set_quarantine w identity q now s =
     (case om_find (fs_devices s) identity of
        None \<Rightarrow> (s, void_of_error (error_result NotFound ''device not found''))
      | Some dev \<Rightarrow>
          if q_generation q < ds_generation dev
          then (s, void_of_error (error_result InvalidGeneration ''stale quarantine generation''))
          else
            let dev' = recompute_device_eligibility (dev\<lparr>ds_quarantined := True, ds_quarantine := q\<rparr>);
                s1 = s\<lparr>fs_devices := om_put identity dev' (fs_devices s)\<rparr>
            in (if \<not> ds_quarantined dev
                then push_change
                       \<lparr>cr_kind = QUARANTINE_APPLIED, cr_device_id = ds_device_id dev', cr_at = now,
                        cr_generation = ds_generation dev', cr_epoch = fs_epoch s,
                        cr_detail = q_reason q, cr_from = ''false'', cr_to = ''true''\<rparr> s1
                else s1,
                void_ok_result))"

definition clear_quarantine ::
  "WorkerId \<Rightarrow> string \<Rightarrow> CoordinatorEpoch \<Rightarrow> Timestamp \<Rightarrow> FleetStateStore \<Rightarrow> FleetStateStore \<times> ResultVoid"
where
  "clear_quarantine w identity epoch now s =
     (if epoch \<noteq> fs_epoch s then (s, void_of_error (error_result Stale ''stale epoch in clear''))
      else case om_find (fs_devices s) identity of
        None \<Rightarrow> (s, void_of_error (error_result NotFound ''device not found''))
      | Some dev \<Rightarrow>
          if \<not> ds_quarantined dev
          then (s, void_of_error (error_result NotFound ''device not quarantined''))
          else
            let dev' = recompute_device_eligibility
                         (dev\<lparr>ds_quarantined := False, ds_quarantine := QuarantineRecord_default\<rparr>)
            in (push_change
                  \<lparr>cr_kind = QUARANTINE_CLEARED, cr_device_id = ds_device_id dev', cr_at = now,
                   cr_generation = ds_generation dev', cr_epoch = fs_epoch s,
                   cr_detail = ''quarantine cleared'', cr_from = ''true'', cr_to = ''false''\<rparr>
                  (s\<lparr>fs_devices := om_put identity dev' (fs_devices s)\<rparr>),
                void_ok_result))"

definition snapshot :: "FleetStateStore \<Rightarrow> StateSnapshot" where
  "snapshot s =
     \<lparr>sn_coordinator = fs_coord s, sn_epoch = fs_epoch s, sn_fleet_generation = fs_fleet_gen s,
      sn_node_generation = fs_node_gen s, sn_nodes = fs_nodes s, sn_workers = fs_workers s,
      sn_devices = fs_devices s, sn_change_log = fs_change_log s,
      sn_accounting = recompute_accounting_locked s\<rparr>"

definition accounting :: "FleetStateStore \<Rightarrow> Accounting" where
  "accounting s = recompute_accounting_locked s"

definition changes :: "FleetStateStore \<Rightarrow> ChangeRecord list" where
  "changes s = fs_change_log s"

definition device_exists :: "FleetStateStore \<Rightarrow> string \<Rightarrow> bool" where
  "device_exists s identity \<longleftrightarrow> om_find (fs_devices s) identity \<noteq> None"

definition accepted_observations :: "FleetStateStore \<Rightarrow> u64" where
  "accepted_observations s = fs_accepted_observations s"


subsection \<open>What each operation leaves alone\<close>

lemma push_change_fields [simp]:
  "fs_coord (push_change c s) = fs_coord s" "fs_epoch (push_change c s) = fs_epoch s"
  "fs_fleet_gen (push_change c s) = fs_fleet_gen s" "fs_node_gen (push_change c s) = fs_node_gen s"
  "fs_nodes (push_change c s) = fs_nodes s" "fs_workers (push_change c s) = fs_workers s"
  "fs_devices (push_change c s) = fs_devices s"
  "fs_accepted_observations (push_change c s) = fs_accepted_observations s"
  by (simp_all add: push_change_def Let_def)

lemma push_changes_fields [simp]:
  "fs_coord (fold push_change cs s) = fs_coord s" "fs_epoch (fold push_change cs s) = fs_epoch s"
  "fs_fleet_gen (fold push_change cs s) = fs_fleet_gen s"
  "fs_node_gen (fold push_change cs s) = fs_node_gen s"
  "fs_nodes (fold push_change cs s) = fs_nodes s" "fs_workers (fold push_change cs s) = fs_workers s"
  "fs_devices (fold push_change cs s) = fs_devices s"
  "fs_accepted_observations (fold push_change cs s) = fs_accepted_observations s"
  by (induction cs arbitrary: s) simp_all

lemma push_change_log_bound:
  "length (fs_change_log (push_change c s)) \<le> max kMaxChangeLog (length (fs_change_log s))"
  by (simp add: push_change_def Let_def)

lemma push_changes_log_bound:
  "length (fs_change_log (fold push_change cs s)) \<le> max kMaxChangeLog (length (fs_change_log s))"
proof (induction cs arbitrary: s)
  case Nil
  then show ?case by simp
next
  case (Cons c cs)
  from Cons.IH [of "push_change c s"] push_change_log_bound [of c s] show ?case by simp
qed

lemma recompute_fields [simp]:
  "ds_device_id (recompute_device_eligibility d) = ds_device_id d"
  "ds_generation (recompute_device_eligibility d) = ds_generation d"
  "ds_identity (recompute_device_eligibility d) = ds_identity d"
  "ds_present (recompute_device_eligibility d) = ds_present d"
  "ds_health (recompute_device_eligibility d) = ds_health d"
  "ds_drain (recompute_device_eligibility d) = ds_drain d"
  "ds_quarantined (recompute_device_eligibility d) = ds_quarantined d"
  "ds_quarantine (recompute_device_eligibility d) = ds_quarantine d"
  "ds_observation_fresh (recompute_device_eligibility d) = ds_observation_fresh d"
  "ds_observation_generation (recompute_device_eligibility d) = ds_observation_generation d"
  "ds_health_generation (recompute_device_eligibility d) = ds_health_generation d"
  "ds_source_worker_boot (recompute_device_eligibility d) = ds_source_worker_boot d"
  "ds_last_observed_at (recompute_device_eligibility d) = ds_last_observed_at d"
  by (simp_all add: recompute_device_eligibility_def Let_def)

lemma recompute_ELIGIBLE:
  "ds_eligibility (recompute_device_eligibility d) = EligibilityState.ELIGIBLE \<longleftrightarrow>
     \<not> ds_quarantined d \<and> ds_drain d = ACTIVE \<and> ds_observation_fresh d \<and> ds_present d \<and>
     ds_core_validation_ok d \<and> ds_health d = HealthState.HEALTHY"
  by (auto simp: recompute_device_eligibility_def Let_def evaluate_eligibility_ELIGIBLE gates_open_def
      EligibilityInput_default_def)

lemma recompute_justified [simp]: "device_justified (recompute_device_eligibility d)"
  by (auto simp: device_justified_def recompute_device_eligibility_def Let_def evaluate_eligibility_usable
      gates_open_def EligibilityInput_default_def)

lemma recompute_quarantined [simp]:
  "ds_quarantined d \<Longrightarrow> ds_eligibility (recompute_device_eligibility d) = EligibilityState.QUARANTINED"
  by (simp add: recompute_device_eligibility_def evaluate_eligibility_def)

text \<open>The state committed for an observation, as a function of the entry found under its key.\<close>

definition observed ::
  "DeviceState option \<Rightarrow> DeviceObservation \<Rightarrow> ObservationPolicy \<Rightarrow> Timestamp \<Rightarrow> CoordinatorEpoch \<Rightarrow> DeviceState"
where
  "observed p ob policy now epoch =
     (ao_state (apply_observation (case p of None \<Rightarrow> DeviceState_default | Some d \<Rightarrow> d) ob policy now epoch))
       \<lparr>ds_health_generation := o_health_generation ob\<rparr>"

lemma applied_state:
  "ao_state (applied_for policy now s ob)
     = observed (om_find (fs_devices s) (canonical_device_identity (o_identity ob))) ob policy now (fs_epoch s)"
  by (simp add: applied_for_def observed_def prior_state_def Let_def)

lemma commit_fields [simp]:
  "fs_coord (commit_observation w pol now ob s) = fs_coord s"
  "fs_epoch (commit_observation w pol now ob s) = fs_epoch s"
  "fs_fleet_gen (commit_observation w pol now ob s) = fs_fleet_gen s"
  "fs_node_gen (commit_observation w pol now ob s) = fs_node_gen s"
  "fs_nodes (commit_observation w pol now ob s) = fs_nodes s"
  "fs_accepted_observations (commit_observation w pol now ob s) = fs_accepted_observations s + 1"
  "fs_devices (commit_observation w pol now ob s)
     = om_put (canonical_device_identity (o_identity ob))
         (observed (om_find (fs_devices s) (canonical_device_identity (o_identity ob))) ob pol now (fs_epoch s))
         (fs_devices s)"
  by (simp_all add: commit_observation_def Let_def applied_state)

lemma commit_workers:
  "fs_workers (commit_observation w pol now ob s) =
     (if om_find (fs_devices s) (canonical_device_identity (o_identity ob)) = None
      then om_modify w (\<lambda>wr. wr\<lparr>wr_device_identities :=
             wr_device_identities wr @ [canonical_device_identity (o_identity ob)]\<rparr>) (fs_workers s)
      else fs_workers s)"
  by (auto simp: commit_observation_def Let_def)

lemma commit_log_bound:
  "length (fs_change_log (commit_observation w pol now ob s)) \<le> max kMaxChangeLog (length (fs_change_log s))"
  by (simp add: commit_observation_def Let_def)
    (use push_changes_log_bound [of _ "s\<lparr>fs_devices := _\<rparr>"] in \<open>auto simp: le_max_iff_disj\<close>)

lemma disappear_fields [simp]:
  "fs_coord (disappear seen now k s) = fs_coord s" "fs_epoch (disappear seen now k s) = fs_epoch s"
  "fs_fleet_gen (disappear seen now k s) = fs_fleet_gen s"
  "fs_node_gen (disappear seen now k s) = fs_node_gen s"
  "fs_nodes (disappear seen now k s) = fs_nodes s" "fs_workers (disappear seen now k s) = fs_workers s"
  "fs_accepted_observations (disappear seen now k s) = fs_accepted_observations s"
  by (simp_all add: disappear_def Let_def split: option.splits)

lemma disappear_devices:
  "fs_devices (disappear seen now k s) =
     (if k \<in> seen then fs_devices s else om_modify k vanish_device (fs_devices s))"
  by (auto simp: disappear_def om_modify_def Let_def split: option.splits)

lemma disappear_log_bound:
  "length (fs_change_log (disappear seen now k s)) \<le> max kMaxChangeLog (length (fs_change_log s))"
  using push_change_log_bound [of _ s] by (auto simp: disappear_def Let_def split: option.splits)


end
