(* ===== verification/Fleet_Safety.thy ===== *)
theory Fleet_Safety
  imports Fleet_State
begin

text \<open>
  The fleet store as a state machine. Every method of the store holds the mutex from its first
  to its last line, so what the coordinator's threads do to the store is a sequence of the
  operations of \<open>store_op\<close>; a restart is \<^verbatim>\<open>restore\<close> on a decoded snapshot.

  A device alone is specified by the labelled step relation \<open>device_step\<close>. The refinement
  lemma \<open>run_op_device_run\<close> shows that each store operation acts on the entry under each key as
  a run of that machine and names the events it may contain; device-level invariants then lift
  to every reachable store through the locale \<open>device_invariant\<close>.
\<close>

subsection \<open>Operations and reachable stores\<close>

datatype store_op =
    RollEpoch CoordinatorEpoch
  | Register Registration Timestamp
  | MarkLost WorkerId Timestamp
  | Ingest WorkerId "DeviceObservation list" ObservationPolicy Timestamp
  | Heartbeat WorkerId WorkerBootId CoordinatorEpoch Timestamp HealthGeneration
  | SetDrain WorkerId string DrainState Timestamp
  | SetQuarantine WorkerId string QuarantineRecord Timestamp
  | ClearQuarantine WorkerId string CoordinatorEpoch Timestamp

fun run_op :: "store_op \<Rightarrow> FleetStateStore \<Rightarrow> FleetStateStore" where
  "run_op (RollEpoch ne) s = fst (roll_epoch ne s)"
| "run_op (Register reg now) s = fst (register_worker reg now s)"
| "run_op (MarkLost w now) s = fst (mark_worker_lost w now s)"
| "run_op (Ingest w obs pol now) s = fst (ingest_snapshot w obs pol now s)"
| "run_op (Heartbeat w b e now hg) s = fst (heartbeat w b e now hg s)"
| "run_op (SetDrain w i d now) s = fst (set_drain w i d now s)"
| "run_op (SetQuarantine w i q now) s = fst (set_quarantine w i q now s)"
| "run_op (ClearQuarantine w i e now) s = fst (clear_quarantine w i e now s)"

abbreviation run_ops :: "store_op list \<Rightarrow> FleetStateStore \<Rightarrow> FleetStateStore" where
  "run_ops ops s \<equiv> fold run_op ops s"

definition snapshot_maps_ok :: "StateSnapshot \<Rightarrow> bool" where
  "snapshot_maps_ok sn \<longleftrightarrow>
     om_ok (sn_nodes sn) \<and> om_ok (sn_workers sn) \<and> om_ok (sn_devices sn) \<and>
     (\<forall>(w, wr) \<in> set (sn_workers sn). wr_worker wr = w)"

inductive reachable :: "FleetStateStore \<Rightarrow> bool" where
  start: "reachable (FleetStateStore_init coord epoch)"
| step: "reachable s \<Longrightarrow> reachable (run_op op s)"
| recover: "reachable s \<Longrightarrow> snapshot_maps_ok sn \<Longrightarrow> reachable (fst (restore sn s))"

subsection \<open>The machine of a single device\<close>

datatype device_event =
    Observe DeviceObservation ObservationPolicy Timestamp CoordinatorEpoch
  | Lose
  | Vanish
  | Drain DrainState
  | Quarantine QuarantineRecord
  | Clear

text \<open>An observation of the same worker incarnation has to move the generations forward.\<close>

definition supersedes :: "DeviceObservation \<Rightarrow> DeviceState option \<Rightarrow> bool" where
  "supersedes ob p =
     (case p of None \<Rightarrow> True
      | Some d \<Rightarrow> o_source_worker_boot ob = ds_source_worker_boot d \<longrightarrow>
          ds_observation_generation d < o_observation_generation ob \<and>
          ds_generation d \<le> o_device_generation ob \<and>
          ds_health_generation d \<le> o_health_generation ob)"

inductive device_step :: "DeviceState option \<Rightarrow> device_event \<Rightarrow> DeviceState option \<Rightarrow> bool" where
  observe: "supersedes ob p \<Longrightarrow> o_epoch ob = ep \<Longrightarrow>
      device_step p (Observe ob pol now ep) (Some (observed p ob pol now ep))"
| lose: "device_step (Some d) Lose (Some (lose_device d))"
| vanish: "device_step (Some d) Vanish (Some (vanish_device d))"
| drain: "device_step (Some d) (Drain x) (Some (recompute_device_eligibility (d\<lparr>ds_drain := x\<rparr>)))"
| quarantine: "ds_generation d \<le> q_generation q \<Longrightarrow> device_step (Some d) (Quarantine q)
      (Some (recompute_device_eligibility (d\<lparr>ds_quarantined := True, ds_quarantine := q\<rparr>)))"
| clear: "ds_quarantined d \<Longrightarrow> device_step (Some d) Clear
      (Some (recompute_device_eligibility
               (d\<lparr>ds_quarantined := False, ds_quarantine := QuarantineRecord_default\<rparr>)))"

inductive_cases device_stepE: "device_step p e p'"

definition device_run ::
  "(device_event \<Rightarrow> bool) \<Rightarrow> DeviceState option \<Rightarrow> DeviceState option \<Rightarrow> bool" where
  "device_run allowed = (\<lambda>p p'. \<exists>e. allowed e \<and> device_step p e p')\<^sup>*\<^sup>*"

lemma device_run_refl [simp]: "device_run allowed p p"
  by (simp add: device_run_def)

lemma device_run_step: "device_step p e p' \<Longrightarrow> allowed e \<Longrightarrow> device_run allowed p p'"
  unfolding device_run_def by blast

lemma device_run_trans: "device_run a p q \<Longrightarrow> device_run a q r \<Longrightarrow> device_run a p r"
  unfolding device_run_def by (rule rtranclp_trans)

text \<open>A property of device states that every event keeps holds after every run.\<close>

lemma device_run_keeps:
  assumes "device_run allowed p p'"
    and "\<And>p e p'. device_step p e p' \<Longrightarrow> allowed e \<Longrightarrow> I p \<Longrightarrow> I p'" and "I p"
  shows "I p'"
  using assms(1) unfolding device_run_def
  by (induction rule: rtranclp_induct) (auto intro: assms)

text \<open>
  The events an operation may cause at the entry under a key. Ingesting needs a registered worker
  that is neither lost nor fenced; it applies only observations that carry the current epoch, the
  registered boot of the worker and its identity, and only keys the worker owns can vanish.
\<close>

definition authoritative :: "FleetStateStore \<Rightarrow> WorkerId \<Rightarrow> WorkerBootId \<Rightarrow> bool" where
  "authoritative s w boot \<longleftrightarrow>
     (\<exists>wr. om_find (fs_workers s) w = Some wr \<and> wr_boot wr = boot \<and> \<not> wr_lost wr \<and> \<not> wr_fenced wr)"

definition ingest_events ::
  "WorkerId \<Rightarrow> WorkerBootId \<Rightarrow> CoordinatorEpoch \<Rightarrow> string set \<Rightarrow> DeviceObservation list \<Rightarrow>
   ObservationPolicy \<Rightarrow> Timestamp \<Rightarrow> string \<Rightarrow> device_event \<Rightarrow> bool" where
  "ingest_events w boot ep owned obs pol now k e =
     (case e of
        Observe ob pol' now' ep' \<Rightarrow>
          ob \<in> set obs \<and> canonical_device_identity (o_identity ob) = k \<and> pol' = pol \<and> now' = now \<and>
          ep' = ep \<and> o_epoch ob = ep \<and> o_source_worker_boot ob = boot \<and> o_source_worker ob = w
      | Vanish \<Rightarrow> k \<in> owned
      | _ \<Rightarrow> False)"

definition op_events :: "FleetStateStore \<Rightarrow> store_op \<Rightarrow> string \<Rightarrow> device_event \<Rightarrow> bool" where
  "op_events s op k e =
     (case op of
        MarkLost w now \<Rightarrow> e = Lose \<and> k \<in> set (owned_keys w s)
      | Ingest w obs pol now \<Rightarrow>
          (\<exists>boot. authoritative s w boot \<and>
             ingest_events w boot (fs_epoch s) (set (owned_keys w s)) obs pol now k e)
      | SetDrain w i d now \<Rightarrow> e = Drain d \<and> i = k
      | SetQuarantine w i q now \<Rightarrow> e = Quarantine q \<and> i = k
      | ClearQuarantine w i ep now \<Rightarrow> e = Clear \<and> i = k \<and> ep = fs_epoch s
      | _ \<Rightarrow> False)"

subsection \<open>Relations kept by ingesting\<close>

text \<open>
  A reflexive and transitive relation between stores that holds across one accepted observation,
  one disappearance and the final touch of the worker record holds across the whole operation,
  whether it returns an error or not.
\<close>

locale ingest_relation =
  fixes R :: "FleetStateStore \<Rightarrow> FleetStateStore \<Rightarrow> bool"
    and w :: WorkerId and boot :: WorkerBootId and owned :: "string set"
    and obs :: "DeviceObservation list" and pol :: ObservationPolicy and now :: Timestamp
  assumes rel_refl: "R s s"
    and rel_trans: "R s s' \<Longrightarrow> R s' s'' \<Longrightarrow> R s s''"
    and rel_commit: "ob \<in> set obs \<Longrightarrow> judge_observation w boot ob s = Accept \<Longrightarrow>
          R s (commit_observation w pol now ob s)"
    and rel_disappear: "k \<in> owned \<or> k \<in> seen \<Longrightarrow> R s (disappear seen now k s)"
    and rel_touch: "R s (s\<lparr>fs_workers := om_modify w
          (\<lambda>wr. wr\<lparr>wr_last_heartbeat := now, wr_alive := True\<rparr>) (fs_workers s)\<rparr>)"
begin

lemma rel_loop:
  "set obs' \<subseteq> set obs \<Longrightarrow> R s (fst (ingest_loop w boot pol now obs' seen ao s))"
proof (induction obs' arbitrary: s seen ao)
  case Nil
  then show ?case by (simp add: rel_refl)
next
  case (Cons ob obs')
  then show ?case
    by (cases "judge_observation w boot ob s") (auto simp: rel_refl intro: rel_trans rel_commit)
qed

lemma rel_disappears: "set ks \<subseteq> owned \<union> seen \<Longrightarrow> R s (fold (disappear seen now) ks s)"
proof (induction ks arbitrary: s)
  case (Cons k ks)
  then have "R s (disappear seen now k s)" by (auto intro: rel_disappear)
  with Cons show ?case by (auto intro: rel_trans)
qed (simp add: rel_refl)

lemma rel_finish:
  assumes "R s s1" and "s2 = fold (disappear seen now) ks s1" and "set ks \<subseteq> owned \<union> seen"
  shows "R s (s2\<lparr>fs_workers := om_modify w
           (\<lambda>wr. wr\<lparr>wr_last_heartbeat := now, wr_alive := True\<rparr>) (fs_workers s2)\<rparr>)"
proof -
  have "R s s2" using assms by (simp add: rel_trans [OF assms(1)] rel_disappears)
  then show ?thesis using rel_touch by (rule rel_trans)
qed

end

text \<open>A key that a worker gains while its snapshot is ingested has been seen.\<close>

lemma owned_commit:
  "set (owned_keys w (commit_observation w pol now ob s))
     \<subseteq> insert (canonical_device_identity (o_identity ob)) (set (owned_keys w s))"
  by (cases "om_find (fs_workers s) w") (auto simp: owned_keys_def commit_workers om_find_modify)

lemma ingest_loop_owned:
  assumes "ingest_loop w boot pol now obs seen ao s = (s1, Inr (seen', ao'))"
  shows "set (owned_keys w s1) \<subseteq> set (owned_keys w s) \<union> seen' \<and> seen \<subseteq> seen'"
  using assms
proof (induction obs arbitrary: seen ao s)
  case (Cons ob obs)
  show ?case
  proof (cases "judge_observation w boot ob s")
    case Accept
    with Cons.prems have "set (owned_keys w s1) \<subseteq> set (owned_keys w (commit_observation w pol now ob s)) \<union> seen'
        \<and> insert (canonical_device_identity (o_identity ob)) seen \<subseteq> seen'"
      by (intro Cons.IH) simp
    then show ?thesis using owned_commit [of w pol now ob s] by blast
  qed (use Cons in simp_all)
qed simp

context ingest_relation
begin

lemma rel_ingest:
  assumes "om_find (fs_workers s) w = Some wr" "wr_boot wr = boot" "set (owned_keys w s) \<subseteq> owned"
  shows "R s (fst (ingest_snapshot w obs pol now s))"
proof -
  obtain s1 res where loop:
    "ingest_loop w boot pol now obs {} AppliedObservation_default s = (s1, res)"
    by (metis surj_pair)
  then have "R s s1" using rel_loop [of obs s "{}" AppliedObservation_default] by simp
  moreover have "set (owned_keys w s1) \<subseteq> owned \<union> seen" if "res = Inr (seen, ao)" for seen ao
    using ingest_loop_owned [of w boot pol now obs "{}" AppliedObservation_default s s1 seen ao] loop that assms(3)
    by auto
  ultimately show ?thesis
    using loop assms
    by (auto simp: ingest_snapshot_def Let_def rel_refl split: sum.splits intro!: rel_finish [OF _ refl])
qed

end

subsection \<open>Every store operation is a run of the device machine\<close>

lemma judge_accept:
  assumes "judge_observation w boot ob s = Accept"
  shows "o_epoch ob = fs_epoch s" "o_source_worker_boot ob = boot" "o_source_worker ob = w"
    "supersedes ob (om_find (fs_devices s) (canonical_device_identity (o_identity ob)))"
  using assms
  by (auto simp: judge_observation_def supersedes_def prior_state_def Let_def not_less not_le
      split: if_splits option.splits)

lemma om_modify_device_run:
  assumes "\<And>d. device_step (Some d) e (Some (f d))" "k' = k \<Longrightarrow> allowed e"
  shows "device_run allowed (om_find m k) (om_find (om_modify k' f m) k)"
proof (cases "k' = k")
  case True
  with assms have "device_run allowed (Some d) (Some (f d))" for d
    by (blast intro: device_run_step)
  with True show ?thesis by (cases "om_find m k") (auto simp: om_find_modify)
qed (simp add: om_find_modify)

lemma fold_modify_device_run:
  assumes "\<And>d. device_step (Some d) e (Some (f d))" "k \<in> set js \<Longrightarrow> allowed e"
  shows "device_run allowed (om_find m k) (om_find (fold (\<lambda>j. om_modify j f) js m) k)"
  using assms(2)
proof (induction js arbitrary: m)
  case (Cons j js)
  have "device_run allowed (om_find m k) (om_find (om_modify j f m) k)"
    using Cons.prems by (intro om_modify_device_run [OF assms(1)]) simp
  moreover have "device_run allowed (om_find (om_modify j f m) k)
      (om_find (fold (\<lambda>j. om_modify j f) (j # js) m) k)"
    using Cons by simp
  ultimately show ?case by (rule device_run_trans)
qed simp

abbreviation devices_run ::
  "(string \<Rightarrow> device_event \<Rightarrow> bool) \<Rightarrow> FleetStateStore \<Rightarrow> FleetStateStore \<Rightarrow> bool" where
  "devices_run allowed s s' \<equiv> (\<forall>k. device_run (allowed k) (om_find (fs_devices s) k) (om_find (fs_devices s') k))"

lemma commit_device_run:
  assumes "ob \<in> set obs" "judge_observation w boot ob s = Accept"
  shows "devices_run (ingest_events w boot (fs_epoch s) owned obs pol now) s (commit_observation w pol now ob s)"
proof
  fix k
  show "device_run (ingest_events w boot (fs_epoch s) owned obs pol now k) (om_find (fs_devices s) k)
          (om_find (fs_devices (commit_observation w pol now ob s)) k)"
  proof (cases "k = canonical_device_identity (o_identity ob)")
    case True
    with assms have "device_step (om_find (fs_devices s) k) (Observe ob pol now (fs_epoch s))
        (Some (observed (om_find (fs_devices s) k) ob pol now (fs_epoch s)))"
      by (auto intro: device_step.observe dest: judge_accept)
    then show ?thesis
      using True assms by (auto simp: ingest_events_def intro!: device_run_step dest: judge_accept)
  qed simp
qed

interpretation ingest_devices: ingest_relation
  "\<lambda>s s'. fs_epoch s' = fs_epoch s \<and>
          (fs_epoch s = ep \<longrightarrow> devices_run (ingest_events w boot ep owned obs pol now) s s')"
  w boot owned obs pol now for ep w boot owned obs pol now
proof (unfold_locales, goal_cases)
  case (3 ob s)
  then show ?case
    using commit_device_run [of ob obs w boot s owned pol now] by (metis commit_fields(2))
next
  case (4 k seen s)
  then show ?case
    by (auto simp: disappear_devices ingest_events_def intro!: om_modify_device_run device_step.vanish)
qed (auto intro: device_run_trans)

lemma run_op_device_run: "devices_run (op_events s op) s (run_op op s)"
proof (cases op)
  case (MarkLost w now)
  then show ?thesis
    by (auto simp: mark_worker_lost_def op_events_def owned_keys_def split: option.split
        intro!: fold_modify_device_run device_step.lose)
next
  case (Ingest w obs pol now)
  show ?thesis
  proof (cases "\<exists>boot. authoritative s w boot")
    case True
    then obtain wr where wr: "om_find (fs_workers s) w = Some wr" "\<not> wr_lost wr" "\<not> wr_fenced wr"
      by (auto simp: authoritative_def)
    have "op_events s op k = ingest_events w (wr_boot wr) (fs_epoch s) (set (owned_keys w s)) obs pol now k" for k
      using wr by (auto simp: fun_eq_iff op_events_def Ingest authoritative_def)
    then show ?thesis
      using ingest_devices.rel_ingest [OF wr(1) refl subset_refl, where ep = "fs_epoch s"] Ingest by simp
  next
    case False
    then show ?thesis
      by (auto simp: Ingest ingest_snapshot_def authoritative_def split: option.split)
  qed
next
  case (SetDrain w i d now)
  then show ?thesis
    by (auto simp: set_drain_def op_events_def Let_def split: option.split
        intro!: device_run_step [where e = "Drain d"] device_step.drain)
next
  case (SetQuarantine w i q now)
  then show ?thesis
    by (auto simp: set_quarantine_def op_events_def Let_def not_less split: option.split
        intro!: device_run_step [where e = "Quarantine q"] device_step.quarantine)
next
  case (ClearQuarantine w i e now)
  then show ?thesis
    by (auto simp: clear_quarantine_def op_events_def Let_def split: option.split
        intro!: device_run_step [where e = Clear] device_step.clear)
qed (auto simp: roll_epoch_def register_worker_def heartbeat_def split: option.split)

subsection \<open>Invariants of reachable stores\<close>

locale store_invariant =
  fixes inv :: "FleetStateStore \<Rightarrow> bool"
  assumes inv_init: "inv (FleetStateStore_init coord epoch)"
    and inv_op: "inv s \<Longrightarrow> inv (run_op op s)"
    and inv_restore: "inv s \<Longrightarrow> snapshot_maps_ok sn \<Longrightarrow> inv (fst (restore sn s))"
begin

lemma inv_reachable: "reachable s \<Longrightarrow> inv s"
  by (induction rule: reachable.induct) (auto intro: inv_init inv_op inv_restore)

lemma inv_run_ops: "inv s \<Longrightarrow> inv (run_ops ops s)"
  by (induction ops arbitrary: s) (auto intro: inv_op)

text \<open>Whatever order the mutex gives to the operations of two threads, the invariant holds.\<close>

lemma inv_interleaved: "inv s \<Longrightarrow> ops \<in> shuffles xs ys \<Longrightarrow> inv (run_ops ops s)"
  by (rule inv_run_ops)

end

text \<open>An invariant of single devices that every event keeps and recovery establishes.\<close>

locale device_invariant =
  fixes P :: "DeviceState \<Rightarrow> bool"
  assumes dev_step: "device_step p e (Some d') \<Longrightarrow> (\<And>d. p = Some d \<Longrightarrow> P d) \<Longrightarrow> P d'"
    and dev_restore: "P (restore_device d)"
begin

definition all_devices :: "FleetStateStore \<Rightarrow> bool" where
  "all_devices s \<longleftrightarrow> (\<forall>k d. om_find (fs_devices s) k = Some d \<longrightarrow> P d)"

lemma run_op_all_devices:
  assumes "all_devices s"
  shows "all_devices (run_op op s)"
proof -
  have "(\<forall>d. om_find (fs_devices (run_op op s)) k = Some d \<longrightarrow> P d)" for k
    using run_op_device_run [rule_format]
    by (rule device_run_keeps) (use assms dev_step in \<open>auto simp: all_devices_def\<close>)
  then show ?thesis by (auto simp: all_devices_def)
qed

sublocale store_invariant all_devices
  by unfold_locales
    (auto simp: run_op_all_devices, auto simp: all_devices_def FleetStateStore_init_def restore_def
      om_find_map dev_restore)

end

lemma justified_step:
  assumes "device_step p e (Some d')" "\<And>d. p = Some d \<Longrightarrow> device_justified d"
  shows "device_justified d'"
  using assms(1)
proof (cases rule: device_step.cases)
  case (lose d)
  then show ?thesis using assms(2) by (auto simp: lose_device_def Let_def device_justified_def)
qed (simp_all add: observed_def apply_justified, simp add: vanish_device_def device_justified_def)

lemma restore_device_not_usable [simp]: "\<not> usable (ds_eligibility (restore_device d))"
  by (simp add: restore_device_def Let_def)

interpretation justified: device_invariant device_justified
proof unfold_locales
  show "device_justified (restore_device d)" for d by (simp add: device_justified_def)
qed (rule justified_step)

text \<open>The sorted-map and key invariants that the C++ types give.\<close>

definition store_maps_ok :: "FleetStateStore \<Rightarrow> bool" where
  "store_maps_ok s \<longleftrightarrow> om_ok (fs_nodes s) \<and> om_ok (fs_workers s) \<and> om_ok (fs_devices s)"

definition worker_keys_ok :: "FleetStateStore \<Rightarrow> bool" where
  "worker_keys_ok s \<longleftrightarrow> (\<forall>w wr. om_find (fs_workers s) w = Some wr \<longrightarrow> wr_worker wr = w)"

text \<open>What ingesting for one worker leaves of everything but the devices and the log contents.\<close>

definition worker_kept :: "WorkerRecord \<Rightarrow> WorkerRecord \<Rightarrow> bool" where
  "worker_kept wr wr' \<longleftrightarrow>
     wr_worker wr' = wr_worker wr \<and> wr_boot wr' = wr_boot wr \<and> wr_lost wr' = wr_lost wr \<and>
     wr_fenced wr' = wr_fenced wr \<and> set (wr_device_identities wr) \<subseteq> set (wr_device_identities wr')"

definition workers_kept :: "WorkerId \<Rightarrow> FleetStateStore \<Rightarrow> FleetStateStore \<Rightarrow> bool" where
  "workers_kept w s s' \<longleftrightarrow>
     (\<forall>w'. w' \<noteq> w \<longrightarrow> om_find (fs_workers s') w' = om_find (fs_workers s) w') \<and>
     rel_option worker_kept (om_find (fs_workers s) w) (om_find (fs_workers s') w)"

definition ingest_frame :: "WorkerId \<Rightarrow> FleetStateStore \<Rightarrow> FleetStateStore \<Rightarrow> bool" where
  "ingest_frame w s s' \<longleftrightarrow>
     fs_coord s' = fs_coord s \<and> fs_epoch s' = fs_epoch s \<and> fs_fleet_gen s' = fs_fleet_gen s \<and>
     fs_node_gen s' = fs_node_gen s \<and> fs_nodes s' = fs_nodes s \<and> workers_kept w s s' \<and>
     (store_maps_ok s \<longrightarrow> store_maps_ok s') \<and>
     length (fs_change_log s') \<le> max kMaxChangeLog (length (fs_change_log s))"

lemma worker_kept_refl [simp]: "worker_kept wr wr"
  by (simp add: worker_kept_def)

lemma workers_kept_trans:
  assumes "workers_kept w s s'" "workers_kept w s' s''"
  shows "workers_kept w s s''"
proof -
  have "worker_kept a c" if "worker_kept a b" "worker_kept b c" for a b c
    using that by (auto simp: worker_kept_def)
  with assms show ?thesis
    by (auto simp: workers_kept_def option_rel_Some1 option_rel_Some2 elim!: option.rel_cases)
qed

lemma ingest_frame_trans: "ingest_frame w s s' \<Longrightarrow> ingest_frame w s' s'' \<Longrightarrow> ingest_frame w s s''"
  by (auto simp: ingest_frame_def intro: workers_kept_trans)

lemma modify_worker_kept:
  assumes "fs_workers s' = om_modify w f (fs_workers s)" "\<And>wr. worker_kept wr (f wr)"
  shows "workers_kept w s s'"
  using assms by (auto simp: workers_kept_def om_find_modify option.rel_map option.rel_refl)

lemma workers_kept_same [simp]: "fs_workers s' = fs_workers s \<Longrightarrow> workers_kept w s s'"
  by (simp add: workers_kept_def option.rel_refl)

lemma commit_frame: "ingest_frame w s (commit_observation w pol now ob s)"
proof -
  let ?k = "canonical_device_identity (o_identity ob)"
  have "workers_kept w s (commit_observation w pol now ob s)"
  proof (cases "om_find (fs_devices s) ?k = None")
    case True
    then show ?thesis
      by (intro modify_worker_kept [where f = "\<lambda>wr. wr\<lparr>wr_device_identities := wr_device_identities wr @ [?k]\<rparr>"])
        (auto simp: commit_workers worker_kept_def)
  next
    case False
    then have "fs_workers (commit_observation w pol now ob s) = fs_workers s"
      by (simp only: commit_workers if_False)
    then show ?thesis by simp
  qed
  with commit_log_bound [of w pol now ob s] show ?thesis
    by (auto simp: ingest_frame_def store_maps_ok_def commit_workers)
qed

lemma touch_frame:
  "ingest_frame w s (s\<lparr>fs_workers := om_modify w
     (\<lambda>wr. wr\<lparr>wr_last_heartbeat := now, wr_alive := True\<rparr>) (fs_workers s)\<rparr>)" (is "ingest_frame w s ?s'")
proof -
  have "workers_kept w s ?s'"
    by (intro modify_worker_kept [where f = "\<lambda>wr. wr\<lparr>wr_last_heartbeat := now, wr_alive := True\<rparr>"])
      (auto simp: worker_kept_def)
  then show ?thesis by (auto simp: ingest_frame_def store_maps_ok_def)
qed

lemma disappear_frame: "ingest_frame w s (disappear seen now k s)"
  using disappear_log_bound [of seen now k s]
  by (auto simp: ingest_frame_def disappear_devices store_maps_ok_def)

interpretation ingest_framed: ingest_relation "ingest_frame w" w boot owned obs pol now
  for w boot owned obs pol now
proof (unfold_locales, goal_cases)
  case 1
  show ?case by (simp add: ingest_frame_def)
qed (erule (1) ingest_frame_trans | rule commit_frame disappear_frame touch_frame)+

lemma ingest_keeps: "ingest_frame w s (fst (ingest_snapshot w obs pol now s))"
proof (cases "om_find (fs_workers s) w")
  case None
  then show ?thesis by (simp add: ingest_snapshot_def ingest_framed.rel_refl)
next
  case (Some wr)
  then show ?thesis using ingest_framed.rel_ingest by blast
qed

text \<open>The same frame for the remaining operations, with the worker an operation names.\<close>

fun op_worker :: "store_op \<Rightarrow> WorkerId option" where
  "op_worker (Register reg now) = Some (reg_worker reg)"
| "op_worker (MarkLost w now) = Some w"
| "op_worker (Ingest w obs pol now) = Some w"
| "op_worker (Heartbeat w b e now hg) = Some w"
| "op_worker _ = None"

lemmas store_op_defs = roll_epoch_def register_worker_def mark_worker_lost_def heartbeat_def
  set_drain_def set_quarantine_def clear_quarantine_def

lemma run_op_other_workers:
  "op_worker op \<noteq> Some w \<Longrightarrow> om_find (fs_workers (run_op op s)) w = om_find (fs_workers s) w"
proof (cases op)
  case (Ingest w' obs pol now)
  then show "op_worker op \<noteq> Some w \<Longrightarrow> ?thesis"
    using ingest_keeps [of w' s obs pol now] by (auto simp: ingest_frame_def workers_kept_def)
qed (auto simp: store_op_defs Let_def om_find_emplace split: option.split)

lemma run_op_epoch: "fs_epoch s \<le> fs_epoch (run_op op s)"
proof (cases op)
  case (Ingest w obs pol now)
  then show ?thesis using ingest_keeps [of w s obs pol now] by (simp add: ingest_frame_def)
qed (auto simp: store_op_defs Let_def not_le split: option.split)

lemma run_ops_epoch: "fs_epoch s \<le> fs_epoch (run_ops ops s)"
proof (induction ops arbitrary: s)
  case (Cons op ops)
  then show ?case using run_op_epoch [of s op] by (auto intro: order_trans)
qed simp

lemma run_op_log_bound:
  "length (fs_change_log (run_op op s)) \<le> max kMaxChangeLog (length (fs_change_log s))"
proof (cases op)
  case (Ingest w obs pol now)
  then show ?thesis using ingest_keeps [of w s obs pol now] by (simp add: ingest_frame_def)
next
  case (SetDrain w i d now)
  then show ?thesis
    using push_change_log_bound [of _ "s\<lparr>fs_devices := _\<rparr>"]
    by (auto simp: set_drain_def Let_def split: option.split)
next
  case (SetQuarantine w i q now)
  then show ?thesis
    using push_change_log_bound [of _ "s\<lparr>fs_devices := _\<rparr>"]
    by (auto simp: set_quarantine_def Let_def split: option.split)
next
  case (ClearQuarantine w i e now)
  then show ?thesis
    using push_change_log_bound [of _ "s\<lparr>fs_devices := _\<rparr>"]
    by (auto simp: clear_quarantine_def Let_def split: option.split)
qed (auto simp: store_op_defs Let_def split: option.split)

lemma run_ops_log_bound:
  "length (fs_change_log (run_ops ops s)) \<le> max kMaxChangeLog (length (fs_change_log s))"
proof (induction ops arbitrary: s)
  case (Cons op ops)
  then show ?case using run_op_log_bound [of op s] by (fastforce simp: le_max_iff_disj)
qed simp

lemma om_ok_fold_modify: "om_ok m \<Longrightarrow> om_ok (fold (\<lambda>k. om_modify k f) ks m)"
  by (induction ks arbitrary: m) auto

lemma run_op_maps_ok: "store_maps_ok s \<Longrightarrow> store_maps_ok (run_op op s)"
proof (cases op)
  case (Ingest w obs pol now)
  then show "store_maps_ok s \<Longrightarrow> ?thesis"
    using ingest_keeps [of w s obs pol now] by (simp add: ingest_frame_def)
qed (auto simp: store_op_defs Let_def store_maps_ok_def om_ok_fold_modify split: option.split)

lemma run_op_worker_keys: "worker_keys_ok s \<Longrightarrow> worker_keys_ok (run_op op s)"
proof (cases op)
  case (Ingest w obs pol now)
  then have "workers_kept w s (run_op op s)"
    using ingest_keeps [of w s obs pol now] by (simp add: ingest_frame_def)
  then show "worker_keys_ok s \<Longrightarrow> ?thesis"
    unfolding worker_keys_ok_def workers_kept_def
    by (metis worker_kept_def option_rel_Some2)
qed (auto simp: store_op_defs Let_def worker_keys_ok_def om_find_emplace new_worker_record_def
      reaffirmed_def update_worker_devices_locked_def split: option.splits if_splits)

interpretation maps: store_invariant "\<lambda>s. store_maps_ok s \<and> worker_keys_ok s"
proof (unfold_locales, goal_cases)
  case (3 s sn)
  then show ?case
    by (auto simp: restore_def store_maps_ok_def worker_keys_ok_def snapshot_maps_ok_def
        dest!: om_find_SomeD)
qed (auto simp: run_op_maps_ok run_op_worker_keys,
     auto simp: FleetStateStore_init_def store_maps_ok_def worker_keys_ok_def)


subsection \<open>What single events cannot do\<close>

text \<open>Facts about one entry that hold unless an event of a given kind occurs.\<close>

lemma observed_fields [simp]:
  "ds_quarantined (observed (Some d) ob pol now ep) = ds_quarantined d"
  "ds_quarantine (observed (Some d) ob pol now ep) = ds_quarantine d"
  "ds_drain (observed (Some d) ob pol now ep) = ds_drain d"
  "ds_observation_generation (observed p ob pol now ep) = o_observation_generation ob"
  "ds_generation (observed p ob pol now ep) = o_device_generation ob"
  "ds_health_generation (observed p ob pol now ep) = o_health_generation ob"
  "ds_source_worker_boot (observed p ob pol now ep) = o_source_worker_boot ob"
  "ds_last_observed_at (observed p ob pol now ep) = o_observed_at ob"
  "ds_identity (observed p ob pol now ep) = o_identity ob"
  by (simp_all add: observed_def)

lemma lose_device_fields [simp]:
  "ds_quarantined (lose_device d) = ds_quarantined d" "ds_quarantine (lose_device d) = ds_quarantine d"
  "ds_drain (lose_device d) = ds_drain d" "ds_generation (lose_device d) = ds_generation d"
  "ds_observation_generation (lose_device d) = ds_observation_generation d"
  "ds_health_generation (lose_device d) = ds_health_generation d"
  "ds_source_worker_boot (lose_device d) = ds_source_worker_boot d"
  "ds_identity (lose_device d) = ds_identity d"
  by (simp_all add: lose_device_def Let_def)

lemma vanish_device_fields [simp]:
  "ds_quarantined (vanish_device d) = ds_quarantined d" "ds_quarantine (vanish_device d) = ds_quarantine d"
  "ds_drain (vanish_device d) = ds_drain d" "ds_generation (vanish_device d) = ds_generation d"
  "ds_observation_generation (vanish_device d) = ds_observation_generation d"
  "ds_health_generation (vanish_device d) = ds_health_generation d"
  "ds_source_worker_boot (vanish_device d) = ds_source_worker_boot d"
  "ds_identity (vanish_device d) = ds_identity d"
  by (simp_all add: vanish_device_def)

definition quarantined_at :: "DeviceState option \<Rightarrow> bool" where
  "quarantined_at p \<longleftrightarrow> (\<exists>d. p = Some d \<and> ds_quarantined d)"

lemma step_quarantined: "device_step p e p' \<Longrightarrow> e \<noteq> Clear \<Longrightarrow> quarantined_at p \<Longrightarrow> quarantined_at p'"
  by (erule device_stepE) (auto simp: quarantined_at_def)

definition drain_at :: "DrainState \<Rightarrow> DeviceState option \<Rightarrow> bool" where
  "drain_at x p \<longleftrightarrow> (\<exists>d. p = Some d \<and> ds_drain d = x)"

lemma step_drain: "device_step p e p' \<Longrightarrow> (\<And>y. e \<noteq> Drain y) \<Longrightarrow> drain_at x p \<Longrightarrow> drain_at x p'"
  by (erule device_stepE) (auto simp: drain_at_def)

definition clears :: "store_op \<Rightarrow> string \<Rightarrow> bool" where
  "clears op k = (case op of ClearQuarantine w i e now \<Rightarrow> i = k | _ \<Rightarrow> False)"

definition drains :: "store_op \<Rightarrow> string \<Rightarrow> bool" where
  "drains op k = (case op of SetDrain w i d now \<Rightarrow> i = k | _ \<Rightarrow> False)"

lemma op_events_Clear: "op_events s op k Clear \<Longrightarrow> clears op k"
  by (auto simp: op_events_def clears_def ingest_events_def split: store_op.splits)

lemma op_events_Drain: "op_events s op k (Drain y) \<Longrightarrow> drains op k"
  by (auto simp: op_events_def drains_def ingest_events_def split: store_op.splits)

text \<open>A fact about one entry that no event of the operations can end holds after all of them.\<close>

lemma run_ops_keeps:
  assumes "\<And>op s p e p'. op \<in> set ops \<Longrightarrow> op_events s op k e \<Longrightarrow> device_step p e p' \<Longrightarrow> I p \<Longrightarrow> I p'"
    and "I (om_find (fs_devices s) k)"
  shows "I (om_find (fs_devices (run_ops ops s)) k)"
  using assms
proof (induction ops arbitrary: s)
  case (Cons op ops)
  have "I (om_find (fs_devices (run_op op s)) k)"
    using run_op_device_run [rule_format]
  proof (rule device_run_keeps)
    show "I (om_find (fs_devices s) k)" by (rule Cons.prems)
    show "I p'" if "device_step p e p'" "op_events s op k e" "I p" for p e p'
      using Cons.prems(1) [of op s e p p'] that by simp
  qed
  then have "I (om_find (fs_devices (run_ops ops (run_op op s))) k)"
  proof (rule Cons.IH [rotated])
    show "I p'" if "op' \<in> set ops" "op_events s' op' k e" "device_step p e p'" "I p" for op' s' p e p'
      using Cons.prems(1) [of op' s' e p p'] that by simp
  qed
  then show ?case by simp
qed simp

lemma run_ops_quarantined:
  assumes "\<forall>op\<in>set ops. \<not> clears op k" "quarantined_at (om_find (fs_devices s) k)"
  shows "quarantined_at (om_find (fs_devices (run_ops ops s)) k)"
  by (rule run_ops_keeps) (use assms step_quarantined op_events_Clear in blast)+

lemma run_ops_drain:
  assumes "\<forall>op\<in>set ops. \<not> drains op k" "drain_at x (om_find (fs_devices s) k)"
  shows "drain_at x (om_find (fs_devices (run_ops ops s)) k)"
  by (rule run_ops_keeps) (use assms step_drain op_events_Drain in blast)+

text \<open>
  Generations of one entry. An operation either leaves the generations of the boot that last
  reported the device, moves them forward, or hands the device to another boot.
\<close>

definition gens_le :: "DeviceState \<Rightarrow> DeviceState \<Rightarrow> bool" where
  "gens_le d d' \<longleftrightarrow>
     ds_observation_generation d \<le> ds_observation_generation d' \<and> ds_generation d \<le> ds_generation d' \<and>
     ds_health_generation d \<le> ds_health_generation d'"

lemma step_gens:
  assumes "device_step (Some d) e p'"
  shows "\<exists>d'. p' = Some d' \<and>
     (case e of Observe ob pol now ep \<Rightarrow> ds_source_worker_boot d' = o_source_worker_boot ob
                | _ \<Rightarrow> ds_source_worker_boot d' = ds_source_worker_boot d) \<and>
     (ds_source_worker_boot d' = ds_source_worker_boot d \<longrightarrow> gens_le d d')"
  using assms
  by (cases rule: device_step.cases) (auto simp: gens_le_def supersedes_def)

text \<open>
  All observations of one operation carry one boot. Runs whose observations carry the boot \<open>b\<close>
  keep the generations of a device while its boot does not change.
\<close>

definition gens_inv :: "WorkerBootId \<Rightarrow> DeviceState \<Rightarrow> DeviceState option \<Rightarrow> bool" where
  "gens_inv b d p \<longleftrightarrow>
     (\<exists>d'. p = Some d' \<and> ds_source_worker_boot d' \<in> {ds_source_worker_boot d, b} \<and>
           (ds_source_worker_boot d' = ds_source_worker_boot d \<longrightarrow> gens_le d d'))"

lemma step_gens_inv:
  assumes "device_step p e p'" "gens_inv b d p"
    and "\<And>ob pol now ep. e = Observe ob pol now ep \<Longrightarrow> o_source_worker_boot ob = b"
  shows "gens_inv b d p'"
proof -
  obtain d1 where d1: "p = Some d1" "ds_source_worker_boot d1 \<in> {ds_source_worker_boot d, b}"
    "ds_source_worker_boot d1 = ds_source_worker_boot d \<longrightarrow> gens_le d d1"
    using assms(2) by (auto simp: gens_inv_def)
  obtain d2 where d2: "p' = Some d2" "ds_source_worker_boot d2 \<in> {ds_source_worker_boot d1, b}"
    "(\<exists>ob pol now ep. e = Observe ob pol now ep) \<longrightarrow> ds_source_worker_boot d2 = b"
    "\<not> (\<exists>ob pol now ep. e = Observe ob pol now ep) \<longrightarrow> ds_source_worker_boot d2 = ds_source_worker_boot d1"
    "ds_source_worker_boot d2 = ds_source_worker_boot d1 \<longrightarrow> gens_le d1 d2"
    using step_gens [of d1 e p'] assms(1,3) d1(1) by (cases e) auto
  have "gens_le d d2" if "ds_source_worker_boot d2 = ds_source_worker_boot d"
  proof -
    have "ds_source_worker_boot d1 = ds_source_worker_boot d"
      using d1(2) d2(3,4) that by auto
    with d1(3) d2(5) that show ?thesis by (auto simp: gens_le_def)
  qed
  with d1(2) d2(1,2) show ?thesis by (auto simp: gens_inv_def)
qed

lemma op_events_one_boot:
  "\<exists>b. \<forall>ob pol now ep. op_events s op k (Observe ob pol now ep) \<longrightarrow> o_source_worker_boot ob = b"
proof (cases op)
  case (Ingest w obs pol now)
  then have "\<forall>ob pol now ep. op_events s op k (Observe ob pol now ep) \<longrightarrow>
      o_source_worker_boot ob = wr_boot (the (om_find (fs_workers s) w))"
    by (auto simp: op_events_def authoritative_def ingest_events_def)
  then show ?thesis by blast
qed (simp_all add: op_events_def)

lemma run_op_gens:
  assumes "om_find (fs_devices s) k = Some d"
  shows "\<exists>b. gens_inv b d (om_find (fs_devices (run_op op s)) k)"
proof -
  obtain b where b: "\<And>ob pol now ep. op_events s op k (Observe ob pol now ep) \<Longrightarrow> o_source_worker_boot ob = b"
    using op_events_one_boot by blast
  have "gens_inv b d (om_find (fs_devices (run_op op s)) k)"
    using run_op_device_run [rule_format]
  proof (rule device_run_keeps)
    show "gens_inv b d (om_find (fs_devices s) k)"
      using assms by (auto simp: gens_inv_def gens_le_def)
    fix p e p' assume "device_step p e p'" "op_events s op k e" "gens_inv b d p"
    then show "gens_inv b d p'" using b by (blast intro: step_gens_inv)
  qed
  then show ?thesis by blast
qed


subsection \<open>Fencing, recovery, duplicates\<close>

lemma device_run_none: "device_run allowed p p' \<Longrightarrow> (\<And>e. \<not> allowed e) \<Longrightarrow> p' = p"
  by (auto simp: device_run_def elim: rtranclp.cases)

definition fenced_at :: "WorkerBootId \<Rightarrow> WorkerRecord option \<Rightarrow> bool" where
  "fenced_at boot p \<longleftrightarrow> (\<exists>wr. p = Some wr \<and> wr_boot wr = boot \<and> wr_fenced wr)"

definition supersedes_boot :: "store_op \<Rightarrow> WorkerId \<Rightarrow> WorkerBootId \<Rightarrow> bool" where
  "supersedes_boot op w boot =
     (case op of Register reg now \<Rightarrow> reg_worker reg = w \<and> reg_worker_boot reg \<noteq> boot | _ \<Rightarrow> False)"

lemma run_op_fenced:
  assumes "fenced_at boot (om_find (fs_workers s) w)" "\<not> supersedes_boot op w boot"
  shows "fenced_at boot (om_find (fs_workers (run_op op s)) w)"
proof (cases "op_worker op = Some w")
  case False
  with assms show ?thesis by (simp add: run_op_other_workers)
next
  case True
  then show ?thesis
  proof (cases op)
    case (Ingest w' obs pol now)
    with True have "workers_kept w s (run_op op s)"
      using ingest_keeps [of w s obs pol now] by (simp add: ingest_frame_def)
    with assms(1) show ?thesis
      by (auto simp: fenced_at_def workers_kept_def option_rel_Some1 worker_kept_def)
  qed (use assms in \<open>auto simp: fenced_at_def supersedes_boot_def store_op_defs reaffirmed_def
        update_worker_devices_locked_def om_find_emplace split: option.splits\<close>)
qed

lemma run_ops_fenced:
  assumes "fenced_at boot (om_find (fs_workers s) w)" "\<forall>op\<in>set ops. \<not> supersedes_boot op w boot"
  shows "fenced_at boot (om_find (fs_workers (run_ops ops s)) w)"
  using assms by (induction ops arbitrary: s) (auto simp: run_op_fenced)

lemma ingest_fenced:
  "fenced_at boot (om_find (fs_workers s) w) \<Longrightarrow>
   ingest_snapshot w obs pol now s = (s, Inl (error_result NotAuthoritative ''worker is fenced/lost''))"
  by (auto simp: fenced_at_def ingest_snapshot_def)

text \<open>Only a new observation makes an entry fresh.\<close>

definition not_fresh_at :: "DeviceState option \<Rightarrow> bool" where
  "not_fresh_at p \<longleftrightarrow> (\<forall>d. p = Some d \<longrightarrow> \<not> ds_observation_fresh d)"

definition observes :: "store_op \<Rightarrow> string \<Rightarrow> bool" where
  "observes op k =
     (case op of Ingest w obs pol now \<Rightarrow> \<exists>ob\<in>set obs. canonical_device_identity (o_identity ob) = k
      | _ \<Rightarrow> False)"

lemma step_not_fresh:
  "device_step p e p' \<Longrightarrow> (\<And>ob pol now ep. e \<noteq> Observe ob pol now ep) \<Longrightarrow> not_fresh_at p \<Longrightarrow> not_fresh_at p'"
  by (erule device_stepE) (auto simp: not_fresh_at_def lose_device_def vanish_device_def Let_def)

lemma op_events_Observe: "op_events s op k (Observe ob pol now ep) \<Longrightarrow> observes op k"
  by (auto simp: op_events_def observes_def ingest_events_def split: store_op.splits)

lemma run_ops_not_fresh:
  assumes "\<forall>op\<in>set ops. \<not> observes op k" "not_fresh_at (om_find (fs_devices s) k)"
  shows "not_fresh_at (om_find (fs_devices (run_ops ops s)) k)"
  by (rule run_ops_keeps) (use assms step_not_fresh op_events_Observe in blast)+

lemma restore_devices: "om_find (fs_devices (fst (restore sn s))) k = map_option restore_device (om_find (sn_devices sn) k)"
  by (simp add: restore_def om_find_map)

lemma restore_device_fields [simp]:
  "\<not> ds_observation_fresh (restore_device d)" "ds_quarantined (restore_device d) = ds_quarantined d"
  "ds_drain (restore_device d) = ds_drain d" "ds_identity (restore_device d) = ds_identity d"
  "ds_generation (restore_device d) = ds_generation d"
  "ds_source_worker_boot (restore_device d) = ds_source_worker_boot d"
  "ds_observation_generation (restore_device d) = ds_observation_generation d"
  by (simp_all add: restore_device_def Let_def)

lemma restore_device_idem: "restore_device (restore_device d) = restore_device d"
  by (simp add: restore_device_def Let_def)

text \<open>A snapshot that is accepted carries the current authority in every observation.\<close>

lemma ingest_loop_current:
  assumes "ingest_loop w boot pol now obs seen ao s = (s1, Inr r)" "ob \<in> set obs"
  shows "o_epoch ob = fs_epoch s \<and> o_source_worker_boot ob = boot \<and> o_source_worker ob = w"
  using assms
proof (induction obs arbitrary: seen ao s)
  case (Cons x xs)
  have head: "judge_observation w boot x s \<noteq> Reject e \<Longrightarrow>
      o_epoch x \<noteq> fs_epoch s \<or> o_source_worker_boot x \<noteq> boot \<or> o_source_worker x \<noteq> w \<Longrightarrow>
      \<exists>e. judge_observation w boot x s = Reject e" for e
    by (auto simp: judge_observation_def)
  show ?case
  proof (cases "judge_observation w boot x s")
    case Accept
    with Cons show ?thesis by (auto dest: judge_accept)
  next
    case Skip
    with Cons head show ?thesis by fastforce
  qed (use Cons in simp)
qed simp

text \<open>Duplicates: when every observation is skipped nothing counts as seen.\<close>

lemma ingest_loop_skips:
  "(\<And>ob. ob \<in> set obs \<Longrightarrow> judge_observation w boot ob s = Skip) \<Longrightarrow>
   ingest_loop w boot pol now obs seen ao s = (s, Inr (seen, ao))"
  by (induction obs) simp_all

lemma vanish_idem: "vanish_device (vanish_device d) = vanish_device d"
  by (simp add: vanish_device_def)

lemma fold_disappear_devices:
  "om_find (fs_devices (fold (disappear seen now) ks s)) k =
     (if k \<in> set ks \<and> k \<notin> seen then map_option vanish_device (om_find (fs_devices s) k)
      else om_find (fs_devices s) k)"
  by (induction ks arbitrary: s)
    (auto simp: disappear_devices om_find_modify option.map_comp comp_def vanish_idem)

subsection \<open>Accounting\<close>

lemma count_worker_cases:
  "count_worker wr a =
     (if worker_live wr
      then a\<lparr>acc_registered_workers := acc_registered_workers a + 1, acc_live_workers := acc_live_workers a + 1,
             acc_active_registrations := acc_active_registrations a + 1\<rparr>
      else a\<lparr>acc_registered_workers := acc_registered_workers a + 1,
             acc_stale_workers := acc_stale_workers a + 1\<rparr>)"
proof -
  have "wr_lost wr \<or> wr_fenced wr \<or> \<not> wr_alive wr \<longleftrightarrow> \<not> worker_live wr"
    by (auto simp: worker_live_def)
  then show ?thesis by (simp add: count_worker_def Let_def)
qed

lemma count_workers:
  "acc_registered_workers (fold (\<lambda>(k, wr). count_worker wr) ws a)
     = acc_registered_workers a + word_of_nat (length ws)"
  "acc_live_workers (fold (\<lambda>(k, wr). count_worker wr) ws a)
     = acc_live_workers a + word_of_nat (length (filter (\<lambda>(k, wr). worker_live wr) ws))"
  "acc_stale_workers (fold (\<lambda>(k, wr). count_worker wr) ws a)
     = acc_stale_workers a + word_of_nat (length (filter (\<lambda>(k, wr). \<not> worker_live wr) ws))"
  "acc_active_registrations (fold (\<lambda>(k, wr). count_worker wr) ws a)
     = acc_active_registrations a + word_of_nat (length (filter (\<lambda>(k, wr). worker_live wr) ws))"
  "acc_devices (fold (\<lambda>(k, wr). count_worker wr) ws a) = acc_devices a"
  "acc_eligible_devices (fold (\<lambda>(k, wr). count_worker wr) ws a) = acc_eligible_devices a"
  "acc_degraded_devices (fold (\<lambda>(k, wr). count_worker wr) ws a) = acc_degraded_devices a"
  "acc_quarantined_devices (fold (\<lambda>(k, wr). count_worker wr) ws a) = acc_quarantined_devices a"
  "acc_drained_devices (fold (\<lambda>(k, wr). count_worker wr) ws a) = acc_drained_devices a"
  by (induction ws arbitrary: a) (auto simp: count_worker_cases)

lemma count_device_fields:
  "acc_registered_workers (count_device d a) = acc_registered_workers a"
  "acc_live_workers (count_device d a) = acc_live_workers a"
  "acc_stale_workers (count_device d a) = acc_stale_workers a"
  "acc_active_registrations (count_device d a) = acc_active_registrations a"
  "acc_devices (count_device d a) = acc_devices a + 1"
  "acc_eligible_devices (count_device d a) =
     acc_eligible_devices a + (if ds_eligibility d = EligibilityState.ELIGIBLE then 1 else 0)"
  "acc_degraded_devices (count_device d a) =
     acc_degraded_devices a + (if ds_eligibility d = EligibilityState.DEGRADED_ELIGIBLE then 1 else 0)"
  "acc_quarantined_devices (count_device d a) =
     acc_quarantined_devices a + (if ds_eligibility d = EligibilityState.QUARANTINED then 1 else 0)"
  "acc_drained_devices (count_device d a) =
     acc_drained_devices a + (if ds_eligibility d = EligibilityState.DRAINING then 1 else 0)"
  by (cases "ds_eligibility d"; simp add: count_device_def)+

lemma count_devices:
  "acc_registered_workers (fold (\<lambda>(k, d). count_device d) ds a) = acc_registered_workers a"
  "acc_live_workers (fold (\<lambda>(k, d). count_device d) ds a) = acc_live_workers a"
  "acc_stale_workers (fold (\<lambda>(k, d). count_device d) ds a) = acc_stale_workers a"
  "acc_active_registrations (fold (\<lambda>(k, d). count_device d) ds a) = acc_active_registrations a"
  "acc_devices (fold (\<lambda>(k, d). count_device d) ds a) = acc_devices a + word_of_nat (length ds)"
  "acc_eligible_devices (fold (\<lambda>(k, d). count_device d) ds a) = acc_eligible_devices a +
     word_of_nat (length (filter (\<lambda>(k, d). ds_eligibility d = EligibilityState.ELIGIBLE) ds))"
  "acc_degraded_devices (fold (\<lambda>(k, d). count_device d) ds a) = acc_degraded_devices a +
     word_of_nat (length (filter (\<lambda>(k, d). ds_eligibility d = EligibilityState.DEGRADED_ELIGIBLE) ds))"
  "acc_quarantined_devices (fold (\<lambda>(k, d). count_device d) ds a) = acc_quarantined_devices a +
     word_of_nat (length (filter (\<lambda>(k, d). ds_eligibility d = EligibilityState.QUARANTINED) ds))"
  "acc_drained_devices (fold (\<lambda>(k, d). count_device d) ds a) = acc_drained_devices a +
     word_of_nat (length (filter (\<lambda>(k, d). ds_eligibility d = EligibilityState.DRAINING) ds))"
  by (induction ds arbitrary: a) (auto simp: count_device_fields)


end
