(* ===== verification/Observation_Codec.thy ===== *)
theory Observation_Codec
  imports Observation Registration
begin

text \<open>
  \<^verbatim>\<open>observation/observation_codec.hpp\<close>: the wire form of observations and of a worker's batch of
  observations.
\<close>

definition write_optional_u32 :: "u32 option \<Rightarrow> bytes" where
  "write_optional_u32 v = put_option put_u32 v"

definition read_optional_u32 :: "u32 option rd_result" where
  "read_optional_u32 =
     need rd_u8 (error_result Truncated ''optional presence truncated'') (\<lambda>present.
     if present = 0 then res_return None
     else need rd_u32 (error_result Truncated ''optional value truncated'') (\<lambda>v. res_return (Some v)))"

definition write_optional_f64 :: "f64 option \<Rightarrow> bytes" where
  "write_optional_f64 v = put_option put_f64 v"

definition read_optional_f64 :: "f64 option rd_result" where
  "read_optional_f64 =
     need rd_u8 (error_result Truncated ''optional present truncated'') (\<lambda>present.
     if present = 0 then res_return None
     else need rd_f64 (error_result Truncated ''optional double truncated'') (\<lambda>v. res_return (Some v)))"

text \<open>One round of the loops over the capabilities.\<close>

definition put_capability :: "Capability \<Rightarrow> bytes" where
  "put_capability c =
     put_u64 (id_value (cap_id c)) @ put_string 128 (cap_name c) @ put_u8 (CapabilityKind_to_u8 (cap_kind c)) @
     put_string 256 (cap_value c) @ put_string 256 (cap_description c)"

definition obs_capability :: "Capability rd_result" where
  "obs_capability =
     need rd_u64 (error_result Truncated ''cap id truncated'') (\<lambda>i.
     need (ok_of (rd_string 128)) (error_result Truncated ''cap name truncated'') (\<lambda>nm.
     need rd_u8 (error_result Truncated ''cap kind truncated'') (\<lambda>kind.
     need (ok_of (rd_string 256)) (error_result Truncated ''cap value truncated'') (\<lambda>val.
     need (ok_of (rd_string 256)) (error_result Truncated ''cap desc truncated'') (\<lambda>desc.
     res_return \<lparr>cap_id = StrongId i, cap_name = nm, cap_kind = CapabilityKind_of_u8 kind,
                 cap_value = val, cap_description = desc\<rparr>)))))"

definition encode_device_observation :: "DeviceObservation \<Rightarrow> bytes" where
  "encode_device_observation ob =
     put_u64 (id_value (o_device_id ob)) @
     put_u64 (gen_value (o_observation_generation ob)) @
     put_u64 (gen_value (o_health_generation ob)) @
     put_i64 (o_observed_at ob) @
     put_u64 (id_value (o_source_worker_boot ob)) @
     put_u64 (id_value (o_source_worker ob)) @
     put_u64 (id_value (o_source_node ob)) @
     put_u64 (gen_value (o_epoch ob)) @
     put_u64 (gen_value (o_device_generation ob)) @
     put_u8 (HealthState_to_u8 (o_health ob)) @
     put_string 4096 (o_health_explanation ob) @
     put_u64 (o_total_memory ob) @
     put_u64 (o_used_memory ob) @
     put_u64 (o_free_memory ob) @
     write_optional_f64 (o_temperature_c ob) @
     write_optional_f64 (o_power_w ob) @
     put_u32 (word_of_nat (length (o_capabilities ob))) @
     concat (map put_capability (o_capabilities ob)) @
     put_bool (o_core_validation_ok ob) @
     put_string 4096 (o_validation_detail ob) @
     put_bool (o_enumerated ob) @
     put_bool (o_present ob) @
     put_bool (o_driver_runtime_ok ob) @
     put_bool (o_cuda_init_ok ob) @
     put_bool (o_memory_alloc_ok ob) @
     put_bool (o_h2d_ok ob) @
     put_bool (o_kernel_exec_ok ob) @
     put_bool (o_sync_ok ob) @
     put_bool (o_d2h_ok ob) @
     put_bool (o_verify_ok ob) @
     put_u8 (AcceleratorVendor_to_u8 (di_vendor (o_identity ob))) @
     put_string 128 (di_vendor_name (o_identity ob)) @
     put_string 128 (di_uuid (o_identity ob)) @
     put_u32 (pci_domain (di_pci (o_identity ob))) @
     put_u16 (pci_bus (di_pci (o_identity ob))) @
     put_u16 (pci_device (di_pci (o_identity ob))) @
     put_u16 (pci_function (di_pci (o_identity ob))) @
     put_string 64 (di_architecture (o_identity ob)) @
     put_u32 (cc_major (di_compute_capability (o_identity ob))) @
     put_u32 (cc_minor (di_compute_capability (o_identity ob))) @
     put_u64 (di_total_physical_memory (o_identity ob)) @
     put_i64 (scast (di_numa_node (o_identity ob))) @
     put_string 128 (di_driver_version (o_identity ob)) @
     put_u32 (rv_major (di_runtime_version (o_identity ob))) @
     put_u32 (rv_minor (di_runtime_version (o_identity ob))) @
     put_u32 (gpu_instance_id (di_mig (o_identity ob))) @
     put_u32 (compute_instance_id (di_mig (o_identity ob))) @
     put_option put_u64 (map_option id_value (di_parent_device (o_identity ob)))"

text \<open>The fields after the capability loop, up to the identity.\<close>

record obs_flags =
  of_core_validation_ok :: bool
  of_validation_detail :: string
  of_enumerated :: bool
  of_present :: bool
  of_driver_runtime_ok :: bool
  of_cuda_init_ok :: bool
  of_memory_alloc_ok :: bool
  of_h2d_ok :: bool
  of_kernel_exec_ok :: bool
  of_sync_ok :: bool
  of_d2h_ok :: bool
  of_verify_ok :: bool

definition decode_flags :: "obs_flags rd_result" where
  "decode_flags =
     need rd_bool (error_result Truncated ''core_valid truncated'') (\<lambda>core.
     need (ok_of (rd_string 4096)) (error_result Truncated ''validation_detail truncated'') (\<lambda>vd.
     need rd_bool (error_result Truncated ''enumerated truncated'') (\<lambda>enumerated.
     need rd_bool (error_result Truncated ''present truncated'') (\<lambda>present.
     need rd_bool (error_result Truncated ''driver_runtime truncated'') (\<lambda>drv.
     need rd_bool (error_result Truncated ''cuda_init truncated'') (\<lambda>init.
     need rd_bool (error_result Truncated ''malloc truncated'') (\<lambda>malloc.
     need rd_bool (error_result Truncated ''h2d truncated'') (\<lambda>h2d.
     need rd_bool (error_result Truncated ''kernel truncated'') (\<lambda>kernel.
     need rd_bool (error_result Truncated ''sync truncated'') (\<lambda>sync.
     need rd_bool (error_result Truncated ''d2h truncated'') (\<lambda>d2h.
     need rd_bool (error_result Truncated ''verify truncated'') (\<lambda>verify.
     res_return \<lparr>of_core_validation_ok = core, of_validation_detail = vd, of_enumerated = enumerated,
                 of_present = present, of_driver_runtime_ok = drv, of_cuda_init_ok = init,
                 of_memory_alloc_ok = malloc, of_h2d_ok = h2d, of_kernel_exec_ok = kernel,
                 of_sync_ok = sync, of_d2h_ok = d2h, of_verify_ok = verify\<rparr>))))))))))))"

definition decode_identity :: "DeviceIdentity rd_result" where
  "decode_identity =
     need rd_u8 (error_result Truncated ''vendor truncated'') (\<lambda>vendor.
     need (ok_of (rd_string 128)) (error_result Truncated ''vendor_name truncated'') (\<lambda>vn.
     need (ok_of (rd_string 128)) (error_result Truncated ''uuid truncated'') (\<lambda>uuid.
     need rd_u32 (error_result Truncated ''pci domain truncated'') (\<lambda>domain.
     need rd_u16 (error_result Truncated ''pci bus truncated'') (\<lambda>bus.
     need rd_u16 (error_result Truncated ''pci dev truncated'') (\<lambda>dev.
     need rd_u16 (error_result Truncated ''pci fn truncated'') (\<lambda>fn.
     need (ok_of (rd_string 64)) (error_result Truncated ''arch truncated'') (\<lambda>arch.
     need rd_u32 (error_result Truncated ''cc major truncated'') (\<lambda>ccmaj.
     need rd_u32 (error_result Truncated ''cc minor truncated'') (\<lambda>ccmin.
     need rd_u64 (error_result Truncated ''total mem truncated'') (\<lambda>mem.
     need rd_i64 (error_result Truncated ''numa truncated'') (\<lambda>numa.
     need (ok_of (rd_string 128)) (error_result Truncated ''driver truncated'') (\<lambda>dv.
     need rd_u32 (error_result Truncated ''runtime major truncated'') (\<lambda>rmaj.
     need rd_u32 (error_result Truncated ''runtime minor truncated'') (\<lambda>rmin.
     need rd_u32 (error_result Truncated ''mig gpu truncated'') (\<lambda>mgpu.
     need rd_u32 (error_result Truncated ''mig ci truncated'') (\<lambda>mci.
     need rd_u8 (error_result Truncated ''parent presence truncated'') (\<lambda>hasp.
     let ident = (\<lambda>parent.
           \<lparr>di_vendor = AcceleratorVendor_of_u8 vendor, di_vendor_name = vn, di_uuid = uuid,
            di_pci = \<lparr>pci_domain = domain, pci_bus = bus, pci_device = dev, pci_function = fn\<rparr>,
            di_architecture = arch, di_compute_capability = \<lparr>cc_major = ccmaj, cc_minor = ccmin\<rparr>,
            di_total_physical_memory = mem, di_numa_node = ucast numa, di_driver_version = dv,
            di_runtime_version = \<lparr>rv_major = rmaj, rv_minor = rmin\<rparr>,
            di_mig = \<lparr>gpu_instance_id = mgpu, compute_instance_id = mci\<rparr>, di_parent_device = parent\<rparr>)
     in if hasp \<noteq> 0
        then need rd_u64 (error_result Truncated ''parent truncated'') (\<lambda>u. res_return (ident (Some (StrongId u))))
        else res_return (ident None)))))))))))))))))))"

definition decode_device_observation :: "bytes \<Rightarrow> DeviceObservation Result" where
  "decode_device_observation data =
     need rd_u64 (error_result Truncated ''device_id truncated'') (\<lambda>did.
     need rd_u64 (error_result Truncated ''obs_gen truncated'') (\<lambda>og.
     need rd_u64 (error_result Truncated ''health_gen truncated'') (\<lambda>hg.
     need rd_i64 (error_result Truncated ''observed_at truncated'') (\<lambda>at.
     need rd_u64 (error_result Truncated ''worker_boot truncated'') (\<lambda>boot.
     need rd_u64 (error_result Truncated ''source_worker truncated'') (\<lambda>worker.
     need rd_u64 (error_result Truncated ''source_node truncated'') (\<lambda>node.
     need rd_u64 (error_result Truncated ''epoch truncated'') (\<lambda>epoch.
     need rd_u64 (error_result Truncated ''device_gen truncated'') (\<lambda>dg.
     need rd_u8 (error_result Truncated ''health truncated'') (\<lambda>hs.
     need (ok_of (rd_string 4096)) (error_result Truncated ''health_explanation truncated'') (\<lambda>expl.
     need rd_u64 (error_result Truncated ''total_memory truncated'') (\<lambda>total.
     need rd_u64 (error_result Truncated ''used_memory truncated'') (\<lambda>used.
     need rd_u64 (error_result Truncated ''free_memory truncated'') (\<lambda>free.
     need (ok_of read_optional_f64) (error_result Truncated ''temperature truncated'') (\<lambda>t.
     need (ok_of read_optional_f64) (error_result Truncated ''power truncated'') (\<lambda>pw.
     need rd_u32 (error_result Truncated ''cap count truncated'') (\<lambda>ncap.
     check (\<not> ncap > 4096) (error_result OutOfBounds ''cap count exceeds bound'') (
     res_bind (res_times (unat ncap) obs_capability) (\<lambda>caps.
     res_bind decode_flags (\<lambda>fl.
     res_bind decode_identity (\<lambda>ident.
     rd_finish (error_result Malformed ''trailing garbage in observation blob'')
       \<lparr>o_device_id = StrongId did, o_observation_generation = Generation og,
        o_health_generation = Generation hg, o_observed_at = at, o_source_worker_boot = StrongId boot,
        o_source_worker = StrongId worker, o_source_node = StrongId node, o_epoch = Generation epoch,
        o_device_generation = Generation dg, o_identity = ident, o_health = HealthState_of_u8 hs,
        o_health_explanation = expl, o_total_memory = total, o_used_memory = used, o_free_memory = free,
        o_temperature_c = t, o_power_w = pw, o_capabilities = caps,
        o_core_validation_ok = of_core_validation_ok fl, o_validation_detail = of_validation_detail fl,
        o_enumerated = of_enumerated fl, o_present = of_present fl,
        o_driver_runtime_ok = of_driver_runtime_ok fl, o_cuda_init_ok = of_cuda_init_ok fl,
        o_memory_alloc_ok = of_memory_alloc_ok fl, o_h2d_ok = of_h2d_ok fl,
        o_kernel_exec_ok = of_kernel_exec_ok fl, o_sync_ok = of_sync_ok fl, o_d2h_ok = of_d2h_ok fl,
        o_verify_ok = of_verify_ok fl\<rparr>
     ))))))))))))))))))))) (mk_reader data)"

definition encode_observation_batch :: "DeviceObservation list \<Rightarrow> bytes" where
  "encode_observation_batch obs =
     put_u32 (word_of_nat (length obs)) @
     concat (map (\<lambda>ob. let blob = encode_device_observation ob in put_u32 (word_of_nat (length blob)) @ blob) obs)"

definition obs_blob :: "DeviceObservation rd_result" where
  "obs_blob =
     need rd_u32 (error_result Truncated ''obs length truncated'') (\<lambda>len.
     check (\<not> len > 16 * 1024 * 1024) (error_result OutOfBounds ''obs blob too large'') (
     need (ok_of (rd_raw len)) (error_result Truncated ''obs blob truncated'') (\<lambda>blob r.
     case decode_device_observation blob of
       Inl _ \<Rightarrow> Inl (error_result Malformed ''obs blob malformed'')
     | Inr ob \<Rightarrow> Inr (ob, r))))"

definition decode_observation_batch :: "bytes \<Rightarrow> DeviceObservation list Result" where
  "decode_observation_batch data =
     need rd_u32 (error_result Truncated ''obs count truncated'') (\<lambda>count.
     check (\<not> count > 4096) (error_result OutOfBounds ''obs count too large'') (
     res_bind (res_times (unat count) obs_blob) (\<lambda>out.
     rd_finish (error_result Malformed ''trailing garbage after observation batch'') out))) (mk_reader data)"

subsection \<open>Round trips\<close>

lemma read_optional_at [rd_simps]:
  "ok_of read_optional_f64 (rd_at pre (write_optional_f64 v @ post))
     = Some (v, rd_at (pre @ write_optional_f64 v) post)"
  "ok_of read_optional_u32 (rd_at pre (write_optional_u32 v32 @ post))
     = Some (v32, rd_at (pre @ write_optional_u32 v32) post)"
  by (simp_all add: ok_of_def read_optional_f64_def read_optional_u32_def write_optional_f64_def
      write_optional_u32_def put_option_def need_def res_return_def rd_simps split: option.splits)

definition Capability_wf :: "Capability \<Rightarrow> bool" where
  "Capability_wf c \<longleftrightarrow> str_wf 128 (cap_name c) \<and> CapabilityKind_wf (cap_kind c) \<and> str_wf 256 (cap_value c) \<and>
     str_wf 256 (cap_description c)"

lemmas enum_of_to [simp] = capkind_code.of_to health_code.of_to vendor_code.of_to elig_code.of_to
  reason_code.of_to drain_code.of_to changekind_code.of_to

lemma obs_capability_at:
  "Capability_wf c \<Longrightarrow>
   ok_of obs_capability (rd_at pre (put_capability c @ post)) = Some (c, rd_at (pre @ put_capability c) post)"
  by (simp add: ok_of_Some obs_capability_def put_capability_def need_def res_return_def rd_simps Capability_wf_def)

lemma obs_capability_advances:
  assumes "rd_ok r" "ok_of obs_capability r = Some (c, r')"
  shows "rd_advances r r'"
  using assms unfolding ok_of_Some obs_capability_def
  by (auto simp: need_Inr res_return_Inr rd_ok_def dest!: rd_int_advances ok_of_string_advances [rotated])
    (auto simp: rd_advances_def)

interpretation capability_codec: codec "ok_of obs_capability" put_capability Capability_wf
  by unfold_locales (auto intro: obs_capability_advances obs_capability_at)

definition DeviceIdentity_wf :: "DeviceIdentity \<Rightarrow> bool" where
  "DeviceIdentity_wf d \<longleftrightarrow>
     AcceleratorVendor_wf (di_vendor d) \<and> str_wf 128 (di_vendor_name d) \<and> str_wf 128 (di_uuid d) \<and>
     str_wf 64 (di_architecture d) \<and> str_wf 128 (di_driver_version d)"

definition DeviceObservation_wf :: "DeviceObservation \<Rightarrow> bool" where
  "DeviceObservation_wf ob \<longleftrightarrow>
     HealthState_wf (o_health ob) \<and> str_wf 4096 (o_health_explanation ob) \<and>
     length (o_capabilities ob) \<le> 4096 \<and> list_all Capability_wf (o_capabilities ob) \<and>
     str_wf 4096 (o_validation_detail ob) \<and> DeviceIdentity_wf (o_identity ob)"

text \<open>The three parts of the encoding, in the order of the decoder's parts.\<close>

definition flags_bytes :: "DeviceObservation \<Rightarrow> bytes" where
  "flags_bytes ob =
     put_bool (o_core_validation_ok ob) @ put_string 4096 (o_validation_detail ob) @ put_bool (o_enumerated ob) @
     put_bool (o_present ob) @ put_bool (o_driver_runtime_ok ob) @ put_bool (o_cuda_init_ok ob) @
     put_bool (o_memory_alloc_ok ob) @ put_bool (o_h2d_ok ob) @ put_bool (o_kernel_exec_ok ob) @
     put_bool (o_sync_ok ob) @ put_bool (o_d2h_ok ob) @ put_bool (o_verify_ok ob)"

definition identity_bytes :: "DeviceIdentity \<Rightarrow> bytes" where
  "identity_bytes d =
     put_u8 (AcceleratorVendor_to_u8 (di_vendor d)) @ put_string 128 (di_vendor_name d) @
     put_string 128 (di_uuid d) @ put_u32 (pci_domain (di_pci d)) @ put_u16 (pci_bus (di_pci d)) @
     put_u16 (pci_device (di_pci d)) @ put_u16 (pci_function (di_pci d)) @ put_string 64 (di_architecture d) @
     put_u32 (cc_major (di_compute_capability d)) @ put_u32 (cc_minor (di_compute_capability d)) @
     put_u64 (di_total_physical_memory d) @ put_i64 (scast (di_numa_node d)) @
     put_string 128 (di_driver_version d) @ put_u32 (rv_major (di_runtime_version d)) @
     put_u32 (rv_minor (di_runtime_version d)) @ put_u32 (gpu_instance_id (di_mig d)) @
     put_u32 (compute_instance_id (di_mig d)) @ put_option put_u64 (map_option id_value (di_parent_device d))"

lemma decode_flags_at:
  assumes "str_wf 4096 (o_validation_detail ob)"
  shows "decode_flags (rd_at pre (flags_bytes ob @ post)) = Inr
     (\<lparr>of_core_validation_ok = o_core_validation_ok ob, of_validation_detail = o_validation_detail ob,
       of_enumerated = o_enumerated ob, of_present = o_present ob,
       of_driver_runtime_ok = o_driver_runtime_ok ob, of_cuda_init_ok = o_cuda_init_ok ob,
       of_memory_alloc_ok = o_memory_alloc_ok ob, of_h2d_ok = o_h2d_ok ob,
       of_kernel_exec_ok = o_kernel_exec_ok ob, of_sync_ok = o_sync_ok ob, of_d2h_ok = o_d2h_ok ob,
       of_verify_ok = o_verify_ok ob\<rparr>, rd_at (pre @ flags_bytes ob) post)"
  using assms by (simp add: decode_flags_def flags_bytes_def need_def res_return_def rd_simps)

lemma decode_identity_at:
  assumes "DeviceIdentity_wf d"
  shows "decode_identity (rd_at pre (identity_bytes d @ post)) = Inr (d, rd_at (pre @ identity_bytes d) post)"
  using assms
  by (cases "di_parent_device d")
    (simp_all add: decode_identity_def identity_bytes_def DeviceIdentity_wf_def need_def res_return_def
      put_option_def rd_simps Let_def)

lemma encode_device_observation_parts:
  "encode_device_observation ob =
     put_u64 (id_value (o_device_id ob)) @ put_u64 (gen_value (o_observation_generation ob)) @
     put_u64 (gen_value (o_health_generation ob)) @ put_i64 (o_observed_at ob) @
     put_u64 (id_value (o_source_worker_boot ob)) @ put_u64 (id_value (o_source_worker ob)) @
     put_u64 (id_value (o_source_node ob)) @ put_u64 (gen_value (o_epoch ob)) @
     put_u64 (gen_value (o_device_generation ob)) @ put_u8 (HealthState_to_u8 (o_health ob)) @
     put_string 4096 (o_health_explanation ob) @ put_u64 (o_total_memory ob) @ put_u64 (o_used_memory ob) @
     put_u64 (o_free_memory ob) @ write_optional_f64 (o_temperature_c ob) @ write_optional_f64 (o_power_w ob) @
     put_u32 (word_of_nat (length (o_capabilities ob))) @ concat (map put_capability (o_capabilities ob)) @
     flags_bytes ob @ identity_bytes (o_identity ob) @ []"
  by (simp add: encode_device_observation_def flags_bytes_def identity_bytes_def)

lemma decode_encode_device_observation:
  assumes "DeviceObservation_wf ob"
  shows "decode_device_observation (encode_device_observation ob) = Inr ob"
proof -
  have caps: "res_times (length (o_capabilities ob)) obs_capability
      (rd_at pre (concat (map put_capability (o_capabilities ob)) @ post))
      = Inr (o_capabilities ob, rd_at (pre @ concat (map put_capability (o_capabilities ob))) post)" for pre post
    using assms capability_codec.rd_times_enc [of "o_capabilities ob" pre post]
    by (simp add: DeviceObservation_wf_def ok_of_times [symmetric] ok_of_Some)
  show ?thesis
    unfolding encode_device_observation_parts
    using assms
    by (simp add: decode_device_observation_def mk_reader_at rd_flow_defs res_bind_def rd_simps caps
        decode_flags_at decode_identity_at DeviceObservation_wf_def del: append_Nil2)
qed

subsection \<open>Batches\<close>

lemma length_put_string: "length (put_string m s) \<le> 4 + unat m"
  by (simp add: put_string_def Let_def)

lemma length_put_option: "(\<And>x. length (put x) \<le> n) \<Longrightarrow> length (put_option put v) \<le> 1 + n"
  by (auto simp: put_option_def split: option.split)

lemma length_concat_map: "(\<And>x. length (f x) \<le> n) \<Longrightarrow> length (concat (map f xs)) \<le> n * length xs"
  by (induction xs) (auto simp: add_mono)

lemma length_put_capability: "length (put_capability c) \<le> 661"
  using length_put_string [of 128 "cap_name c"] length_put_string [of 256 "cap_value c"]
    length_put_string [of 256 "cap_description c"]
  by (simp add: put_capability_def)

text \<open>The encoding of an observation always fits the bound that the batch decoder puts on a blob.\<close>

lemma length_encode_device_observation:
  assumes "length (o_capabilities ob) \<le> 4096"
  shows "length (encode_device_observation ob) \<le> 16 * 1024 * 1024"
proof -
  have "length (flags_bytes ob) \<le> 4111"
    using length_put_string [of 4096 "o_validation_detail ob"] by (simp add: flags_bytes_def)
  moreover have "length (identity_bytes (o_identity ob)) \<le> 1000"
    using length_put_string [of 128 "di_vendor_name (o_identity ob)"] length_put_string [of 128 "di_uuid (o_identity ob)"]
      length_put_string [of 64 "di_architecture (o_identity ob)"]
      length_put_string [of 128 "di_driver_version (o_identity ob)"]
      length_put_option [of put_u64 8 "map_option id_value (di_parent_device (o_identity ob))"]
    by (simp add: identity_bytes_def)
  moreover have "length (concat (map put_capability (o_capabilities ob))) \<le> 661 * 4096"
    using length_concat_map [of put_capability 661, OF length_put_capability] assms
    by (meson le_trans mult_le_mono2)
  moreover have "length (write_optional_f64 v) \<le> 9" for v
    using length_put_option [of put_f64 8 v] by (simp add: write_optional_f64_def)
  then have "length (write_optional_f64 (o_temperature_c ob)) \<le> 9" "length (write_optional_f64 (o_power_w ob)) \<le> 9"
    by blast+
  ultimately show ?thesis
    using length_put_string [of 4096 "o_health_explanation ob"]
    by (simp add: encode_device_observation_parts)
qed

definition put_obs_blob :: "DeviceObservation \<Rightarrow> bytes" where
  "put_obs_blob ob = put_u32 (word_of_nat (length (encode_device_observation ob))) @ encode_device_observation ob"

lemma obs_blob_at:
  assumes "DeviceObservation_wf ob"
  shows "ok_of obs_blob (rd_at pre (put_obs_blob ob @ post)) = Some (ob, rd_at (pre @ put_obs_blob ob) post)"
proof -
  let ?b = "encode_device_observation ob"
  have bound: "length ?b \<le> 16 * 1024 * 1024"
    using assms by (intro length_encode_device_observation) (simp add: DeviceObservation_wf_def)
  then have len: "unat (word_of_nat (length ?b) :: u32) = length ?b" by (intro unat_length_u32) simp
  moreover have "\<not> (16 * 1024 * 1024 < (word_of_nat (length ?b) :: u32))"
    using bound len by (simp add: word_less_nat_alt)
  ultimately show ?thesis
    using decode_encode_device_observation [OF assms]
    by (simp add: ok_of_Some obs_blob_def put_obs_blob_def need_def check_def rd_simps)
      (simp add: ok_of_def rd_raw_at)
qed

lemma rd_raw_ok_advances: "rd_ok r \<Longrightarrow> ok_of (rd_raw n) r = Some (x, r') \<Longrightarrow> rd_advances r r'"
  by (auto simp: ok_of_Some intro: rd_raw_advances)

lemma obs_blob_inv:
  "obs_blob r = Inr (ob, r') \<Longrightarrow> \<exists>len r1 blob. rd_u32 r = Some (len, r1) \<and>
     ok_of (rd_raw len) r1 = Some (blob, r') \<and> decode_device_observation blob = Inr ob"
  by (auto simp: obs_blob_def need_def check_def split: option.splits sum.splits if_splits)

lemma obs_blob_advances:
  assumes "rd_ok r" "ok_of obs_blob r = Some (ob, r')"
  shows "rd_advances r r'"
proof -
  obtain len r1 blob where "rd_u32 r = Some (len, r1)" "ok_of (rd_raw len) r1 = Some (blob, r')"
    using assms(2) obs_blob_inv unfolding ok_of_Some by blast
  then show ?thesis
    by (meson assms(1) rd_advances_ok rd_advances_trans rd_int_advances(3) rd_raw_ok_advances)
qed

interpretation obs_blob_codec: codec "ok_of obs_blob" put_obs_blob DeviceObservation_wf
  by unfold_locales (auto intro: obs_blob_advances obs_blob_at)

lemma encode_observation_batch_blobs:
  "encode_observation_batch obs = put_u32 (word_of_nat (length obs)) @ concat (map put_obs_blob obs) @ []"
  by (simp add: encode_observation_batch_def put_obs_blob_def [abs_def] Let_def)

lemma decode_encode_observation_batch:
  assumes "length obs \<le> 4096" "list_all DeviceObservation_wf obs"
  shows "decode_observation_batch (encode_observation_batch obs) = Inr obs"
proof -
  have "res_times (length obs) obs_blob (rd_at pre (concat (map put_obs_blob obs) @ post))
      = Inr (obs, rd_at (pre @ concat (map put_obs_blob obs)) post)" for pre post
    using obs_blob_codec.rd_times_enc [OF assms(2), of pre post]
    by (simp add: ok_of_times [symmetric] ok_of_Some)
  then show ?thesis
    unfolding encode_observation_batch_blobs using assms(1)
    by (simp add: decode_observation_batch_def mk_reader_at rd_flow_defs res_bind_def rd_simps del: append_Nil2)
qed

subsection \<open>What a successful decoding guarantees\<close>

lemma decode_identity_wf: "ok_of decode_identity r = Some (d, r') \<Longrightarrow> DeviceIdentity_wf d"
  unfolding ok_of_Some decode_identity_def
  by (auto simp: need_Inr res_return_Inr DeviceIdentity_wf_def Let_def vendor_code.wf_of
      dest!: ok_of_string_wf split: if_splits)

lemma obs_capability_wf: "ok_of obs_capability r = Some (c, r') \<Longrightarrow> Capability_wf c"
  unfolding ok_of_Some obs_capability_def
  by (auto simp: need_Inr res_return_Inr Capability_wf_def capkind_code.wf_of dest!: ok_of_string_wf)

lemma decode_flags_wf: "ok_of decode_flags r = Some (fl, r') \<Longrightarrow> str_wf 4096 (of_validation_detail fl)"
  unfolding ok_of_Some decode_flags_def
  by (auto simp: need_Inr res_return_Inr dest!: ok_of_string_wf)

lemma obs_capabilities_wf:
  "rd_times n (ok_of obs_capability) r = Some (cs, r') \<Longrightarrow> list_all Capability_wf cs \<and> length cs = n"
  by (auto intro: rd_times_all rd_times_count obs_capability_wf)

lemma decode_device_observation_wf: "decode_device_observation bs = Inr ob \<Longrightarrow> DeviceObservation_wf ob"
  unfolding decode_device_observation_def
  by (auto simp: rd_inv res_inv DeviceObservation_wf_def word_less_nat_alt not_less health_code.wf_of
      dest!: ok_of_string_wf obs_capabilities_wf decode_flags_wf decode_identity_wf)

lemma obs_blob_wf: "ok_of obs_blob r = Some (ob, r') \<Longrightarrow> DeviceObservation_wf ob"
  unfolding ok_of_Some by (auto dest: obs_blob_inv decode_device_observation_wf)

lemma decode_observation_batch_wf:
  assumes "decode_observation_batch bs = Inr obs"
  shows "length obs \<le> 4096 \<and> list_all DeviceObservation_wf obs"
proof -
  obtain n r r' where "n \<le> 4096" "rd_times n (ok_of obs_blob) r = Some (obs, r')"
    using assms unfolding decode_observation_batch_def
    by (auto simp: rd_inv res_inv word_less_nat_alt not_less)
  then show ?thesis by (auto dest: rd_times_count intro: rd_times_all obs_blob_wf)
qed


end
