(* ===== verification/Snapshot_Codec.thy ===== *)
theory Snapshot_Codec
  imports Observation_Codec Fleet_State
begin

text \<open>
  \<^verbatim>\<open>fleet/snapshot_codec.hpp\<close>: the serialised form of a fleet snapshot. Maps are written in key
  order and rebuilt entry by entry; the decoder refuses a repeated worker or device key.
\<close>

definition write_identity :: "DeviceIdentity \<Rightarrow> bytes" where
  "write_identity d =
     put_u8 (AcceleratorVendor_to_u8 (di_vendor d)) @ put_string 128 (di_vendor_name d) @
     put_string 128 (di_uuid d) @ put_u32 (pci_domain (di_pci d)) @ put_u16 (pci_bus (di_pci d)) @
     put_u16 (pci_device (di_pci d)) @ put_u16 (pci_function (di_pci d)) @ put_string 64 (di_architecture d) @
     put_u32 (cc_major (di_compute_capability d)) @ put_u32 (cc_minor (di_compute_capability d)) @
     put_u64 (di_total_physical_memory d) @ put_i64 (scast (di_numa_node d)) @
     put_string 128 (di_driver_version d) @ put_u32 (rv_major (di_runtime_version d)) @
     put_u32 (rv_minor (di_runtime_version d)) @ put_u32 (gpu_instance_id (di_mig d)) @
     put_u32 (compute_instance_id (di_mig d)) @ put_option put_u64 (map_option id_value (di_parent_device d))"

definition read_identity :: "DeviceIdentity rd" where
  "read_identity =
     rd_bind rd_u8 (\<lambda>vendor.
     rd_bind (ok_of (rd_string 128)) (\<lambda>vn.
     rd_bind (ok_of (rd_string 128)) (\<lambda>uuid.
     rd_bind rd_u32 (\<lambda>domain.
     rd_bind rd_u16 (\<lambda>bus.
     rd_bind rd_u16 (\<lambda>dev.
     rd_bind rd_u16 (\<lambda>fn.
     rd_bind (ok_of (rd_string 64)) (\<lambda>arch.
     rd_bind rd_u32 (\<lambda>ccmaj.
     rd_bind rd_u32 (\<lambda>ccmin.
     rd_bind rd_u64 (\<lambda>mem.
     rd_bind rd_i64 (\<lambda>numa.
     rd_bind (ok_of (rd_string 128)) (\<lambda>dv.
     rd_bind rd_u32 (\<lambda>rmaj.
     rd_bind rd_u32 (\<lambda>rmin.
     rd_bind rd_u32 (\<lambda>mgpu.
     rd_bind rd_u32 (\<lambda>mci.
     rd_bind (rd_option rd_u64) (\<lambda>parent.
     rd_return
       \<lparr>di_vendor = AcceleratorVendor_of_u8 vendor, di_vendor_name = vn, di_uuid = uuid,
        di_pci = \<lparr>pci_domain = domain, pci_bus = bus, pci_device = dev, pci_function = fn\<rparr>,
        di_architecture = arch, di_compute_capability = \<lparr>cc_major = ccmaj, cc_minor = ccmin\<rparr>,
        di_total_physical_memory = mem, di_numa_node = ucast numa, di_driver_version = dv,
        di_runtime_version = \<lparr>rv_major = rmaj, rv_minor = rmin\<rparr>,
        di_mig = \<lparr>gpu_instance_id = mgpu, compute_instance_id = mci\<rparr>,
        di_parent_device = map_option StrongId parent\<rparr>))))))))))))))))))"

definition read_capability :: "Capability rd" where
  "read_capability =
     rd_bind rd_u64 (\<lambda>i.
     rd_bind (ok_of (rd_string 128)) (\<lambda>nm.
     rd_bind rd_u8 (\<lambda>kind.
     rd_bind (ok_of (rd_string 256)) (\<lambda>val.
     rd_bind (ok_of (rd_string 256)) (\<lambda>desc.
     rd_return \<lparr>cap_id = StrongId i, cap_name = nm, cap_kind = CapabilityKind_of_u8 kind,
                cap_value = val, cap_description = desc\<rparr>)))))"

definition write_device_state :: "DeviceState \<Rightarrow> bytes" where
  "write_device_state d =
     put_u64 (id_value (ds_device_id d)) @
     put_u64 (gen_value (ds_generation d)) @
     write_identity (ds_identity d) @
     put_bool (ds_present d) @
     put_u8 (HealthState_to_u8 (ds_health d)) @
     put_string 4096 (ds_health_explanation d) @
     put_u8 (EligibilityState_to_u8 (ds_eligibility d)) @
     put_u32 (word_of_nat (length (ds_eligibility_reasons d))) @
     concat (map (\<lambda>r. put_u8 (EligibilityReason_to_u8 r)) (ds_eligibility_reasons d)) @
     put_u8 (DrainState_to_u8 (ds_drain d)) @
     put_bool (ds_quarantined d) @
     put_string 512 (q_reason (ds_quarantine d)) @
     put_string 128 (q_source (ds_quarantine d)) @
     put_u64 (gen_value (q_generation (ds_quarantine d))) @
     put_i64 (q_at (ds_quarantine d)) @
     put_u64 (id_value (q_device_id (ds_quarantine d))) @
     put_u64 (gen_value (q_authority (ds_quarantine d))) @
     put_u64 (ds_total_memory d) @ put_u64 (ds_used_memory d) @ put_u64 (ds_free_memory d) @
     put_option put_f64 (ds_temperature_c d) @
     put_option put_f64 (ds_power_w d) @
     put_u32 (word_of_nat (length (ds_capabilities d))) @
     concat (map put_capability (ds_capabilities d)) @
     put_bool (ds_core_validation_ok d) @
     put_string 4096 (ds_validation_detail d) @
     put_i64 (ds_last_observed_at d) @ put_i64 (ds_last_validated_at d) @ put_i64 (ds_last_authoritative_at d) @
     put_u64 (gen_value (ds_observation_generation d)) @
     put_u64 (gen_value (ds_health_generation d)) @
     put_u64 (id_value (ds_source_worker_boot d)) @
     put_bool (ds_observation_fresh d)"

definition read_device_state :: "DeviceState rd" where
  "read_device_state =
     rd_bind rd_u64 (\<lambda>did.
     rd_bind rd_u64 (\<lambda>gen.
     rd_bind read_identity (\<lambda>ident.
     rd_bind rd_bool (\<lambda>present.
     rd_bind (rd_map HealthState_of_u8 rd_u8) (\<lambda>health.
     rd_bind (ok_of (rd_string 4096)) (\<lambda>expl.
     rd_bind (rd_map EligibilityState_of_u8 rd_u8) (\<lambda>elig.
     rd_bind rd_u32 (\<lambda>nreason.
     rd_guard (\<not> nreason > 32) (
     rd_bind (rd_times (unat nreason) (rd_map EligibilityReason_of_u8 rd_u8)) (\<lambda>reasons.
     rd_bind (rd_map DrainState_of_u8 rd_u8) (\<lambda>drain.
     rd_bind rd_bool (\<lambda>quar.
     rd_bind (ok_of (rd_string 512)) (\<lambda>qr.
     rd_bind (ok_of (rd_string 128)) (\<lambda>qs.
     rd_bind rd_u64 (\<lambda>qg.
     rd_bind rd_i64 (\<lambda>qat.
     rd_bind rd_u64 (\<lambda>qd.
     rd_bind rd_u64 (\<lambda>qa.
     rd_bind rd_u64 (\<lambda>total.
     rd_bind rd_u64 (\<lambda>used.
     rd_bind rd_u64 (\<lambda>free.
     rd_bind (rd_option rd_f64) (\<lambda>temp.
     rd_bind (rd_option rd_f64) (\<lambda>power.
     rd_bind rd_u32 (\<lambda>ncap.
     rd_guard (\<not> ncap > 4096) (
     rd_bind (rd_times (unat ncap) read_capability) (\<lambda>caps.
     rd_bind rd_bool (\<lambda>core.
     rd_bind (ok_of (rd_string 4096)) (\<lambda>vd.
     rd_bind rd_i64 (\<lambda>lo.
     rd_bind rd_i64 (\<lambda>lv.
     rd_bind rd_i64 (\<lambda>la.
     rd_bind rd_u64 (\<lambda>og.
     rd_bind rd_u64 (\<lambda>hg.
     rd_bind rd_u64 (\<lambda>boot.
     rd_bind rd_bool (\<lambda>fresh.
     rd_return
       \<lparr>ds_device_id = StrongId did, ds_generation = Generation gen, ds_identity = ident,
        ds_present = present, ds_health = health, ds_health_explanation = expl, ds_eligibility = elig,
        ds_eligibility_reasons = reasons, ds_drain = drain, ds_quarantined = quar,
        ds_quarantine = \<lparr>q_reason = qr, q_source = qs, q_generation = Generation qg, q_at = qat,
                         q_device_id = StrongId qd, q_authority = Generation qa\<rparr>,
        ds_total_memory = total, ds_used_memory = used, ds_free_memory = free,
        ds_temperature_c = temp, ds_power_w = power, ds_capabilities = caps,
        ds_core_validation_ok = core, ds_validation_detail = vd, ds_last_observed_at = lo,
        ds_last_validated_at = lv, ds_last_authoritative_at = la,
        ds_observation_generation = Generation og, ds_health_generation = Generation hg,
        ds_source_worker_boot = StrongId boot, ds_observation_fresh = fresh\<rparr>
     )))))))))))))))))))))))))))))))))))"

subsection \<open>Entries of the snapshot\<close>

definition put_node :: "NodeId \<times> NodeRecord \<Rightarrow> bytes" where
  "put_node e = (case e of (k, n) \<Rightarrow>
     put_u64 (id_value k) @ put_u64 (gen_value (nr_generation n)) @ put_i64 (nr_first_seen n))"

definition snap_node :: "(NodeId \<times> NodeRecord) rd_result" where
  "snap_node =
     need rd_u64 (error_result Truncated ''node id truncated'') (\<lambda>i.
     need rd_u64 (error_result Truncated ''node gen truncated'') (\<lambda>g.
     need rd_i64 (error_result Truncated ''node first_seen truncated'') (\<lambda>t.
     res_return (StrongId i, \<lparr>nr_node = StrongId i, nr_generation = Generation g, nr_first_seen = t\<rparr>))))"

definition put_worker :: "WorkerId \<times> WorkerRecord \<Rightarrow> bytes" where
  "put_worker e = (case e of (k, wr) \<Rightarrow>
     put_u64 (id_value k) @ put_u64 (id_value (wr_boot wr)) @
     put_u64 (gen_value (wr_registration_generation wr)) @ put_u64 (id_value (wr_node wr)) @
     put_u64 (id_value (wr_agent wr)) @ put_u32 (sv_major (wr_agent_version wr)) @
     put_u32 (sv_minor (wr_agent_version wr)) @ put_u32 (sv_patch (wr_agent_version wr)) @
     put_u32 (wr_protocol_version wr) @ put_string 128 (wr_os_platform wr) @
     put_string 128 (wr_driver_version wr) @ put_strings 256 (wr_device_identities wr) @
     put_strings 128 (wr_supported_capabilities wr) @ put_i64 (wr_registered_at wr) @
     put_i64 (wr_last_heartbeat wr) @ put_u64 (gen_value (wr_registered_epoch wr)) @
     put_bool (wr_alive wr) @ put_bool (wr_fenced wr) @ put_bool (wr_lost wr))"

definition snap_worker :: "(WorkerId \<times> WorkerRecord) rd_result" where
  "snap_worker =
     need rd_u64 (error_result Truncated ''worker id truncated'') (\<lambda>w.
     need rd_u64 (error_result Truncated ''worker boot truncated'') (\<lambda>boot.
     need rd_u64 (error_result Truncated ''reg gen truncated'') (\<lambda>rg.
     need rd_u64 (error_result Truncated ''worker node truncated'') (\<lambda>node.
     need rd_u64 (error_result Truncated ''worker agent truncated'') (\<lambda>agent.
     need rd_u32 (error_result Truncated ''agent major truncated'') (\<lambda>major.
     need rd_u32 (error_result Truncated ''agent minor truncated'') (\<lambda>minor.
     need rd_u32 (error_result Truncated ''agent patch truncated'') (\<lambda>patch.
     need rd_u32 (error_result Truncated ''protocol truncated'') (\<lambda>protocol.
     need (ok_of (rd_string 128)) (error_result Truncated ''os truncated'') (\<lambda>os.
     need (ok_of (rd_string 128)) (error_result Truncated ''driver truncated'') (\<lambda>driver.
     need rd_u32 (error_result Truncated ''dev ident count truncated'') (\<lambda>ndev.
     check (\<not> ndev > 4096) (error_result OutOfBounds ''dev ident too many'') (
     need (rd_times (unat ndev) (ok_of (rd_string 256))) (error_result Truncated ''dev ident truncated'') (\<lambda>devs.
     need rd_u32 (error_result Truncated ''caps count truncated'') (\<lambda>ncap.
     check (\<not> ncap > 4096) (error_result OutOfBounds ''caps too many'') (
     need (rd_times (unat ncap) (ok_of (rd_string 128))) (error_result Truncated ''cap truncated'') (\<lambda>caps.
     need rd_i64 (error_result Truncated ''registered_at truncated'') (\<lambda>rat.
     need rd_i64 (error_result Truncated ''last heartbeat truncated'') (\<lambda>lhb.
     need rd_u64 (error_result Truncated ''reg epoch truncated'') (\<lambda>rep.
     need rd_bool (error_result Truncated ''alive truncated'') (\<lambda>alive.
     need rd_bool (error_result Truncated ''fenced truncated'') (\<lambda>fenced.
     need rd_bool (error_result Truncated ''lost truncated'') (\<lambda>lost.
     res_return (StrongId w,
       \<lparr>wr_worker = StrongId w, wr_boot = StrongId boot, wr_registration_generation = Generation rg,
        wr_node = StrongId node, wr_agent = StrongId agent,
        wr_agent_version = \<lparr>sv_major = major, sv_minor = minor, sv_patch = patch\<rparr>,
        wr_protocol_version = protocol, wr_os_platform = os, wr_driver_version = driver,
        wr_device_identities = devs, wr_supported_capabilities = caps, wr_registered_at = rat,
        wr_last_heartbeat = lhb, wr_registered_epoch = Generation rep, wr_alive = alive,
        wr_fenced = fenced, wr_lost = lost\<rparr>))))))))))))))))))))))))"

definition put_device :: "string \<times> DeviceState \<Rightarrow> bytes" where
  "put_device e = (case e of (key, d) \<Rightarrow> put_string 256 key @ write_device_state d)"

definition snap_device :: "(string \<times> DeviceState) rd_result" where
  "snap_device =
     need (ok_of (rd_string 256)) (error_result Truncated ''device key truncated'') (\<lambda>key.
     need read_device_state (error_result Truncated ''device state truncated'') (\<lambda>d.
     res_return (key, d)))"

definition put_change :: "ChangeRecord \<Rightarrow> bytes" where
  "put_change c =
     put_u8 (ChangeKind_to_u8 (cr_kind c)) @ put_u64 (id_value (cr_device_id c)) @ put_i64 (cr_at c) @
     put_u64 (gen_value (cr_generation c)) @ put_u64 (gen_value (cr_epoch c)) @
     put_string 512 (cr_detail c) @ put_string 128 (cr_from c) @ put_string 128 (cr_to c)"

definition snap_change :: "ChangeRecord rd_result" where
  "snap_change =
     need rd_u8 (error_result Truncated ''change kind truncated'') (\<lambda>b.
     need rd_u64 (error_result Truncated ''change device truncated'') (\<lambda>did.
     need rd_i64 (error_result Truncated ''change at truncated'') (\<lambda>at.
     need rd_u64 (error_result Truncated ''change gen truncated'') (\<lambda>gen.
     need rd_u64 (error_result Truncated ''change epoch truncated'') (\<lambda>epoch.
     need (ok_of (rd_string 512)) (error_result Truncated ''change detail truncated'') (\<lambda>detail.
     need (ok_of (rd_string 128)) (error_result Truncated ''change from truncated'') (\<lambda>frm.
     need (ok_of (rd_string 128)) (error_result Truncated ''change to truncated'') (\<lambda>to.
     res_return \<lparr>cr_kind = ChangeKind_of_u8 b, cr_device_id = StrongId did, cr_at = at,
                 cr_generation = Generation gen, cr_epoch = Generation epoch, cr_detail = detail,
                 cr_from = frm, cr_to = to\<rparr>))))))))"

text \<open>
  The loops that rebuild a map: read an entry, refuse a repeated key where the source checks for
  one (it does for workers and devices, not for nodes), then \<^verbatim>\<open>emplace\<close>.
\<close>

fun load_entries ::
  "nat \<Rightarrow> ('k::linorder \<times> 'v) rd_result \<Rightarrow> Error option \<Rightarrow> ('k, 'v) omap \<Rightarrow> ('k, 'v) omap rd_result" where
  "load_entries 0 f dup m r = Inr (m, r)"
| "load_entries (Suc n) f dup m r =
     (case f r of Inl e \<Rightarrow> Inl e
      | Inr ((k, v), r1) \<Rightarrow>
          (case (dup, om_find m k) of
             (Some e, Some _) \<Rightarrow> Inl e
           | _ \<Rightarrow> load_entries n f dup (om_emplace k v m) r1))"

definition encode_snapshot :: "StateSnapshot \<Rightarrow> bytes" where
  "encode_snapshot s =
     put_u64 (id_value (sn_coordinator s)) @
     put_u64 (gen_value (sn_epoch s)) @
     put_u64 (gen_value (sn_fleet_generation s)) @
     put_u64 (gen_value (sn_node_generation s)) @
     put_u32 (word_of_nat (length (sn_nodes s))) @
     concat (map put_node (sn_nodes s)) @
     put_u32 (word_of_nat (length (sn_workers s))) @
     concat (map put_worker (sn_workers s)) @
     put_u32 (word_of_nat (length (sn_devices s))) @
     concat (map put_device (sn_devices s)) @
     put_u32 (word_of_nat (length (sn_change_log s))) @
     concat (map put_change (sn_change_log s))"

definition decode_snapshot :: "bytes \<Rightarrow> StateSnapshot Result" where
  "decode_snapshot data =
     need rd_u64 (error_result Truncated ''coordinator truncated'') (\<lambda>coordinator.
     need rd_u64 (error_result Truncated ''epoch truncated'') (\<lambda>epoch.
     need rd_u64 (error_result Truncated ''fleet gen truncated'') (\<lambda>fg.
     need rd_u64 (error_result Truncated ''node gen truncated'') (\<lambda>ng.
     need rd_u32 (error_result Truncated ''node count truncated'') (\<lambda>nnode.
     check (\<not> nnode > 100000) (error_result OutOfBounds ''node count too large'') (
     res_bind (load_entries (unat nnode) snap_node None []) (\<lambda>nodes.
     need rd_u32 (error_result Truncated ''worker count truncated'') (\<lambda>nworker.
     check (\<not> nworker > 100000) (error_result OutOfBounds ''worker count too large'') (
     res_bind (load_entries (unat nworker) snap_worker (Some (error_result Duplicate ''duplicate worker id'')) []) (\<lambda>workers.
     need rd_u32 (error_result Truncated ''device count truncated'') (\<lambda>ndevice.
     check (\<not> ndevice > 100000) (error_result OutOfBounds ''device count too large'') (
     res_bind (load_entries (unat ndevice) snap_device (Some (error_result Duplicate ''duplicate device key'')) []) (\<lambda>devices.
     need rd_u32 (error_result Truncated ''change count truncated'') (\<lambda>nchange.
     check (\<not> nchange > 200000) (error_result OutOfBounds ''change log too large'') (
     res_bind (res_times (unat nchange) snap_change) (\<lambda>log.
     rd_finish (error_result Malformed ''trailing garbage after snapshot'')
       \<lparr>sn_coordinator = StrongId coordinator, sn_epoch = Generation epoch,
        sn_fleet_generation = Generation fg, sn_node_generation = Generation ng, sn_nodes = nodes,
        sn_workers = workers, sn_devices = devices, sn_change_log = log,
        sn_accounting = Accounting_zero\<rparr>
     )))))))))))))))) (mk_reader data)"

subsection \<open>Round trips\<close>

lemma read_identity_eq: "read_identity = ok_of decode_identity"
  by (rule ext) (auto simp: read_identity_def decode_identity_def ok_of_flow Let_def rd_option_def
      rd_bind_def rd_return_def ok_of_def need_def res_return_def split: option.splits)

lemma write_identity_eq: "write_identity d = identity_bytes d"
  by (simp add: write_identity_def identity_bytes_def)

lemma read_capability_eq: "read_capability = ok_of obs_capability"
  by (simp add: read_capability_def obs_capability_def ok_of_flow)

lemma advancing_identity: "advancing read_identity"
  unfolding read_identity_def by (intro advancing_intros)

lemma advancing_capability: "advancing read_capability"
  unfolding read_capability_def by (intro advancing_intros)

lemma advancing_device_state: "advancing read_device_state"
  unfolding read_device_state_def
  by (intro advancing_intros advancing_identity advancing_capability)

lemma read_identity_at:
  "DeviceIdentity_wf d \<Longrightarrow>
   read_identity (rd_at pre (write_identity d @ post)) = Some (d, rd_at (pre @ write_identity d) post)"
  by (simp add: read_identity_eq write_identity_eq ok_of_Some decode_identity_at)

definition DeviceState_wf :: "DeviceState \<Rightarrow> bool" where
  "DeviceState_wf d \<longleftrightarrow>
     DeviceIdentity_wf (ds_identity d) \<and> HealthState_wf (ds_health d) \<and> str_wf 4096 (ds_health_explanation d) \<and>
     EligibilityState_wf (ds_eligibility d) \<and> length (ds_eligibility_reasons d) \<le> 32 \<and>
     list_all EligibilityReason_wf (ds_eligibility_reasons d) \<and> DrainState_wf (ds_drain d) \<and>
     str_wf 512 (q_reason (ds_quarantine d)) \<and> str_wf 128 (q_source (ds_quarantine d)) \<and>
     length (ds_capabilities d) \<le> 4096 \<and> list_all Capability_wf (ds_capabilities d) \<and>
     str_wf 4096 (ds_validation_detail d)"

lemma count_bound: "n \<le> unat (m :: u32) \<Longrightarrow> \<not> (m < word_of_nat n)"
  using word_of_nat_le_u32 by (simp add: not_less)

lemma unat_bound: "n \<le> unat (m :: u32) \<Longrightarrow> unat (word_of_nat n :: u32) = n"
  using unsigned_less [of m, where 'a = nat] by (intro unat_length_u32) simp

lemma device_state_at:
  assumes "DeviceState_wf d"
  shows "read_device_state (rd_at pre (write_device_state d @ post)) = Some (d, rd_at (pre @ write_device_state d) post)"
proof -
  have "length (ds_eligibility_reasons d) \<le> unat (32 :: u32)" using assms by (simp add: DeviceState_wf_def)
  note r = count_bound [OF this] unat_bound [OF this]
  have "list_all Capability_wf (ds_capabilities d)" "list_all EligibilityReason_wf (ds_eligibility_reasons d)"
    using assms by (simp_all add: DeviceState_wf_def)
  note t = capability_codec.rd_times_enc [OF this(1), folded read_capability_eq] reason_code.rd_times_enc [OF this(2)]
  show ?thesis
    using assms
    by (simp add: read_device_state_def write_device_state_def rd_bind_def rd_return_def rd_guard_def rd_simps
        read_identity_at r t health_code.dec_enc elig_code.dec_enc drain_code.dec_enc DeviceState_wf_def)
qed


interpretation device_state_codec: codec read_device_state write_device_state DeviceState_wf
  by unfold_locales (auto intro: advancingD [OF advancing_device_state] device_state_at)

definition node_wf :: "NodeId \<times> NodeRecord \<Rightarrow> bool" where
  "node_wf e \<longleftrightarrow> nr_node (snd e) = fst e"

definition worker_wf :: "WorkerId \<times> WorkerRecord \<Rightarrow> bool" where
  "worker_wf e \<longleftrightarrow>
     wr_worker (snd e) = fst e \<and> str_wf 128 (wr_os_platform (snd e)) \<and> str_wf 128 (wr_driver_version (snd e)) \<and>
     length (wr_device_identities (snd e)) \<le> 4096 \<and> list_all (str_wf 256) (wr_device_identities (snd e)) \<and>
     length (wr_supported_capabilities (snd e)) \<le> 4096 \<and> list_all (str_wf 128) (wr_supported_capabilities (snd e))"

definition device_wf :: "string \<times> DeviceState \<Rightarrow> bool" where
  "device_wf e \<longleftrightarrow> str_wf 256 (fst e) \<and> DeviceState_wf (snd e)"

definition change_wf :: "ChangeRecord \<Rightarrow> bool" where
  "change_wf c \<longleftrightarrow> ChangeKind_wf (cr_kind c) \<and> str_wf 512 (cr_detail c) \<and> str_wf 128 (cr_from c) \<and> str_wf 128 (cr_to c)"

interpretation node_codec: codec "ok_of snap_node" put_node node_wf
proof (unfold_locales, goal_cases)
  case (1 r x r')
  have "advancing (ok_of snap_node)" unfolding snap_node_def ok_of_flow by (intro advancing_intros)
  then show ?case using 1 by (rule advancingD)
next
  case (2 e pre post)
  then show ?case
    by (cases e) (simp add: ok_of_Some snap_node_def put_node_def need_def res_return_def rd_simps node_wf_def)
qed

interpretation worker_codec: codec "ok_of snap_worker" put_worker worker_wf
proof (unfold_locales, goal_cases)
  case (1 r x r')
  have "advancing (ok_of snap_worker)" unfolding snap_worker_def ok_of_flow by (intro advancing_intros)
  then show ?case using 1 by (rule advancingD)
next
  case (2 e pre post)
  then show ?case
    by (cases e) (simp add: ok_of_Some snap_worker_def put_worker_def put_strings_def need_def check_def
        res_return_def rd_simps string_codec.rd_times_enc worker_wf_def)
qed

interpretation device_codec: codec "ok_of snap_device" put_device device_wf
proof (unfold_locales, goal_cases)
  case (1 r x r')
  have "advancing (ok_of snap_device)"
    unfolding snap_device_def ok_of_flow by (intro advancing_intros advancing_device_state)
  then show ?case using 1 by (rule advancingD)
next
  case (2 e pre post)
  then show ?case
    by (cases e) (simp add: ok_of_Some snap_device_def put_device_def need_def res_return_def rd_simps
        device_state_at device_wf_def)
qed

interpretation change_codec: codec "ok_of snap_change" put_change change_wf
proof (unfold_locales, goal_cases)
  case (1 r x r')
  have "advancing (ok_of snap_change)" unfolding snap_change_def ok_of_flow by (intro advancing_intros)
  then show ?case using 1 by (rule advancingD)
next
  case (2 c pre post)
  then show ?case
    by (simp add: ok_of_Some snap_change_def put_change_def need_def res_return_def rd_simps change_wf_def)
qed

text \<open>Reading back the entries of a map in key order rebuilds the map.\<close>

lemma load_entries_enc:
  assumes "\<And>e pre post. P e \<Longrightarrow> f (rd_at pre (enc e @ post)) = Inr (e, rd_at (pre @ enc e) post)"
    and "list_all P es" "om_ok (m @ es)"
  shows "load_entries (length es) f dup m (rd_at pre (concat (map enc es) @ post))
           = Inr (m @ es, rd_at (pre @ concat (map enc es)) post)"
  using assms(2,3)
proof (induction es arbitrary: m pre)
  case Nil
  then show ?case by simp
next
  case (Cons e es)
  obtain k v where e: "e = (k, v)" by (cases e)
  have ok: "om_ok ((m @ [(k, v)]) @ es)" "om_ok (m @ [(k, v)])"
    using Cons.prems(2) by (auto simp: om_ok_def sorted_wrt_append e)
  then have none: "om_find m k = None"
    by (auto simp: om_ok_def sorted_wrt_append om_find_def map_of_eq_None_iff)
  have step: "f (rd_at pre (enc (k, v) @ rest)) = Inr ((k, v), rd_at (pre @ enc (k, v)) rest)" for rest
    using Cons.prems(1) by (intro assms(1)) (simp add: e)
  show ?case
    using Cons.IH [OF _ ok(1), of "pre @ enc (k, v)"] Cons.prems(1) ok(2)
    by (cases dup) (simp_all add: e step none om_emplace_append)
qed

definition StateSnapshot_wf :: "StateSnapshot \<Rightarrow> bool" where
  "StateSnapshot_wf s \<longleftrightarrow>
     om_ok (sn_nodes s) \<and> om_ok (sn_workers s) \<and> om_ok (sn_devices s) \<and>
     length (sn_nodes s) \<le> 100000 \<and> list_all node_wf (sn_nodes s) \<and>
     length (sn_workers s) \<le> 100000 \<and> list_all worker_wf (sn_workers s) \<and>
     length (sn_devices s) \<le> 100000 \<and> list_all device_wf (sn_devices s) \<and>
     length (sn_change_log s) \<le> 200000 \<and> list_all change_wf (sn_change_log s)"

lemma decode_encode_snapshot:
  assumes "StateSnapshot_wf s"
  shows "decode_snapshot (encode_snapshot s) = Inr (s\<lparr>sn_accounting := Accounting_zero\<rparr>)"
proof -
  have "length (sn_nodes s) \<le> unat (100000 :: u32)" "length (sn_workers s) \<le> unat (100000 :: u32)"
    "length (sn_devices s) \<le> unat (100000 :: u32)" "length (sn_change_log s) \<le> unat (200000 :: u32)"
    using assms by (simp_all add: StateSnapshot_wf_def)
  note c = this [THEN count_bound] this [THEN unat_bound]
  have nodes: "load_entries (length (sn_nodes s)) snap_node d [] (rd_at pre (concat (map put_node (sn_nodes s)) @ post))
      = Inr (sn_nodes s, rd_at (pre @ concat (map put_node (sn_nodes s))) post)" for d pre post
    using load_entries_enc [of node_wf snap_node put_node "sn_nodes s" "[]"] assms
      node_codec.dec_enc [unfolded ok_of_Some] by (simp add: StateSnapshot_wf_def)
  have workers: "load_entries (length (sn_workers s)) snap_worker d []
      (rd_at pre (concat (map put_worker (sn_workers s)) @ post))
      = Inr (sn_workers s, rd_at (pre @ concat (map put_worker (sn_workers s))) post)" for d pre post
    using load_entries_enc [of worker_wf snap_worker put_worker "sn_workers s" "[]"] assms
      worker_codec.dec_enc [unfolded ok_of_Some] by (simp add: StateSnapshot_wf_def)
  have devices: "load_entries (length (sn_devices s)) snap_device d []
      (rd_at pre (concat (map put_device (sn_devices s)) @ post))
      = Inr (sn_devices s, rd_at (pre @ concat (map put_device (sn_devices s))) post)" for d pre post
    using load_entries_enc [of device_wf snap_device put_device "sn_devices s" "[]"] assms
      device_codec.dec_enc [unfolded ok_of_Some] by (simp add: StateSnapshot_wf_def)
  have log: "res_times (length (sn_change_log s)) snap_change (rd_at pre (concat (map put_change (sn_change_log s))))
      = Inr (sn_change_log s, rd_at (pre @ concat (map put_change (sn_change_log s))) [])" for pre
    using change_codec.rd_times_enc [of "sn_change_log s" pre "[]"] assms
    by (simp add: StateSnapshot_wf_def ok_of_times [symmetric] ok_of_Some)
  show ?thesis
    by (simp add: decode_snapshot_def encode_snapshot_def mk_reader_at rd_flow_defs res_bind_def rd_simps
        c nodes workers devices log)
qed


subsection \<open>What a successful decoding guarantees\<close>

lemma set_om_put: "set (om_put k v m) \<subseteq> insert (k, v) (set m)"
  by (induction k v m rule: om_put.induct) auto

lemma length_om_put_le: "length (om_put k v m) \<le> Suc (length m)"
  by (induction k v m rule: om_put.induct) auto

lemma om_emplace_cases: "om_emplace k v m = m \<or> om_emplace k v m = om_put k v m"
  by (simp add: om_emplace_def split: option.split)

lemma load_entries_ok:
  assumes "load_entries n f dup m r = Inr (m', r')" "om_ok m" "list_all P m"
    and "\<And>r e r'. f r = Inr (e, r') \<Longrightarrow> P e"
  shows "om_ok m' \<and> list_all P m' \<and> length m' \<le> length m + n"
  using assms(1-3)
proof (induction n arbitrary: m r)
  case 0
  then show ?case by simp
next
  case (Suc n)
  obtain k v r1 where f: "f r = Inr ((k, v), r1)" "load_entries n f dup (om_emplace k v m) r1 = Inr (m', r')"
    using Suc.prems(1) by (auto split: sum.splits option.splits prod.splits)
  have "om_ok (om_emplace k v m)" using Suc.prems(2) by simp
  moreover have "list_all P (om_emplace k v m)"
    using om_emplace_cases [of k v m] set_om_put [of k v m] Suc.prems(3) assms(4) [OF f(1)]
    by (fastforce simp: list_all_iff)
  moreover have "length (om_emplace k v m) \<le> Suc (length m)"
    using om_emplace_cases [of k v m] length_om_put_le [of k v m] by auto
  ultimately show ?case using Suc.IH [OF f(2)] by simp
qed

lemma snap_node_wf: "snap_node r = Inr (e, r') \<Longrightarrow> node_wf e"
  by (auto simp: snap_node_def need_Inr res_return_Inr node_wf_def)

lemma snap_worker_wf: "snap_worker r = Inr (e, r') \<Longrightarrow> worker_wf e"
  by (auto simp: snap_worker_def need_Inr check_Inr res_return_Inr worker_wf_def word_less_nat_alt not_less
      dest!: ok_of_string_wf rd_strings_wf)

lemma snap_change_wf: "ok_of snap_change r = Some (c, r') \<Longrightarrow> change_wf c"
  unfolding ok_of_Some snap_change_def
  by (auto simp: need_Inr res_return_Inr change_wf_def changekind_code.wf_of dest!: ok_of_string_wf)

lemma rd_map_Some: "rd_map g f r = Some (y, r') \<longleftrightarrow> (\<exists>x. f r = Some (x, r') \<and> y = g x)"
  by (auto simp: rd_map_def)

lemma read_reasons_wf:
  "rd_times n (rd_map EligibilityReason_of_u8 rd_u8) r = Some (rs, r') \<Longrightarrow>
   list_all EligibilityReason_wf rs \<and> length rs = n"
proof
  assume reads: "rd_times n (rd_map EligibilityReason_of_u8 rd_u8) r = Some (rs, r')"
  then show "length rs = n" by (rule rd_times_count)
  show "list_all EligibilityReason_wf rs"
    using _ reads by (rule rd_times_all) (auto simp: rd_map_Some reason_code.wf_of)
qed

lemma read_capabilities_wf:
  "rd_times n read_capability r = Some (cs, r') \<Longrightarrow> list_all Capability_wf cs \<and> length cs = n"
  by (simp add: read_capability_eq obs_capabilities_wf)

lemma read_identity_wf: "read_identity r = Some (d, r') \<Longrightarrow> DeviceIdentity_wf d"
  by (simp add: read_identity_eq decode_identity_wf)

lemma read_device_state_wf: "read_device_state r = Some (d, r') \<Longrightarrow> DeviceState_wf d"
  unfolding read_device_state_def
  by (auto simp: rd_bind_Some rd_guard_Some rd_return_Some rd_map_Some DeviceState_wf_def word_less_nat_alt not_less
      health_code.wf_of elig_code.wf_of drain_code.wf_of
      dest!: ok_of_string_wf read_identity_wf read_reasons_wf read_capabilities_wf)

lemma snap_device_wf: "snap_device r = Inr (e, r') \<Longrightarrow> device_wf e"
  by (auto simp: snap_device_def need_Inr res_return_Inr device_wf_def dest!: ok_of_string_wf read_device_state_wf)

lemma load_map_wf:
  "ok_of (load_entries n snap_node d []) r = Some (nodes, r') \<Longrightarrow>
     om_ok nodes \<and> list_all node_wf nodes \<and> length nodes \<le> n"
  "ok_of (load_entries n snap_worker d []) r = Some (workers, r') \<Longrightarrow>
     om_ok workers \<and> list_all worker_wf workers \<and> length workers \<le> n"
  "ok_of (load_entries n snap_device d []) r = Some (devices, r') \<Longrightarrow>
     om_ok devices \<and> list_all device_wf devices \<and> length devices \<le> n"
  by (auto simp: ok_of_Some dest!: load_entries_ok [where P = node_wf] load_entries_ok [where P = worker_wf]
      load_entries_ok [where P = device_wf] intro: snap_node_wf snap_worker_wf snap_device_wf)

lemma snap_changes_wf:
  "rd_times n (ok_of snap_change) r = Some (cs, r') \<Longrightarrow> list_all change_wf cs \<and> length cs = n"
  by (auto intro: rd_times_all rd_times_count snap_change_wf)

lemma decode_snapshot_wf: "decode_snapshot bs = Inr s \<Longrightarrow> StateSnapshot_wf s \<and> sn_accounting s = Accounting_zero"
  unfolding decode_snapshot_def
  by (auto simp: rd_inv res_inv StateSnapshot_wf_def word_less_nat_alt not_less
      dest!: load_map_wf snap_changes_wf)

end
