(* ===== verification/Persistence.thy ===== *)
theory Persistence
  imports Snapshot_Codec
begin

text \<open>
  \<^verbatim>\<open>persistence/store.hpp\<close>: the versioned store file. The file system is a map from paths to
  contents. What the C library reports for each call is an argument: \<open>save_io\<close> and \<open>load_io\<close>
  hold one outcome per call, so that every failure branch of the source is a branch here.
\<close>

type_synonym files = "string \<rightharpoonup> bytes"

definition kStoreMagic :: u32 where
  "kStoreMagic = 0x47464C45"

definition snapshot_digest :: "StateSnapshot \<Rightarrow> u32" where
  "snapshot_digest s = crc32 (encode_snapshot s)"

text \<open>Outcomes of the calls of \<^verbatim>\<open>save_snapshot\<close>, in order.\<close>

record save_io =
  sio_fopen :: bool
  sio_fwrite :: nat
  sio_fflush :: bool
  sio_fclose :: bool
  sio_rename :: bool
  sio_remove :: bool
  sio_rename2 :: bool
  sio_remove_tmp :: bool

definition io_remove :: "bool \<Rightarrow> string \<Rightarrow> files \<Rightarrow> files" where
  "io_remove success path fs = (if success then fs(path := None) else fs)"

definition io_rename :: "string \<Rightarrow> string \<Rightarrow> files \<Rightarrow> files" where
  "io_rename frm to fs = fs(to := fs frm, frm := None)"

definition store_bytes :: "StateSnapshot \<Rightarrow> bytes" where
  "store_bytes s =
     (let body = encode_snapshot s;
          w = put_u32 kStoreMagic @ put_u32 store_schema_version @ put_u64 (word_of_nat (length body)) @ body
      in w @ put_u32 (crc32 w))"

definition save_snapshot ::
  "save_io \<Rightarrow> string \<Rightarrow> StateSnapshot \<Rightarrow> files \<Rightarrow> files \<times> ResultVoid" where
  "save_snapshot io path s fs =
     (let bytes = store_bytes s; tmp = path @ ''.tmp''
      in if \<not> sio_fopen io
         then (fs, void_of_error (error_result Io ''cannot open temp file for write''))
         else
           let written = min (sio_fwrite io) (length bytes);
               fs1 = fs(tmp \<mapsto> take written bytes)
           in if written \<noteq> length bytes \<or> \<not> sio_fflush io \<or> \<not> sio_fclose io
              then (io_remove (sio_remove_tmp io) tmp fs1,
                    void_of_error (error_result Io ''failed to write store file''))
              else if sio_rename io then (io_rename tmp path fs1, void_ok_result)
              else
                let fs2 = io_remove (sio_remove io) path fs1
                in if sio_rename2 io then (io_rename tmp path fs2, void_ok_result)
                   else (io_remove (sio_remove_tmp io) tmp fs2,
                         void_of_error (error_result Io ''failed to atomically replace store file'')))"

text \<open>The checks of \<^verbatim>\<open>load_snapshot\<close> on the bytes that were read.\<close>

definition parse_store :: "bytes \<Rightarrow> StateSnapshot Result" where
  "parse_store bytes =
     (if length bytes < 4 + 4 + 8 + 4 then Inl (error_result Truncated ''store file too small'')
      else
        need rd_u32 (error_result Truncated ''magic truncated'') (\<lambda>magic.
        need rd_u32 (error_result Truncated ''version truncated'') (\<lambda>ver.
        need rd_u64 (error_result Truncated ''length truncated'') (\<lambda>len.
        check (magic = kStoreMagic) (error_result Corrupt ''bad store magic'') (
        check (ver = store_schema_version) (error_result VersionMismatch ''unsupported schema version'') (
        check (\<not> len > push_bit 31 1) (error_result OutOfBounds ''payload too large'') (
        check (length bytes = 4 + 4 + 8 + unat len + 4)
          (error_result Truncated ''store file length and size mismatch (truncation or trailing garbage)'') (\<lambda>r.
        case rd_u32 (mk_reader (take 4 (drop (4 + 4 + 8 + unat len) bytes))) of
          None \<Rightarrow> Inl (error_result Truncated ''crc truncated'')
        | Some (stored_crc, r') \<Rightarrow>
            if crc32 (take (length bytes - 4) bytes) \<noteq> stored_crc
            then Inl (error_result Corrupt ''store CRC mismatch'')
            else decode_snapshot (take (unat len) (drop (4 + 4 + 8) bytes))))))))) (mk_reader bytes))"

record load_io =
  lio_ftell :: bool
  lio_fread :: nat

definition load_snapshot :: "load_io \<Rightarrow> string \<Rightarrow> files \<Rightarrow> StateSnapshot Result" where
  "load_snapshot io path fs =
     (case fs path of
        None \<Rightarrow> Inl (error_result Io ''cannot open store file'')
      | Some content \<Rightarrow>
          if \<not> lio_ftell io then Inl (error_result Io ''cannot size store file'')
          else if content = [] then Inl (error_result Truncated ''store file empty'')
          else if lio_fread io < length content
          then Inl (error_result Truncated ''store file truncated on read'')
          else parse_store content)"

subsection \<open>Loading what was saved\<close>

definition store_body :: "bytes \<Rightarrow> bytes" where
  "store_body body = put_u32 kStoreMagic @ put_u32 store_schema_version @ put_u64 (word_of_nat (length body)) @ body"

lemma store_bytes_body:
  "store_bytes s = store_body (encode_snapshot s) @ put_u32 (crc32 (store_body (encode_snapshot s)))"
  by (simp add: store_bytes_def store_body_def Let_def)

lemma length_store_body [simp]: "length (store_body b) = 16 + length b"
  by (simp add: store_body_def)

lemma unat_length_u64: "n \<le> 2 ^ 31 \<Longrightarrow> unat (word_of_nat n :: u64) = n"
  by (simp add: unat_of_nat)

text \<open>A file with the right header, any checksum and any number of bytes after it.\<close>

lemma parse_store_body:
  assumes "length b \<le> 2 ^ 31"
  shows "parse_store (store_body b @ put_u32 c @ rest) =
     (if rest \<noteq> []
      then Inl (error_result Truncated ''store file length and size mismatch (truncation or trailing garbage)'')
      else if crc32 (store_body b) \<noteq> c then Inl (error_result Corrupt ''store CRC mismatch'')
      else decode_snapshot b)"
proof -
  have len: "unat (word_of_nat (length b) :: u64) = length b" using assms by (rule unat_length_u64)
  then have "\<not> (push_bit 31 1 < (word_of_nat (length b) :: u64))"
    using assms by (simp add: word_less_nat_alt push_bit_eq_mult)
  moreover have "drop (16 + length b) (store_body b @ put_u32 c @ rest) = put_u32 c @ rest"
    "take (16 + length b) (store_body b @ put_u32 c @ rest) = store_body b" by simp_all
  moreover have "take (length b) (drop 16 (store_body b @ put_u32 c @ rest)) = b"
    by (simp add: store_body_def)
  ultimately show ?thesis
    using len
    by (simp add: parse_store_def store_body_def mk_reader_at rd_flow_defs rd_simps)
qed

definition store_header :: "nat \<Rightarrow> bytes" where
  "store_header n = put_u32 kStoreMagic @ put_u32 store_schema_version @ put_u64 (word_of_nat n)"

lemma store_body_header: "store_body b = store_header (length b) @ b"
  by (simp add: store_body_def store_header_def)

lemma length_store_header [simp]: "length (store_header n) = 16"
  by (simp add: store_header_def)

lemma parse_store_mismatch:
  assumes "n \<le> 2 ^ 31" "4 \<le> length x" "length x \<noteq> n + 4"
  shows "parse_store (store_header n @ x) =
     Inl (error_result Truncated ''store file length and size mismatch (truncation or trailing garbage)'')"
proof -
  have len: "unat (word_of_nat n :: u64) = n" using assms(1) by (rule unat_length_u64)
  then have "\<not> (push_bit 31 1 < (word_of_nat n :: u64))"
    using assms by (simp add: word_less_nat_alt push_bit_eq_mult)
  then show ?thesis
    using len assms(2,3)
    by (simp add: parse_store_def store_header_def mk_reader_at rd_flow_defs rd_simps)
qed

text \<open>Every proper prefix of a store file is refused as truncated.\<close>

lemma truncated_store_refused:
  assumes "length (encode_snapshot s) \<le> 2 ^ 31" "n < length (store_bytes s)"
  shows "\<exists>m. parse_store (take n (store_bytes s)) = Inl (error_result Truncated m)"
proof (cases "n < 20")
  case True
  then show ?thesis by (auto simp: parse_store_def)
next
  case False
  let ?b = "encode_snapshot s"
  have "take n (store_bytes s) = store_header (length ?b) @ take (n - 16) (?b @ put_u32 (crc32 (store_body ?b)))"
    using False by (simp add: store_bytes_body store_body_header)
  moreover have "n - 16 < length ?b + 4" using assms(2) False by (simp add: store_bytes_body)
  ultimately show ?thesis
    using parse_store_mismatch [OF assms(1), of "take (n - 16) (?b @ put_u32 (crc32 (store_body ?b)))"] False
    by auto
qed

lemma trailing_garbage_refused:
  assumes "length (encode_snapshot s) \<le> 2 ^ 31" "x \<noteq> []"
  shows "\<exists>m. parse_store (store_bytes s @ x) = Inl (error_result Truncated m)"
  using parse_store_body [OF assms(1), of _ x] assms(2) by (auto simp: store_bytes_body)

lemma corrupt_store_refused:
  assumes "length (a @ w @ b) \<le> 2 ^ 31" "length w' = length w" "length w \<le> 4" "w' \<noteq> w"
  shows "parse_store (store_body (a @ w' @ b) @ put_u32 (crc32 (store_body (a @ w @ b))))
           = Inl (error_result Corrupt ''store CRC mismatch'')"
proof -
  have "store_body (a @ v @ b) = (store_header (length (a @ w @ b)) @ a) @ v @ b" if "length v = length w" for v
    using that by (simp add: store_body_header)
  then have "crc32 (store_body (a @ w' @ b)) \<noteq> crc32 (store_body (a @ w @ b))"
    using assms(2-4) crc32_window [of w' w "store_header (length (a @ w @ b)) @ a" b] by metis
  with parse_store_body [of "a @ w' @ b" "crc32 (store_body (a @ w @ b))" "[]"] assms(1,2)
  show ?thesis by simp
qed

lemma parse_store_bytes:
  assumes "StateSnapshot_wf s" "length (encode_snapshot s) \<le> 2 ^ 31"
  shows "parse_store (store_bytes s) = Inr (s\<lparr>sn_accounting := Accounting_zero\<rparr>)"
  using parse_store_body [OF assms(2), of "crc32 (store_body (encode_snapshot s))" "[]"]
  by (simp add: store_bytes_body decode_encode_snapshot assms(1))

subsection \<open>Saving\<close>

lemma tmp_not_path [simp]: "path @ ''.tmp'' \<noteq> path" "path \<noteq> path @ ''.tmp''"
  by simp_all

lemma save_snapshot_path:
  "fst (save_snapshot io path s fs) path =
     (if \<not> sio_fopen io \<or> sio_fwrite io < length (store_bytes s) \<or> \<not> sio_fflush io \<or> \<not> sio_fclose io then fs path
      else if sio_rename io \<or> sio_rename2 io then Some (store_bytes s)
      else if sio_remove io then None else fs path)"
  by (auto simp: save_snapshot_def Let_def io_remove_def io_rename_def)

lemma save_snapshot_others:
  "p \<noteq> path \<Longrightarrow> p \<noteq> path @ ''.tmp'' \<Longrightarrow> fst (save_snapshot io path s fs) p = fs p"
  by (auto simp: save_snapshot_def Let_def io_remove_def io_rename_def)

lemma load_store_file:
  assumes "fs path = Some (store_bytes s)" "lio_ftell io" "length (store_bytes s) \<le> lio_fread io"
    "StateSnapshot_wf s" "length (encode_snapshot s) \<le> 2 ^ 31"
  shows "load_snapshot io path fs = Inr (s\<lparr>sn_accounting := Accounting_zero\<rparr>)"
proof -
  have "length (store_bytes s) > 0" by (simp add: store_bytes_body)
  then have "store_bytes s \<noteq> []" by auto
  with assms show ?thesis by (simp add: load_snapshot_def parse_store_bytes)
qed


end
