(* ===== verification/Protocol.thy ===== *)
theory Protocol
  imports Registration Observation
begin

text \<open>
  The control protocol: message types and the message envelope (\<^verbatim>\<open>protocol/message.hpp\<close>), the
  message codec (\<^verbatim>\<open>protocol/codec.hpp\<close>) and the payloads of the administrative commands
  (\<^verbatim>\<open>protocol/admin_payload.hpp\<close>). The framing is in theory \<open>Framing\<close>.
\<close>

subsection \<open>Message types\<close>

datatype MessageType =
    HELLO | REGISTER | REGISTER_ACK | HEARTBEAT | DEVICE_SNAPSHOT | HEALTH_REPORT
  | CAPABILITY_REPORT | DRAIN | UNDRAIN | QUARANTINE | CLEAR_QUARANTINE | SNAPSHOT_REQUEST
  | SNAPSHOT_RESPONSE | ACK | ERROR | EPOCH_ROLL | SAVE

primrec MessageType_to_u8 :: "MessageType \<Rightarrow> u8" where
  "MessageType_to_u8 HELLO = 1"
| "MessageType_to_u8 REGISTER = 2"
| "MessageType_to_u8 REGISTER_ACK = 3"
| "MessageType_to_u8 HEARTBEAT = 4"
| "MessageType_to_u8 DEVICE_SNAPSHOT = 5"
| "MessageType_to_u8 HEALTH_REPORT = 6"
| "MessageType_to_u8 CAPABILITY_REPORT = 7"
| "MessageType_to_u8 DRAIN = 8"
| "MessageType_to_u8 UNDRAIN = 9"
| "MessageType_to_u8 MessageType.QUARANTINE = 10"
| "MessageType_to_u8 CLEAR_QUARANTINE = 11"
| "MessageType_to_u8 SNAPSHOT_REQUEST = 12"
| "MessageType_to_u8 SNAPSHOT_RESPONSE = 13"
| "MessageType_to_u8 ACK = 14"
| "MessageType_to_u8 ERROR = 15"
| "MessageType_to_u8 EPOCH_ROLL = 16"
| "MessageType_to_u8 SAVE = 17"

text \<open>The cast from a byte, which the decoders apply only after \<open>valid_message_type\<close>.\<close>

definition MessageType_of_u8 :: "u8 \<Rightarrow> MessageType" where
  "MessageType_of_u8 b =
     (if b = 1 then HELLO else if b = 2 then REGISTER else if b = 3 then REGISTER_ACK
      else if b = 4 then HEARTBEAT else if b = 5 then DEVICE_SNAPSHOT else if b = 6 then HEALTH_REPORT
      else if b = 7 then CAPABILITY_REPORT else if b = 8 then DRAIN else if b = 9 then UNDRAIN
      else if b = 10 then MessageType.QUARANTINE else if b = 11 then CLEAR_QUARANTINE
      else if b = 12 then SNAPSHOT_REQUEST else if b = 13 then SNAPSHOT_RESPONSE
      else if b = 14 then ACK else if b = 15 then ERROR else if b = 16 then EPOCH_ROLL else SAVE)"

definition MessageType_to_string :: "MessageType \<Rightarrow> string" where
  "MessageType_to_string t =
     (case t of HELLO \<Rightarrow> ''HELLO'' | REGISTER \<Rightarrow> ''REGISTER'' | REGISTER_ACK \<Rightarrow> ''REGISTER_ACK''
      | HEARTBEAT \<Rightarrow> ''HEARTBEAT'' | DEVICE_SNAPSHOT \<Rightarrow> ''DEVICE_SNAPSHOT''
      | HEALTH_REPORT \<Rightarrow> ''HEALTH_REPORT'' | CAPABILITY_REPORT \<Rightarrow> ''CAPABILITY_REPORT''
      | DRAIN \<Rightarrow> ''DRAIN'' | UNDRAIN \<Rightarrow> ''UNDRAIN'' | MessageType.QUARANTINE \<Rightarrow> ''QUARANTINE''
      | CLEAR_QUARANTINE \<Rightarrow> ''CLEAR_QUARANTINE'' | SNAPSHOT_REQUEST \<Rightarrow> ''SNAPSHOT_REQUEST''
      | SNAPSHOT_RESPONSE \<Rightarrow> ''SNAPSHOT_RESPONSE'' | ACK \<Rightarrow> ''ACK'' | ERROR \<Rightarrow> ''ERROR''
      | EPOCH_ROLL \<Rightarrow> ''EPOCH_ROLL'' | SAVE \<Rightarrow> ''SAVE'')"

definition valid_message_type :: "u8 \<Rightarrow> bool" where
  "valid_message_type v \<longleftrightarrow> v \<ge> MessageType_to_u8 HELLO \<and> v \<le> MessageType_to_u8 SAVE"

lemma message_type_of_to [simp]: "MessageType_of_u8 (MessageType_to_u8 t) = t"
  by (cases t) (simp_all add: MessageType_of_u8_def)

lemma message_type_valid [simp]: "valid_message_type (MessageType_to_u8 t)"
  by (cases t) (simp_all add: valid_message_type_def word_le_nat_alt)

lemma message_type_to_of: "valid_message_type b \<Longrightarrow> MessageType_to_u8 (MessageType_of_u8 b) = b"
  by (simp add: valid_message_type_def MessageType_of_u8_def) unat_arith

subsection \<open>The message envelope\<close>

record Message =
  m_type :: MessageType
  m_coordinator :: CoordinatorId
  m_epoch :: CoordinatorEpoch
  m_worker_boot :: WorkerBootId
  m_worker :: WorkerId
  m_node :: NodeId
  m_agent :: AgentId
  m_reg_gen :: RegistrationGeneration
  m_obs_gen :: ObservationGeneration
  m_health_gen :: HealthGeneration
  m_device_gen :: DeviceGeneration
  m_cap_gen :: CapabilityGeneration
  m_request_id :: u64
  m_ok :: bool
  m_reason :: string
  m_payload :: bytes

definition Message_default :: Message where
  "Message_default =
     \<lparr>m_type = HELLO, m_coordinator = StrongId 0, m_epoch = Generation 0, m_worker_boot = StrongId 0,
      m_worker = StrongId 0, m_node = StrongId 0, m_agent = StrongId 0, m_reg_gen = Generation 0,
      m_obs_gen = Generation 0, m_health_gen = Generation 0, m_device_gen = Generation 0,
      m_cap_gen = Generation 0, m_request_id = 0, m_ok = True, m_reason = '''', m_payload = []\<rparr>"

definition encode_message :: "Message \<Rightarrow> bytes" where
  "encode_message m =
     put_u8 (MessageType_to_u8 (m_type m)) @
     put_u64 (id_value (m_coordinator m)) @
     put_u64 (gen_value (m_epoch m)) @
     put_u64 (id_value (m_worker_boot m)) @
     put_u64 (id_value (m_worker m)) @
     put_u64 (id_value (m_node m)) @
     put_u64 (id_value (m_agent m)) @
     put_u64 (gen_value (m_reg_gen m)) @
     put_u64 (gen_value (m_obs_gen m)) @
     put_u64 (gen_value (m_health_gen m)) @
     put_u64 (gen_value (m_device_gen m)) @
     put_u64 (gen_value (m_cap_gen m)) @
     put_u64 (m_request_id m) @
     put_bool (m_ok m) @
     put_string kMaxStringLen (m_reason m) @
     put_bytes (m_payload m)"

definition decode_message :: "bytes \<Rightarrow> Message Result" where
  "decode_message data =
     need rd_u8 (error_result Truncated ''message type truncated'') (\<lambda>type.
     check (valid_message_type type) (error_result InvalidEnum ''unknown message type'') (
     need rd_u64 (error_result Truncated ''coordinator truncated'') (\<lambda>coordinator.
     need rd_u64 (error_result Truncated ''epoch truncated'') (\<lambda>epoch.
     need rd_u64 (error_result Truncated ''worker_boot truncated'') (\<lambda>worker_boot.
     need rd_u64 (error_result Truncated ''worker truncated'') (\<lambda>worker.
     need rd_u64 (error_result Truncated ''node truncated'') (\<lambda>node.
     need rd_u64 (error_result Truncated ''agent truncated'') (\<lambda>agent.
     need rd_u64 (error_result Truncated ''reg_gen truncated'') (\<lambda>reg_gen.
     need rd_u64 (error_result Truncated ''obs_gen truncated'') (\<lambda>obs_gen.
     need rd_u64 (error_result Truncated ''health_gen truncated'') (\<lambda>health_gen.
     need rd_u64 (error_result Truncated ''device_gen truncated'') (\<lambda>device_gen.
     need rd_u64 (error_result Truncated ''cap_gen truncated'') (\<lambda>cap_gen.
     need rd_u64 (error_result Truncated ''request_id truncated'') (\<lambda>request_id.
     need rd_bool (error_result Truncated ''ok truncated'') (\<lambda>okb.
     need (ok_of (rd_string 4096)) (error_result Truncated ''reason truncated'') (\<lambda>reason.
     need (ok_of (rd_bytes kMaxBytesLen)) (error_result Truncated ''payload truncated'') (\<lambda>payload.
     rd_finish (error_result Malformed ''trailing garbage after message'')
       \<lparr>m_type = MessageType_of_u8 type, m_coordinator = StrongId coordinator, m_epoch = Generation epoch,
        m_worker_boot = StrongId worker_boot, m_worker = StrongId worker, m_node = StrongId node,
        m_agent = StrongId agent, m_reg_gen = Generation reg_gen, m_obs_gen = Generation obs_gen,
        m_health_gen = Generation health_gen, m_device_gen = Generation device_gen,
        m_cap_gen = Generation cap_gen, m_request_id = request_id, m_ok = okb, m_reason = reason,
        m_payload = payload\<rparr>
     ))))))))))))))))) (mk_reader data)"

definition Message_wf :: "Message \<Rightarrow> bool" where
  "Message_wf m \<longleftrightarrow> length (m_reason m) \<le> 4096 \<and> length (m_payload m) \<le> unat kMaxBytesLen"

lemma rd_reason_at:
  "length s \<le> 4096 \<Longrightarrow>
   ok_of (rd_string 4096) (rd_at pre (put_string kMaxStringLen s @ post))
     = Some (s, rd_at (pre @ put_string kMaxStringLen s) post)"
  by (rule rd_string_at) simp_all

lemma decode_encode_message:
  assumes "Message_wf m"
  shows "decode_message (encode_message m) = Inr m"
  using assms
  by (simp add: decode_message_def encode_message_def mk_reader_at rd_flow_defs rd_simps rd_reason_at
      Message_wf_def)

lemma decode_message_wf:
  assumes "decode_message bs = Inr m"
  shows "Message_wf m"
  using assms
  by (auto simp: decode_message_def rd_inv Message_wf_def str_wf_def
      dest!: ok_of_string_wf ok_of_bytes_bound)

lemma encode_message_inj: "Message_wf m \<Longrightarrow> Message_wf m' \<Longrightarrow> encode_message m = encode_message m' \<Longrightarrow> m = m'"
  by (metis decode_encode_message sum.inject(2))

subsection \<open>Administrative payloads\<close>

definition encode_identity_target :: "string \<Rightarrow> bytes" where
  "encode_identity_target identity = put_string 1024 identity"

definition decode_identity_target :: "bytes \<Rightarrow> string Result" where
  "decode_identity_target data =
     need (ok_of (rd_string 1024)) (error_result Malformed ''identity target malformed'') (\<lambda>s.
     rd_finish (error_result Malformed ''trailing garbage in identity target'') s) (mk_reader data)"

record DrainTarget =
  dt_identity :: string
  dt_level :: DrainState

definition encode_drain_target :: "string \<Rightarrow> DrainState \<Rightarrow> bytes" where
  "encode_drain_target identity level = put_string 1024 identity @ put_u8 (DrainState_to_u8 level)"

definition decode_drain_target :: "bytes \<Rightarrow> DrainTarget Result" where
  "decode_drain_target data =
     need (ok_of (rd_string 1024)) (error_result Malformed ''drain identity malformed'') (\<lambda>iden.
     need rd_u8 (error_result Malformed ''drain level malformed'') (\<lambda>lv.
     check (\<not> lv > DrainState_to_u8 DrainState.DRAINED)
       (error_result InvalidEnum ''invalid drain state enum'') (
     rd_finish (error_result Malformed ''trailing garbage in drain target'')
       \<lparr>dt_identity = iden, dt_level = DrainState_of_u8 lv\<rparr>))) (mk_reader data)"

record QuarantineTarget =
  qt_identity :: string
  qt_reason :: string
  qt_source :: string
  qt_generation :: DeviceGeneration

definition encode_quarantine :: "string \<Rightarrow> string \<Rightarrow> string \<Rightarrow> DeviceGeneration \<Rightarrow> bytes" where
  "encode_quarantine identity reason source gen =
     put_string 1024 identity @ put_string 512 reason @ put_string 128 source @ put_u64 (gen_value gen)"

definition decode_quarantine :: "bytes \<Rightarrow> QuarantineTarget Result" where
  "decode_quarantine data =
     need (ok_of (rd_string 1024)) (error_result Malformed ''identity malformed'') (\<lambda>iden.
     need (ok_of (rd_string 512)) (error_result Malformed ''reason malformed'') (\<lambda>rs.
     need (ok_of (rd_string 128)) (error_result Malformed ''source malformed'') (\<lambda>src.
     need rd_u64 (error_result Malformed ''generation malformed'') (\<lambda>g.
     rd_finish (error_result Malformed ''trailing garbage in quarantine'')
       \<lparr>qt_identity = iden, qt_reason = rs, qt_source = src, qt_generation = Generation g\<rparr>)))) (mk_reader data)"

lemma decode_encode_identity_target:
  "length s \<le> 1024 \<Longrightarrow> decode_identity_target (encode_identity_target s) = Inr s"
  by (simp add: decode_identity_target_def encode_identity_target_def mk_reader_at rd_flow_defs rd_simps str_wf_def)

lemma decode_encode_drain_target:
  assumes "length s \<le> 1024" "level \<in> {ACTIVE, DrainState.DRAINING, DrainState.DRAINED}"
  shows "decode_drain_target (encode_drain_target s level) = Inr \<lparr>dt_identity = s, dt_level = level\<rparr>"
  using assms
  by (auto simp: decode_drain_target_def encode_drain_target_def mk_reader_at rd_flow_defs rd_simps str_wf_def
      DrainState_of_u8_def)

lemma decode_encode_quarantine:
  assumes "length i \<le> 1024" "length r \<le> 512" "length src \<le> 128"
  shows "decode_quarantine (encode_quarantine i r src g)
           = Inr \<lparr>qt_identity = i, qt_reason = r, qt_source = src, qt_generation = g\<rparr>"
  using assms
  by (simp add: decode_quarantine_def encode_quarantine_def mk_reader_at rd_flow_defs rd_simps str_wf_def)

lemma decode_drain_level:
  "decode_drain_target bs = Inr t \<Longrightarrow> dt_level t \<in> {ACTIVE, DrainState.DRAINING, DrainState.DRAINED}"
  by (auto simp: decode_drain_target_def rd_inv DrainState_of_u8_def) unat_arith

end
