(* ===== verification/Framing.thy ===== *)
theory Framing
  imports Protocol
begin

text \<open>
  \<^verbatim>\<open>protocol/framing.hpp\<close>: the frame encoder and the incremental frame decoder. The decoder's
  state is its buffer. A call of \<^verbatim>\<open>feed\<close> returns the new buffer and one of the three results;
  its callers repeat it with no data while frames are ready, which is \<open>drain_frames\<close>.
\<close>

definition kFrameMagic :: u32 where
  "kFrameMagic = 0x47464C41"

definition kMaxPayloadLength :: u32 where
  "kMaxPayloadLength = 16 * 1024 * 1024"

definition kFrameHeader :: nat where
  "kFrameHeader = 4 + 2 + 1 + 4"

definition kFrameTrailer :: nat where
  "kFrameTrailer = 4"

record Frame =
  frame_type :: MessageType
  frame_payload :: bytes

definition encode_frame :: "MessageType \<Rightarrow> bytes \<Rightarrow> bytes" where
  "encode_frame type payload =
     (let w = put_u32 kFrameMagic @ put_u16 (ucast protocol_version) @ put_u8 (MessageType_to_u8 type) @
              put_u32 (word_of_nat (length payload)) @ payload
      in w @ put_u32 (crc32 w))"

datatype feed_result = NeedMore | FrameReady Frame | FrameError string

text \<open>
  The decision on a buffer, with the number of bytes to erase from its front. The casts to
  \<^verbatim>\<open>size_t\<close> make the total length exact.
\<close>

definition examine :: "bytes \<Rightarrow> feed_result \<times> nat" where
  "examine buf =
     (if length buf < kFrameHeader + kFrameTrailer then (NeedMore, 0)
      else case rd_u32 (mk_reader buf) of None \<Rightarrow> (FrameError ''frame header truncated'', 0)
      | Some (magic, r1) \<Rightarrow> (case rd_u16 r1 of None \<Rightarrow> (FrameError ''frame header truncated'', 0)
      | Some (ver, r2) \<Rightarrow> (case rd_u8 r2 of None \<Rightarrow> (FrameError ''frame header truncated'', 0)
      | Some (type, r3) \<Rightarrow> (case rd_u32 r3 of None \<Rightarrow> (FrameError ''frame header truncated'', 0)
      | Some (payload_len, r4) \<Rightarrow>
          if magic \<noteq> kFrameMagic then (FrameError ''bad frame magic'', 0)
          else if ucast ver \<noteq> protocol_version then (FrameError ''unknown protocol version'', 0)
          else if \<not> valid_message_type type then (FrameError ''invalid enum message type'', 0)
          else if payload_len > kMaxPayloadLength then (FrameError ''oversized payload'', 0)
          else
            let total = kFrameHeader + unat payload_len + kFrameTrailer
            in if length buf < total then (NeedMore, 0)
               else case rd_u32 (mk_reader (take 4 (drop (total - 4) buf))) of
                 None \<Rightarrow> (FrameError ''frame crc truncated'', 0)
               | Some (stored_crc, r5) \<Rightarrow>
                   if crc32 (take (total - 4) buf) \<noteq> stored_crc then (FrameError ''frame crc mismatch'', 0)
                   else (FrameReady \<lparr>frame_type = MessageType_of_u8 type,
                                     frame_payload = take (unat payload_len) (drop kFrameHeader buf)\<rparr>,
                         total)))))"

definition feed :: "bytes \<Rightarrow> bytes \<Rightarrow> bytes \<times> feed_result" where
  "feed buf data =
     (let buf' = buf @ data; (res, n) = examine buf' in (drop n buf', res))"

definition buffered :: "bytes \<Rightarrow> nat" where
  "buffered buf = length buf"

definition reset_decoder :: "bytes \<Rightarrow> bytes" where
  "reset_decoder buf = []"

text \<open>The loop of the callers, which feeds nothing while the last result was a frame.\<close>

lemma examine_consumes: "examine buf = (FrameReady f, n) \<Longrightarrow> 15 \<le> n \<and> n \<le> length buf"
  by (auto simp: examine_def Let_def kFrameHeader_def kFrameTrailer_def split: if_splits option.splits prod.splits)

function drain_frames :: "bytes \<Rightarrow> Frame list \<times> bytes \<times> feed_result" where
  "drain_frames buf =
     (case feed buf [] of
        (buf', FrameReady f) \<Rightarrow> (let (fs, rest, res) = drain_frames buf' in (f # fs, rest, res))
      | (buf', res) \<Rightarrow> ([], buf', res))"
  by pat_completeness auto
termination
proof (relation "measure length")
  fix buf buf' res f
  assume "(buf', res) = feed buf []" "res = FrameReady f"
  then obtain n where "examine buf = (FrameReady f, n)" "buf' = drop n buf"
    by (auto simp: feed_def split: prod.splits)
  with examine_consumes [of buf f n] show "(buf', buf) \<in> measure length" by auto
qed simp

declare drain_frames.simps [simp del]

subsection \<open>Examining a buffer\<close>

text \<open>The frame without its checksum.\<close>

definition frame_body :: "MessageType \<Rightarrow> bytes \<Rightarrow> bytes" where
  "frame_body type payload =
     put_u32 kFrameMagic @ put_u16 (ucast protocol_version) @ put_u8 (MessageType_to_u8 type) @
     put_u32 (word_of_nat (length payload)) @ payload"

lemma encode_frame_body: "encode_frame t p = frame_body t p @ put_u32 (crc32 (frame_body t p))"
  by (simp add: encode_frame_def frame_body_def Let_def)

lemma length_frame_body [simp]: "length (frame_body t p) = kFrameHeader + length p"
  by (simp add: frame_body_def kFrameHeader_def)

lemma length_encode_frame: "length (encode_frame t p) = kFrameHeader + length p + kFrameTrailer"
  by (simp add: encode_frame_body kFrameTrailer_def)

text \<open>A complete frame with any four bytes in the place of the checksum.\<close>

lemma examine_frame:
  assumes "length p \<le> unat kMaxPayloadLength"
  shows "examine (frame_body t p @ put_u32 c @ rest) =
     (if crc32 (frame_body t p) = c
      then (FrameReady \<lparr>frame_type = t, frame_payload = p\<rparr>, kFrameHeader + length p + kFrameTrailer)
      else (FrameError ''frame crc mismatch'', 0))"
proof -
  have p32: "length p < 2 ^ 32"
    using assms by (simp add: kMaxPayloadLength_def)
  then have len: "unat (word_of_nat (length p) :: u32) = length p" by (rule unat_length_u32)
  then have small: "\<not> kMaxPayloadLength < word_of_nat (length p)"
    using assms by (simp add: word_less_nat_alt)
  have trailer: "take 4 (drop (kFrameHeader + length p) (frame_body t p @ put_u32 c @ rest)) = put_u32 c"
    by simp
  have body: "take (kFrameHeader + length p) (frame_body t p @ put_u32 c @ rest) = frame_body t p"
    by simp
  have payload: "take (length p) (drop kFrameHeader (frame_body t p @ put_u32 c @ rest)) = p"
    by (simp add: frame_body_def kFrameHeader_def)
  have "examine (frame_body t p @ put_u32 c @ rest) =
     (case rd_u32 (mk_reader (put_u32 c)) of
        None \<Rightarrow> (FrameError ''frame crc truncated'', 0)
      | Some (stored_crc, r5) \<Rightarrow>
          if crc32 (frame_body t p) \<noteq> stored_crc then (FrameError ''frame crc mismatch'', 0)
          else (FrameReady \<lparr>frame_type = t, frame_payload = p\<rparr>, kFrameHeader + length p + kFrameTrailer))"
    using len small trailer body payload
    by (simp add: examine_def frame_body_def mk_reader_at rd_simps kFrameHeader_def kFrameTrailer_def
        protocol_version_def Let_def)
  then show ?thesis by (simp add: mk_reader_at rd_simps)
qed

lemma examine_encode_frame:
  "length p \<le> unat kMaxPayloadLength \<Longrightarrow>
   examine (encode_frame t p @ rest)
     = (FrameReady \<lparr>frame_type = t, frame_payload = p\<rparr>, length (encode_frame t p))"
  by (simp add: encode_frame_body examine_frame length_encode_frame) (simp add: kFrameTrailer_def)

subsection \<open>Decoding does not depend on how the stream is cut\<close>

text \<open>The fields of a buffer that is long enough, read at their positions.\<close>

definition u32_at :: "bytes \<Rightarrow> nat \<Rightarrow> u32" where
  "u32_at buf i = push_bit 24 (ucast (buf ! i)) OR push_bit 16 (ucast (buf ! (i + 1)))
                    OR push_bit 8 (ucast (buf ! (i + 2))) OR ucast (buf ! (i + 3))"

definition u16_at :: "bytes \<Rightarrow> nat \<Rightarrow> u16" where
  "u16_at buf i = push_bit 8 (ucast (buf ! i)) OR ucast (buf ! (i + 1))"

lemma rd_pos:
  "i + 4 \<le> length buf \<Longrightarrow> rd_u32 \<lparr>rdata = buf, rpos = i\<rparr> = Some (u32_at buf i, \<lparr>rdata = buf, rpos = i + 4\<rparr>)"
  "i + 2 \<le> length buf \<Longrightarrow> rd_u16 \<lparr>rdata = buf, rpos = i\<rparr> = Some (u16_at buf i, \<lparr>rdata = buf, rpos = i + 2\<rparr>)"
  "i + 1 \<le> length buf \<Longrightarrow> rd_u8 \<lparr>rdata = buf, rpos = i\<rparr> = Some (buf ! i, \<lparr>rdata = buf, rpos = i + 1\<rparr>)"
  by (simp_all add: rd_u32_def rd_u16_def rd_u8_def u32_at_def u16_at_def)

lemma at_append [simp]:
  "i + 4 \<le> length buf \<Longrightarrow> u32_at (buf @ tail) i = u32_at buf i"
  "i + 2 \<le> length buf \<Longrightarrow> u16_at (buf @ tail) i = u16_at buf i"
  by (simp_all add: u32_at_def u16_at_def nth_append)

lemma rd_trailer:
  assumes "t + 4 \<le> length buf"
  shows "rd_u32 (mk_reader (take 4 (drop t buf))) = Some (u32_at buf t, \<lparr>rdata = take 4 (drop t buf), rpos = 4\<rparr>)"
  using assms by (simp add: mk_reader_def rd_pos(1)) (simp add: u32_at_def)

lemma examine_long:
  assumes "15 \<le> length buf"
  shows "examine buf =
     (if u32_at buf 0 \<noteq> kFrameMagic then (FrameError ''bad frame magic'', 0)
      else if ucast (u16_at buf 4) \<noteq> protocol_version then (FrameError ''unknown protocol version'', 0)
      else if \<not> valid_message_type (buf ! 6) then (FrameError ''invalid enum message type'', 0)
      else if u32_at buf 7 > kMaxPayloadLength then (FrameError ''oversized payload'', 0)
      else if length buf < 15 + unat (u32_at buf 7) then (NeedMore, 0)
      else if crc32 (take (11 + unat (u32_at buf 7)) buf) \<noteq> u32_at buf (11 + unat (u32_at buf 7))
      then (FrameError ''frame crc mismatch'', 0)
      else (FrameReady \<lparr>frame_type = MessageType_of_u8 (buf ! 6),
                        frame_payload = take (unat (u32_at buf 7)) (drop 11 buf)\<rparr>, 15 + unat (u32_at buf 7)))"
proof -
  have "rd_u32 (mk_reader buf) = Some (u32_at buf 0, \<lparr>rdata = buf, rpos = 4\<rparr>)"
    using assms rd_pos(1) [of 0 buf] by (simp add: mk_reader_def)
  moreover have "rd_u16 \<lparr>rdata = buf, rpos = 4\<rparr> = Some (u16_at buf 4, \<lparr>rdata = buf, rpos = 6\<rparr>)"
    using assms rd_pos(2) [of 4 buf] by simp
  moreover have "rd_u8 \<lparr>rdata = buf, rpos = 6\<rparr> = Some (buf ! 6, \<lparr>rdata = buf, rpos = 7\<rparr>)"
    using assms rd_pos(3) [of 6 buf] by simp
  moreover have "rd_u32 \<lparr>rdata = buf, rpos = 7\<rparr> = Some (u32_at buf 7, \<lparr>rdata = buf, rpos = 11\<rparr>)"
    using assms rd_pos(1) [of 7 buf] by simp
  ultimately show ?thesis
    using assms rd_trailer [of "11 + unat (u32_at buf 7)" buf]
    by (simp add: examine_def kFrameHeader_def kFrameTrailer_def Let_def add.commute)
qed

lemma examine_short: "length buf < 15 \<Longrightarrow> examine buf = (NeedMore, 0)"
  by (simp add: examine_def kFrameHeader_def kFrameTrailer_def)

text \<open>A decision other than \<open>NeedMore\<close> is not changed by the bytes that follow.\<close>

lemma examine_mono:
  assumes "examine buf = (res, n)" "res \<noteq> NeedMore"
  shows "examine (buf @ tail) = (res, n)"
proof (cases "length buf < 15")
  case True
  with assms show ?thesis by (simp add: examine_short)
next
  case False
  then have long: "15 \<le> length buf" "15 \<le> length (buf @ tail)" by simp_all
  then have "(buf @ tail) ! 6 = buf ! 6" by (simp add: nth_append)
  with assms long show ?thesis
    unfolding examine_long [OF long(1)] examine_long [OF long(2)]
    by (simp split: if_splits)
qed

text \<open>
  The loop of \<^verbatim>\<open>handle_connection\<close> over the chunks a socket delivers: each chunk is fed, the ready
  frames are taken, and an error ends the connection.
\<close>

fun feed_chunks :: "bytes \<Rightarrow> bytes list \<Rightarrow> Frame list \<times> bytes \<times> feed_result" where
  "feed_chunks buf [] = ([], buf, NeedMore)"
| "feed_chunks buf (c # cs) =
     (case drain_frames (buf @ c) of
        (fs, rest, FrameError e) \<Rightarrow> (fs, rest, FrameError e)
      | (fs, rest, res) \<Rightarrow> (let (fs', rest', res') = feed_chunks rest cs in (fs @ fs', rest', res')))"

lemma drain_frames_unfold:
  "drain_frames buf =
     (case examine buf of
        (FrameReady f, n) \<Rightarrow> (let (fs, rest, res) = drain_frames (drop n buf) in (f # fs, rest, res))
      | (res, n) \<Rightarrow> ([], drop n buf, res))"
  by (subst drain_frames.simps) (simp add: feed_def split: prod.split feed_result.split)

lemma examine_no_frame: "examine buf = (res, n) \<Longrightarrow> (\<forall>f. res \<noteq> FrameReady f) \<Longrightarrow> n = 0"
  by (cases "length buf < 15") (auto simp: examine_short examine_long not_less split: if_splits)

lemma drain_frames_append:
  assumes "drain_frames buf = (fs, rest, NeedMore)"
  shows "drain_frames (buf @ tail) = (let (fs', rest', res') = drain_frames (rest @ tail) in (fs @ fs', rest', res'))"
  using assms
proof (induction buf arbitrary: fs rule: drain_frames.induct)
  case (1 buf)
  obtain res n where ex: "examine buf = (res, n)" by fastforce
  show ?case
  proof (cases res)
    case (FrameReady f)
    with ex have n: "n \<le> length buf" using examine_consumes by blast
    obtain fs1 where d: "drain_frames (drop n buf) = (fs1, rest, NeedMore)" "fs = f # fs1"
      using 1(2) ex FrameReady by (subst (asm) drain_frames_unfold) (auto split: prod.splits)
    have "examine (buf @ tail) = (FrameReady f, n)" using examine_mono [OF ex] FrameReady by simp
    then have "drain_frames (buf @ tail) =
        (let (fs', rest', res') = drain_frames (drop n buf @ tail) in (f # fs', rest', res'))"
      using n by (subst drain_frames_unfold) simp
    moreover have "feed buf [] = (drop n buf, FrameReady f)" using ex FrameReady by (simp add: feed_def)
    ultimately show ?thesis
      using 1(1) [OF _ refl d(1)] d(2) by (simp add: Let_def split: prod.splits)
  next
    case NeedMore
    with 1(2) ex have "fs = []" "rest = buf"
      using examine_no_frame [OF ex] by (subst (asm) drain_frames_unfold; simp)+
    then show ?thesis by (simp split: prod.splits)
  next
    case (FrameError e)
    with 1(2) ex show ?thesis by (subst (asm) drain_frames_unfold) simp
  qed
qed


lemma drain_frames_append_error:
  assumes "drain_frames buf = (fs, rest, FrameError e)"
  shows "drain_frames (buf @ tail) = (fs, rest @ tail, FrameError e)"
  using assms
proof (induction buf arbitrary: fs rule: drain_frames.induct)
  case (1 buf)
  obtain res n where ex: "examine buf = (res, n)" by fastforce
  show ?case
  proof (cases res)
    case (FrameReady f)
    with ex have n: "n \<le> length buf" using examine_consumes by blast
    obtain fs1 where d: "drain_frames (drop n buf) = (fs1, rest, FrameError e)" "fs = f # fs1"
      using 1(2) ex FrameReady by (subst (asm) drain_frames_unfold) (auto split: prod.splits)
    have "feed buf [] = (drop n buf, FrameReady f)" using ex FrameReady by (simp add: feed_def)
    then have "drain_frames (drop n buf @ tail) = (fs1, rest @ tail, FrameError e)"
      using 1(1) [OF _ refl d(1)] by simp
    moreover have "examine (buf @ tail) = (FrameReady f, n)" using examine_mono [OF ex] FrameReady by simp
    ultimately show ?thesis using n d(2) by (subst drain_frames_unfold) simp
  next
    case NeedMore
    with 1(2) ex show ?thesis by (subst (asm) drain_frames_unfold) simp
  next
    case (FrameError e')
    with 1(2) ex examine_no_frame [OF ex] have "fs = []" "rest = buf" "e' = e"
      by (subst (asm) drain_frames_unfold; simp)+
    moreover have "examine (buf @ tail) = (FrameError e, 0)"
      using examine_mono [OF ex] examine_no_frame [OF ex] FrameError \<open>e' = e\<close> by simp
    ultimately show ?thesis by (subst drain_frames_unfold) simp
  qed
qed

lemma drain_frames_result:
  "drain_frames buf = (fs, rest, res) \<Longrightarrow> (\<forall>f. res \<noteq> FrameReady f) \<and> (res = NeedMore \<longrightarrow> drain_frames rest = ([], rest, NeedMore))"
proof (induction buf arbitrary: fs rule: drain_frames.induct)
  case (1 buf)
  obtain r n where ex: "examine buf = (r, n)" by fastforce
  show ?case
  proof (cases r)
    case (FrameReady f)
    then have "feed buf [] = (drop n buf, FrameReady f)" using ex by (simp add: feed_def)
    moreover obtain fs1 where "drain_frames (drop n buf) = (fs1, rest, res)"
      using 1(2) ex FrameReady by (subst (asm) drain_frames_unfold) (auto split: prod.splits)
    ultimately show ?thesis using 1(1) [OF _ refl] by simp
  next
    case NeedMore
    with 1(2) ex examine_no_frame [OF ex] have "rest = buf" "res = NeedMore" "fs = []"
      by (subst (asm) drain_frames_unfold; simp)+
    with 1(2) show ?thesis by simp
  next
    case (FrameError e)
    with 1(2) ex show ?thesis by (subst (asm) drain_frames_unfold) auto
  qed
qed

text \<open>
  Feeding a stream in chunks, starting between two frames, finds the frames, the error and the
  left-over bytes that feeding the whole stream at once finds.
\<close>

lemma feed_chunks_drain:
  assumes "drain_frames buf = ([], buf, NeedMore)"
  shows "case drain_frames (buf @ concat cs) of (fs, rest, res) \<Rightarrow>
           (\<exists>rest'. feed_chunks buf cs = (fs, rest', res) \<and> (res = NeedMore \<longrightarrow> rest' = rest))"
  using assms
proof (induction cs arbitrary: buf)
  case Nil
  then show ?case by simp
next
  case (Cons c cs)
  obtain fs rest res where d: "drain_frames (buf @ c) = (fs, rest, res)" by (metis prod_cases3)
  show ?case
  proof (cases res)
    case NeedMore
    then have "drain_frames rest = ([], rest, NeedMore)" using drain_frames_result [OF d] by simp
    from Cons.IH [OF this] d NeedMore show ?thesis
      using drain_frames_append [of "buf @ c" fs rest "concat cs"] by (auto split: prod.splits)
  next
    case (FrameError e)
    with d drain_frames_append_error [of "buf @ c" fs rest e "concat cs"] show ?thesis by simp
  next
    case (FrameReady f)
    with drain_frames_result [OF d] show ?thesis by simp
  qed
qed

subsection \<open>Streams of frames\<close>

definition encode_frames :: "Frame list \<Rightarrow> bytes" where
  "encode_frames fs = concat (map (\<lambda>f. encode_frame (frame_type f) (frame_payload f)) fs)"

definition frame_wf :: "Frame \<Rightarrow> bool" where
  "frame_wf f \<longleftrightarrow> length (frame_payload f) \<le> unat kMaxPayloadLength"

lemma drain_encode_frames:
  "list_all frame_wf fs \<Longrightarrow>
   drain_frames (encode_frames fs @ tail) = (let (fs', rest, res) = drain_frames tail in (fs @ fs', rest, res))"
proof (induction fs)
  case Nil
  then show ?case by (simp add: encode_frames_def split: prod.splits)
next
  case (Cons f fs)
  then have "examine (encode_frames (f # fs) @ tail) = (FrameReady f, length (encode_frame (frame_type f) (frame_payload f)))"
    using examine_encode_frame [of "frame_payload f" "frame_type f" "encode_frames fs @ tail"]
    by (simp add: encode_frames_def frame_wf_def)
  moreover have "drop (length (encode_frame (frame_type f) (frame_payload f))) (encode_frames (f # fs) @ tail)
      = encode_frames fs @ tail"
    by (simp add: encode_frames_def)
  ultimately show ?case
    using Cons by (subst drain_frames_unfold) (simp add: Let_def split: prod.splits)
qed

lemma drain_short: "length tail < 15 \<Longrightarrow> drain_frames tail = ([], tail, NeedMore)"
  by (subst drain_frames_unfold) (simp add: examine_short)

lemma feed_chunks_frames:
  assumes "list_all frame_wf fs" "concat cs = encode_frames fs @ tail" "length tail < 15"
  shows "feed_chunks [] cs = (fs, tail, NeedMore)"
  using feed_chunks_drain [of "[]" cs] drain_encode_frames [OF assms(1), of tail] assms
  by (simp add: drain_short)

subsection \<open>Corruption\<close>

text \<open>A burst of up to four payload bytes, or any change of the stored checksum, is reported.\<close>

lemma corrupt_payload_detected:
  assumes "length (a @ w @ b) \<le> unat kMaxPayloadLength" "length w' = length w" "length w \<le> 4" "w' \<noteq> w"
  shows "examine (frame_body t (a @ w' @ b) @ put_u32 (crc32 (frame_body t (a @ w @ b))) @ rest)
           = (FrameError ''frame crc mismatch'', 0)"
proof -
  let ?h = "put_u32 kFrameMagic @ put_u16 (ucast protocol_version) @ put_u8 (MessageType_to_u8 t) @
            put_u32 (word_of_nat (length (a @ w @ b))) @ a"
  have "frame_body t (a @ w @ b) = ?h @ w @ b" "frame_body t (a @ w' @ b) = ?h @ w' @ b"
    using assms(2) by (simp_all add: frame_body_def)
  moreover have "crc32 (?h @ w' @ b) \<noteq> crc32 (?h @ w @ b)"
    using assms(2-4) by (intro crc32_window) auto
  ultimately have "crc32 (frame_body t (a @ w' @ b)) \<noteq> crc32 (frame_body t (a @ w @ b))" by metis
  with assms(1,2) examine_frame [of "a @ w' @ b" t "crc32 (frame_body t (a @ w @ b))" rest] show ?thesis
    by simp
qed

lemma corrupt_crc_detected:
  assumes "length p \<le> unat kMaxPayloadLength" "c \<noteq> crc32 (frame_body t p)"
  shows "examine (frame_body t p @ put_u32 c @ rest) = (FrameError ''frame crc mismatch'', 0)"
  using assms by (simp add: examine_frame)



text \<open>A proper prefix of a frame yields nothing and stays in the buffer.\<close>

lemma frame_prefix_needs_more:
  assumes "length p \<le> unat kMaxPayloadLength" "encode_frame t p = a @ b" "b \<noteq> []"
  shows "drain_frames a = ([], a, NeedMore)"
proof -
  obtain res n where e: "examine a = (res, n)" by fastforce
  have full: "examine (a @ b) = (FrameReady \<lparr>frame_type = t, frame_payload = p\<rparr>, length (a @ b))"
    using examine_encode_frame [OF assms(1), of t "[]"] assms(2) by simp
  have "res = NeedMore"
  proof (rule ccontr)
    assume "res \<noteq> NeedMore"
    from examine_mono [OF e this, of b] full have "res = FrameReady \<lparr>frame_type = t, frame_payload = p\<rparr>" "n = length (a @ b)"
      by auto
    with examine_consumes [of a _ n] e assms(3) show False by auto
  qed
  with examine_no_frame [OF e] e show ?thesis by (subst drain_frames_unfold) simp
qed

end
