(* ===== verification/Transport.thy ===== *)
theory Transport
  imports Byte_Codec
begin

text \<open>
  \<^verbatim>\<open>transport/transport.cpp\<close>: the socket wrappers. The Windows socket calls are not part of the
  repository; what each call returns is an input of the model: the results of \<^verbatim>\<open>::send\<close> and
  \<^verbatim>\<open>::recv\<close> on a socket are lists, and the results of the calls that open a socket are records.
  The calls of \<^verbatim>\<open>::closesocket\<close> are recorded, so that ownership of sockets can be stated.
\<close>

datatype wsa_error = WSAEWOULDBLOCK | WSAETIMEDOUT | WSAOther nat

definition wsa_code :: "wsa_error \<Rightarrow> nat" where
  "wsa_code e = (case e of WSAEWOULDBLOCK \<Rightarrow> 10035 | WSAETIMEDOUT \<Rightarrow> 10060 | WSAOther n \<Rightarrow> n)"

definition wsa_error_str :: "wsa_error \<Rightarrow> string" where
  "wsa_error_str e = ''winsock error '' @ dec_string (wsa_code e)"

type_synonym socket = u64

abbreviation invalid_socket :: socket where
  "invalid_socket \<equiv> - 1"

subsection \<open>Ownership of the handle\<close>

record TcpStream =
  sock :: socket

definition wrap_socket :: "socket \<Rightarrow> TcpStream Result" where
  "wrap_socket s = (if s = invalid_socket then Inl (error_result Io ''invalid socket'') else Inr \<lparr>sock = s\<rparr>)"

text \<open>The second component is the list of handles passed to \<^verbatim>\<open>::closesocket\<close>.\<close>

definition close_stream :: "TcpStream \<Rightarrow> TcpStream \<times> socket list" where
  "close_stream st = (if sock st \<noteq> invalid_socket then (\<lparr>sock = invalid_socket\<rparr>, [sock st]) else (st, []))"

definition stream_open :: "TcpStream \<Rightarrow> bool" where
  "stream_open st \<longleftrightarrow> sock st \<noteq> invalid_socket"

text \<open>The move constructor: the new stream and what is left of the other one.\<close>

definition move_construct :: "TcpStream \<Rightarrow> TcpStream \<times> TcpStream" where
  "move_construct other = (\<lparr>sock = sock other\<rparr>, \<lparr>sock = invalid_socket\<rparr>)"

text \<open>Move assignment to another object.\<close>

definition move_assign :: "TcpStream \<Rightarrow> TcpStream \<Rightarrow> (TcpStream \<times> TcpStream) \<times> socket list" where
  "move_assign this other =
     (case close_stream this of (_, closed) \<Rightarrow> ((\<lparr>sock = sock other\<rparr>, \<lparr>sock = invalid_socket\<rparr>), closed))"

text \<open>The socket options that are set, each on its handle; the timeout in milliseconds is cast to 32 bits unsigned.\<close>

datatype sockopt = SO_RCVTIMEO | SO_SNDTIMEO

definition set_timeout :: "i32 \<Rightarrow> TcpStream \<Rightarrow> (socket \<times> sockopt \<times> u32) list" where
  "set_timeout ms st =
     (if sock st = invalid_socket then [] else [(sock st, SO_RCVTIMEO, ms), (sock st, SO_SNDTIMEO, ms)])"

text \<open>The flag of the module and the result. Winsock itself is started before \<^verbatim>\<open>main\<close> runs.\<close>

definition transport_init :: "bool \<Rightarrow> bool \<times> bool" where
  "transport_init g_initialized = (True, True)"

text \<open>The address and port that the operating system reports for the peer are arguments.\<close>

definition peer_desc :: "string \<Rightarrow> u16 \<Rightarrow> TcpStream \<Rightarrow> string" where
  "peer_desc addr port st =
     (if sock st = invalid_socket then ''(closed)'' else addr @ '':'' @ dec_string (unat port))"

subsection \<open>Sending and receiving\<close>

datatype send_event = SendBytes nat | SendFail wsa_error
datatype recv_event = RecvBytes bytes | RecvFail wsa_error

text \<open>What a caller of \<^verbatim>\<open>recv_some_opt\<close> sees; \<open>Received []\<close> is a clean close.\<close>

datatype recv_result = RecvError Error | NoData | Received bytes

text \<open>
  A connected stream: its handle, what the coming calls of \<^verbatim>\<open>::send\<close> and \<^verbatim>\<open>::recv\<close> return, and
  the bytes sent so far. After the end of the lists \<^verbatim>\<open>::send\<close> takes everything and nothing arrives.
\<close>

record tcp_stream =
  ts_stream :: TcpStream
  ts_sends :: "send_event list"
  ts_recvs :: "recv_event list"
  ts_out :: bytes

text \<open>The loop of \<^verbatim>\<open>send_all\<close>: bytes accepted, the calls that remain, the result.\<close>

fun send_loop :: "send_event list \<Rightarrow> bytes \<Rightarrow> bytes \<times> send_event list \<times> ResultVoid" where
  "send_loop evs [] = ([], evs, void_ok_result)"
| "send_loop [] (b # bs) = (b # bs, [], void_ok_result)"
| "send_loop (SendFail e # evs) (b # bs) =
     (if e = WSAEWOULDBLOCK then send_loop evs (b # bs)
      else ([], evs, void_of_error (error_result Io (wsa_error_str e))))"
| "send_loop (SendBytes k # evs) (b # bs) =
     (case send_loop evs (drop k (b # bs)) of
        (sent, evs', r) \<Rightarrow> (take k (b # bs) @ sent, evs', r))"

definition send_all :: "bytes \<Rightarrow> tcp_stream \<Rightarrow> tcp_stream \<times> ResultVoid" where
  "send_all data st =
     (if \<not> stream_open (ts_stream st) then (st, void_of_error (error_result Io ''socket closed''))
      else case send_loop (ts_sends st) data of
             (sent, evs, r) \<Rightarrow> (st\<lparr>ts_sends := evs, ts_out := ts_out st @ sent\<rparr>, r))"

definition next_recv :: "tcp_stream \<Rightarrow> recv_event \<times> tcp_stream" where
  "next_recv st =
     (case ts_recvs st of [] \<Rightarrow> (RecvFail WSAETIMEDOUT, st) | e # es \<Rightarrow> (e, st\<lparr>ts_recvs := es\<rparr>))"

definition recv_some :: "tcp_stream \<Rightarrow> bytes Result \<times> tcp_stream" where
  "recv_some st =
     (if \<not> stream_open (ts_stream st) then (Inl (error_result Io ''socket closed''), st)
      else case next_recv st of
             (RecvBytes b, st1) \<Rightarrow> (Inr b, st1)
           | (RecvFail e, st1) \<Rightarrow>
               (Inl (error_result Io (if e = WSAEWOULDBLOCK \<or> e = WSAETIMEDOUT then ''timeout'' else wsa_error_str e)), st1))"

definition recv_some_opt :: "tcp_stream \<Rightarrow> recv_result \<times> tcp_stream" where
  "recv_some_opt st =
     (if \<not> stream_open (ts_stream st) then (RecvError (error_result Io ''socket closed''), st)
      else case next_recv st of
             (RecvBytes b, st1) \<Rightarrow> (Received b, st1)
           | (RecvFail e, st1) \<Rightarrow> (if e = WSAEWOULDBLOCK \<or> e = WSAETIMEDOUT then NoData
                               else RecvError (error_result Io (wsa_error_str e)), st1))"

subsection \<open>Opening sockets\<close>

text \<open>
  What the calls inside \<^verbatim>\<open>connect\<close>, \<^verbatim>\<open>bind\<close> and \<^verbatim>\<open>accept\<close> return. The result of each function is
  paired with the handles it opened and the handles it closed.
\<close>

record connect_calls =
  cc_socket :: "wsa_error + socket"
  cc_resolves :: bool
  cc_connect :: "wsa_error option"
  cc_select_ready :: bool
  cc_so_error :: nat

definition tcp_connect :: "connect_calls \<Rightarrow> TcpStream Result \<times> socket list \<times> socket list" where
  "tcp_connect cc =
     (case cc_socket cc of
        Inl e \<Rightarrow> (Inl (error_result Io (wsa_error_str e)), [], [])
      | Inr s \<Rightarrow>
          if \<not> cc_resolves cc then (Inl (error_result Io ''getaddrinfo failed''), [s], [s])
          else case cc_connect cc of
                 None \<Rightarrow> (wrap_socket s, [s], [])
               | Some e \<Rightarrow>
                   if e \<noteq> WSAEWOULDBLOCK then (Inl (error_result Io (wsa_error_str e)), [s], [s])
                   else if \<not> cc_select_ready cc then (Inl (error_result Io ''connect timeout''), [s], [s])
                   else if cc_so_error cc \<noteq> 0
                   then (Inl (error_result Io (wsa_error_str (WSAOther (cc_so_error cc)))), [s], [s])
                   else (wrap_socket s, [s], []))"

record TcpListener =
  l_sock :: socket
  l_port :: u16

record bind_calls =
  bc_socket :: "wsa_error + socket"
  bc_resolves :: bool
  bc_bind :: "wsa_error option"
  bc_actual_port :: u16
  bc_listen :: "wsa_error option"

definition tcp_bind :: "bind_calls \<Rightarrow> TcpListener Result \<times> socket list \<times> socket list" where
  "tcp_bind bc =
     (case bc_socket bc of
        Inl e \<Rightarrow> (Inl (error_result Io (wsa_error_str e)), [], [])
      | Inr s \<Rightarrow>
          if \<not> bc_resolves bc then (Inl (error_result Io ''getaddrinfo failed''), [s], [s])
          else case bc_bind bc of
                 Some e \<Rightarrow> (Inl (error_result Io (wsa_error_str e)), [s], [s])
               | None \<Rightarrow>
                   (case bc_listen bc of
                      Some e \<Rightarrow> (Inl (error_result Io (wsa_error_str e)), [s], [s])
                    | None \<Rightarrow> (Inr \<lparr>l_sock = s, l_port = bc_actual_port bc\<rparr>, [s], [])))"

definition tcp_accept :: "bool \<Rightarrow> wsa_error + socket \<Rightarrow> TcpListener \<Rightarrow> TcpStream Result \<times> socket list \<times> socket list" where
  "tcp_accept select_ready accepted l =
     (if l_sock l = invalid_socket then (Inl (error_result Io ''listener closed''), [], [])
      else if \<not> select_ready then (Inl (error_result Io ''accept timeout''), [], [])
      else case accepted of
             Inl e \<Rightarrow> (Inl (error_result Io (wsa_error_str e)), [], [])
           | Inr s \<Rightarrow> (wrap_socket s, [s], []))"

definition close_listener :: "TcpListener \<Rightarrow> TcpListener \<times> socket list" where
  "close_listener l = (if l_sock l \<noteq> invalid_socket then (l\<lparr>l_sock := invalid_socket\<rparr>, [l_sock l]) else (l, []))"

text \<open>The moves of a listener carry the port along with the handle and clear both in the source.\<close>

definition listener_move_construct :: "TcpListener \<Rightarrow> TcpListener \<times> TcpListener" where
  "listener_move_construct other =
     (\<lparr>l_sock = l_sock other, l_port = l_port other\<rparr>, \<lparr>l_sock = invalid_socket, l_port = 0\<rparr>)"

definition listener_move_assign :: "TcpListener \<Rightarrow> TcpListener \<Rightarrow> (TcpListener \<times> TcpListener) \<times> socket list" where
  "listener_move_assign this other =
     (case close_listener this of (_, closed) \<Rightarrow>
        ((\<lparr>l_sock = l_sock other, l_port = l_port other\<rparr>, \<lparr>l_sock = invalid_socket, l_port = 0\<rparr>), closed))"

subsection \<open>What is sent\<close>

text \<open>A result of \<^verbatim>\<open>::send\<close> after which the loop goes on.\<close>

definition passing :: "send_event \<Rightarrow> bool" where
  "passing e = (case e of SendBytes _ \<Rightarrow> True | SendFail w \<Rightarrow> w = WSAEWOULDBLOCK)"

lemma send_loop_complete:
  "list_all passing evs \<Longrightarrow> \<exists>evs'. send_loop evs data = (data, evs', void_ok_result) \<and> list_all passing evs'"
proof (induction evs data rule: send_loop.induct)
  case (4 k evs b bs)
  then obtain evs' where "send_loop evs (drop k (b # bs)) = (drop k (b # bs), evs', void_ok_result)" "list_all passing evs'"
    by auto
  then show ?case by auto
qed (auto simp: passing_def)

lemma send_loop_prefix: "send_loop evs data = (sent, evs', r) \<Longrightarrow> \<exists>rest. data = sent @ rest \<and> (r = void_ok_result \<longrightarrow> rest = [])"
proof (induction evs data arbitrary: sent evs' r rule: send_loop.induct)
  case (4 k evs b bs)
  obtain x y z where "send_loop evs (drop k (b # bs)) = (x, y, z)" by (metis prod_cases3)
  with 4 obtain rest where "drop k (b # bs) = x @ rest" "z = void_ok_result \<longrightarrow> rest = []" "sent = take k (b # bs) @ x" "r = z"
    by fastforce
  then show ?case using append_take_drop_id [of k "b # bs"] by (metis append.assoc)
qed (auto simp: void_ok_result_def void_of_error_def error_result_def split: if_splits)

lemma send_all_whole:
  "stream_open (ts_stream st) \<Longrightarrow> ts_sends st = [] \<Longrightarrow> send_all d st = (st\<lparr>ts_out := ts_out st @ d\<rparr>, void_ok_result)"
  by (cases d) (simp_all add: send_all_def)

end
