(* ===== verification/Coordinator.thy ===== *)
theory Coordinator
  imports Fleet_Safety Persistence Framing Transport
begin

text \<open>
  \<^verbatim>\<open>coordinator/coordinator.cpp\<close>: the message dispatcher, the connection loop, the liveness pass,
  and saving and recovering the state. The sockets and the clock are not under the repository's
  control: a connection is the list of results that \<^verbatim>\<open>recv_some_opt\<close> returns on it, and the
  clock is a function from the number of readings made on the connection to the time it showed.
  The bytes written to a socket are the replies, in order.
\<close>

record CoordinatorOptions =
  co_bind_host :: string
  co_port :: u16
  co_state_file :: string
  co_coordinator_id :: CoordinatorId
  co_initial_epoch :: CoordinatorEpoch
  co_heartbeat_timeout_ms :: DurationMs

definition CoordinatorOptions_default :: CoordinatorOptions where
  "CoordinatorOptions_default =
     \<lparr>co_bind_host = ''127.0.0.1'', co_port = 0, co_state_file = '''', co_coordinator_id = StrongId 1,
      co_initial_epoch = Generation 1, co_heartbeat_timeout_ms = 5000\<rparr>"

record Coordinator =
  c_opts :: CoordinatorOptions
  c_listener :: TcpListener
  c_store :: FleetStateStore
  c_running :: bool

definition Coordinator_new :: "CoordinatorOptions \<Rightarrow> Coordinator" where
  "Coordinator_new opts =
     \<lparr>c_opts = opts, c_listener = \<lparr>l_sock = invalid_socket, l_port = 0\<rparr>, c_store = FleetStateStore_init (co_coordinator_id opts) (co_initial_epoch opts),
      c_running = False\<rparr>"

subsection \<open>Saving and recovering\<close>

definition load_state :: "load_io \<Rightarrow> files \<Rightarrow> Coordinator \<Rightarrow> Coordinator \<times> ResultVoid" where
  "load_state io fs c =
     (if co_state_file (c_opts c) = '''' then (c, void_ok_result)
      else if fs (co_state_file (c_opts c)) = None then (c, void_ok_result)
      else case load_snapshot io (co_state_file (c_opts c)) fs of
        Inl e \<Rightarrow> (c, void_of_error (error_result Corrupt (''cannot recover state: '' @ message e)))
      | Inr snap \<Rightarrow> (case restore snap (c_store c) of (s', r) \<Rightarrow> (c\<lparr>c_store := s'\<rparr>, r)))"

definition save_state :: "save_io \<Rightarrow> Coordinator \<Rightarrow> files \<Rightarrow> files \<times> ResultVoid" where
  "save_state io c fs =
     (if co_state_file (c_opts c) = ''''
      then (fs, void_of_error (error_result Unsupported ''no state_file configured''))
      else save_snapshot io (co_state_file (c_opts c)) (snapshot (c_store c)) fs)"

text \<open>
  \<^verbatim>\<open>start\<close>: the first argument is what \<^verbatim>\<open>TcpListener::bind\<close> returned. \<^verbatim>\<open>stop\<close> returns the handles it
  closed; joining the threads is not modelled.
\<close>

definition start :: "TcpListener Result \<Rightarrow> load_io \<Rightarrow> files \<Rightarrow> Coordinator \<Rightarrow> Coordinator \<times> ResultVoid" where
  "start bound io fs c =
     (case bound of
        Inl e \<Rightarrow> (c, void_of_error (error_result Io (''coordinator bind failed: '' @ message e)))
      | Inr l \<Rightarrow>
          (let c0 = c\<lparr>c_listener := l, c_opts := (c_opts c)\<lparr>co_port := l_port l\<rparr>\<rparr>;
               (c1, r) = (if co_state_file (c_opts c0) \<noteq> '''' then load_state io fs c0 else (c0, void_ok_result))
           in if \<not> void_ok r then (c1, r) else (c1\<lparr>c_running := True\<rparr>, void_ok_result)))"

definition stop :: "Coordinator \<Rightarrow> Coordinator \<times> socket list" where
  "stop c =
     (if \<not> c_running c then (c, [])
      else case close_listener (c_listener c) of
             (l, closed) \<Rightarrow> (c\<lparr>c_running := False, c_listener := l\<rparr>, closed))"

subsection \<open>Dispatch\<close>

definition respond_ack :: "FleetStateStore \<Rightarrow> Message \<Rightarrow> bool \<Rightarrow> string \<Rightarrow> Message" where
  "respond_ack s req success reason =
     Message_default
       \<lparr>m_type := (if success then ACK else ERROR), m_ok := success, m_reason := reason,
        m_request_id := m_request_id req, m_epoch := fs_epoch s, m_worker_boot := m_worker_boot req,
        m_worker := m_worker req\<rparr>"

definition send_message :: "Message \<Rightarrow> bytes" where
  "send_message msg = encode_frame (m_type msg) (encode_message msg)"

text \<open>The search for the worker that owns a device, over the workers in key order.\<close>

fun find_owner :: "string \<Rightarrow> (WorkerId, WorkerRecord) omap \<Rightarrow> WorkerId \<Rightarrow> WorkerId" where
  "find_owner identity [] owner = owner"
| "find_owner identity ((wid, wr) # ws) owner =
     (let owner' = (if identity \<in> set (wr_device_identities wr) then wid else owner)
      in if \<not> id_is_zero owner' then owner' else find_owner identity ws owner')"

text \<open>\<^verbatim>\<open>if (!r.ok()) \<dots> respond_ack(false, message) \<dots> respond_ack(true, "")\<close>.\<close>

definition ack_void :: "Message \<Rightarrow> FleetStateStore \<times> ResultVoid \<Rightarrow> FleetStateStore \<times> Message" where
  "ack_void msg sr =
     (case sr of (s, r) \<Rightarrow>
        if \<not> void_ok r then (s, respond_ack s msg False (message (void_error r)))
        else (s, respond_ack s msg True ''''))"

definition dispatch_register :: "Timestamp \<Rightarrow> Message \<Rightarrow> FleetStateStore \<Rightarrow> FleetStateStore \<times> Message" where
  "dispatch_register now msg s =
     (case decode_registration (m_payload msg) of
        Inl e \<Rightarrow> (s, respond_ack s msg False (''malformed registration: '' @ message e))
      | Inr reg \<Rightarrow>
          (case register_worker reg now s of
             (s', Inl e) \<Rightarrow> (s', respond_ack s' msg False (''registration rejected: '' @ message e))
           | (s', Inr _) \<Rightarrow>
               (s', Message_default
                      \<lparr>m_type := REGISTER_ACK, m_request_id := m_request_id msg,
                       m_worker_boot := reg_worker_boot reg, m_worker := reg_worker reg,
                       m_epoch := fs_epoch s', m_ok := True,
                       m_payload := put_u64 (gen_value (reg_registration_generation reg)) @
                                    put_u64 (gen_value (fs_epoch s'))\<rparr>)))"

definition dispatch_observations :: "Timestamp \<Rightarrow> Message \<Rightarrow> FleetStateStore \<Rightarrow> FleetStateStore \<times> Message" where
  "dispatch_observations now msg s =
     (case decode_observation_batch (m_payload msg) of
        Inl e \<Rightarrow> (s, respond_ack s msg False ''malformed observation batch'')
      | Inr obs \<Rightarrow>
          (case ingest_snapshot (m_worker msg) obs ObservationPolicy_default now s of
             (s', Inl e) \<Rightarrow> (s', respond_ack s' msg False (message e))
           | (s', Inr _) \<Rightarrow> (s', respond_ack s' msg True '''')))"

definition dispatch_drain :: "Timestamp \<Rightarrow> Message \<Rightarrow> FleetStateStore \<Rightarrow> FleetStateStore \<times> Message" where
  "dispatch_drain now msg s =
     (case decode_drain_target (m_payload msg) of
        Inl e \<Rightarrow> (s, respond_ack s msg False ''malformed drain target'')
      | Inr t \<Rightarrow>
          (let owner = find_owner (dt_identity t) (sn_workers (snapshot s)) (StrongId 0)
           in ack_void msg (set_drain owner (dt_identity t) (dt_level t) now s)))"

definition dispatch_quarantine :: "Timestamp \<Rightarrow> Message \<Rightarrow> FleetStateStore \<Rightarrow> FleetStateStore \<times> Message" where
  "dispatch_quarantine now msg s =
     (case decode_quarantine (m_payload msg) of
        Inl e \<Rightarrow> (s, respond_ack s msg False ''malformed quarantine'')
      | Inr q \<Rightarrow>
          (let owner = find_owner (qt_identity q) (sn_workers (snapshot s)) (StrongId 0);
               qrec = QuarantineRecord_default
                        \<lparr>q_reason := qt_reason q, q_source := qt_source q, q_generation := qt_generation q,
                         q_at := now, q_authority := fs_epoch s\<rparr>
           in ack_void msg (set_quarantine owner (qt_identity q) qrec now s)))"

definition dispatch_clear :: "Timestamp \<Rightarrow> Message \<Rightarrow> FleetStateStore \<Rightarrow> FleetStateStore \<times> Message" where
  "dispatch_clear now msg s =
     (case decode_identity_target (m_payload msg) of
        Inl e \<Rightarrow> (s, respond_ack s msg False ''malformed clear target'')
      | Inr identity \<Rightarrow> ack_void msg (clear_quarantine (StrongId 0) identity (fs_epoch s) now s))"

definition dispatch_heartbeat :: "Timestamp \<Rightarrow> Message \<Rightarrow> FleetStateStore \<Rightarrow> FleetStateStore \<times> Message" where
  "dispatch_heartbeat now msg s =
     (if \<not> id_is_zero (m_worker_boot msg) \<or> \<not> id_is_zero (m_worker msg)
      then ack_void msg (heartbeat (m_worker msg) (m_worker_boot msg) (m_epoch msg) now (m_health_gen msg) s)
      else (s, respond_ack s msg True ''''))"

definition dispatch :: "save_io \<Rightarrow> Timestamp \<Rightarrow> Message \<Rightarrow> Coordinator \<times> files \<Rightarrow> (Coordinator \<times> files) \<times> Message" where
  "dispatch io now msg cf =
     (case cf of (c, fs) \<Rightarrow>
        let s = c_store c;
            on_store = (\<lambda>sr. ((c\<lparr>c_store := fst sr\<rparr>, fs), snd sr))
        in case m_type msg of
             HELLO \<Rightarrow>
               ((c, fs), Message_default
                  \<lparr>m_type := ACK, m_epoch := fs_epoch s, m_coordinator := co_coordinator_id (c_opts c),
                   m_request_id := m_request_id msg, m_ok := True\<rparr>)
           | REGISTER \<Rightarrow> on_store (dispatch_register now msg s)
           | HEARTBEAT \<Rightarrow> on_store (dispatch_heartbeat now msg s)
           | DEVICE_SNAPSHOT \<Rightarrow> on_store (dispatch_observations now msg s)
           | HEALTH_REPORT \<Rightarrow> on_store (dispatch_observations now msg s)
           | CAPABILITY_REPORT \<Rightarrow> on_store (dispatch_observations now msg s)
           | SNAPSHOT_REQUEST \<Rightarrow>
               ((c, fs), Message_default
                  \<lparr>m_type := SNAPSHOT_RESPONSE, m_request_id := m_request_id msg, m_epoch := fs_epoch s,
                   m_payload := encode_snapshot (snapshot s), m_ok := True\<rparr>)
           | DRAIN \<Rightarrow> on_store (dispatch_drain now msg s)
           | UNDRAIN \<Rightarrow> on_store (dispatch_drain now msg s)
           | MessageType.QUARANTINE \<Rightarrow> on_store (dispatch_quarantine now msg s)
           | CLEAR_QUARANTINE \<Rightarrow> on_store (dispatch_clear now msg s)
           | EPOCH_ROLL \<Rightarrow> on_store (ack_void msg (roll_epoch (m_epoch msg) s))
           | SAVE \<Rightarrow>
               (let (fs', r) = save_state io c fs
                in ((c, fs'), snd (ack_void msg (s, r))))
           | _ \<Rightarrow> ((c, fs), respond_ack s msg False ''unexpected message type''))"

subsection \<open>The connection loop and the liveness pass\<close>

record connection =
  cn_coord :: Coordinator
  cn_files :: files
  cn_buf :: bytes
  cn_readings :: nat
  cn_connected_worker :: WorkerId
  cn_worker_bound :: bool
  cn_sent :: "Message list"

definition connection_new :: "Coordinator \<Rightarrow> files \<Rightarrow> connection" where
  "connection_new c fs =
     \<lparr>cn_coord = c, cn_files = fs, cn_buf = [], cn_readings = 0, cn_connected_worker = StrongId 0,
      cn_worker_bound = False, cn_sent = []\<rparr>"

definition error_message :: "string \<Rightarrow> Message" where
  "error_message reason = Message_default\<lparr>m_type := ERROR, m_reason := reason\<rparr>"

text \<open>One decoded frame: the new connection, or \<open>None\<close> with it when the handler returns.\<close>

definition handle_frame :: "save_io \<Rightarrow> (nat \<Rightarrow> Timestamp) \<Rightarrow> Frame \<Rightarrow> connection \<Rightarrow> bool \<times> connection" where
  "handle_frame io clock pending cn =
     (case decode_message (frame_payload pending) of
        Inl e \<Rightarrow> (False, cn\<lparr>cn_sent := cn_sent cn @ [error_message (message e)]\<rparr>)
      | Inr msg \<Rightarrow>
          (case dispatch io (clock (cn_readings cn)) msg (cn_coord cn, cn_files cn) of
             ((c', fs'), reply) \<Rightarrow>
               (let cn1 = cn\<lparr>cn_coord := c', cn_files := fs', cn_readings := cn_readings cn + 1,
                             cn_sent := cn_sent cn @ [reply]\<rparr>
                in (True, if m_type msg = REGISTER
                          then cn1\<lparr>cn_connected_worker := m_worker msg, cn_worker_bound := True\<rparr>
                          else cn1))))"

fun handle_frames :: "save_io \<Rightarrow> (nat \<Rightarrow> Timestamp) \<Rightarrow> Frame list \<Rightarrow> connection \<Rightarrow> bool \<times> connection" where
  "handle_frames io clock [] cn = (True, cn)"
| "handle_frames io clock (f # fs) cn =
     (case handle_frame io clock f cn of
        (False, cn1) \<Rightarrow> (False, cn1)
      | (True, cn1) \<Rightarrow> handle_frames io clock fs cn1)"

definition handle_chunk :: "save_io \<Rightarrow> (nat \<Rightarrow> Timestamp) \<Rightarrow> bytes \<Rightarrow> connection \<Rightarrow> bool \<times> connection" where
  "handle_chunk io clock data cn =
     (case drain_frames (cn_buf cn @ data) of
        (fs, rest, res) \<Rightarrow>
          (case handle_frames io clock fs (cn\<lparr>cn_buf := rest\<rparr>) of
             (False, cn1) \<Rightarrow> (False, cn1)
           | (True, cn1) \<Rightarrow>
               (case res of
                  FrameError perr \<Rightarrow> (False, cn1\<lparr>cn_sent := cn_sent cn1 @ [error_message perr]\<rparr>)
                | _ \<Rightarrow> (True, cn1))))"

text \<open>After the loop: a worker that registered on the connection is marked lost.\<close>

definition close_connection :: "(nat \<Rightarrow> Timestamp) \<Rightarrow> connection \<Rightarrow> connection" where
  "close_connection clock cn =
     (if cn_worker_bound cn \<and> c_running (cn_coord cn)
      then cn\<lparr>cn_coord := (cn_coord cn)\<lparr>c_store :=
                 fst (mark_worker_lost (cn_connected_worker cn) (clock (cn_readings cn)) (c_store (cn_coord cn)))\<rparr>\<rparr>
      else cn)"

text \<open>The loop over the results of \<^verbatim>\<open>recv_some_opt\<close>; at the end of the list it is still waiting.\<close>

fun handle_connection :: "save_io \<Rightarrow> (nat \<Rightarrow> Timestamp) \<Rightarrow> recv_result list \<Rightarrow> connection \<Rightarrow> connection" where
  "handle_connection io clock [] cn = cn"
| "handle_connection io clock (ev # evs) cn =
     (if \<not> c_running (cn_coord cn) then close_connection clock cn
      else case ev of
        RecvError _ \<Rightarrow> close_connection clock cn
      | NoData \<Rightarrow> handle_connection io clock evs cn
      | Received data \<Rightarrow>
          if data = [] then close_connection clock cn
          else (case handle_chunk io clock data cn of
                  (False, cn1) \<Rightarrow> cn1
                | (True, cn1) \<Rightarrow> handle_connection io clock evs cn1))"

definition liveness_pass :: "Timestamp \<Rightarrow> Coordinator \<Rightarrow> Coordinator" where
  "liveness_pass now c =
     c\<lparr>c_store :=
        fold (\<lambda>(wid, wr) s.
                if wr_alive wr \<and> \<not> wr_lost wr \<and> \<not> wr_fenced wr \<and> wr_last_heartbeat wr \<noteq> kInvalidTimestamp
                then if sint (now - wr_last_heartbeat wr) > sint (co_heartbeat_timeout_ms (c_opts c))
                     then fst (mark_worker_lost wid now s) else s
                else s)
             (sn_workers (snapshot (c_store c))) (c_store c)\<rparr>"

subsection \<open>Dispatching is at most one store operation\<close>

text \<open>The store operation a message stands for, if any.\<close>

definition message_op :: "Timestamp \<Rightarrow> Message \<Rightarrow> FleetStateStore \<Rightarrow> store_op option" where
  "message_op now msg s =
     (case m_type msg of
           REGISTER \<Rightarrow> (case decode_registration (m_payload msg) of Inl _ \<Rightarrow> None | Inr reg \<Rightarrow> Some (Register reg now))
         | HEARTBEAT \<Rightarrow>
             if \<not> id_is_zero (m_worker_boot msg) \<or> \<not> id_is_zero (m_worker msg)
             then Some (Heartbeat (m_worker msg) (m_worker_boot msg) (m_epoch msg) now (m_health_gen msg)) else None
         | DEVICE_SNAPSHOT \<Rightarrow> (case decode_observation_batch (m_payload msg) of Inl _ \<Rightarrow> None
             | Inr obs \<Rightarrow> Some (Ingest (m_worker msg) obs ObservationPolicy_default now))
         | HEALTH_REPORT \<Rightarrow> (case decode_observation_batch (m_payload msg) of Inl _ \<Rightarrow> None
             | Inr obs \<Rightarrow> Some (Ingest (m_worker msg) obs ObservationPolicy_default now))
         | CAPABILITY_REPORT \<Rightarrow> (case decode_observation_batch (m_payload msg) of Inl _ \<Rightarrow> None
             | Inr obs \<Rightarrow> Some (Ingest (m_worker msg) obs ObservationPolicy_default now))
         | DRAIN \<Rightarrow> (case decode_drain_target (m_payload msg) of Inl _ \<Rightarrow> None
             | Inr t \<Rightarrow> Some (SetDrain (find_owner (dt_identity t) (fs_workers s) (StrongId 0)) (dt_identity t) (dt_level t) now))
         | UNDRAIN \<Rightarrow> (case decode_drain_target (m_payload msg) of Inl _ \<Rightarrow> None
             | Inr t \<Rightarrow> Some (SetDrain (find_owner (dt_identity t) (fs_workers s) (StrongId 0)) (dt_identity t) (dt_level t) now))
         | MessageType.QUARANTINE \<Rightarrow> (case decode_quarantine (m_payload msg) of Inl _ \<Rightarrow> None
             | Inr q \<Rightarrow> Some (SetQuarantine (find_owner (qt_identity q) (fs_workers s) (StrongId 0)) (qt_identity q)
                 (QuarantineRecord_default\<lparr>q_reason := qt_reason q, q_source := qt_source q,
                    q_generation := qt_generation q, q_at := now, q_authority := fs_epoch s\<rparr>) now))
         | CLEAR_QUARANTINE \<Rightarrow> (case decode_identity_target (m_payload msg) of Inl _ \<Rightarrow> None
             | Inr identity \<Rightarrow> Some (ClearQuarantine (StrongId 0) identity (fs_epoch s) now))
         | EPOCH_ROLL \<Rightarrow> Some (RollEpoch (m_epoch msg))
         | _ \<Rightarrow> None)"

definition run_opt :: "store_op option \<Rightarrow> FleetStateStore \<Rightarrow> FleetStateStore" where
  "run_opt p s = (case p of None \<Rightarrow> s | Some op \<Rightarrow> run_op op s)"

lemmas dispatch_defs = dispatch_register_def dispatch_observations_def dispatch_drain_def dispatch_quarantine_def
  dispatch_clear_def dispatch_heartbeat_def

lemma fst_ack_void [simp]: "fst (ack_void msg sr) = fst sr"
  by (simp add: ack_void_def split: prod.split)

lemma snapshot_workers [simp]: "sn_workers (snapshot s) = fs_workers s"
  by (simp add: snapshot_def)

lemma dispatch_store:
  "c_store (fst (fst (dispatch io now msg (c, fs)))) = run_opt (message_op now msg (c_store c)) (c_store c)"
  by (cases "m_type msg")
    (simp_all add: dispatch_def dispatch_defs message_op_def run_opt_def Let_def split: sum.split prod.split)

lemma dispatch_coordinator:
  "c_opts (fst (fst (dispatch io now msg (c, fs)))) = c_opts c"
  "c_running (fst (fst (dispatch io now msg (c, fs)))) = c_running c"
  by (cases "m_type msg"; simp add: dispatch_def Let_def split: prod.split)+

lemma run_opt_reachable: "reachable s \<Longrightarrow> reachable (run_opt p s)"
  by (auto simp: run_opt_def intro: reachable.step split: option.split)

text \<open>The result of a \<open>Result<void>\<close> operation never reads as a failure, so it is always acknowledged.\<close>

lemma void_ops_ok:
  "void_ok (snd (roll_epoch ne s))" "void_ok (snd (heartbeat w b e now hg s))"
  "void_ok (snd (set_drain w i d now s))" "void_ok (snd (set_quarantine w i q now s))"
  "void_ok (snd (clear_quarantine w i e now s))" "void_ok (snd (mark_worker_lost w now s))"
  "void_ok (snd (restore sn s))"
  by (auto simp: store_op_defs restore_def Let_def split: option.split)

lemma ack_void_ok: "void_ok (snd sr) \<Longrightarrow> snd (ack_void msg sr) = respond_ack (fst sr) msg True ''''"
  by (cases sr) (simp add: ack_void_def)

lemma save_snapshot_ok: "void_ok (snd (save_snapshot io path sn fs))"
  by (simp add: save_snapshot_def Let_def)

lemma save_state_ok: "void_ok (snd (save_state io c fs))"
  by (simp add: save_state_def save_snapshot_ok)

subsection \<open>Connections\<close>

lemma handle_frame_reachable:
  assumes "reachable (c_store (cn_coord cn))"
  shows "reachable (c_store (cn_coord (snd (handle_frame io clock f cn))))"
proof (cases "decode_message (frame_payload f)")
  case (Inr msg)
  obtain c' fs' reply where d: "dispatch io (clock (cn_readings cn)) msg (cn_coord cn, cn_files cn) = ((c', fs'), reply)"
    by (metis surj_pair)
  have "reachable (c_store c')"
    using dispatch_store [of io "clock (cn_readings cn)" msg "cn_coord cn" "cn_files cn"] d assms
    by (simp add: run_opt_reachable)
  with Inr d show ?thesis by (simp add: handle_frame_def Let_def)
qed (simp add: handle_frame_def assms)

lemma handle_frames_reachable:
  "reachable (c_store (cn_coord cn)) \<Longrightarrow> reachable (c_store (cn_coord (snd (handle_frames io clock fs cn))))"
proof (induction fs arbitrary: cn)
  case (Cons f fs)
  from handle_frame_reachable [OF Cons.prems, of io clock f] Cons.IH show ?case
    by (auto split: prod.split bool.split)
qed simp

lemma handle_chunk_reachable:
  assumes "reachable (c_store (cn_coord cn))"
  shows "reachable (c_store (cn_coord (snd (handle_chunk io clock data cn))))"
proof -
  obtain fs rest res where "drain_frames (cn_buf cn @ data) = (fs, rest, res)" by (metis prod_cases3)
  with handle_frames_reachable [of "cn\<lparr>cn_buf := rest\<rparr>" io clock fs] assms show ?thesis
    by (auto simp: handle_chunk_def split: prod.split bool.split feed_result.split)
qed

lemma close_reachable:
  "reachable (c_store (cn_coord cn)) \<Longrightarrow> reachable (c_store (cn_coord (close_connection clock cn)))"
  using reachable.step [of "c_store (cn_coord cn)" "MarkLost (cn_connected_worker cn) (clock (cn_readings cn))"]
  by (simp add: close_connection_def)

lemma handle_connection_reachable:
  "reachable (c_store (cn_coord cn)) \<Longrightarrow> reachable (c_store (cn_coord (handle_connection io clock evs cn)))"
proof (induction evs arbitrary: cn)
  case (Cons ev evs)
  show ?case
  proof (cases ev)
    case (Received data)
    obtain b cn1 where "handle_chunk io clock data cn = (b, cn1)" by fastforce
    with handle_chunk_reachable [OF Cons.prems, of io clock data] Received Cons close_reachable show ?thesis
      by (cases b) auto
  qed (use Cons close_reachable in auto)
qed simp

lemma liveness_reachable:
  assumes "reachable (c_store c)"
  shows "reachable (c_store (liveness_pass now c))"
proof -
  have "reachable s \<Longrightarrow> reachable (fold (\<lambda>(wid, wr) s.
          if wr_alive wr \<and> \<not> wr_lost wr \<and> \<not> wr_fenced wr \<and> wr_last_heartbeat wr \<noteq> kInvalidTimestamp
          then if sint (now - wr_last_heartbeat wr) > t then fst (mark_worker_lost wid now s) else s
          else s) ws s)" for ws s t
    using reachable.step [of _ "MarkLost _ now"] by (induction ws arbitrary: s) auto
  then show ?thesis using assms by (simp add: liveness_pass_def)
qed


subsection \<open>What a connection does depends only on its bytes\<close>

lemma handle_frame_buf:
  "handle_frame io clock f (cn\<lparr>cn_buf := b\<rparr>) = apsnd (\<lambda>c. c\<lparr>cn_buf := b\<rparr>) (handle_frame io clock f cn)"
  by (simp add: handle_frame_def Let_def split: sum.split prod.split)

lemma handle_frames_buf:
  "handle_frames io clock fs (cn\<lparr>cn_buf := b\<rparr>) = apsnd (\<lambda>c. c\<lparr>cn_buf := b\<rparr>) (handle_frames io clock fs cn)"
proof (induction fs arbitrary: cn)
  case (Cons f fs)
  obtain t cn1 where "handle_frame io clock f cn = (t, cn1)" by fastforce
  with Cons show ?case by (cases t) (simp_all add: handle_frame_buf)
qed simp

lemma handle_frames_append:
  "handle_frames io clock (fs @ gs) cn =
     (case handle_frames io clock fs cn of (False, cn1) \<Rightarrow> (False, cn1) | (True, cn1) \<Rightarrow> handle_frames io clock gs cn1)"
proof (induction fs arbitrary: cn)
  case (Cons f fs)
  obtain t cn1 where "handle_frame io clock f cn = (t, cn1)" by fastforce
  with Cons show ?case by (cases t) simp_all
qed simp

lemma handle_frame_running: "c_running (cn_coord (snd (handle_frame io clock f cn))) = c_running (cn_coord cn)"
proof (cases "decode_message (frame_payload f)")
  case (Inr msg)
  obtain c' fs' reply where d: "dispatch io (clock (cn_readings cn)) msg (cn_coord cn, cn_files cn) = ((c', fs'), reply)"
    by (metis surj_pair)
  with Inr dispatch_coordinator(2) [of io "clock (cn_readings cn)" msg "cn_coord cn" "cn_files cn"]
  show ?thesis by (simp add: handle_frame_def Let_def)
qed (simp add: handle_frame_def)

lemma handle_frames_running: "c_running (cn_coord (snd (handle_frames io clock fs cn))) = c_running (cn_coord cn)"
proof (induction fs arbitrary: cn)
  case (Cons f fs)
  obtain t cn1 where "handle_frame io clock f cn = (t, cn1)" by fastforce
  with Cons handle_frame_running [of io clock f cn] show ?case by (cases t) simp_all
qed simp

text \<open>The effect of the frames of a stream, with the left-over bytes forgotten.\<close>

definition run_stream ::
  "save_io \<Rightarrow> (nat \<Rightarrow> Timestamp) \<Rightarrow> Frame list \<Rightarrow> feed_result \<Rightarrow> connection \<Rightarrow> connection" where
  "run_stream io clock fs res cn =
     (case handle_frames io clock fs (cn\<lparr>cn_buf := []\<rparr>) of
        (False, cn1) \<Rightarrow> cn1
      | (True, cn1) \<Rightarrow> (case res of FrameError perr \<Rightarrow> cn1\<lparr>cn_sent := cn_sent cn1 @ [error_message perr]\<rparr>
                         | _ \<Rightarrow> cn1))"

lemma handle_connection_stream:
  assumes "feed_chunks (cn_buf cn) cs = (fs, rest, res)" "c_running (cn_coord cn)" "[] \<notin> set cs"
  shows "(handle_connection io clock (map Received cs) cn)\<lparr>cn_buf := []\<rparr> = run_stream io clock fs res cn"
  using assms
proof (induction cs arbitrary: cn fs rest res)
  case Nil
  then show ?case by (auto simp: run_stream_def)
next
  case (Cons c cs)
  obtain fs1 rest1 res1 where d: "drain_frames (cn_buf cn @ c) = (fs1, rest1, res1)" by (metis prod_cases3)
  obtain b cn1 where h: "handle_frames io clock fs1 cn = (b, cn1)" by fastforce
  have chunk: "handle_frames io clock fs1 (cn\<lparr>cn_buf := x\<rparr>) = (b, cn1\<lparr>cn_buf := x\<rparr>)" for x
    by (simp add: handle_frames_buf h)
  show ?case
  proof (cases res1)
    case (FrameReady f)
    with drain_frames_result [OF d] show ?thesis by simp
  next
    case (FrameError e)
    with Cons.prems d chunk show ?thesis by (auto simp: handle_chunk_def run_stream_def split: bool.splits)
  next
    case NeedMore
    obtain fs2 rest2 res2 where f2: "feed_chunks rest1 cs = (fs2, rest2, res2)" by (metis prod_cases3)
    with Cons.prems(1) d NeedMore have eq: "fs = fs1 @ fs2" "res = res2" by auto
    have "c_running (cn_coord cn1)" using handle_frames_running [of io clock fs1 cn] h Cons.prems(2) by simp
    then have "(handle_connection io clock (map Received cs) (cn1\<lparr>cn_buf := rest1\<rparr>))\<lparr>cn_buf := []\<rparr>
        = run_stream io clock fs2 res2 (cn1\<lparr>cn_buf := rest1\<rparr>)"
      using f2 Cons.prems(3) by (intro Cons.IH [of _ fs2 rest2 res2]) simp_all
    with d chunk NeedMore Cons.prems eq show ?thesis
      by (cases b) (auto simp: handle_chunk_def run_stream_def handle_frames_append)
  qed
qed

lemma handle_connection_chunking:
  assumes "concat cs = concat cs'" "[] \<notin> set cs" "[] \<notin> set cs'" "c_running (cn_coord cn)" "cn_buf cn = []"
  shows "(handle_connection io clock (map Received cs) cn)\<lparr>cn_buf := []\<rparr>
       = (handle_connection io clock (map Received cs') cn)\<lparr>cn_buf := []\<rparr>"
proof -
  have "drain_frames [] = ([], [], NeedMore)" by (rule drain_short) simp
  note f = feed_chunks_drain [OF this, of cs] feed_chunks_drain [OF this, of cs']
  obtain fs rest res where "drain_frames (concat cs) = (fs, rest, res)" by (metis prod_cases3)
  with f assms(1) obtain r r' where "feed_chunks [] cs = (fs, r, res)" "feed_chunks [] cs' = (fs, r', res)" by auto
  with assms handle_connection_stream [of cn cs fs r res] handle_connection_stream [of cn cs' fs r' res]
  show ?thesis by simp
qed


subsection \<open>The liveness pass\<close>

definition expired :: "Timestamp \<Rightarrow> DurationMs \<Rightarrow> WorkerRecord \<Rightarrow> bool" where
  "expired now timeout wr \<longleftrightarrow>
     wr_alive wr \<and> \<not> wr_lost wr \<and> \<not> wr_fenced wr \<and> wr_last_heartbeat wr \<noteq> kInvalidTimestamp \<and>
     sint (now - wr_last_heartbeat wr) > sint timeout"

definition lost_record :: "WorkerRecord \<Rightarrow> WorkerRecord" where
  "lost_record wr = wr\<lparr>wr_lost := True, wr_alive := False, wr_fenced := True\<rparr>"

lemma mark_lost_workers:
  "om_find (fs_workers (fst (mark_worker_lost w now s))) w' =
     (if w' = w then map_option lost_record (om_find (fs_workers s) w) else om_find (fs_workers s) w')"
  by (auto simp: mark_worker_lost_def lost_record_def split: option.split)

lemma liveness_fold:
  assumes "distinct (map fst ws)"
  shows "om_find (fs_workers (fold (\<lambda>(wid, wr) s.
            if wr_alive wr \<and> \<not> wr_lost wr \<and> \<not> wr_fenced wr \<and> wr_last_heartbeat wr \<noteq> kInvalidTimestamp
            then if sint (now - wr_last_heartbeat wr) > sint t then fst (mark_worker_lost wid now s) else s
            else s) ws s)) w =
     (if \<exists>wr. (w, wr) \<in> set ws \<and> expired now t wr then map_option lost_record (om_find (fs_workers s) w)
      else om_find (fs_workers s) w)"
  using assms
proof (induction ws arbitrary: s)
  case (Cons e ws)
  obtain w1 wr1 where e: "e = (w1, wr1)" by (cases e)
  with Cons.prems have new: "w = w1 \<Longrightarrow> \<not> (\<exists>wr. (w, wr) \<in> set ws \<and> expired now t wr)" by force
  show ?case
  proof (cases "expired now t wr1")
    case True
    then have "wr_alive wr1 \<and> \<not> wr_lost wr1 \<and> \<not> wr_fenced wr1 \<and> wr_last_heartbeat wr1 \<noteq> kInvalidTimestamp"
      "sint (now - wr_last_heartbeat wr1) > sint t" by (auto simp: expired_def)
    with Cons True new show ?thesis by (auto simp: e mark_lost_workers)
  next
    case False
    then have "(if wr_alive wr1 \<and> \<not> wr_lost wr1 \<and> \<not> wr_fenced wr1 \<and> wr_last_heartbeat wr1 \<noteq> kInvalidTimestamp
        then if sint (now - wr_last_heartbeat wr1) > sint t then fst (mark_worker_lost w1 now s) else s else s) = s"
      by (auto simp: expired_def)
    with Cons False show ?thesis by (auto simp: e)
  qed
qed simp

lemma liveness_pass_workers:
  assumes "om_ok (fs_workers (c_store c))"
  shows "om_find (fs_workers (c_store (liveness_pass now c))) w =
     (case om_find (fs_workers (c_store c)) w of
        None \<Rightarrow> None
      | Some wr \<Rightarrow> Some (if expired now (co_heartbeat_timeout_ms (c_opts c)) wr then lost_record wr else wr))"
  using liveness_fold [OF om_ok_distinct [OF assms], where now = now and t = "co_heartbeat_timeout_ms (c_opts c)"
      and s = "c_store c" and w = w]
  by (auto simp: liveness_pass_def om_entries_find [OF assms] split: option.split)

subsection \<open>Starting\<close>

lemma parse_store_decodes: "parse_store bs = Inr sn \<Longrightarrow> \<exists>body. decode_snapshot body = Inr sn"
  by (auto simp: parse_store_def rd_inv split: if_splits option.splits)

lemma wf_maps_ok: "StateSnapshot_wf sn \<Longrightarrow> snapshot_maps_ok sn"
  by (auto simp: StateSnapshot_wf_def snapshot_maps_ok_def list_all_iff worker_wf_def)

lemma load_snapshot_maps_ok: "load_snapshot io path fs = Inr sn \<Longrightarrow> snapshot_maps_ok sn"
  by (auto simp: load_snapshot_def split: option.splits if_splits
      dest!: parse_store_decodes decode_snapshot_wf intro: wf_maps_ok)

lemma load_state_reachable:
  assumes "reachable (c_store c)"
  shows "reachable (c_store (fst (load_state io fs c)))"
proof (cases "load_snapshot io (co_state_file (c_opts c)) fs")
  case (Inr sn)
  then have "reachable (fst (restore sn (c_store c)))"
    using assms by (intro reachable.recover load_snapshot_maps_ok)
  with Inr assms show ?thesis by (auto simp: load_state_def split: prod.split)
qed (use assms in \<open>auto simp: load_state_def\<close>)

lemma start_reachable:
  assumes "reachable (c_store c)"
  shows "reachable (c_store (fst (start b io fs c)))"
proof (cases b)
  case (Inr l)
  let ?c = "c\<lparr>c_listener := l, c_opts := (c_opts c)\<lparr>co_port := l_port l\<rparr>\<rparr>"
  have "reachable (c_store (fst (load_state io fs ?c)))" using assms by (intro load_state_reachable) simp
  with Inr assms show ?thesis by (cases "load_state io fs ?c") (auto simp: start_def Let_def)
qed (simp add: start_def assms)

lemma new_reachable: "reachable (c_store (Coordinator_new opts))"
  by (simp add: Coordinator_new_def reachable.start)


subsection \<open>Streams of messages\<close>

definition frame_of :: "Message \<Rightarrow> Frame" where
  "frame_of m = \<lparr>frame_type = m_type m, frame_payload = encode_message m\<rparr>"

definition sendable :: "Message \<Rightarrow> bool" where
  "sendable m \<longleftrightarrow> length (m_reason m) \<le> 4096 \<and> length (encode_message m) \<le> unat kMaxPayloadLength"

definition deliver_one :: "save_io \<Rightarrow> (nat \<Rightarrow> Timestamp) \<Rightarrow> Message \<Rightarrow> connection \<Rightarrow> connection" where
  "deliver_one io clock msg cn =
     (case dispatch io (clock (cn_readings cn)) msg (cn_coord cn, cn_files cn) of
        ((c', fs'), reply) \<Rightarrow>
          (let cn1 = cn\<lparr>cn_coord := c', cn_files := fs', cn_readings := cn_readings cn + 1,
                        cn_sent := cn_sent cn @ [reply]\<rparr>
           in if m_type msg = REGISTER
              then cn1\<lparr>cn_connected_worker := m_worker msg, cn_worker_bound := True\<rparr> else cn1))"

lemma length_payload_le: "length (m_payload m) \<le> length (encode_message m)"
  by (simp add: encode_message_def put_bytes_def)

lemma sendable_wf: "sendable m \<Longrightarrow> Message_wf m \<and> frame_wf (frame_of m)"
  using length_payload_le [of m]
  by (auto simp: sendable_def Message_wf_def frame_wf_def frame_of_def kMaxPayloadLength_def)

lemma handle_frame_message: "sendable m \<Longrightarrow> handle_frame io clock (frame_of m) cn = (True, deliver_one io clock m cn)"
  using sendable_wf [of m]
  by (auto simp: handle_frame_def frame_of_def decode_encode_message deliver_one_def Let_def split: prod.split)

lemma handle_frames_messages:
  "list_all sendable ms \<Longrightarrow> handle_frames io clock (map frame_of ms) cn = (True, fold (deliver_one io clock) ms cn)"
  by (induction ms arbitrary: cn) (simp_all add: handle_frame_message)

lemma send_messages_frames: "concat (map send_message ms) = encode_frames (map frame_of ms)"
  by (induction ms) (simp_all add: encode_frames_def send_message_def frame_of_def)

lemma deliver_buf: "deliver_one io clock m (cn\<lparr>cn_buf := b\<rparr>) = (deliver_one io clock m cn)\<lparr>cn_buf := b\<rparr>"
  by (simp add: deliver_one_def Let_def split: prod.split)

lemma handle_messages:
  assumes "list_all sendable ms" "concat cs = concat (map send_message ms)" "[] \<notin> set cs"
    and "c_running (cn_coord cn)" "cn_buf cn = []"
  shows "(handle_connection io clock (map Received cs) cn)\<lparr>cn_buf := []\<rparr>
           = fold (deliver_one io clock) ms (cn\<lparr>cn_buf := []\<rparr>)"
proof -
  have "list_all frame_wf (map frame_of ms)"
    using assms(1) by (auto simp: list_all_iff dest: sendable_wf)
  then have "feed_chunks [] cs = (map frame_of ms, [], NeedMore)"
    using assms(2) by (intro feed_chunks_frames) (simp_all add: send_messages_frames)
  then show ?thesis
    using handle_connection_stream [of cn cs "map frame_of ms" "[]" NeedMore io clock] assms(1,3-5)
    by (simp add: run_stream_def handle_frames_messages)
qed


end
