(* ===== verification/Device_Backend.thy ===== *)
theory Device_Backend
  imports Pipeline
begin

text \<open>
  \<^verbatim>\<open>device/device_backend.hpp\<close> and \<^verbatim>\<open>device/synthetic_backend.cpp\<close>: the interface through which
  the agent enumerates and probes accelerators, and the backend with a fixed set of simulated
  devices. The interface is the locale \<open>device_backend\<close>; its law is the one the agent relies on:
  a probe reports the identity under which the device was enumerated.
\<close>

record EnumeratedDevice =
  ed_ordinal :: i32
  ed_identity :: DeviceIdentity
  ed_present :: bool

definition EnumeratedDevice_default :: EnumeratedDevice where
  "EnumeratedDevice_default = \<lparr>ed_ordinal = - 1, ed_identity = DeviceIdentity_default, ed_present = False\<rparr>"

definition DeviceProbe_default :: DeviceProbe where
  "DeviceProbe_default =
     \<lparr>p_identity = DeviceIdentity_default, p_enumerated = False, p_present = False,
      p_driver_runtime_ok = False, p_cuda_init_ok = False, p_total_memory = 0, p_used_memory = 0,
      p_free_memory = 0, p_temperature_c = None, p_power_w = None, p_memory_alloc_ok = False,
      p_h2d_ok = False, p_kernel_exec_ok = False, p_sync_ok = False, p_d2h_ok = False,
      p_verify_ok = False, p_core_validation_ok = False, p_validation_detail = '''', p_capabilities = []\<rparr>"

text \<open>The virtual functions, with what they return when the agent calls them.\<close>

record DeviceBackend =
  be_name :: string
  be_available :: bool
  be_enumerate :: "EnumeratedDevice list Result"
  be_probe :: "EnumeratedDevice \<Rightarrow> DeviceProbe Result"

subsection \<open>The synthetic backend\<close>

record SyntheticDeviceBackend =
  sb_count :: nat
  sb_memory_bytes :: u64

definition SyntheticDeviceBackend_new :: "nat \<Rightarrow> u64 \<Rightarrow> SyntheticDeviceBackend" where
  "SyntheticDeviceBackend_new count memory_bytes =
     \<lparr>sb_count = (if count = 0 then 1 else count), sb_memory_bytes = memory_bytes\<rparr>"

definition SyntheticDeviceBackend_default :: SyntheticDeviceBackend where
  "SyntheticDeviceBackend_default = SyntheticDeviceBackend_new 1 (24 * 1024 * 1024 * 1024)"

definition identity_for :: "nat \<Rightarrow> u64 \<Rightarrow> string" where
  "identity_for idx mem = ''synthetic:'' @ dec_string idx @ '':'' @ dec_string (unat mem)"

definition synthetic_device :: "u64 \<Rightarrow> nat \<Rightarrow> EnumeratedDevice" where
  "synthetic_device mem i =
     EnumeratedDevice_default
       \<lparr>ed_ordinal := word_of_nat i, ed_present := True,
        ed_identity := DeviceIdentity_default
          \<lparr>di_vendor := Nvidia, di_vendor_name := ''synthetic'', di_uuid := identity_for i mem,
           di_architecture := ''synthetic'', di_compute_capability := \<lparr>cc_major = 12, cc_minor = 0\<rparr>,
           di_total_physical_memory := mem, di_driver_version := ''synthetic''\<rparr>\<rparr>"

definition synthetic_enumerate :: "SyntheticDeviceBackend \<Rightarrow> EnumeratedDevice list Result" where
  "synthetic_enumerate sb = Inr (map (synthetic_device (sb_memory_bytes sb)) [0..<sb_count sb])"

definition synthetic_probe :: "SyntheticDeviceBackend \<Rightarrow> EnumeratedDevice \<Rightarrow> DeviceProbe Result" where
  "synthetic_probe sb device =
     Inr (DeviceProbe_default
       \<lparr>p_enumerated := True, p_present := True, p_driver_runtime_ok := True, p_cuda_init_ok := True,
        p_identity := ed_identity device, p_total_memory := sb_memory_bytes sb, p_used_memory := 0,
        p_free_memory := sb_memory_bytes sb, p_memory_alloc_ok := True, p_h2d_ok := True,
        p_kernel_exec_ok := True, p_sync_ok := True, p_d2h_ok := True, p_verify_ok := True,
        p_core_validation_ok := True,
        p_validation_detail := ''synthetic validation OK (no physical accelerator involved)'',
        p_capabilities :=
          [\<lparr>cap_id = StrongId 1, cap_name = ''vendor'', cap_kind = CapabilityKind.INFERRED, cap_value = ''synthetic'',
            cap_description = ''synthetic vendor (not physical hardware)''\<rparr>,
           \<lparr>cap_id = StrongId 2, cap_name = ''kernel_execution'', cap_kind = CapabilityKind.VALIDATED, cap_value = ''true'',
            cap_description = ''synthetic kernel execution (no physical accelerator involved)''\<rparr>]\<rparr>)"

definition synthetic_backend :: "SyntheticDeviceBackend \<Rightarrow> DeviceBackend" where
  "synthetic_backend sb =
     \<lparr>be_name = ''synthetic'', be_available = True, be_enumerate = synthetic_enumerate sb, be_probe = synthetic_probe sb\<rparr>"

lemma synthetic_backend_sel [simp]:
  "be_enumerate (synthetic_backend sb) = synthetic_enumerate sb" "be_probe (synthetic_backend sb) = synthetic_probe sb"
  by (simp_all add: synthetic_backend_def)

subsection \<open>The interface\<close>

text \<open>The probes of one round that succeed, in the order of the enumeration.\<close>

definition probed :: "DeviceBackend \<Rightarrow> (EnumeratedDevice \<times> DeviceProbe) list" where
  "probed be =
     (case be_enumerate be of
        Inl _ \<Rightarrow> []
      | Inr eds \<Rightarrow> List.map_filter (\<lambda>d. case be_probe be d of Inl _ \<Rightarrow> None | Inr p \<Rightarrow> Some (d, p)) eds)"

definition enumerated_keys :: "DeviceBackend \<Rightarrow> string list" where
  "enumerated_keys be =
     (case be_enumerate be of
        Inl _ \<Rightarrow> [] | Inr eds \<Rightarrow> map (\<lambda>d. canonical_device_identity (ed_identity d)) eds)"

locale device_backend =
  fixes be :: DeviceBackend
  assumes probe_identity: "be_enumerate be = Inr eds \<Longrightarrow> d \<in> set eds \<Longrightarrow> be_probe be d = Inr p \<Longrightarrow> p_identity p = ed_identity d"
begin

lemma probed_identity: "(d, p) \<in> set (probed be) \<Longrightarrow> p_identity p = ed_identity d"
  by (auto simp: probed_def map_filter_def split: sum.splits intro: probe_identity [OF sym])

text \<open>What the agent publishes is under keys that it registered.\<close>

lemma probed_keys_enumerated:
  "(d, p) \<in> set (probed be) \<Longrightarrow> canonical_device_identity (p_identity p) \<in> set (enumerated_keys be)"
proof -
  assume dp: "(d, p) \<in> set (probed be)"
  then obtain eds where "be_enumerate be = Inr eds" "d \<in> set eds"
    by (cases "be_enumerate be") (auto simp: probed_def map_filter_def split: sum.splits)
  with probed_identity [OF dp] show ?thesis by (simp add: enumerated_keys_def)
qed

text \<open>Distinct devices are published under distinct keys.\<close>

lemma probed_keys_distinct:
  assumes "distinct (enumerated_keys be)"
  shows "distinct (map (\<lambda>(d, p). canonical_device_identity (p_identity p)) (probed be))"
proof (cases "be_enumerate be")
  case (Inr eds)
  have "distinct (map (\<lambda>d. canonical_device_identity (ed_identity d)) ds) \<Longrightarrow> set ds \<subseteq> set eds \<Longrightarrow>
      distinct (map (\<lambda>(d, p). canonical_device_identity (p_identity p))
        (List.map_filter (\<lambda>d. case be_probe be d of Inl _ \<Rightarrow> None | Inr p \<Rightarrow> Some (d, p)) ds)) \<and>
      set (map (\<lambda>(d, p). canonical_device_identity (p_identity p))
        (List.map_filter (\<lambda>d. case be_probe be d of Inl _ \<Rightarrow> None | Inr p \<Rightarrow> Some (d, p)) ds))
      \<subseteq> (\<lambda>d. canonical_device_identity (ed_identity d)) ` set ds" for ds
  proof (induction ds)
    case (Cons d ds)
    show ?case
    proof (cases "be_probe be d")
      case Inr': (Inr p)
      with probe_identity [OF Inr, of d p] Cons show ?thesis by (auto simp: map_filter_simps)
    qed (use Cons in \<open>auto simp: map_filter_simps\<close>)
  qed (simp add: map_filter_simps)
  from this [of eds] Inr assms show ?thesis by (simp add: probed_def enumerated_keys_def)
qed (simp add: probed_def)

end

interpretation synthetic: device_backend "synthetic_backend sb" for sb
  by unfold_locales (auto simp: synthetic_backend_def synthetic_probe_def)

lemma synthetic_identity_inj:
  assumes "canonical_device_identity (ed_identity (synthetic_device m i)) = canonical_device_identity (ed_identity (synthetic_device m j))"
  shows "i = j"
proof -
  have bar: "CHR ''|'' \<notin> set (identity_for k m)" for k
    using dec_string_chars by (fastforce simp: identity_for_def)
  have "identity_for i m = identity_for j m"
    using canonical_fields [OF _ _ assms] bar by (simp add: bar_free_def synthetic_device_def)
  then have "dec_string i @ CHR '':'' # dec_string (unat m) = dec_string j @ CHR '':'' # dec_string (unat m)"
    by (simp add: identity_for_def)
  moreover have "CHR '':'' \<notin> set (dec_string k)" for k by (auto dest: dec_string_chars)
  ultimately have "dec_string i = dec_string j" using sep_append_inj by blast
  then show ?thesis by (rule dec_string_inj)
qed

lemma synthetic_keys_distinct: "distinct (enumerated_keys (synthetic_backend sb))"
proof -
  have "inj_on (\<lambda>i. canonical_device_identity (ed_identity (synthetic_device m i))) A" for m A
    by (auto intro: inj_onI dest: synthetic_identity_inj)
  then show ?thesis by (simp add: enumerated_keys_def synthetic_backend_def synthetic_enumerate_def distinct_map comp_def)
qed

end
