(* ===== verification/Agent.thy ===== *)
theory Agent
  imports Coordinator Device_Backend
begin

text \<open>
  \<^verbatim>\<open>agent/agent.cpp\<close>: the worker agent. Its state is the record of its members; the socket is
  the stream of \<open>Transport\<close>, and the backend and the clock are arguments of every operation that
  reads them.
\<close>

record AgentOptions =
  opt_coordinator_host :: string
  opt_coordinator_port :: u16
  opt_node :: NodeId
  opt_worker :: WorkerId
  opt_boot :: WorkerBootId
  opt_os_platform :: string
  opt_heartbeat_interval_ms :: DurationMs
  opt_reconnect_backoff_ms :: DurationMs
  opt_backend :: string

definition AgentOptions_default :: AgentOptions where
  "AgentOptions_default =
     \<lparr>opt_coordinator_host = ''127.0.0.1'', opt_coordinator_port = 0, opt_node = StrongId 1, opt_worker = StrongId 1,
      opt_boot = StrongId 0, opt_os_platform = ''unknown'', opt_heartbeat_interval_ms = 250,
      opt_reconnect_backoff_ms = 100, opt_backend = ''synthetic''\<rparr>"

record WorkerAgent =
  wa_opts :: AgentOptions
  wa_last_known_epoch :: CoordinatorEpoch
  wa_reg_gen :: RegistrationGeneration
  wa_obs_gen :: ObservationGeneration
  wa_health_gen :: HealthGeneration
  wa_device_gen :: DeviceGeneration

definition make_fresh_boot_id :: "Timestamp \<Rightarrow> u64 \<Rightarrow> u64 \<Rightarrow> u64" where
  "make_fresh_boot_id t pid counter = (push_bit 16 t XOR push_bit 8 pid) XOR (counter AND 0xFF)"

definition WorkerAgent_new :: "AgentOptions \<Rightarrow> Timestamp \<Rightarrow> u64 \<Rightarrow> u64 \<Rightarrow> WorkerAgent" where
  "WorkerAgent_new opts t pid counter =
     \<lparr>wa_opts = (if id_is_zero (opt_boot opts) then opts\<lparr>opt_boot := StrongId (make_fresh_boot_id t pid counter)\<rparr> else opts),
      wa_last_known_epoch = Generation 0, wa_reg_gen = Generation 1, wa_obs_gen = Generation 1,
      wa_health_gen = Generation 1, wa_device_gen = Generation 1\<rparr>"

text \<open>The constructor's choice of the backend; \<^verbatim>\<open>make_cuda_backend\<close> may find no device.\<close>

definition select_backend :: "AgentOptions \<Rightarrow> DeviceBackend option \<Rightarrow> DeviceBackend" where
  "select_backend opts cuda =
     (if opt_backend opts = ''cuda''
      then (case cuda of None \<Rightarrow> synthetic_backend SyntheticDeviceBackend_default | Some be \<Rightarrow> be)
      else synthetic_backend SyntheticDeviceBackend_default)"

subsection \<open>Reading one message\<close>

text \<open>The first frame whose payload decodes.\<close>

fun first_message :: "Frame list \<Rightarrow> Message option" where
  "first_message [] = None"
| "first_message (f # fs) =
     (case decode_message (frame_payload f) of Inr msg \<Rightarrow> Some msg | Inl _ \<Rightarrow> first_message fs)"

text \<open>The loop of at most \<open>n\<close> receives; \<open>msg\<close> is the output parameter, assigned only on success.\<close>

fun read_loop :: "nat \<Rightarrow> bytes \<Rightarrow> Message \<Rightarrow> tcp_stream \<Rightarrow> (Message \<times> tcp_stream) \<times> ResultVoid" where
  "read_loop 0 buf msg st = ((msg, st), void_of_error (error_result Io ''timeout waiting for message''))"
| "read_loop (Suc n) buf msg st =
     (case recv_some_opt st of
        (RecvError _, st1) \<Rightarrow> ((msg, st1), void_of_error (error_result Io ''recv error waiting for message''))
      | (NoData, st1) \<Rightarrow> read_loop n buf msg st1
      | (Received data, st1) \<Rightarrow>
          if data = [] then ((msg, st1), void_of_error (error_result Io ''connection closed waiting for message''))
          else (case drain_frames (buf @ data) of
                  (fs, rest, res) \<Rightarrow>
                    (case first_message fs of
                       Some m \<Rightarrow> ((m, st1), void_ok_result)
                     | None \<Rightarrow>
                         (case res of
                            FrameError _ \<Rightarrow>
                              ((msg, st1), void_of_error (error_result Io ''frame error waiting for message''))
                          | _ \<Rightarrow> read_loop n rest msg st1))))"

definition read_one_message :: "Message \<Rightarrow> tcp_stream \<Rightarrow> (Message \<times> tcp_stream) \<times> ResultVoid" where
  "read_one_message msg st = read_loop 64 [] msg st"

subsection \<open>Registering\<close>

definition hello_message :: "WorkerAgent \<Rightarrow> Message" where
  "hello_message a = Message_default\<lparr>m_type := HELLO, m_worker := opt_worker (wa_opts a), m_worker_boot := opt_boot (wa_opts a)\<rparr>"

definition agent_registration :: "DeviceBackend \<Rightarrow> WorkerAgent \<Rightarrow> Registration" where
  "agent_registration be a =
     \<lparr>reg_node = opt_node (wa_opts a), reg_worker = opt_worker (wa_opts a), reg_worker_boot = opt_boot (wa_opts a),
      reg_agent_version = \<lparr>sv_major = 1, sv_minor = 0, sv_patch = 0\<rparr>, reg_protocol_version = protocol_version,
      reg_os_platform = opt_os_platform (wa_opts a), reg_driver_version = '''',
      reg_runtime_version = \<lparr>rv_major = 0, rv_minor = 0\<rparr>,
      reg_enumerated_devices =
        (case be_enumerate be of Inl _ \<Rightarrow> [] | Inr eds \<Rightarrow> map (\<lambda>d. canonical_device_identity (ed_identity d)) eds),
      reg_supported_capabilities = [''cuda'', ''synthetic''],
      reg_registration_generation = wa_reg_gen a, reg_epoch = wa_last_known_epoch a\<rparr>"

definition register_message :: "DeviceBackend \<Rightarrow> WorkerAgent \<Rightarrow> Message" where
  "register_message be a =
     Message_default\<lparr>m_type := REGISTER, m_worker := opt_worker (wa_opts a), m_worker_boot := opt_boot (wa_opts a),
       m_epoch := wa_last_known_epoch a, m_payload := encode_registration (agent_registration be a)\<rparr>"

definition connect_and_register :: "DeviceBackend \<Rightarrow> WorkerAgent \<Rightarrow> tcp_stream \<Rightarrow> (WorkerAgent \<times> tcp_stream) \<times> ResultVoid" where
  "connect_and_register be a st =
     (let (st1, s) = send_all (encode_frame HELLO (encode_message (hello_message a))) st
      in if \<not> void_ok s then ((a, st1), void_of_error (error_result Io ''hello send failed''))
         else
           let ((ack, st2), r) = read_one_message Message_default st1
           in if \<not> void_ok r then ((a, st2), void_of_error (error_result Io ''no hello ack''))
              else
                let a1 = a\<lparr>wa_last_known_epoch := m_epoch ack\<rparr>;
                    (st3, s2) = send_all (encode_frame REGISTER (encode_message (register_message be a1))) st2
                in if \<not> void_ok s2 then ((a1, st3), void_of_error (error_result Io ''register send failed''))
                   else
                     let ((ack2, st4), r2) = read_one_message Message_default st3
                     in if \<not> void_ok r2 then ((a1, st4), void_of_error (error_result Io ''no register ack''))
                        else if \<not> m_ok ack2
                        then ((a1, st4), void_of_error (error_result Rejected (''registration rejected: '' @ m_reason ack2)))
                        else ((a1\<lparr>wa_reg_gen := gen_next (wa_reg_gen a1)\<rparr>, st4), void_ok_result))"

subsection \<open>Publishing, heartbeats, admin messages\<close>

text \<open>\<open>clock i\<close> is the time read while the \<open>i\<close>-th enumerated device is observed.\<close>

definition observe_device :: "WorkerAgent \<Rightarrow> Timestamp \<Rightarrow> EnumeratedDevice \<Rightarrow> DeviceProbe \<Rightarrow> DeviceObservation" where
  "observe_device a now d p =
     (normalize_observation p
        \<lparr>om_device_id = StrongId (scast (ed_ordinal d + 1)), om_observation_generation = wa_obs_gen a,
         om_health_generation = wa_health_gen a, om_observed_at = now,
         om_source_worker_boot = opt_boot (wa_opts a), om_source_worker = opt_worker (wa_opts a),
         om_source_node = opt_node (wa_opts a), om_epoch = wa_last_known_epoch a,
         om_device_generation = wa_device_gen a\<rparr>)
       \<lparr>o_epoch := wa_last_known_epoch a\<rparr>"

definition to_observation :: "EnumeratedDevice \<Rightarrow> DeviceProbe \<Rightarrow> ObservationMetadata \<Rightarrow> DeviceObservation" where
  "to_observation dev probe meta = normalize_observation probe meta"

fun snapshot_batch ::
  "WorkerAgent \<Rightarrow> (EnumeratedDevice \<Rightarrow> DeviceProbe Result) \<Rightarrow> (nat \<Rightarrow> Timestamp) \<Rightarrow> nat \<Rightarrow> EnumeratedDevice list
     \<Rightarrow> DeviceObservation list" where
  "snapshot_batch a probe clock i [] = []"
| "snapshot_batch a probe clock i (d # ds) =
     (case probe d of
        Inl _ \<Rightarrow> snapshot_batch a probe clock (i + 1) ds
      | Inr p \<Rightarrow> observe_device a (clock i) d p # snapshot_batch a probe clock (i + 1) ds)"

definition snapshot_message :: "WorkerAgent \<Rightarrow> DeviceObservation list \<Rightarrow> Message" where
  "snapshot_message a batch =
     Message_default\<lparr>m_type := DEVICE_SNAPSHOT, m_worker := opt_worker (wa_opts a), m_worker_boot := opt_boot (wa_opts a),
       m_epoch := wa_last_known_epoch a, m_payload := encode_observation_batch batch\<rparr>"

definition publish_snapshot :: "DeviceBackend \<Rightarrow> (nat \<Rightarrow> Timestamp) \<Rightarrow> WorkerAgent \<Rightarrow> tcp_stream \<Rightarrow> (WorkerAgent \<times> tcp_stream) \<times> ResultVoid" where
  "publish_snapshot be clock a st =
     (case be_enumerate be of
        Inl _ \<Rightarrow> ((a, st), void_ok_result)
      | Inr eds \<Rightarrow>
          (let batch = snapshot_batch a (be_probe be) clock 0 eds
           in if batch = [] then ((a, st), void_ok_result)
              else ((a\<lparr>wa_obs_gen := gen_next (wa_obs_gen a), wa_device_gen := gen_next (wa_device_gen a)\<rparr>,
                     fst (send_all (encode_frame DEVICE_SNAPSHOT (encode_message (snapshot_message a batch))) st)),
                    void_ok_result)))"

definition heartbeat_message :: "WorkerAgent \<Rightarrow> Message" where
  "heartbeat_message a =
     Message_default\<lparr>m_type := HEARTBEAT, m_worker := opt_worker (wa_opts a), m_worker_boot := opt_boot (wa_opts a),
       m_epoch := wa_last_known_epoch a, m_health_gen := wa_health_gen a\<rparr>"

definition send_heartbeat :: "WorkerAgent \<Rightarrow> tcp_stream \<Rightarrow> tcp_stream \<times> ResultVoid" where
  "send_heartbeat a st = send_all (encode_frame HEARTBEAT (encode_message (heartbeat_message a))) st"

definition handle_admin :: "WorkerAgent \<Rightarrow> Message \<Rightarrow> tcp_stream \<Rightarrow> tcp_stream" where
  "handle_admin a msg st =
     (if m_type msg = ACK \<or> m_type msg = ERROR \<or> m_type msg = REGISTER_ACK \<or> m_type msg = SNAPSHOT_RESPONSE then st
      else fst (send_all (encode_frame ACK (encode_message
             (Message_default\<lparr>m_type := ACK, m_ok := True, m_request_id := m_request_id msg,
                m_worker_boot := opt_boot (wa_opts a), m_worker := opt_worker (wa_opts a)\<rparr>))) st))"

subsection \<open>The session and the reconnect loop\<close>

definition handle_inbound :: "WorkerAgent \<Rightarrow> Frame \<Rightarrow> tcp_stream \<Rightarrow> tcp_stream" where
  "handle_inbound a f st =
     (case decode_message (frame_payload f) of Inl _ \<Rightarrow> st | Inr msg \<Rightarrow> handle_admin a msg st)"

text \<open>The loop of at most \<open>n\<close> receives that drains inbound frames; the decoder's buffer is kept.\<close>

fun drain_inbound :: "nat \<Rightarrow> WorkerAgent \<Rightarrow> bytes \<Rightarrow> tcp_stream \<Rightarrow> bool \<times> bytes \<times> tcp_stream" where
  "drain_inbound 0 a buf st = (True, buf, st)"
| "drain_inbound (Suc n) a buf st =
     (case recv_some_opt st of
        (RecvError _, st1) \<Rightarrow> (False, buf, st1)
      | (NoData, st1) \<Rightarrow> (True, buf, st1)
      | (Received data, st1) \<Rightarrow>
          if data = [] then (False, buf, st1)
          else (case drain_frames (buf @ data) of
                  (fs, rest, res) \<Rightarrow>
                    (let st2 = fold (handle_inbound a) fs st1
                     in case res of FrameError _ \<Rightarrow> (False, rest, st2) | _ \<Rightarrow> drain_inbound n a rest st2)))"

text \<open>
  The inner loop, one round per element of the list; when the list ends, \<^verbatim>\<open>stop\<close> was called. The
  flag says whether it was left because the connection died.
\<close>

fun session :: "(DeviceBackend \<times> (nat \<Rightarrow> Timestamp)) list \<Rightarrow> WorkerAgent \<Rightarrow> bytes \<Rightarrow> tcp_stream \<Rightarrow> bool \<times> WorkerAgent \<times> tcp_stream" where
  "session [] a buf st = (False, a, st)"
| "session ((be, clock) # rounds) a buf st =
     (case publish_snapshot be clock a st of
        ((a1, st1), _) \<Rightarrow>
          (case drain_inbound 16 a1 buf st1 of
             (alive, buf1, st2) \<Rightarrow>
               if \<not> alive then (True, a1, st2)
               else session rounds a1 buf1 (fst (send_heartbeat a1 st2))))"

text \<open>One iteration of the outer loop: the attempt to connect fails, or yields a socket.\<close>

datatype attempt =
  ConnectFailed
| Connected DeviceBackend tcp_stream "(DeviceBackend \<times> (nat \<Rightarrow> Timestamp)) list"

text \<open>The reconnect loop returns the agent and what was sent on each connection.\<close>

fun reconnect_loop :: "attempt list \<Rightarrow> WorkerAgent \<Rightarrow> WorkerAgent \<times> bytes list" where
  "reconnect_loop [] a = (a, [])"
| "reconnect_loop (ConnectFailed # atts) a = reconnect_loop atts a"
| "reconnect_loop (Connected be st rounds # atts) a =
     (case connect_and_register be a st of
        ((a1, st1), r) \<Rightarrow>
          if \<not> void_ok r then apsnd (Cons (ts_out st1)) (reconnect_loop atts a1)
          else case session rounds a1 [] st1 of
                 (died, a2, st2) \<Rightarrow>
                   if \<not> died then (a2, [ts_out st2]) else apsnd (Cons (ts_out st2)) (reconnect_loop atts a2))"

definition run_agent :: "attempt list \<Rightarrow> WorkerAgent \<Rightarrow> (WorkerAgent \<times> bytes list) \<times> ResultVoid" where
  "run_agent atts a = (reconnect_loop atts a, void_ok_result)"

end
