(* ===== verification/Ingest.thy ===== *)
theory Ingest
  imports Fleet_Safety
begin

text \<open>
  What a snapshot of a worker does when nothing in it is refused: every observed device takes the
  state its observation gives it, every other device the worker owns is marked as disappeared, and
  every device of another worker is as before.
\<close>

definition obs_key :: "DeviceObservation \<Rightarrow> string" where
  "obs_key ob = canonical_device_identity (o_identity ob)"

lemma prior_state_other: "obs_key ob' \<noteq> obs_key ob \<Longrightarrow> prior_state (commit_observation w pol now ob s) ob' = prior_state s ob'"
  by (simp add: prior_state_def obs_key_def)

lemma judge_other:
  "obs_key ob' \<noteq> obs_key ob \<Longrightarrow>
   judge_observation w boot ob' (commit_observation w pol now ob s) = judge_observation w boot ob' s"
  using prior_state_other [of ob' ob w pol now s] by (simp add: judge_observation_def obs_key_def)

text \<open>An observation that carries the authority of its worker and is newer than the state its boot left.\<close>

lemma judge_newer:
  assumes "o_epoch ob = fs_epoch s" "o_source_worker_boot ob = boot" "o_source_worker ob = w"
    and "\<And>d. om_find (fs_devices s) (obs_key ob) = Some d \<Longrightarrow> ds_source_worker_boot d = boot \<Longrightarrow>
           ds_observation_generation d < o_observation_generation ob \<and> ds_generation d \<le> o_device_generation ob \<and>
           ds_health_generation d \<le> o_health_generation ob"
  shows "judge_observation w boot ob s = Accept"
  using assms by (auto simp: judge_observation_def prior_state_def Let_def obs_key_def not_le not_less split: option.split)

lemma ingest_loop_all_accepted:
  assumes "distinct (map obs_key obs)" "\<And>ob. ob \<in> set obs \<Longrightarrow> judge_observation w boot ob s = Accept"
  shows "\<exists>ao'. ingest_loop w boot pol now obs seen ao s
                 = (fold (commit_observation w pol now) obs s, Inr (seen \<union> obs_key ` set obs, ao'))"
  using assms
proof (induction obs arbitrary: seen ao s)
  case (Cons ob obs)
  have "\<exists>ao'. ingest_loop w boot pol now obs (insert (obs_key ob) seen) (applied_for pol now s ob) (commit_observation w pol now ob s)
      = (fold (commit_observation w pol now) obs (commit_observation w pol now ob s),
         Inr (insert (obs_key ob) seen \<union> obs_key ` set obs, ao'))"
  proof (rule Cons.IH)
    show "distinct (map obs_key obs)" using Cons.prems(1) by simp
    fix x assume "x \<in> set obs"
    then have "obs_key x \<noteq> obs_key ob" using Cons.prems(1) by (metis distinct.simps(2) image_eqI list.map(2) list.set_map)
    with \<open>x \<in> set obs\<close> show "judge_observation w boot x (commit_observation w pol now ob s) = Accept"
      using Cons.prems(2) [of x] by (simp add: judge_other)
  qed
  with Cons.prems(2) [of ob] show ?case by (simp add: obs_key_def)
qed simp

lemma fold_commit_other:
  "k \<notin> obs_key ` set obs \<Longrightarrow> om_find (fs_devices (fold (commit_observation w pol now) obs s)) k = om_find (fs_devices s) k"
  by (induction obs arbitrary: s) (auto simp: obs_key_def)

lemma fold_commit_epoch [simp]: "fs_epoch (fold (commit_observation w pol now) obs s) = fs_epoch s"
  by (induction obs arbitrary: s) simp_all

lemma fold_commit_observed:
  assumes "distinct (map obs_key obs)" "ob \<in> set obs"
  shows "om_find (fs_devices (fold (commit_observation w pol now) obs s)) (obs_key ob)
           = Some (observed (om_find (fs_devices s) (obs_key ob)) ob pol now (fs_epoch s))"
  using assms
proof (induction obs arbitrary: s)
  case (Cons x obs)
  show ?case
  proof (cases "ob = x")
    case True
    with Cons.prems have "obs_key ob \<notin> obs_key ` set obs" by auto
    with True show ?thesis by (simp add: fold_commit_other) (simp add: obs_key_def)
  next
    case False
    with Cons.prems have "ob \<in> set obs" "obs_key ob \<noteq> obs_key x" by (auto, metis imageI)
    with Cons show ?thesis by (simp add: obs_key_def)
  qed
qed simp

lemma fold_commit_owned:
  assumes "om_find (fs_workers s) w \<noteq> None"
  shows "set (owned_keys w s) \<subseteq> set (owned_keys w (fold (commit_observation w pol now) obs s)) \<and>
         set (owned_keys w (fold (commit_observation w pol now) obs s)) \<subseteq> set (owned_keys w s) \<union> obs_key ` set obs"
  using assms
proof (induction obs arbitrary: s)
  case (Cons ob obs)
  have "om_find (fs_workers (commit_observation w pol now ob s)) w \<noteq> None"
    using Cons.prems by (simp add: commit_workers om_find_modify)
  note IH = Cons.IH [OF this]
  have "set (owned_keys w s) \<subseteq> set (owned_keys w (commit_observation w pol now ob s))"
    by (cases "om_find (fs_workers s) w") (auto simp: owned_keys_def commit_workers om_find_modify)
  with IH owned_commit [of w pol now ob s] show ?case by (auto simp: obs_key_def)
qed simp

lemma observed_present: "ds_present (observed p ob pol now ep) = o_present ob"
  by (simp add: observed_def)

lemma find_distinct_key:
  "distinct (map f xs) \<Longrightarrow> x \<in> set xs \<Longrightarrow> f x = k \<Longrightarrow> find (\<lambda>y. f y = k) xs = Some x"
  by (induction xs) (auto dest: imageI)

text \<open>The effect on every device.\<close>

definition ingested :: "WorkerId \<Rightarrow> DeviceObservation list \<Rightarrow> ObservationPolicy \<Rightarrow> Timestamp \<Rightarrow> FleetStateStore \<Rightarrow> string \<Rightarrow> DeviceState option" where
  "ingested w obs pol now s k =
     (case find (\<lambda>ob. obs_key ob = k) obs of
        Some ob \<Rightarrow> Some (observed (om_find (fs_devices s) k) ob pol now (fs_epoch s))
      | None \<Rightarrow> if k \<in> set (owned_keys w s) then map_option vanish_device (om_find (fs_devices s) k)
                else om_find (fs_devices s) k)"

lemma fold_disappear_workers [simp]: "fs_workers (fold (disappear seen now) ks s) = fs_workers s"
  by (induction ks arbitrary: s) simp_all

lemma ingest_all_accepted:
  assumes "om_find (fs_workers s) w = Some wr" "\<not> wr_lost wr" "\<not> wr_fenced wr"
    and "distinct (map obs_key obs)" "\<And>ob. ob \<in> set obs \<Longrightarrow> judge_observation w (wr_boot wr) ob s = Accept"
  shows "\<exists>s' ao. ingest_snapshot w obs pol now s = (s', Inr ao) \<and>
           (\<forall>k. om_find (fs_devices s') k = ingested w obs pol now s k)"
proof -
  let ?s1 = "fold (commit_observation w pol now) obs s"
  obtain ao where loop: "ingest_loop w (wr_boot wr) pol now obs {} AppliedObservation_default s
      = (?s1, Inr ({} \<union> obs_key ` set obs, ao))"
    using ingest_loop_all_accepted [OF assms(4), of w "wr_boot wr" s] assms(5) by meson
  let ?s2 = "fold (disappear (obs_key ` set obs) now) (owned_keys w ?s1) ?s1"
  have "om_find (fs_devices ?s2) k = ingested w obs pol now s k" for k
  proof (cases "find (\<lambda>ob. obs_key ob = k) obs")
    case None
    then have "k \<notin> obs_key ` set obs" by (auto simp: find_None_iff)
    with None fold_commit_owned [of s w pol now obs] assms(1) show ?thesis
      by (auto simp: ingested_def fold_disappear_devices fold_commit_other)
  next
    case (Some ob)
    then have "ob \<in> set obs" "obs_key ob = k" by (auto simp: find_Some_iff)
    with Some fold_commit_observed [OF assms(4), of ob w pol now s] show ?thesis
      by (auto simp: ingested_def fold_disappear_devices)
  qed
  with loop assms(1-3) show ?thesis by (simp add: ingest_snapshot_def)
qed

end
