(* ===== verification/Fleet_Examples.thy ===== *)
theory Fleet_Examples
  imports Fleet_Safety
begin

text \<open>
  One small fleet, used to instantiate the theorems: a worker registers, reports one healthy
  device, and the store is evaluated by the simplifier.
\<close>

definition ex_registration :: Registration where
  "ex_registration =
     \<lparr>reg_node = StrongId 3, reg_worker = StrongId 5, reg_worker_boot = StrongId 7,
      reg_agent_version = \<lparr>sv_major = 1, sv_minor = 0, sv_patch = 0\<rparr>, reg_protocol_version = 1,
      reg_os_platform = ''linux'', reg_driver_version = ''550'',
      reg_runtime_version = \<lparr>rv_major = 12, rv_minor = 4\<rparr>,
      reg_enumerated_devices = [], reg_supported_capabilities = [],
      reg_registration_generation = Generation 1, reg_epoch = Generation 1\<rparr>"

definition ex_identity :: DeviceIdentity where
  "ex_identity = DeviceIdentity_default\<lparr>di_uuid := ''GPU-0'', di_architecture := ''Ada''\<rparr>"

definition ex_observation :: "u64 \<Rightarrow> Timestamp \<Rightarrow> DeviceObservation" where
  "ex_observation g t =
     \<lparr>o_device_id = StrongId 9, o_observation_generation = Generation g, o_health_generation = Generation g,
      o_observed_at = t, o_source_worker_boot = StrongId 7, o_source_worker = StrongId 5,
      o_source_node = StrongId 3, o_epoch = Generation 1, o_device_generation = Generation 1,
      o_identity = ex_identity, o_health = HealthState.UNKNOWN, o_health_explanation = '''',
      o_total_memory = 100, o_used_memory = 10, o_free_memory = 90, o_temperature_c = None,
      o_power_w = None, o_capabilities = [], o_core_validation_ok = True, o_validation_detail = '''',
      o_enumerated = True, o_present = True, o_driver_runtime_ok = True, o_cuda_init_ok = True,
      o_memory_alloc_ok = True, o_h2d_ok = True, o_kernel_exec_ok = True, o_sync_ok = True,
      o_d2h_ok = True, o_verify_ok = True\<rparr>"

abbreviation ex_key :: string where
  "ex_key \<equiv> canonical_device_identity ex_identity"

definition ex_ops :: "store_op list" where
  "ex_ops = [Register ex_registration 1000,
             Ingest (StrongId 5) [ex_observation 1 1000] ObservationPolicy_default 1000]"

definition ex_store :: FleetStateStore where
  "ex_store = run_ops ex_ops (FleetStateStore_init (StrongId 1) (Generation 1))"

lemma ex_store_device_eligible:
  "map_option ds_eligibility (om_find (fs_devices ex_store) ex_key) = Some EligibilityState.ELIGIBLE"
  by code_simp

lemma ex_store_worker: "map_option worker_live (om_find (fs_workers ex_store) (StrongId 5)) = Some True"
  by code_simp

end
