(* ===== verification/Coordinator_Properties.thy ===== *)
theory Coordinator_Properties
  imports Coordinator Fleet_Examples
begin

text \<open>
  The properties of the coordinator: what arbitrary bytes on a connection can and cannot do, what
  it acknowledges, what it recovers, and whom the liveness pass declares lost.
\<close>

definition ex_options :: CoordinatorOptions where
  "ex_options = \<lparr>co_bind_host = ''127.0.0.1'', co_port = 7400, co_state_file = '''', co_coordinator_id = StrongId 1,
                 co_initial_epoch = Generation 1, co_heartbeat_timeout_ms = 5000\<rparr>"

definition ex_listener :: TcpListener where
  "ex_listener = \<lparr>l_sock = 9, l_port = 7400\<rparr>"

definition ex_io :: save_io where
  "ex_io = \<lparr>sio_fopen = True, sio_fwrite = 2 ^ 31, sio_fflush = True, sio_fclose = True, sio_rename = True,
            sio_remove = True, sio_rename2 = True, sio_remove_tmp = True\<rparr>"

definition ex_coord :: "FleetStateStore \<Rightarrow> Coordinator" where
  "ex_coord s = \<lparr>c_opts = ex_options, c_listener = ex_listener, c_store = s, c_running = True\<rparr>"

lemma ex_reachable: "reachable ex_store"
proof -
  have "reachable s \<Longrightarrow> reachable (run_ops ops s)" for ops s
    by (induction ops arbitrary: s) (auto intro: reachable.step)
  then show ?thesis by (simp add: ex_store_def reachable.start)
qed


definition ex_messages :: "Message list" where
  "ex_messages =
     [Message_default\<lparr>m_type := REGISTER, m_worker := StrongId 5, m_worker_boot := StrongId 7,
        m_payload := encode_registration ex_registration\<rparr>,
      Message_default\<lparr>m_type := DEVICE_SNAPSHOT, m_worker := StrongId 5, m_worker_boot := StrongId 7,
        m_payload := encode_observation_batch [ex_observation 1 1000]\<rparr>]"

lemma sendable_payload:
  assumes "m_reason m = ''''" "length (m_payload m) \<le> 10000"
  shows "sendable m"
  using assms by (simp add: sendable_def encode_message_def put_bytes_def put_string_def kMaxPayloadLength_def Let_def)

lemma ex_wf: "Registration_wf ex_registration" "DeviceObservation_wf (ex_observation 1 1000)"
  by (simp_all add: ex_registration_def Registration_wf_def str_wf_def ex_observation_def DeviceObservation_wf_def
      HealthState_wf_def DeviceIdentity_wf_def ex_identity_def DeviceIdentity_default_def AcceleratorVendor_wf_def
      MigPartition_empty_def)

lemma ex_payloads:
  "length (encode_registration ex_registration) \<le> 10000"
  "length (encode_observation_batch [ex_observation 1 1000]) \<le> 10000"
  by (simp_all add: encode_registration_def ex_registration_def put_strings_def put_string_def
      encode_observation_batch_def encode_device_observation_def ex_observation_def ex_identity_def
      DeviceIdentity_default_def MigPartition_empty_def write_optional_f64_def write_optional_u32_def put_option_def)

lemma ex_sendable: "list_all sendable ex_messages"
  using ex_payloads by (auto simp: ex_messages_def Message_default_def intro!: sendable_payload)

lemma ex_decode:
  "decode_registration (encode_registration ex_registration) = Inr ex_registration"
  "decode_observation_batch (encode_observation_batch [ex_observation 1 1000]) = Inr [ex_observation 1 1000]"
  using ex_wf by (simp_all add: decode_encode_registration decode_encode_observation_batch)

lemma deliver_store:
  "c_store (cn_coord (deliver_one io clock m cn)) =
     run_opt (message_op (clock (cn_readings cn)) m (c_store (cn_coord cn))) (c_store (cn_coord cn))"
  using dispatch_store [of io "clock (cn_readings cn)" m "cn_coord cn" "cn_files cn"]
  by (auto simp: deliver_one_def Let_def split: prod.split)

lemma ex_traffic:
  assumes "c_running c" "c_store c = FleetStateStore_init (StrongId 1) (Generation 1)"
  shows "c_store (cn_coord (handle_connection io (\<lambda>_. 1000) [Received (concat (map send_message ex_messages))]
           (connection_new c fs))) = ex_store"
proof -
  have "concat (map send_message ex_messages) \<noteq> []" by (simp add: ex_messages_def send_message_def encode_frame_def Let_def put_u32_def)
  then have "(handle_connection io (\<lambda>_. 1000) (map Received [concat (map send_message ex_messages)]) (connection_new c fs))
        \<lparr>cn_buf := []\<rparr> = fold (deliver_one io (\<lambda>_. 1000)) ex_messages ((connection_new c fs)\<lparr>cn_buf := []\<rparr>)"
    using assms(1) by (intro handle_messages ex_sendable) (simp_all add: connection_new_def)
  from arg_cong [OF this, of "\<lambda>cn. c_store (cn_coord cn)"] show ?thesis
    by (simp add: ex_messages_def deliver_store message_op_def run_opt_def ex_decode connection_new_def
        assms(2) ex_store_def ex_ops_def)
qed

text \<open>Whatever bytes arrive on a connection of a coordinator that was started on any state file, in
  any chunks and ending in any way, every device it then marks ELIGIBLE has a fresh observation,
  is present, not quarantined, not draining and HEALTHY or DEGRADED.\<close>

theorem arbitrary_traffic_keeps_eligibility_justified:
  assumes "c = fst (start bound lio files (Coordinator_new opts))"
    and "om_find (fs_devices (c_store (cn_coord (handle_connection sio clock events (connection_new c files))))) k = Some d"
    and "ds_eligibility d \<in> {EligibilityState.ELIGIBLE, EligibilityState.DEGRADED_ELIGIBLE}"
  shows "ds_observation_fresh d \<and> ds_present d \<and> \<not> ds_quarantined d \<and> ds_drain d = ACTIVE \<and>
         ds_health d \<in> {HealthState.HEALTHY, HealthState.DEGRADED}"
proof -
  have "reachable (c_store (cn_coord (handle_connection sio clock events (connection_new c files))))"
    by (rule handle_connection_reachable) (simp add: connection_new_def assms(1) start_reachable new_reachable)
  then have "device_justified d"
    using justified.inv_reachable assms(2) by (auto simp: justified.all_devices_def)
  with assms(3) show ?thesis by (auto simp: device_justified_def)
qed

lemma ex_started: "fst (start (Inr ex_listener) lio fs (Coordinator_new ex_options))
    = \<lparr>c_opts = ex_options, c_listener = ex_listener, c_store = FleetStateStore_init (StrongId 1) (Generation 1),
       c_running = True\<rparr>"
  by (simp add: start_def Coordinator_new_def ex_options_def ex_listener_def)

theorem arbitrary_traffic_witness:
  "\<exists>d. om_find (fs_devices (c_store (cn_coord (handle_connection ex_io (\<lambda>_. 1000)
         [Received (concat (map send_message ex_messages))]
         (connection_new (fst (start (Inr ex_listener) \<lparr>lio_ftell = True, lio_fread = 0\<rparr> (\<lambda>_. None) (Coordinator_new ex_options)))
            (\<lambda>_. None)))))) ex_key = Some d \<and> ds_observation_fresh d \<and> ds_drain d = ACTIVE"
proof -
  let ?c = "fst (start (Inr ex_listener) \<lparr>lio_ftell = True, lio_fread = 0\<rparr> (\<lambda>_. None) (Coordinator_new ex_options))"
  have s: "c_store (cn_coord (handle_connection ex_io (\<lambda>_. 1000) [Received (concat (map send_message ex_messages))]
         (connection_new ?c (\<lambda>_. None)))) = ex_store"
    by (rule ex_traffic) (simp_all add: ex_started)
  obtain d where "om_find (fs_devices ex_store) ex_key = Some d" "ds_eligibility d = EligibilityState.ELIGIBLE"
    using ex_store_device_eligible by auto
  with s arbitrary_traffic_keeps_eligibility_justified [OF refl, where k = ex_key and d = d and sio = ex_io
      and clock = "\<lambda>_. 1000" and events = "[Received (concat (map send_message ex_messages))]"
      and files = "\<lambda>_. None" and opts = ex_options and bound = "Inr ex_listener" and lio = "\<lparr>lio_ftell = True, lio_fread = 0\<rparr>"]
  show ?thesis by auto
qed

text \<open>C9: What a connection does (the store, the files, the replies) depends only on the bytes received and
  not on how the socket cuts them into chunks.\<close>

theorem connection_independent_of_chunking:
  assumes "concat cs = concat cs'" "[] \<notin> set cs" "[] \<notin> set cs'" "c_running c"
  shows "cn_coord (handle_connection io clock (map Received cs) (connection_new c fs))
           = cn_coord (handle_connection io clock (map Received cs') (connection_new c fs)) \<and>
         cn_files (handle_connection io clock (map Received cs) (connection_new c fs))
           = cn_files (handle_connection io clock (map Received cs') (connection_new c fs)) \<and>
         cn_sent (handle_connection io clock (map Received cs) (connection_new c fs))
           = cn_sent (handle_connection io clock (map Received cs') (connection_new c fs))"
proof -
  have "(handle_connection io clock (map Received cs) (connection_new c fs))\<lparr>cn_buf := []\<rparr>
      = (handle_connection io clock (map Received cs') (connection_new c fs))\<lparr>cn_buf := []\<rparr>"
    using assms by (intro handle_connection_chunking) (simp_all add: connection_new_def)
  from arg_cong [OF this, of cn_coord] arg_cong [OF this, of cn_files] arg_cong [OF this, of cn_sent]
  show ?thesis by simp
qed

theorem connection_independent_of_chunking_witness:
  "cn_sent (handle_connection ex_io (\<lambda>_. 1000) (map Received [[1, 2], [3]]) (connection_new (ex_coord ex_store) (\<lambda>_. None)))
     = cn_sent (handle_connection ex_io (\<lambda>_. 1000) (map Received [[1], [2, 3]]) (connection_new (ex_coord ex_store) (\<lambda>_. None)))"
  using connection_independent_of_chunking [of "[[1, 2], [3]]" "[[1], [2, 3]]" "ex_coord ex_store" ex_io "\<lambda>_. 1000" "\<lambda>_. None"]
  by (simp add: ex_coord_def)

text \<open>C8: Messages sent with send_message, cut into any chunks, are dispatched one after another in the
  order in which they were sent, each at the clock reading of its turn; every message gets exactly
  one reply, and the connection stays open.\<close>

theorem messages_dispatched_in_order:
  assumes "list_all sendable ms" "concat cs = concat (map send_message ms)" "[] \<notin> set cs" "c_running c"
  shows "(handle_connection io clock (map Received cs) (connection_new c fs))\<lparr>cn_buf := []\<rparr>
           = fold (deliver_one io clock) ms (connection_new c fs) \<and>
         length (cn_sent (handle_connection io clock (map Received cs) (connection_new c fs))) = length ms"
proof -
  have e: "(handle_connection io clock (map Received cs) (connection_new c fs))\<lparr>cn_buf := []\<rparr>
      = fold (deliver_one io clock) ms (connection_new c fs)"
    using handle_messages [OF assms(1-3), of "connection_new c fs" io clock] assms(4)
    by (simp add: connection_new_def)
  have "length (cn_sent (fold (deliver_one io clock) ms cn)) = length (cn_sent cn) + length ms" for cn
    by (induction ms arbitrary: cn) (auto simp: deliver_one_def Let_def split: prod.split)
  with arg_cong [OF e, of "\<lambda>cn. length (cn_sent cn)"] e show ?thesis by (simp add: connection_new_def)
qed

theorem messages_dispatched_in_order_witness:
  "length (cn_sent (handle_connection ex_io (\<lambda>_. 1000) (map Received [concat (map send_message ex_messages)])
     (connection_new (ex_coord ex_store) (\<lambda>_. None)))) = 2"
proof -
  have "[] \<notin> set [concat (map send_message ex_messages)]"
    by (simp add: ex_messages_def send_message_def encode_frame_def Let_def put_u32_def)
  moreover have "c_running (ex_coord ex_store)" by (simp add: ex_coord_def)
  ultimately show ?thesis
    using messages_dispatched_in_order [OF ex_sendable, of "[concat (map send_message ex_messages)]" "ex_coord ex_store"
        ex_io "\<lambda>_. 1000" "\<lambda>_. None"] by (simp add: ex_messages_def)
qed

text \<open>C10: Dispatching a message changes the store by at most one store operation, the one the message
  stands for, and never touches the options or the running flag; the reply carries the request id
  of the message.\<close>

theorem dispatch_refines_store_operations:
  "c_store (fst (fst (dispatch io now msg (c, fs)))) = run_opt (message_op now msg (c_store c)) (c_store c) \<and>
   c_opts (fst (fst (dispatch io now msg (c, fs)))) = c_opts c \<and>
   c_running (fst (fst (dispatch io now msg (c, fs)))) = c_running c \<and>
   m_request_id (snd (dispatch io now msg (c, fs))) = m_request_id msg"
proof -
  have ack: "m_request_id (snd (ack_void msg sr)) = m_request_id msg" for sr
    by (simp add: ack_void_def respond_ack_def split: prod.split)
  have "m_request_id (snd (dispatch io now msg (c, fs))) = m_request_id msg"
    by (cases "m_type msg")
      (simp_all add: dispatch_def dispatch_defs respond_ack_def ack Let_def split: sum.split prod.split)
  then show ?thesis by (simp add: dispatch_store dispatch_coordinator)
qed

text \<open>C38: The administrative commands and heartbeats are acknowledged as successful whatever the store
  answers: a heartbeat of an unknown worker, a drain or a quarantine of an unknown device, the
  clearing of a quarantine and an epoch roll backwards are all answered by ACK with ok set, because
  an error in a Result<void> does not set its error flag.\<close>

theorem refused_commands_are_acknowledged:
  assumes "m_type msg = HEARTBEAT \<or> m_type msg = EPOCH_ROLL \<or> m_type msg = SAVE \<or>
      (m_type msg \<in> {DRAIN, UNDRAIN} \<and> decode_drain_target (m_payload msg) = Inr dt) \<or>
      (m_type msg = MessageType.QUARANTINE \<and> decode_quarantine (m_payload msg) = Inr qt) \<or>
      (m_type msg = CLEAR_QUARANTINE \<and> decode_identity_target (m_payload msg) = Inr ident)"
  shows "m_type (snd (dispatch io now msg (c, fs))) = ACK \<and> m_ok (snd (dispatch io now msg (c, fs)))"
  using assms
  by (auto simp: dispatch_def dispatch_defs Let_def ack_void_ok void_ops_ok save_state_ok respond_ack_def
      split_beta)


theorem refused_commands_are_acknowledged_witness:
  "heartbeat (StrongId 99) (StrongId 7) (Generation 1) 1000 (Generation 0) ex_store
     = (ex_store, void_of_error (error_result NotFound ''unregistered worker'')) \<and>
   m_ok (snd (dispatch ex_io 1000
     (Message_default\<lparr>m_type := HEARTBEAT, m_worker := StrongId 99, m_worker_boot := StrongId 7\<rparr>)
     (ex_coord ex_store, \<lambda>_. None)))"
proof -
  have "om_find (fs_workers ex_store) (StrongId 99) = None" "fs_epoch ex_store = Generation 1" by code_simp+
  then show ?thesis
    using refused_commands_are_acknowledged [of "Message_default\<lparr>m_type := HEARTBEAT, m_worker := StrongId 99,
        m_worker_boot := StrongId 7\<rparr>" undefined undefined undefined ex_io 1000 "ex_coord ex_store" "\<lambda>_. None"]
    by (simp add: heartbeat_def)
qed

text \<open>A state file that cannot be loaded (corrupt, truncated, unreadable) is ignored: the coordinator
  starts and runs on the store it had, and reports success.\<close>

theorem unreadable_state_file_is_ignored:
  assumes "fs (co_state_file (c_opts c)) = Some content"
    and "load_snapshot io (co_state_file (c_opts c)) fs = Inl e"
  shows "fst (start (Inr l) io fs c) =
           c\<lparr>c_listener := l, c_opts := (c_opts c)\<lparr>co_port := l_port l\<rparr>, c_running := True\<rparr> \<and>
         void_ok (snd (start (Inr l) io fs c))"
  using assms by (auto simp: start_def load_state_def Let_def)

theorem unreadable_state_file_is_ignored_witness:
  "c_running (fst (start (Inr ex_listener) \<lparr>lio_ftell = True, lio_fread = 100\<rparr> (\<lambda>_. Some [1, 2, 3])
     (Coordinator_new (ex_options\<lparr>co_state_file := ''state''\<rparr>))))"
  using unreadable_state_file_is_ignored [of "\<lambda>_. Some [1, 2, 3]" "Coordinator_new (ex_options\<lparr>co_state_file := ''state''\<rparr>)"
      "[1, 2, 3]" "\<lparr>lio_ftell = True, lio_fread = 100\<rparr>" _ ex_listener]
  by (simp add: load_snapshot_def parse_store_def)

text \<open>C20: One liveness pass marks lost exactly the workers that are alive, not lost, not fenced, and whose
  last heartbeat is older than the timeout (in signed 64-bit arithmetic); the records of all other
  workers are unchanged.\<close>

theorem liveness_pass_exact:
  assumes "reachable (c_store c)"
  shows "om_find (fs_workers (c_store (liveness_pass now c))) w =
     (case om_find (fs_workers (c_store c)) w of
        None \<Rightarrow> None
      | Some wr \<Rightarrow> Some (if expired now (co_heartbeat_timeout_ms (c_opts c)) wr then lost_record wr else wr))"
proof (rule liveness_pass_workers)
  show "om_ok (fs_workers (c_store c))"
    using maps.inv_reachable [OF assms] by (simp add: store_maps_ok_def)
qed

theorem liveness_pass_exact_witness:
  "map_option wr_lost (om_find (fs_workers (c_store (liveness_pass 9000 (ex_coord ex_store)))) (StrongId 5)) = Some True"
proof -
  have "map_option (\<lambda>wr. expired 9000 5000 wr) (om_find (fs_workers ex_store) (StrongId 5)) = Some True" by code_simp
  then obtain wr where "om_find (fs_workers ex_store) (StrongId 5) = Some wr" "expired 9000 5000 wr" by auto
  with liveness_pass_exact [of "ex_coord ex_store" 9000 "StrongId 5"] ex_reachable
  show ?thesis by (simp add: ex_coord_def ex_options_def lost_record_def)
qed

text \<open>C39: A REGISTER that the store refuses still binds the worker it names to the connection: when that
  connection closes, the worker, which may be live and registered over another connection, is
  marked lost and fenced.\<close>

theorem refused_registration_fences_worker:
  assumes "sendable msg" "m_type msg = REGISTER" "c_running c"
    and "decode_registration (m_payload msg) = Inr reg"
    and "register_worker reg (clock 0) (c_store c) = (c_store c, Inl e)"
    and "om_find (fs_workers (c_store c)) (m_worker msg) = Some wr"
  shows "om_find (fs_workers (c_store (cn_coord
           (handle_connection io clock [Received (send_message msg), Received []] (connection_new c fs))))) (m_worker msg)
           = Some (lost_record wr)"
proof -
  let ?cn = "connection_new c fs"
  have ne: "send_message msg \<noteq> []" by (simp add: send_message_def encode_frame_def Let_def put_u32_def)
  have "drain_frames (cn_buf ?cn @ send_message msg) = ([frame_of msg], [], NeedMore)"
    using drain_encode_frames [of "[frame_of msg]" "[]"] sendable_wf [OF assms(1)] drain_short [of "[]"]
    by (simp add: connection_new_def encode_frames_def frame_of_def send_message_def)
  then have "handle_chunk io clock (send_message msg) ?cn = (True, deliver_one io clock msg ?cn)"
    using handle_frame_message [OF assms(1)] by (simp add: handle_chunk_def connection_new_def)
  moreover have "c_store (cn_coord (deliver_one io clock msg ?cn)) = c_store c"
    using assms by (simp add: deliver_store message_op_def run_opt_def connection_new_def)
  moreover have "c_running (cn_coord (deliver_one io clock msg ?cn))"
    using dispatch_coordinator(2) [of io "clock 0" msg c fs] assms(3)
    by (auto simp: deliver_one_def connection_new_def Let_def split: prod.split)
  moreover have "cn_worker_bound (deliver_one io clock msg ?cn)" "cn_connected_worker (deliver_one io clock msg ?cn) = m_worker msg"
    using assms(2) by (auto simp: deliver_one_def Let_def split: prod.split)
  ultimately show ?thesis
    using assms(3,6) ne by (simp add: connection_new_def close_connection_def mark_lost_workers)
qed


definition ex_rebooted :: Registration where
  "ex_rebooted = ex_registration\<lparr>reg_worker_boot := StrongId 8\<rparr>"

theorem refused_registration_fences_worker_witness:
  "map_option wr_fenced (om_find (fs_workers ex_store) (StrongId 5)) = Some False \<and>
   map_option wr_fenced (om_find (fs_workers (c_store (cn_coord (handle_connection ex_io (\<lambda>_. 1000)
     [Received (send_message (Message_default\<lparr>m_type := REGISTER, m_worker := StrongId 5,
        m_payload := encode_registration ex_rebooted\<rparr>)), Received []]
     (connection_new (ex_coord ex_store) (\<lambda>_. None)))))) (StrongId 5)) = Some True"
proof -
  let ?m = "Message_default\<lparr>m_type := REGISTER, m_worker := StrongId 5, m_payload := encode_registration ex_rebooted\<rparr>"
  have "length (encode_registration ex_rebooted) \<le> 10000"
    by (simp add: encode_registration_def ex_rebooted_def ex_registration_def put_strings_def put_string_def)
  then have s: "sendable ?m" by (intro sendable_payload) (simp_all add: Message_default_def)
  have d: "decode_registration (m_payload ?m) = Inr ex_rebooted"
    using ex_wf(1) by (simp add: decode_encode_registration ex_rebooted_def Registration_wf_def)
  have f: "map_option (\<lambda>wr. (wr_fenced wr, wr_lost wr, wr_alive wr, wr_boot wr)) (om_find (fs_workers ex_store) (StrongId 5))
      = Some (False, False, True, StrongId 7)" "fs_epoch ex_store = Generation 1" by code_simp+
  then obtain wr where wr: "om_find (fs_workers ex_store) (StrongId 5) = Some wr"
    "\<not> wr_fenced wr" "\<not> wr_lost wr" "wr_alive wr" "wr_boot wr = StrongId 7" by auto
  then have "register_worker ex_rebooted 1000 ex_store
      = (ex_store, Inl (error_result Duplicate ''duplicate registration identity already active''))"
    using f(2) by (simp add: register_worker_def ex_rebooted_def ex_registration_def)
  with refused_registration_fences_worker [OF s, of "ex_coord ex_store" ex_rebooted "\<lambda>_. 1000" _ wr ex_io "\<lambda>_. None"] d wr
  show ?thesis by (auto simp: ex_coord_def lost_record_def)
qed


lemma start_recovers:
  assumes "co_state_file opts \<noteq> ''''" "fs (co_state_file opts) = Some (store_bytes (snapshot s))"
    and "StateSnapshot_wf (snapshot s)" "length (encode_snapshot (snapshot s)) \<le> 2 ^ 31"
    and "lio_ftell lio" "length (store_bytes (snapshot s)) \<le> lio_fread lio"
  shows "start (Inr l) lio fs (Coordinator_new opts) =
     (\<lparr>c_opts = opts\<lparr>co_port := l_port l\<rparr>, c_listener = l,
       c_store = s\<lparr>fs_devices := om_map restore_device (fs_devices s), fs_accepted_observations := 0\<rparr>,
       c_running = True\<rparr>, void_ok_result)"
proof -
  have "load_snapshot lio (co_state_file opts) fs = Inr ((snapshot s)\<lparr>sn_accounting := Accounting_zero\<rparr>)"
    using assms by (intro load_store_file) simp_all
  with assms(1,2) show ?thesis
    by (simp add: start_def load_state_def Coordinator_new_def restore_def snapshot_def Let_def)
qed


definition ex_device :: DeviceState where
  "ex_device = DeviceState_default\<lparr>ds_eligibility := EligibilityState.ELIGIBLE, ds_observation_fresh := True,
                                   ds_present := True\<rparr>"

definition ex_saved :: FleetStateStore where
  "ex_saved = (FleetStateStore_init (StrongId 1) (Generation 1))\<lparr>fs_devices := [(''gpu'', ex_device)]\<rparr>"

lemma ex_device_wf: "DeviceState_wf ex_device"
  by (simp add: ex_device_def DeviceState_wf_def DeviceState_default_def str_wf_def DeviceIdentity_wf_def
      DeviceIdentity_default_def HealthState_wf_def EligibilityState_wf_def DrainState_wf_def
      QuarantineRecord_default_def AcceleratorVendor_wf_def)

lemma length_ex_identity: "length (write_identity DeviceIdentity_default) \<le> 1000"
  by (simp add: write_identity_def DeviceIdentity_default_def put_string_def put_option_def)

lemma length_ex_device: "length (write_device_state ex_device) \<le> 2000"
  using length_ex_identity
  by (simp add: write_device_state_def ex_device_def DeviceState_default_def put_string_def
      QuarantineRecord_default_def put_option_def)

lemma length_ex_saved: "length (encode_snapshot (snapshot ex_saved)) \<le> 5000"
  using length_ex_device
  by (simp add: encode_snapshot_def ex_saved_def snapshot_def FleetStateStore_init_def put_device_def put_string_def)

lemma ex_saved_wf: "StateSnapshot_wf (snapshot ex_saved)"
  using ex_device_wf
  by (simp add: StateSnapshot_wf_def ex_saved_def snapshot_def FleetStateStore_init_def om_ok_def device_wf_def str_wf_def)



end
