(* ===== verification/Agent_Properties.thy ===== *)
theory Agent_Properties
  imports Agent Ingest Coordinator_Properties
begin

text \<open>
  The agent and the coordinator together: the registration handshake, the publication of a
  snapshot, and what a dropped connection or a refusal leads to.
\<close>

subsection \<open>Sending and reading\<close>

lemma send_loop_ok: "send_loop evs d = (x, y, r) \<Longrightarrow> void_ok r"
  by (induction evs d arbitrary: x y r rule: send_loop.induct) (auto split: if_splits prod.splits)

lemma send_all_ok [simp]: "void_ok (snd (send_all d st))"
  by (auto simp: send_all_def split: prod.split dest: send_loop_ok)

text \<open>A stream on which nothing was sent yet and whose \<^verbatim>\<open>::send\<close> always takes everything.\<close>

definition ready :: "tcp_stream \<Rightarrow> bool" where
  "ready st \<longleftrightarrow> stream_open (ts_stream st) \<and> ts_sends st = []"

lemma ready_updates [simp]: "ready (st\<lparr>ts_out := x\<rparr>) = ready st" "ready (st\<lparr>ts_recvs := y\<rparr>) = ready st"
  by (simp_all add: ready_def)

lemma send_all_out: "ready st \<Longrightarrow> send_all d st = (st\<lparr>ts_out := ts_out st @ d\<rparr>, void_ok_result)"
  by (simp add: ready_def send_all_whole)

lemma recv_some_opt_bytes:
  "ready st \<Longrightarrow> ts_recvs st = RecvBytes b # rs \<Longrightarrow> recv_some_opt st = (Received b, st\<lparr>ts_recvs := rs\<rparr>)"
  by (simp add: ready_def recv_some_opt_def next_recv_def)

lemma read_loop_ok: "void_ok (snd (read_loop n buf msg st))"
  by (induction n arbitrary: buf st)
    (auto split: prod.split recv_result.split option.split feed_result.split)

lemma drain_message:
  assumes "sendable m"
  shows "drain_frames (send_message m) = ([frame_of m], [], NeedMore)"
  using drain_encode_frames [of "[frame_of m]" "[]"] sendable_wf [OF assms] drain_short [of "[]"]
  by (simp add: encode_frames_def frame_of_def send_message_def)

lemma first_message_of: "sendable m \<Longrightarrow> first_message [frame_of m] = Some m"
  using sendable_wf [of m] by (simp add: frame_of_def decode_encode_message)

lemma read_loop_message:
  assumes "sendable m" "buf @ concat cs = send_message m" "cs \<noteq> []" "[] \<notin> set cs" "length cs \<le> n"
    and "ts_recvs st = map RecvBytes cs @ rs" "ready st"
  shows "read_loop n buf msg st = ((m, st\<lparr>ts_recvs := rs\<rparr>), void_ok_result)"
  using assms(2-)
proof (induction cs arbitrary: n buf st)
  case (Cons c cs)
  then obtain n' where n: "n = Suc n'" by (cases n) auto
  show ?case
  proof (cases "cs = []")
    case True
    with Cons.prems n drain_message [OF assms(1)] first_message_of [OF assms(1)] show ?thesis
      by (auto simp: recv_some_opt_bytes)
  next
    case False
    have more: "drain_frames (buf @ c) = ([], buf @ c, NeedMore)"
    proof (rule frame_prefix_needs_more)
      show "encode_frame (m_type m) (encode_message m) = (buf @ c) @ concat cs"
        using Cons.prems(1) by (simp add: send_message_def)
      show "concat cs \<noteq> []" using False Cons.prems(3) by (cases cs) auto
      show "length (encode_message m) \<le> unat kMaxPayloadLength" using assms(1) by (simp add: sendable_def)
    qed
    have "read_loop n' (buf @ c) msg (st\<lparr>ts_recvs := map RecvBytes cs @ rs\<rparr>) = ((m, st\<lparr>ts_recvs := rs\<rparr>), void_ok_result)"
      using Cons.prems False n Cons.IH [of "buf @ c" n' "st\<lparr>ts_recvs := map RecvBytes cs @ rs\<rparr>"] by simp
    with more Cons.prems n show ?thesis by (auto simp: recv_some_opt_bytes)
  qed
qed simp

text \<open>A reply that arrives in at most 64 pieces is read.\<close>

definition arrives :: "bytes list \<Rightarrow> Message \<Rightarrow> bool" where
  "arrives cs m \<longleftrightarrow> sendable m \<and> concat cs = send_message m \<and> [] \<notin> set cs \<and> length cs \<le> 64"

lemma send_message_nonempty [simp]: "send_message m \<noteq> []" "[] \<noteq> send_message m"
  by (simp_all add: send_message_def encode_frame_def Let_def put_u32_def)

lemma arrives_whole: "sendable m \<Longrightarrow> arrives [send_message m] m"
  by (simp add: arrives_def)

lemma read_one_message_arrives:
  assumes "arrives cs m" "ts_recvs st = map RecvBytes cs @ rs" "ready st"
  shows "read_one_message msg st = ((m, st\<lparr>ts_recvs := rs\<rparr>), void_ok_result)"
proof -
  have "cs \<noteq> []" using assms(1) send_message_nonempty [of m] by (auto simp: arrives_def)
  with read_loop_message [of m "[]" cs 64 st rs msg] assms show ?thesis
    by (simp add: read_one_message_def arrives_def)
qed

subsection \<open>The handshake\<close>

lemma connect_and_register_exchange:
  assumes "ready st" "ts_recvs st = map RecvBytes cs1 @ map RecvBytes cs2 @ rs"
    and "arrives cs1 ack" "arrives cs2 ack2"
  shows "connect_and_register be a st =
     (let a1 = a\<lparr>wa_last_known_epoch := m_epoch ack\<rparr>;
          st' = st\<lparr>ts_recvs := rs, ts_out := ts_out st @ send_message (hello_message a) @ send_message (register_message be a1)\<rparr>
      in if m_ok ack2 then ((a1\<lparr>wa_reg_gen := gen_next (wa_reg_gen a)\<rparr>, st'), void_ok_result)
         else ((a1, st'), void_of_error (error_result Rejected (''registration rejected: '' @ m_reason ack2))))"
proof -
  have t: "m_type (hello_message a) = HELLO" "m_type (register_message be a') = REGISTER" for a'
    by (simp_all add: hello_message_def register_message_def)
  have r1: "read_one_message Message_default (st\<lparr>ts_out := x\<rparr>) = ((ack, st\<lparr>ts_recvs := map RecvBytes cs2 @ rs, ts_out := x\<rparr>), void_ok_result)" for x
    using assms read_one_message_arrives [of cs1 ack "st\<lparr>ts_out := x\<rparr>" "map RecvBytes cs2 @ rs"] by simp
  have r2: "read_one_message Message_default (st\<lparr>ts_recvs := map RecvBytes cs2 @ rs, ts_out := x\<rparr>)
      = ((ack2, st\<lparr>ts_recvs := rs, ts_out := x\<rparr>), void_ok_result)" for x
    using assms read_one_message_arrives [of cs2 ack2 "st\<lparr>ts_recvs := map RecvBytes cs2 @ rs, ts_out := x\<rparr>" rs] by simp
  show ?thesis
    using r1 r2 assms(1)
    by (simp add: connect_and_register_def send_all_out send_message_def t Let_def)
qed

text \<open>The agent takes every connection as registered: connect_and_register reports success whatever the
  coordinator answers, and also when it answers nothing, so the reconnect loop always goes on to
  publish; the branch that backs off after a failed registration is never taken.\<close>

theorem agent_ignores_refused_registration:
  "void_ok (snd (connect_and_register be a st)) \<and>
   reconnect_loop (Connected be st rounds # atts) a =
     (case connect_and_register be a st of
        ((a1, st1), r) \<Rightarrow>
          (case session rounds a1 [] st1 of
             (died, a2, st2) \<Rightarrow>
               if \<not> died then (a2, [ts_out st2]) else apsnd (Cons (ts_out st2)) (reconnect_loop atts a2)))"
proof -
  have "void_ok (snd (connect_and_register be a st))"
    by (auto simp: connect_and_register_def read_one_message_def Let_def split_beta read_loop_ok)
  then show ?thesis by (auto split: prod.split)
qed

lemma hello_sendable: "sendable (hello_message a)"
  by (rule sendable_payload) (simp_all add: hello_message_def Message_default_def)

lemma hello_dispatch:
  "dispatch io now (hello_message a) (c, fs) =
     ((c, fs), Message_default\<lparr>m_type := ACK, m_epoch := fs_epoch (c_store c),
        m_coordinator := co_coordinator_id (c_opts c), m_request_id := 0, m_ok := True\<rparr>)"
  by (simp add: dispatch_def hello_message_def Message_default_def Let_def)

lemma register_dispatch:
  assumes "Registration_wf (agent_registration be a)"
    and "register_worker (agent_registration be a) now (c_store c) = (s', Inr rid)"
  shows "c_store (fst (fst (dispatch io now (register_message be a) (c, fs)))) = s' \<and>
         m_ok (snd (dispatch io now (register_message be a) (c, fs))) \<and>
         m_type (snd (dispatch io now (register_message be a) (c, fs))) = REGISTER_ACK"
  using assms by (simp add: dispatch_def dispatch_register_def register_message_def Let_def decode_encode_registration)

lemma deliver_register:
  assumes "m_type m = REGISTER"
  shows "c_store (cn_coord (deliver_one io clock m cn))
           = c_store (fst (fst (dispatch io (clock (cn_readings cn)) m (cn_coord cn, cn_files cn))))"
    and "cn_worker_bound (deliver_one io clock m cn)" "cn_connected_worker (deliver_one io clock m cn) = m_worker m"
  using assms by (simp_all add: deliver_one_def Let_def split_beta)

lemma registered_worker:
  assumes "register_worker reg now s = (s', Inr rid)"
  shows "\<exists>wr. om_find (fs_workers s') (reg_worker reg) = Some wr \<and> wr_boot wr = reg_worker_boot reg \<and> wr_alive wr \<and>
              \<not> wr_lost wr \<and> wr_device_identities wr = reg_enumerated_devices reg"
  using assms
  by (auto simp: register_worker_def reaffirmed_def new_worker_record_def update_worker_devices_locked_def om_find_emplace
      split: option.splits if_splits)



definition ex_stream :: "recv_event list \<Rightarrow> tcp_stream" where
  "ex_stream evs = \<lparr>ts_stream = \<lparr>sock = 4\<rparr>, ts_sends = [], ts_recvs = evs, ts_out = []\<rparr>"

definition ex_agent :: WorkerAgent where
  "ex_agent = WorkerAgent_new (AgentOptions_default\<lparr>opt_node := StrongId 3, opt_worker := StrongId 5, opt_boot := StrongId 7,
     opt_os_platform := ''linux''\<rparr>) 0 0 0"

definition ex_synthetic :: SyntheticDeviceBackend where
  "ex_synthetic = SyntheticDeviceBackend_new 1 100"

abbreviation ex_backend :: DeviceBackend where
  "ex_backend \<equiv> synthetic_backend ex_synthetic"

abbreviation ex_fresh :: FleetStateStore where
  "ex_fresh \<equiv> FleetStateStore_init (StrongId 1) (Generation 1)"

abbreviation ex_known :: WorkerAgent where
  "ex_known \<equiv> ex_agent\<lparr>wa_last_known_epoch := Generation 1\<rparr>"

lemma ex_keys: "length (enumerated_keys ex_backend) = 1" "\<forall>k\<in>set (enumerated_keys ex_backend). length k \<le> 200"
proof -
  show "length (enumerated_keys ex_backend) = 1" by code_simp
  have "list_all (\<lambda>k. length k \<le> 200) (enumerated_keys ex_backend)" by code_simp
  then show "\<forall>k\<in>set (enumerated_keys ex_backend). length k \<le> 200" by (simp add: list_all_iff)
qed

lemma ex_agent_registration:
  "reg_enumerated_devices (agent_registration be a) = enumerated_keys be"
  "reg_os_platform (agent_registration be ex_known) = ''linux''" "reg_driver_version (agent_registration be a) = ''''"
  "reg_supported_capabilities (agent_registration be a) = [''cuda'', ''synthetic'']"
  "reg_epoch (agent_registration be ex_known) = Generation 1" "reg_protocol_version (agent_registration be a) = 1"
  by (simp_all add: agent_registration_def enumerated_keys_def ex_agent_def AgentOptions_default_def WorkerAgent_new_def protocol_version_def)

lemma ex_agent_wf: "Registration_wf (agent_registration ex_backend ex_known)"
  using ex_keys by (auto simp: Registration_wf_def ex_agent_registration str_wf_def list_all_iff)

lemma ex_register_sendable: "sendable (register_message ex_backend ex_known)"
proof (rule sendable_payload)
  obtain k where "enumerated_keys ex_backend = [k]" using ex_keys(1) by (metis length_0_conv length_Suc_conv One_nat_def)
  then have "length (encode_registration (agent_registration ex_backend ex_known)) \<le> 10000"
    using length_put_string [of 256 k]
    by (simp add: encode_registration_def put_strings_def ex_agent_registration put_string_def [of 128])
  then show "length (m_payload (register_message ex_backend ex_known)) \<le> 10000" by (simp add: register_message_def)
qed (simp add: register_message_def Message_default_def)

lemma register_ack_sendable:
  assumes "Registration_wf (agent_registration be a)" "register_worker (agent_registration be a) now (c_store c) = (s', Inr rid)"
  shows "sendable (snd (dispatch io now (register_message be a) (c, fs)))"
  using assms
  by (intro sendable_payload)
    (simp_all add: dispatch_def dispatch_register_def register_message_def Let_def decode_encode_registration Message_default_def)



subsection \<open>Publishing\<close>

lemma observe_device_fields [simp]:
  "o_identity (observe_device a t d p) = p_identity p" "o_epoch (observe_device a t d p) = wa_last_known_epoch a"
  "o_source_worker_boot (observe_device a t d p) = opt_boot (wa_opts a)" "o_source_worker (observe_device a t d p) = opt_worker (wa_opts a)"
  "o_observation_generation (observe_device a t d p) = wa_obs_gen a" "o_device_generation (observe_device a t d p) = wa_device_gen a"
  "o_health_generation (observe_device a t d p) = wa_health_gen a" "o_present (observe_device a t d p) = p_present p"
  by (simp_all add: observe_device_def normalize_observation_def)

lemma snapshot_batch_keys:
  "map obs_key (snapshot_batch a probe clk i eds)
     = map (\<lambda>(d, p). canonical_device_identity (p_identity p))
         (List.map_filter (\<lambda>d. case probe d of Inl _ \<Rightarrow> None | Inr p \<Rightarrow> Some (d, p)) eds)"
  by (induction eds arbitrary: i) (auto simp: map_filter_simps obs_key_def split: sum.split)

lemma snapshot_batch_member:
  "ob \<in> set (snapshot_batch a probe clk i eds) \<Longrightarrow> \<exists>d p t. d \<in> set eds \<and> probe d = Inr p \<and> ob = observe_device a t d p"
  by (induction eds arbitrary: i) (fastforce split: sum.splits)+

lemma snapshot_batch_covers:
  "d \<in> set eds \<Longrightarrow> probe d = Inr p \<Longrightarrow> \<exists>t. observe_device a t d p \<in> set (snapshot_batch a probe clk i eds)"
  by (induction eds arbitrary: i) (fastforce split: sum.splits)+

lemma publish_snapshot_out:
  assumes "be_enumerate be = Inr eds" "snapshot_batch a (be_probe be) clk 0 eds \<noteq> []" "ready st"
  shows "publish_snapshot be clk a st =
     ((a\<lparr>wa_obs_gen := gen_next (wa_obs_gen a), wa_device_gen := gen_next (wa_device_gen a)\<rparr>,
       st\<lparr>ts_out := ts_out st @ send_message (snapshot_message a (snapshot_batch a (be_probe be) clk 0 eds))\<rparr>), void_ok_result)"
  using assms by (simp add: publish_snapshot_def Let_def send_all_out send_message_def) (simp add: snapshot_message_def)

lemma snapshot_dispatch:
  assumes "length batch \<le> 4096" "list_all DeviceObservation_wf batch"
  shows "dispatch io now (snapshot_message a batch) (c, fs) =
     (case ingest_snapshot (opt_worker (wa_opts a)) batch ObservationPolicy_default now (c_store c) of
        (s', Inl e) \<Rightarrow> ((c\<lparr>c_store := s'\<rparr>, fs), respond_ack s' (snapshot_message a batch) False (message e))
      | (s', Inr _) \<Rightarrow> ((c\<lparr>c_store := s'\<rparr>, fs), respond_ack s' (snapshot_message a batch) True ''''))"
  using assms
  by (simp add: dispatch_def dispatch_observations_def snapshot_message_def decode_encode_observation_batch Let_def
      split: prod.split sum.split)

text \<open>C3: End to end: what a live agent publishes becomes the coordinator's state. When the agent's epoch is
  the current one and nothing newer of its boot is in the store, the snapshot it sends, in whatever
  pieces it arrives, is acknowledged; every device whose probe succeeded is in the store under the
  key it was enumerated with, with the agent's generations and boot, and all other devices are as
  a snapshot leaves them.\<close>

theorem published_snapshot_reaches_fleet:
  assumes be: "device_backend be" "distinct (enumerated_keys be)" "be_enumerate be = Inr eds"
    and batch: "batch = snapshot_batch a (be_probe be) clk 0 eds" "batch \<noteq> []" "length batch \<le> 4096"
      "list_all DeviceObservation_wf batch" "sendable (snapshot_message a batch)"
    and worker: "om_find (fs_workers (c_store c)) (opt_worker (wa_opts a)) = Some wr" "\<not> wr_lost wr" "\<not> wr_fenced wr"
      "wr_boot wr = opt_boot (wa_opts a)" "wa_last_known_epoch a = fs_epoch (c_store c)"
    and newer: "\<forall>k d. om_find (fs_devices (c_store c)) k = Some d \<and> ds_source_worker_boot d = opt_boot (wa_opts a) \<longrightarrow>
      ds_observation_generation d < wa_obs_gen a \<and> ds_generation d \<le> wa_device_gen a \<and> ds_health_generation d \<le> wa_health_gen a"
    and conn: "c_running c" "publish_snapshot be clk a st = ((a', st'), r)"
      "concat ds = ts_out st'" "[] \<notin> set ds" "cn = handle_connection io clock (map Received ds) (connection_new c fs)" "ready st" "ts_out st = []"
  shows "(\<exists>reply. cn_sent cn = [reply] \<and> m_type reply = ACK) \<and>
         (\<forall>k. om_find (fs_devices (c_store (cn_coord cn))) k
                = ingested (opt_worker (wa_opts a)) batch ObservationPolicy_default (clock 0) (c_store c) k) \<and>
         (\<forall>d\<in>set eds. \<forall>p. be_probe be d = Inr p \<longrightarrow>
            (\<exists>dev. om_find (fs_devices (c_store (cn_coord cn))) (canonical_device_identity (ed_identity d)) = Some dev \<and>
                   ds_observation_generation dev = wa_obs_gen a \<and> ds_source_worker_boot dev = opt_boot (wa_opts a) \<and>
                   ds_present dev = p_present p))"
proof -
  let ?w = "opt_worker (wa_opts a)" and ?m = "snapshot_message a batch" and ?s = "c_store c"
  have "concat ds = send_message ?m"
    using publish_snapshot_out [OF be(3), of a clk st] batch(1,2) conn(2,3,6,7) by auto
  then have "cn\<lparr>cn_buf := []\<rparr> = fold (deliver_one io clock) [?m] ((connection_new c fs)\<lparr>cn_buf := []\<rparr>)"
    unfolding conn(5) using batch(5) conn(1,4) by (intro handle_messages) (simp_all add: connection_new_def)
  then have run: "cn\<lparr>cn_buf := []\<rparr> = deliver_one io clock ?m (connection_new c fs)" by (simp add: connection_new_def)
  have dist: "distinct (map obs_key batch)"
    using device_backend.probed_keys_distinct [OF be(1,2)] be(3) by (simp add: batch(1) snapshot_batch_keys probed_def)
  have judged: "judge_observation ?w (wr_boot wr) ob ?s = Accept" if "ob \<in> set batch" for ob
    using snapshot_batch_member [of ob a "be_probe be" clk 0 eds] that worker(4,5) newer batch(1)
    by (intro judge_newer) auto
  obtain s' ao where ing: "ingest_snapshot ?w batch ObservationPolicy_default (clock 0) ?s = (s', Inr ao)"
    "\<forall>k. om_find (fs_devices s') k = ingested ?w batch ObservationPolicy_default (clock 0) ?s k"
    using ingest_all_accepted [OF worker(1-3) dist] judged by blast
  have sent: "cn_sent cn = [respond_ack s' ?m True '''']" and store: "c_store (cn_coord cn) = s'"
    using arg_cong [OF run, of cn_sent] arg_cong [OF run, of "\<lambda>cn. c_store (cn_coord cn)"] ing(1)
    by (simp_all add: deliver_one_def snapshot_dispatch [OF batch(3,4)] connection_new_def Let_def)
  have "\<exists>dev. om_find (fs_devices s') (canonical_device_identity (ed_identity d)) = Some dev \<and>
      ds_observation_generation dev = wa_obs_gen a \<and> ds_source_worker_boot dev = opt_boot (wa_opts a) \<and> ds_present dev = p_present p"
    if d: "d \<in> set eds" "be_probe be d = Inr p" for d p
  proof -
    from snapshot_batch_covers [of d eds "be_probe be", OF d, of a clk 0] obtain t where ob: "observe_device a t d p \<in> set batch"
      by (auto simp: batch(1))
    have key: "obs_key (observe_device a t d p) = canonical_device_identity (ed_identity d)"
      using device_backend.probe_identity [OF be(1,3) d] by (simp add: obs_key_def)
    have "find (\<lambda>ob. obs_key ob = canonical_device_identity (ed_identity d)) batch = Some (observe_device a t d p)"
      using dist ob key by (metis find_distinct_key)
    with ing(2) show ?thesis by (simp add: ingested_def observed_present)
  qed
  with sent store ing(2) show ?thesis by (auto simp: respond_ack_def)
qed


definition ex_registered :: FleetStateStore where
  "ex_registered = fst (register_worker (agent_registration ex_backend ex_known) 1000 ex_fresh)"

definition ex_batch :: "DeviceObservation list" where
  "ex_batch = snapshot_batch ex_known (synthetic_probe ex_synthetic) (\<lambda>_. 1000) 0
     [synthetic_device 100 0]"

lemma ex_enumerate: "be_enumerate ex_backend = Inr [synthetic_device 100 0]"
  by (simp add: synthetic_enumerate_def ex_synthetic_def SyntheticDeviceBackend_new_def)

lemma ex_batch_eq:
  "ex_batch = [observe_device ex_known 1000 (synthetic_device 100 0) (projr (synthetic_probe ex_synthetic (synthetic_device 100 0)))]"
  by (simp add: ex_batch_def synthetic_probe_def)

lemma ex_batch_wf: "list_all DeviceObservation_wf ex_batch"
proof -
  have "length (identity_for 0 100) \<le> 100" by code_simp
  then show ?thesis
    by (simp add: ex_batch_eq synthetic_probe_def observe_device_def normalize_observation_def DeviceObservation_wf_def
        DeviceProbe_default_def HealthState_wf_def str_wf_def Capability_wf_def CapabilityKind_wf_def DeviceIdentity_wf_def
        synthetic_device_def EnumeratedDevice_default_def DeviceIdentity_default_def AcceleratorVendor_wf_def)
qed

lemma ex_batch_sendable: "sendable (snapshot_message ex_known ex_batch)"
proof (rule sendable_payload)
  have "length (encode_observation_batch ex_batch) \<le> 10000"
    using length_put_string [of 128 "identity_for 0 100"]
    by (simp add: ex_batch_eq encode_observation_batch_def encode_device_observation_def synthetic_probe_def observe_device_def
        normalize_observation_def DeviceProbe_default_def put_capability_def synthetic_device_def EnumeratedDevice_default_def
        DeviceIdentity_default_def write_optional_f64_def put_option_def Let_def put_string_def [of 64] put_string_def [of 4096] put_string_def [of 256]
        put_string_def [of 128 "''synthetic''"] put_string_def [of 128 "''vendor''"] put_string_def [of 128 "''kernel_execution''"])
  then show "length (m_payload (snapshot_message ex_known ex_batch)) \<le> 10000" by (simp add: snapshot_message_def)
qed (simp add: snapshot_message_def Message_default_def)

theorem published_snapshot_reaches_fleet_witness:
  "\<exists>dev. om_find (fs_devices (c_store (cn_coord (handle_connection ex_io (\<lambda>_. 1000)
       (map Received [send_message (snapshot_message ex_known ex_batch)]) (connection_new (ex_coord ex_registered) (\<lambda>_. None))))))
       (canonical_device_identity (ed_identity (synthetic_device 100 0))) = Some dev \<and> ds_present dev"
proof -
  let ?st = "ex_stream []"
  have rdy: "ready ?st" "ts_out ?st = []" by (simp_all add: ready_def ex_stream_def stream_open_def)
  have w: "opt_worker (wa_opts ex_known) = StrongId 5" "opt_boot (wa_opts ex_known) = StrongId 7"
    by (simp_all add: ex_agent_def AgentOptions_default_def WorkerAgent_new_def id_is_zero_def)
  have b: "ex_batch = snapshot_batch ex_known (be_probe ex_backend) (\<lambda>_. 1000) 0 [synthetic_device 100 0]" "ex_batch \<noteq> []"
    "length ex_batch \<le> 4096" by (simp_all add: ex_batch_def synthetic_probe_def)
  have "map_option (\<lambda>wr. (wr_lost wr, wr_fenced wr, wr_boot wr)) (om_find (fs_workers ex_registered) (StrongId 5))
      = Some (False, False, StrongId 7)" by code_simp
  then obtain wr where wr: "om_find (fs_workers ex_registered) (StrongId 5) = Some wr" "\<not> wr_lost wr" "\<not> wr_fenced wr"
    "wr_boot wr = StrongId 7" by auto
  have s: "fs_epoch ex_registered = Generation 1" "fs_devices ex_registered = []" by code_simp+
  have pub: "publish_snapshot ex_backend (\<lambda>_. 1000) ex_known ?st =
     ((ex_known\<lparr>wa_obs_gen := gen_next (wa_obs_gen ex_known), wa_device_gen := gen_next (wa_device_gen ex_known)\<rparr>,
       ?st\<lparr>ts_out := ts_out ?st @ send_message (snapshot_message ex_known ex_batch)\<rparr>), void_ok_result)"
    using publish_snapshot_out [OF ex_enumerate, of ex_known "\<lambda>_. 1000" ?st] b(1,2) rdy by simp
  note main = published_snapshot_reaches_fleet [OF synthetic.device_backend_axioms synthetic_keys_distinct ex_enumerate b
      ex_batch_wf ex_batch_sendable, where c = "ex_coord ex_registered" and ds = "[send_message (snapshot_message ex_known ex_batch)]"
      and io = ex_io and clock = "\<lambda>_. 1000" and fs = "\<lambda>_. None", OF _ wr(2,3) _ _ _ _ pub _ _ refl rdy]
  show ?thesis using main wr s w rdy by (auto simp: ex_coord_def synthetic_probe_def)
qed


text \<open>C37: An agent that lost its connection is locked out until its process restarts. Once the coordinator has
  marked its worker lost, and while nothing registers another boot for it, the agent can reconnect
  and its registration is acknowledged, but the fence stays: every snapshot it publishes afterwards
  is refused and leaves the store unchanged.\<close>

theorem reconnected_agent_stays_fenced:
  assumes worker: "om_find (fs_workers s) w = Some wr" "wr_boot wr = opt_boot (wa_opts a)" "w = opt_worker (wa_opts a)"
    and ops: "\<forall>op\<in>set ops. \<forall>reg now. op = Register reg now \<longrightarrow> reg_worker reg = w \<longrightarrow> reg_worker_boot reg = wr_boot wr"
    and store: "c_store c = run_ops ops (fst (mark_worker_lost w t s))"
    and reg: "Registration_wf (agent_registration be a)" "wa_last_known_epoch a = fs_epoch (c_store c)"
      "om_find (fs_workers (c_store c)) w = Some wr2" "wr_registration_generation wr2 < wa_reg_gen a"
    and batch: "length batch \<le> 4096" "list_all DeviceObservation_wf batch"
    and disp: "dispatch io t1 (register_message be a) (c, fs) = ((c2, fs2), ack)"
      "dispatch io t2 (snapshot_message a batch) (c2, fs2) = ((c3, fs3), reply)"
  shows "m_type ack = REGISTER_ACK \<and> m_ok ack \<and> m_type reply = ERROR \<and> \<not> m_ok reply \<and>
         m_reason reply = ''worker is fenced/lost'' \<and> c_store c3 = c_store c2"
proof -
  let ?reg = "agent_registration be a"
  have "fenced_at (wr_boot wr) (om_find (fs_workers (c_store c)) w)"
    unfolding store
    by (rule run_ops_fenced)
      (use worker ops in \<open>auto simp: fenced_at_def mark_worker_lost_def supersedes_boot_def split: store_op.splits\<close>)
  moreover from this reg(3) have b2: "wr_boot wr2 = wr_boot wr" by (simp add: fenced_at_def)
  moreover have "\<not> supersedes_boot (Register ?reg t1) w (wr_boot wr)"
    using worker by (simp add: supersedes_boot_def agent_registration_def)
  ultimately have fenced: "fenced_at (wr_boot wr) (om_find (fs_workers (run_op (Register ?reg t1) (c_store c))) w)"
    by (blast intro: run_op_fenced)
  have "\<exists>s' rid. register_worker ?reg t1 (c_store c) = (s', Inr rid)"
    using reg(2-4) worker b2 by (simp add: register_worker_def agent_registration_def protocol_version_def not_le)
  then obtain s' rid where r: "register_worker ?reg t1 (c_store c) = (s', Inr rid)" by blast
  from register_dispatch [OF reg(1) r, of io fs] disp(1) have ack: "c_store c2 = s'" "m_ok ack" "m_type ack = REGISTER_ACK" by auto
  from fenced r ack(1) have "fenced_at (wr_boot wr) (om_find (fs_workers (c_store c2)) w)" by simp
  from ingest_fenced [OF this, of batch ObservationPolicy_default t2] snapshot_dispatch [OF batch, of io t2 a c2 fs2] disp(2) worker(3) ack
  show ?thesis by (auto simp: respond_ack_def)
qed

definition ex_dropped :: FleetStateStore where
  "ex_dropped = fst (mark_worker_lost (StrongId 5) 2000 ex_registered)"

abbreviation ex_reconnected :: WorkerAgent where
  "ex_reconnected \<equiv> ex_known\<lparr>wa_reg_gen := Generation 2\<rparr>"

theorem reconnected_agent_stays_fenced_witness:
  "m_reason (snd (dispatch ex_io 4000 (snapshot_message ex_reconnected ex_batch)
     (fst (dispatch ex_io 3000 (register_message ex_backend ex_reconnected) (ex_coord ex_dropped, \<lambda>_. None)))))
   = ''worker is fenced/lost''"
proof -
  have f: "map_option wr_boot (om_find (fs_workers ex_registered) (StrongId 5)) = Some (StrongId 7)"
    "map_option wr_registration_generation (om_find (fs_workers ex_dropped) (StrongId 5)) = Some (Generation 1)"
    "fs_epoch ex_dropped = Generation 1" by code_simp+
  then obtain wr wr2 where wr: "om_find (fs_workers ex_registered) (StrongId 5) = Some wr" "wr_boot wr = StrongId 7"
    "om_find (fs_workers ex_dropped) (StrongId 5) = Some wr2" "wr_registration_generation wr2 = Generation 1" by auto
  have w: "opt_worker (wa_opts ex_reconnected) = StrongId 5" "opt_boot (wa_opts ex_reconnected) = StrongId 7"
    by (simp_all add: ex_agent_def AgentOptions_default_def WorkerAgent_new_def id_is_zero_def)
  have wf: "Registration_wf (agent_registration ex_backend ex_reconnected)"
    using ex_agent_wf by (simp add: Registration_wf_def agent_registration_def)
  have len: "length ex_batch \<le> 4096" by (simp add: ex_batch_def synthetic_probe_def)
  obtain c2 fs2 ack c3 fs3 reply where d:
    "dispatch ex_io 3000 (register_message ex_backend ex_reconnected) (ex_coord ex_dropped, \<lambda>_. None) = ((c2, fs2), ack)"
    "dispatch ex_io 4000 (snapshot_message ex_reconnected ex_batch) (c2, fs2) = ((c3, fs3), reply)" by (metis surj_pair)
  have s: "c_store (ex_coord ex_dropped) = run_ops [] (fst (mark_worker_lost (StrongId 5) 2000 ex_registered))"
    by (simp add: ex_coord_def ex_dropped_def)
  have "m_reason reply = ''worker is fenced/lost''"
    using reconnected_agent_stays_fenced [OF wr(1) _ _ _ s wf _ _ _ len ex_batch_wf d, of wr2] wr w f(3)
    by (simp add: ex_coord_def less_Generation_def)
  with d show ?thesis by simp
qed


end
