(* ===== verification/Server.thy ===== *)
theory Server
  imports Coordinator
begin

text \<open>
  The threads of \<^verbatim>\<open>coordinator/coordinator.cpp\<close>: the accept thread, one thread for every connection, the
  liveness thread, and the caller of \<^verbatim>\<open>stop\<close>. They share the coordinator and the files. A step is
  what one thread does between two points where another may come in: one look at \<^verbatim>\<open>running_\<close>, one
  receive, one frame, one snapshot, one worker marked lost. Within a frame the threads interfere only
  through the store, whose methods hold its mutex; the search for the owner of a device before a drain or
  a quarantine takes the mutex once more, but the store does not use its result. A time that a thread
  reads is an argument of the step that uses it.
\<close>

subsection \<open>State\<close>

text \<open>Where a connection thread stands: before the test of \<^verbatim>\<open>running_\<close>, in the receive, with the frames that
  its last receive completed, after the loop, about to mark its worker lost, or returned.\<close>

datatype phase = LoopHead | Receiving | Handling "Frame list" feed_result | Closing | Losing | Finished

datatype accepting = AcceptHead | InAccept | AcceptEnded

text \<open>The liveness loop: before the test, asleep, with the workers it still has to look at and the time and
  the snapshot it works from, or returned.\<close>

datatype liveness =
  LivenessHead | Sleeping | Marking Timestamp "(WorkerId, WorkerRecord) omap" | LivenessEnded

text \<open>\<open>sv_stopping\<close> is set while \<^verbatim>\<open>stop\<close> has cleared \<^verbatim>\<open>running_\<close> and has yet to close the listener.\<close>

record server =
  sv_coord :: Coordinator
  sv_files :: files
  sv_threads :: "(connection \<times> phase) list"
  sv_accepting :: accepting
  sv_liveness :: liveness
  sv_stopping :: bool

definition server_new :: "Coordinator \<Rightarrow> files \<Rightarrow> server" where
  "server_new c fs =
     \<lparr>sv_coord = c, sv_files = fs, sv_threads = [], sv_accepting = AcceptHead, sv_liveness = LivenessHead,
      sv_stopping = False\<rparr>"

text \<open>A thread works on the shared coordinator and files, and the others see what it leaves.\<close>

definition enter :: "server \<Rightarrow> connection \<Rightarrow> connection" where
  "enter sv cn = cn\<lparr>cn_coord := sv_coord sv, cn_files := sv_files sv\<rparr>"

definition leave :: "nat \<Rightarrow> connection \<Rightarrow> phase \<Rightarrow> server \<Rightarrow> server" where
  "leave i cn ph sv =
     sv\<lparr>sv_coord := cn_coord cn, sv_files := cn_files cn, sv_threads := (sv_threads sv)[i := (cn, ph)]\<rparr>"

subsection \<open>Steps\<close>

text \<open>\<open>None\<close> means that the thread is not at that point.\<close>

definition accept_check :: "server \<Rightarrow> server option" where
  "accept_check sv =
     (if sv_accepting sv = AcceptHead
      then Some (sv\<lparr>sv_accepting := (if c_running (sv_coord sv) then InAccept else AcceptEnded)\<rparr>) else None)"

definition accept_step :: "bool \<Rightarrow> wsa_error + socket \<Rightarrow> server \<Rightarrow> server option" where
  "accept_step ready acc sv =
     (if sv_accepting sv \<noteq> InAccept then None
      else case fst (tcp_accept ready acc (c_listener (sv_coord sv))) of
             Inl _ \<Rightarrow> Some (sv\<lparr>sv_accepting := AcceptHead\<rparr>)
           | Inr st \<Rightarrow>
               Some (sv\<lparr>sv_accepting := AcceptHead,
                        sv_threads := sv_threads sv @ [(connection_new (sv_coord sv) (sv_files sv), LoopHead)]\<rparr>))"

definition check_step :: "nat \<Rightarrow> server \<Rightarrow> server option" where
  "check_step i sv =
     (if i \<ge> length (sv_threads sv) then None
      else case sv_threads sv ! i of
        (cn, LoopHead) \<Rightarrow>
          Some (leave i (enter sv cn) (if c_running (sv_coord sv) then Receiving else Closing) sv)
      | _ \<Rightarrow> None)"

definition recv_step :: "nat \<Rightarrow> recv_result \<Rightarrow> server \<Rightarrow> server option" where
  "recv_step i ev sv =
     (if i \<ge> length (sv_threads sv) then None
      else case sv_threads sv ! i of
        (cn, Receiving) \<Rightarrow>
          (let cn0 = enter sv cn
           in case ev of
                RecvError _ \<Rightarrow> Some (leave i cn0 Closing sv)
              | NoData \<Rightarrow> Some (leave i cn0 LoopHead sv)
              | Received data \<Rightarrow>
                  if data = [] then Some (leave i cn0 Closing sv)
                  else case drain_frames (cn_buf cn @ data) of
                         (fs, rest, res) \<Rightarrow> Some (leave i (cn0\<lparr>cn_buf := rest\<rparr>) (Handling fs res) sv))
      | _ \<Rightarrow> None)"

definition frame_step :: "nat \<Rightarrow> save_io \<Rightarrow> (nat \<Rightarrow> Timestamp) \<Rightarrow> server \<Rightarrow> server option" where
  "frame_step i io clock sv =
     (if i \<ge> length (sv_threads sv) then None
      else case sv_threads sv ! i of
        (cn, Handling (f # fs) res) \<Rightarrow>
          (case handle_frame io clock f (enter sv cn) of
             (False, cn1) \<Rightarrow> Some (leave i cn1 Finished sv)
           | (True, cn1) \<Rightarrow> Some (leave i cn1 (Handling fs res) sv))
      | (cn, Handling [] (FrameError perr)) \<Rightarrow>
          (let cn0 = enter sv cn in Some (leave i (cn0\<lparr>cn_sent := cn_sent cn0 @ [error_message perr]\<rparr>) Finished sv))
      | (cn, Handling [] _) \<Rightarrow> Some (leave i (enter sv cn) LoopHead sv)
      | _ \<Rightarrow> None)"

text \<open>After the loop: the test whether the worker is to be marked lost, and the mark.\<close>

definition close_step :: "nat \<Rightarrow> server \<Rightarrow> server option" where
  "close_step i sv =
     (if i \<ge> length (sv_threads sv) then None
      else case sv_threads sv ! i of
        (cn, Closing) \<Rightarrow>
          Some (leave i (enter sv cn) (if cn_worker_bound cn \<and> c_running (sv_coord sv) then Losing else Finished) sv)
      | _ \<Rightarrow> None)"

definition lose_step :: "nat \<Rightarrow> Timestamp \<Rightarrow> server \<Rightarrow> server option" where
  "lose_step i now sv =
     (if i \<ge> length (sv_threads sv) then None
      else case sv_threads sv ! i of
        (cn, Losing) \<Rightarrow>
          (let cn0 = enter sv cn
           in Some (leave i (cn0\<lparr>cn_coord := (cn_coord cn0)\<lparr>c_store :=
                       fst (mark_worker_lost (cn_connected_worker cn) now (c_store (cn_coord cn0)))\<rparr>\<rparr>) Finished sv))
      | _ \<Rightarrow> None)"

definition liveness_check :: "server \<Rightarrow> server option" where
  "liveness_check sv =
     (if sv_liveness sv = LivenessHead
      then Some (sv\<lparr>sv_liveness := (if c_running (sv_coord sv) then Sleeping else LivenessEnded)\<rparr>) else None)"

definition tick_step :: "Timestamp \<Rightarrow> server \<Rightarrow> server option" where
  "tick_step now sv =
     (if sv_liveness sv = Sleeping
      then Some (sv\<lparr>sv_liveness := Marking now (sn_workers (snapshot (c_store (sv_coord sv))))\<rparr>) else None)"

text \<open>The body of the loop over the workers of the snapshot.\<close>

definition mark_expired :: "Timestamp \<Rightarrow> WorkerId \<Rightarrow> WorkerRecord \<Rightarrow> Coordinator \<Rightarrow> Coordinator" where
  "mark_expired now wid wr c =
     (if expired now (co_heartbeat_timeout_ms (c_opts c)) wr
      then c\<lparr>c_store := fst (mark_worker_lost wid now (c_store c))\<rparr> else c)"

definition mark_step :: "server \<Rightarrow> server option" where
  "mark_step sv =
     (case sv_liveness sv of
        Marking now ((wid, wr) # ws) \<Rightarrow>
          Some (sv\<lparr>sv_coord := mark_expired now wid wr (sv_coord sv), sv_liveness := Marking now ws\<rparr>)
      | Marking now [] \<Rightarrow> Some (sv\<lparr>sv_liveness := LivenessHead\<rparr>)
      | _ \<Rightarrow> None)"

text \<open>\<^verbatim>\<open>stop\<close>: it clears \<^verbatim>\<open>running_\<close>, and then closes the listener.\<close>

definition stop_step :: "server \<Rightarrow> server option" where
  "stop_step sv =
     (if c_running (sv_coord sv)
      then Some (sv\<lparr>sv_coord := (sv_coord sv)\<lparr>c_running := False\<rparr>, sv_stopping := True\<rparr>) else None)"

definition shut_step :: "server \<Rightarrow> server option" where
  "shut_step sv =
     (if sv_stopping sv
      then Some (sv\<lparr>sv_coord := (sv_coord sv)\<lparr>c_listener := fst (close_listener (c_listener (sv_coord sv)))\<rparr>,
                    sv_stopping := False\<rparr>)
      else None)"

datatype action =
    AcceptCheck
  | Accept bool "wsa_error + socket"
  | Check nat
  | Recv nat recv_result
  | HandleFrame nat save_io "nat \<Rightarrow> Timestamp"
  | Close nat
  | Lose nat Timestamp
  | LivenessCheck
  | Tick Timestamp
  | Mark
  | Stop
  | Shut

fun act :: "action \<Rightarrow> server \<Rightarrow> server option" where
  "act AcceptCheck sv = accept_check sv"
| "act (Accept ready acc) sv = accept_step ready acc sv"
| "act (Check i) sv = check_step i sv"
| "act (Recv i ev) sv = recv_step i ev sv"
| "act (HandleFrame i io clock) sv = frame_step i io clock sv"
| "act (Close i) sv = close_step i sv"
| "act (Lose i now) sv = lose_step i now sv"
| "act LivenessCheck sv = liveness_check sv"
| "act (Tick now) sv = tick_step now sv"
| "act Mark sv = mark_step sv"
| "act Stop sv = stop_step sv"
| "act Shut sv = shut_step sv"

fun run_actions :: "action list \<Rightarrow> server \<Rightarrow> server option" where
  "run_actions [] sv = Some sv"
| "run_actions (a # as) sv = (case act a sv of None \<Rightarrow> None | Some sv1 \<Rightarrow> run_actions as sv1)"

text \<open>Everything that a coordinator started on some files can come to.\<close>

inductive server_reachable :: "server \<Rightarrow> bool" where
  started: "server_reachable (server_new (fst (start bound lio fs (Coordinator_new opts))) fs)"
| acted: "server_reachable sv \<Longrightarrow> act a sv = Some sv' \<Longrightarrow> server_reachable sv'"

subsection \<open>Every step is at most one operation of the store\<close>

lemmas step_defs = accept_check_def accept_step_def check_step_def recv_step_def frame_step_def close_step_def
  lose_step_def liveness_check_def tick_step_def mark_step_def stop_step_def shut_step_def

lemma enter_fields [simp]:
  "cn_coord (enter sv cn) = sv_coord sv" "cn_files (enter sv cn) = sv_files sv" "cn_buf (enter sv cn) = cn_buf cn"
  "cn_worker_bound (enter sv cn) = cn_worker_bound cn" "cn_connected_worker (enter sv cn) = cn_connected_worker cn"
  "cn_readings (enter sv cn) = cn_readings cn" "cn_sent (enter sv cn) = cn_sent cn"
  by (simp_all add: enter_def)

lemma leave_fields [simp]:
  "sv_coord (leave i cn ph sv) = cn_coord cn" "sv_files (leave i cn ph sv) = cn_files cn"
  "sv_threads (leave i cn ph sv) = (sv_threads sv)[i := (cn, ph)]" "sv_liveness (leave i cn ph sv) = sv_liveness sv"
  "sv_accepting (leave i cn ph sv) = sv_accepting sv" "sv_stopping (leave i cn ph sv) = sv_stopping sv"
  by (simp_all add: leave_def)

lemma handle_frame_store:
  "\<exists>op. c_store (cn_coord (snd (handle_frame io clock f cn))) = run_opt op (c_store (cn_coord cn))"
proof (cases "decode_message (frame_payload f)")
  case (Inl e)
  then show ?thesis by (intro exI [of _ None]) (simp add: handle_frame_def run_opt_def)
next
  case (Inr msg)
  then show ?thesis
    using dispatch_store [of io "clock (cn_readings cn)" msg "cn_coord cn" "cn_files cn"]
    by (intro exI [of _ "message_op (clock (cn_readings cn)) msg (c_store (cn_coord cn))"])
      (simp add: handle_frame_def Let_def split_beta)
qed

lemma mark_lost_store: "\<exists>op. fst (mark_worker_lost w now s) = run_opt op s"
  by (intro exI [of _ "Some (MarkLost w now)"]) (simp add: run_opt_def)

lemma mark_expired_store: "\<exists>op. c_store (mark_expired now wid wr c) = run_opt op (c_store c)"
  by (intro exI [of _ "if expired now (co_heartbeat_timeout_ms (c_opts c)) wr then Some (MarkLost wid now) else None"])
    (simp add: mark_expired_def run_opt_def)

lemma run_opt_None: "\<exists>op. s = run_opt op s"
  by (rule exI [of _ None]) (simp add: run_opt_def)

text \<open>The cases of a step of a connection thread.\<close>

lemma check_stepE:
  assumes "check_step i sv = Some sv'"
  obtains cn where "i < length (sv_threads sv)" "sv_threads sv ! i = (cn, LoopHead)"
    "sv' = leave i (enter sv cn) (if c_running (sv_coord sv) then Receiving else Closing) sv"
  using assms by (auto simp: check_step_def split: if_splits phase.splits prod.splits)

lemma recv_stepE:
  assumes "recv_step i ev sv = Some sv'"
  obtains cn b ph where "i < length (sv_threads sv)" "sv_threads sv ! i = (cn, Receiving)"
    "sv' = leave i ((enter sv cn)\<lparr>cn_buf := b\<rparr>) ph sv" "ph \<noteq> Receiving"
proof -
  obtain cn ph where th: "sv_threads sv ! i = (cn, ph)" by force
  have keep: "enter sv cn = (enter sv cn)\<lparr>cn_buf := cn_buf cn\<rparr>" by (simp add: enter_def)
  show thesis
  proof (cases ph)
    case Receiving
    from assms have i: "i < length (sv_threads sv)" by (auto simp: recv_step_def split: if_splits)
    note cases = assms th Receiving i that [OF i, of cn "cn_buf cn" Closing] that [OF i, of cn "cn_buf cn" LoopHead] keep
    show ?thesis
    proof (cases ev)
      case (Received data)
      obtain fs rest res where "drain_frames (cn_buf cn @ data) = (fs, rest, res)" by (metis prod_cases3)
      with cases Received that [OF i, of cn rest "Handling fs res"] show ?thesis
        by (auto simp: recv_step_def Let_def split: if_splits)
    qed (use cases in \<open>auto simp: recv_step_def Let_def split: if_splits\<close>)
  qed (use assms th in \<open>auto simp: recv_step_def split: if_splits\<close>)
qed

lemma frame_stepE:
  assumes "frame_step i io clock sv = Some sv'"
  obtains (frame) cn f fs res ok cn1 where "i < length (sv_threads sv)" "sv_threads sv ! i = (cn, Handling (f # fs) res)"
      "handle_frame io clock f (enter sv cn) = (ok, cn1)" "sv' = leave i cn1 (if ok then Handling fs res else Finished) sv"
  | (bad) cn perr where "i < length (sv_threads sv)" "sv_threads sv ! i = (cn, Handling [] (FrameError perr))"
      "sv' = leave i ((enter sv cn)\<lparr>cn_sent := cn_sent cn @ [error_message perr]\<rparr>) Finished sv"
  | (finished) cn res where "i < length (sv_threads sv)" "sv_threads sv ! i = (cn, Handling [] res)"
      "sv' = leave i (enter sv cn) LoopHead sv"
  using assms
  by (auto simp: frame_step_def Let_def split: if_splits phase.splits list.splits feed_result.splits prod.splits bool.splits)

lemma close_stepE:
  assumes "close_step i sv = Some sv'"
  obtains cn where "i < length (sv_threads sv)" "sv_threads sv ! i = (cn, Closing)"
    "sv' = leave i (enter sv cn) (if cn_worker_bound cn \<and> c_running (sv_coord sv) then Losing else Finished) sv"
  using assms by (auto simp: close_step_def split: if_splits phase.splits prod.splits)

lemma lose_stepE:
  assumes "lose_step i now sv = Some sv'"
  obtains cn where "i < length (sv_threads sv)" "sv_threads sv ! i = (cn, Losing)"
    "sv' = leave i ((enter sv cn)\<lparr>cn_coord := (sv_coord sv)\<lparr>c_store :=
              fst (mark_worker_lost (cn_connected_worker cn) now (c_store (sv_coord sv)))\<rparr>\<rparr>) Finished sv"
  using assms by (auto simp: lose_step_def Let_def split: if_splits phase.splits prod.splits)

lemma act_store:
  assumes "act a sv = Some sv'"
  shows "\<exists>op. c_store (sv_coord sv') = run_opt op (c_store (sv_coord sv))"
proof (cases a)
  case (Check i)
  with assms show ?thesis by (auto elim!: check_stepE intro: run_opt_None)
next
  case (Recv i ev)
  with assms show ?thesis by (auto elim!: recv_stepE intro: run_opt_None)
next
  case (HandleFrame i io clock)
  with assms have "frame_step i io clock sv = Some sv'" by simp
  then show ?thesis
  proof (cases rule: frame_stepE)
    case (frame cn f fs res ok cn1)
    with handle_frame_store [of io clock f "enter sv cn"] show ?thesis by simp
  qed (simp_all add: run_opt_None)
next
  case (Close i)
  with assms show ?thesis by (auto elim!: close_stepE intro: run_opt_None)
next
  case (Lose i now)
  with assms show ?thesis by (auto elim!: lose_stepE intro: mark_lost_store)
next
  case Mark
  with assms mark_expired_store show ?thesis
    by (auto simp: mark_step_def intro: run_opt_None split: liveness.splits list.splits)
qed (use assms in \<open>auto simp: step_defs intro: run_opt_None split: if_splits sum.splits\<close>)

lemma server_store_reachable: "server_reachable sv \<Longrightarrow> reachable (c_store (sv_coord sv))"
proof (induction rule: server_reachable.induct)
  case (started bound lio fs opts)
  show ?case by (simp add: server_new_def start_reachable new_reachable)
next
  case (acted sv a sv')
  then show ?case using act_store [of a sv sv'] by (auto intro: run_opt_reachable)
qed

lemma run_actions_reachable: "server_reachable sv \<Longrightarrow> run_actions as sv = Some sv' \<Longrightarrow> server_reachable sv'"
  by (induction as arbitrary: sv) (auto intro: server_reachable.acted split: option.splits)

lemma run_actions_append:
  "run_actions (as @ bs) sv = (case run_actions as sv of None \<Rightarrow> None | Some sv1 \<Rightarrow> run_actions bs sv1)"
  by (induction as arbitrary: sv) (simp_all split: option.split)

subsection \<open>A thread that runs alone\<close>

text \<open>Thread \<open>i\<close> stands at \<open>ph\<close>, and is the connection \<open>cn\<close> once it sees the shared state.\<close>

definition stands :: "nat \<Rightarrow> server \<Rightarrow> connection \<Rightarrow> phase \<Rightarrow> bool" where
  "stands i sv cn ph \<longleftrightarrow> i < length (sv_threads sv) \<and> (\<exists>cn0. sv_threads sv ! i = (cn0, ph) \<and> enter sv cn0 = cn)"

definition others_kept :: "nat \<Rightarrow> server \<Rightarrow> server \<Rightarrow> bool" where
  "others_kept i sv sv' \<longleftrightarrow>
     length (sv_threads sv') = length (sv_threads sv) \<and> sv_liveness sv' = sv_liveness sv \<and>
     sv_accepting sv' = sv_accepting sv \<and> sv_stopping sv' = sv_stopping sv \<and>
     (\<forall>j. j \<noteq> i \<longrightarrow> sv_threads sv' ! j = sv_threads sv ! j)"

fun acts_for :: "nat \<Rightarrow> action \<Rightarrow> bool" where
  "acts_for i (Check j) = (j = i)"
| "acts_for i (Recv j ev) = (j = i)"
| "acts_for i (HandleFrame j io clock) = (j = i)"
| "acts_for i (Close j) = (j = i)"
| "acts_for i (Lose j now) = (j = i)"
| "acts_for i _ = False"

text \<open>Thread \<open>i\<close> alone takes the server from one state to another.\<close>

definition solo :: "nat \<Rightarrow> server \<Rightarrow> server \<Rightarrow> bool" where
  "solo i sv sv' \<longleftrightarrow> (\<exists>as. list_all (acts_for i) as \<and> run_actions as sv = Some sv') \<and> others_kept i sv sv'"

lemma enter_same [simp]: "cn_coord cn = sv_coord sv \<Longrightarrow> cn_files cn = sv_files sv \<Longrightarrow> enter sv cn = cn"
  by (simp add: enter_def)

lemma stands_coord: "stands i sv cn ph \<Longrightarrow> cn_coord cn = sv_coord sv \<and> cn_files cn = sv_files sv"
  by (auto simp: stands_def)

lemma stands_leave: "i < length (sv_threads sv) \<Longrightarrow> stands i (leave i cn ph sv) cn ph"
  by (simp add: stands_def)

lemma solo_refl: "solo i sv sv"
  unfolding solo_def others_kept_def by (intro conjI exI [of _ "[]"]) simp_all

lemma solo_trans: "solo i sv sv1 \<Longrightarrow> solo i sv1 sv2 \<Longrightarrow> solo i sv sv2"
proof -
  assume "solo i sv sv1" "solo i sv1 sv2"
  then obtain as bs where "list_all (acts_for i) (as @ bs)" "run_actions (as @ bs) sv = Some sv2"
    "others_kept i sv sv1" "others_kept i sv1 sv2"
    by (auto simp: solo_def run_actions_append)
  moreover from this have "others_kept i sv sv2" by (auto simp: others_kept_def)
  ultimately show ?thesis unfolding solo_def by blast
qed

lemma solo_act: "acts_for i a \<Longrightarrow> act a sv = Some (leave i cn ph sv) \<Longrightarrow> solo i sv (leave i cn ph sv)"
  unfolding solo_def others_kept_def by (intro conjI exI [of _ "[a]"]) simp_all

text \<open>One step of a thread, as a move of where it stands.\<close>

lemma solo_step:
  assumes "stands i sv cn ph" "acts_for i a" "act a sv = Some (leave i cn' ph' sv)"
  shows "\<exists>sv'. solo i sv sv' \<and> stands i sv' cn' ph'"
  using assms solo_act [OF assms(2,3)] stands_leave [of i sv cn' ph'] by (auto simp: stands_def)

lemma solo_frames:
  assumes "stands i sv cn (Handling fs res)" "handle_frames io clock fs cn = (ok, cn1)"
  shows "\<exists>sv'. solo i sv sv' \<and> stands i sv' cn1 (if ok then Handling [] res else Finished)"
  using assms
proof (induction fs arbitrary: sv cn)
  case Nil
  then show ?case using solo_refl by auto
next
  case (Cons f fs)
  obtain ok0 cn0 where h: "handle_frame io clock f cn = (ok0, cn0)" by force
  have "act (HandleFrame i io clock) sv = Some (leave i cn0 (if ok0 then Handling fs res else Finished) sv)"
    using Cons.prems(1) h by (cases ok0) (auto simp: stands_def frame_step_def)
  from solo_step [OF Cons.prems(1) _ this] obtain sv1 where
    sv1: "solo i sv sv1" "stands i sv1 cn0 (if ok0 then Handling fs res else Finished)" by auto
  show ?case
  proof (cases ok0)
    case True
    with Cons.IH [of sv1 cn0] Cons.prems(2) h sv1 show ?thesis by (auto intro: solo_trans)
  next
    case False
    with Cons.prems(2) h sv1 show ?thesis by auto
  qed
qed

lemma solo_check:
  assumes "stands i sv cn LoopHead"
  shows "\<exists>sv'. solo i sv sv' \<and> stands i sv' cn (if c_running (cn_coord cn) then Receiving else Closing)"
proof -
  have "act (Check i) sv = Some (leave i cn (if c_running (cn_coord cn) then Receiving else Closing) sv)"
    using assms stands_coord [OF assms] by (auto simp: stands_def check_step_def)
  from solo_step [OF assms _ this] show ?thesis by simp
qed

lemma solo_chunk:
  assumes "stands i sv cn Receiving" "data \<noteq> []" "handle_chunk io clock data cn = (ok, cn1)"
  shows "\<exists>sv'. solo i sv sv' \<and> stands i sv' cn1 (if ok then LoopHead else Finished)"
proof -
  obtain fs rest res where d: "drain_frames (cn_buf cn @ data) = (fs, rest, res)" by (metis prod_cases3)
  have "act (Recv i (Received data)) sv = Some (leave i (cn\<lparr>cn_buf := rest\<rparr>) (Handling fs res) sv)"
    using assms(1,2) d by (auto simp: stands_def recv_step_def Let_def)
  from solo_step [OF assms(1) _ this] obtain sv1 where
    sv1: "solo i sv sv1" "stands i sv1 (cn\<lparr>cn_buf := rest\<rparr>) (Handling fs res)" by auto
  obtain ok2 cn2 where h: "handle_frames io clock fs (cn\<lparr>cn_buf := rest\<rparr>) = (ok2, cn2)" by force
  from solo_frames [OF sv1(2) h] obtain sv2 where
    sv2: "solo i sv1 sv2" "stands i sv2 cn2 (if ok2 then Handling [] res else Finished)" by auto
  show ?thesis
  proof (cases ok2)
    case False
    with assms(3) d h have "\<not> ok" "cn1 = cn2" by (auto simp: handle_chunk_def)
    with False sv1 sv2 show ?thesis by (auto intro: solo_trans)
  next
    case True
    have "act (HandleFrame i io clock) sv2 = Some (leave i cn1 (if ok then LoopHead else Finished) sv2)"
      using True sv2(2) assms(3) d h
      by (auto simp: stands_def frame_step_def handle_chunk_def Let_def split: feed_result.splits)
    from solo_step [OF _ _ this] True sv2 obtain sv3 where
      "solo i sv2 sv3" "stands i sv3 cn1 (if ok then LoopHead else Finished)" by auto
    with sv1 sv2 show ?thesis by (blast intro: solo_trans)
  qed
qed

lemma solo_close:
  assumes "stands i sv cn Closing"
  shows "\<exists>sv'. solo i sv sv' \<and> stands i sv' (close_connection clock cn) Finished"
proof -
  let ?lose = "cn_worker_bound cn \<and> c_running (cn_coord cn)"
  have "act (Close i) sv = Some (leave i cn (if ?lose then Losing else Finished) sv)"
    using assms stands_coord [OF assms] by (auto simp: stands_def close_step_def)
  from solo_step [OF assms _ this] obtain sv1 where
    sv1: "solo i sv sv1" "stands i sv1 cn (if ?lose then Losing else Finished)" by auto
  show ?thesis
  proof (cases ?lose)
    case True
    have "act (Lose i (clock (cn_readings cn))) sv1 = Some (leave i (close_connection clock cn) Finished sv1)"
      using sv1(2) True by (auto simp: stands_def lose_step_def Let_def close_connection_def)
    from solo_step [OF sv1(2) _ this] sv1(1) show ?thesis by (auto intro: solo_trans)
  next
    case False
    then have "close_connection clock cn = cn" by (auto simp: close_connection_def)
    with sv1 False show ?thesis by auto
  qed
qed

text \<open>One round of the loop: the test and a receive.\<close>

lemma solo_round:
  assumes "stands i sv cn LoopHead"
  shows "\<exists>sv' ph. solo i sv sv' \<and> stands i sv' (handle_connection io clock [ev] cn) ph \<and> ph \<in> {LoopHead, Finished} \<and>
           (ph = LoopHead \<longrightarrow> (\<forall>evs. handle_connection io clock (ev # evs) cn
              = handle_connection io clock evs (handle_connection io clock [ev] cn))) \<and>
           (ph = Finished \<longrightarrow> (\<forall>evs. handle_connection io clock (ev # evs) cn = handle_connection io clock [ev] cn))"
proof -
  obtain sv1 where sv1: "solo i sv sv1" "stands i sv1 cn (if c_running (cn_coord cn) then Receiving else Closing)"
    using solo_check [OF assms] by blast
  have closes: "\<exists>sv'. solo i sv sv' \<and> stands i sv' (close_connection clock cn) Finished"
    if "solo i sv1 sv2" "stands i sv2 cn Closing" for sv2
    using solo_close [OF that(2), of clock] that(1) sv1(1) by (blast intro: solo_trans)
  show ?thesis
  proof (cases "c_running (cn_coord cn)")
    case False
    with sv1(2) closes [OF solo_refl] show ?thesis by auto
  next
    case True
    with sv1 have st: "stands i sv1 cn Receiving" by simp
    have received: "\<exists>sv2. solo i sv1 sv2 \<and> stands i sv2 cn ph" if "act (Recv i ev) sv1 = Some (leave i cn ph sv1)" for ph
      using solo_step [OF st _ that] by simp
    have ends: "\<exists>sv'. solo i sv sv' \<and> stands i sv' (close_connection clock cn) Finished"
      if "act (Recv i ev) sv1 = Some (leave i cn Closing sv1)"
      using received [OF that] closes by blast
    show ?thesis
    proof (cases ev)
      case (RecvError e)
      with st have "act (Recv i ev) sv1 = Some (leave i cn Closing sv1)" by (auto simp: stands_def recv_step_def Let_def)
      from ends [OF this] True RecvError show ?thesis by auto
    next
      case NoData
      with st have "act (Recv i ev) sv1 = Some (leave i cn LoopHead sv1)" by (auto simp: stands_def recv_step_def Let_def)
      from received [OF this] sv1(1) obtain sv2 where "solo i sv sv2" "stands i sv2 cn LoopHead" by (blast intro: solo_trans)
      with True NoData show ?thesis by auto
    next
      case (Received data)
      show ?thesis
      proof (cases "data = []")
        case empty: True
        with st Received have "act (Recv i ev) sv1 = Some (leave i cn Closing sv1)"
          by (auto simp: stands_def recv_step_def Let_def)
        from ends [OF this] True Received empty show ?thesis by auto
      next
        case False
        obtain ok cn1 where h: "handle_chunk io clock data cn = (ok, cn1)" by force
        from solo_chunk [OF st False h] sv1(1) obtain sv2 where
          "solo i sv sv2" "stands i sv2 cn1 (if ok then LoopHead else Finished)" by (blast intro: solo_trans)
        with True False Received h show ?thesis by (cases ok) auto
      qed
    qed
  qed
qed

lemma solo_connection:
  "stands i sv cn LoopHead \<Longrightarrow>
     \<exists>sv' ph. solo i sv sv' \<and> stands i sv' (handle_connection io clock evs cn) ph \<and> ph \<in> {LoopHead, Finished}"
proof (induction evs arbitrary: sv cn)
  case Nil
  then show ?case using solo_refl by auto
next
  case (Cons ev evs)
  from solo_round [OF Cons.prems, of io clock ev] obtain sv1 ph where
    sv1: "solo i sv sv1" "stands i sv1 (handle_connection io clock [ev] cn) ph" "ph \<in> {LoopHead, Finished}"
    and more_events: "ph = LoopHead \<longrightarrow> handle_connection io clock (ev # evs) cn
        = handle_connection io clock evs (handle_connection io clock [ev] cn)"
    and no_more: "ph = Finished \<longrightarrow> handle_connection io clock (ev # evs) cn = handle_connection io clock [ev] cn"
    by blast
  show ?case
  proof (cases "ph = LoopHead")
    case True
    with Cons.IH [of sv1 "handle_connection io clock [ev] cn"] sv1(2) obtain sv2 ph2 where
      "solo i sv1 sv2" "stands i sv2 (handle_connection io clock (ev # evs) cn) ph2" "ph2 \<in> {LoopHead, Finished}"
      using more_events by metis
    with sv1(1) show ?thesis by (blast intro: solo_trans)
  next
    case False
    with sv1 no_more show ?thesis by (auto simp del: handle_connection.simps)
  qed
qed

end
