(* ===== verification/Server_Properties.thy ===== *)
theory Server_Properties
  imports Server Coordinator_Properties
begin

text \<open>
  The properties of the coordinator as a set of threads: what holds in every interleaving, how a
  thread that runs alone relates to the sequential functions, what goes wrong between threads, and
  that stopping ends them.
\<close>

text \<open>C2: In every interleaving of accepting, receiving, handling frames, closing, liveness passes and
  stopping, with arbitrary bytes on every connection, every device marked ELIGIBLE has a fresh
  observation, is present, not quarantined, not draining and HEALTHY or DEGRADED.\<close>

theorem threads_keep_eligibility_justified:
  assumes "server_reachable sv" "om_find (fs_devices (c_store (sv_coord sv))) k = Some d"
    and "ds_eligibility d \<in> {EligibilityState.ELIGIBLE, EligibilityState.DEGRADED_ELIGIBLE}"
  shows "ds_observation_fresh d \<and> ds_present d \<and> \<not> ds_quarantined d \<and> ds_drain d = ACTIVE \<and>
         ds_health d \<in> {HealthState.HEALTHY, HealthState.DEGRADED}"
proof -
  have "device_justified d"
    using justified.inv_reachable [OF server_store_reachable [OF assms(1)]] assms(2) by (auto simp: justified.all_devices_def)
  with assms(3) show ?thesis by (auto simp: device_justified_def)
qed

lemma solo_reachable: "solo i sv sv' \<Longrightarrow> server_reachable sv \<Longrightarrow> server_reachable sv'"
  by (auto simp: solo_def intro: run_actions_reachable)

definition ex_server :: server where
  "ex_server = server_new (fst (start (Inr ex_listener) \<lparr>lio_ftell = True, lio_fread = 0\<rparr> (\<lambda>_. None) (Coordinator_new ex_options))) (\<lambda>_. None)"

lemma ex_server_accepts:
  "\<exists>sv. server_reachable sv \<and> stands 0 sv (connection_new (ex_coord (FleetStateStore_init (StrongId 1) (Generation 1))) (\<lambda>_. None)) LoopHead"
proof -
  let ?c = "ex_coord (FleetStateStore_init (StrongId 1) (Generation 1))"
  have start: "ex_server = server_new ?c (\<lambda>_. None)" by (simp add: ex_server_def ex_started ex_coord_def)
  let ?sv = "ex_server\<lparr>sv_threads := [(connection_new ?c (\<lambda>_. None), LoopHead)]\<rparr>"
  have "run_actions [AcceptCheck, Accept True (Inr 11)] ex_server = Some ?sv"
    by (simp add: accept_check_def accept_step_def start server_new_def ex_coord_def tcp_accept_def ex_listener_def wrap_socket_def)
  moreover have "server_reachable ex_server" unfolding ex_server_def by (rule server_reachable.started)
  ultimately have "server_reachable ?sv" by (rule run_actions_reachable [rotated])
  moreover have "stands 0 ?sv (connection_new ?c (\<lambda>_. None)) LoopHead"
    by (simp add: stands_def start server_new_def connection_new_def)
  ultimately show ?thesis by blast
qed

theorem threads_keep_eligibility_justified_witness:
  "\<exists>sv d. server_reachable sv \<and> om_find (fs_devices (c_store (sv_coord sv))) ex_key = Some d \<and> ds_observation_fresh d"
proof -
  let ?c = "ex_coord (FleetStateStore_init (StrongId 1) (Generation 1))"
  obtain sv where sv: "server_reachable sv" "stands 0 sv (connection_new ?c (\<lambda>_. None)) LoopHead"
    using ex_server_accepts by blast
  obtain sv' ph where sv': "solo 0 sv sv'" "stands 0 sv' (handle_connection ex_io (\<lambda>_. 1000)
      [Received (concat (map send_message ex_messages))] (connection_new ?c (\<lambda>_. None))) ph"
    using solo_connection [OF sv(2), of ex_io "\<lambda>_. 1000" "[Received (concat (map send_message ex_messages))]"] by blast
  have "c_store (sv_coord sv') = ex_store"
    using stands_coord [OF sv'(2)] ex_traffic [of ?c ex_io "\<lambda>_. None"] by (simp add: ex_coord_def)
  moreover obtain d where "om_find (fs_devices ex_store) ex_key = Some d" "ds_eligibility d = EligibilityState.ELIGIBLE"
    using ex_store_device_eligible by auto
  ultimately show ?thesis
    using threads_keep_eligibility_justified [OF solo_reachable [OF sv'(1) sv(1)], of ex_key d] solo_reachable [OF sv'(1) sv(1)] by auto
qed



subsection \<open>One thread alone\<close>

lemma marks_run:
  "sv_liveness sv = Marking now ws \<Longrightarrow>
     run_actions (replicate (length ws + 1) Mark) sv =
       Some (sv\<lparr>sv_coord := fold (\<lambda>(wid, wr). mark_expired now wid wr) ws (sv_coord sv), sv_liveness := LivenessHead\<rparr>)"
proof (induction ws arbitrary: sv)
  case (Cons e ws)
  obtain wid wr where "e = (wid, wr)" by force
  with Cons.prems Cons.IH [of "sv\<lparr>sv_coord := mark_expired now wid wr (sv_coord sv), sv_liveness := Marking now ws\<rparr>"]
  show ?case by (simp add: mark_step_def)
qed (simp add: mark_step_def)

lemma fold_mark_expired:
  "c_opts c = opts \<Longrightarrow>
     fold (\<lambda>(wid, wr). mark_expired now wid wr) ws c =
       c\<lparr>c_store := fold (\<lambda>(wid, wr) s.
            if wr_alive wr \<and> \<not> wr_lost wr \<and> \<not> wr_fenced wr \<and> wr_last_heartbeat wr \<noteq> kInvalidTimestamp
            then if sint (now - wr_last_heartbeat wr) > sint (co_heartbeat_timeout_ms opts)
                 then fst (mark_worker_lost wid now s) else s
            else s) ws (c_store c)\<rparr>"
  by (induction ws arbitrary: c) (auto simp: mark_expired_def expired_def)

text \<open>C6: A thread that nobody interrupts does what the sequential function says: for every sequence of
  receives there is a schedule of one connection's steps that leaves the coordinator, the files and
  the replies of handle_connection and nothing else changed; a round of the liveness thread is one
  liveness pass; and the two steps of stop are the sequential stop.\<close>

theorem thread_alone_is_sequential:
  assumes "i < length (sv_threads sv)" "sv_threads sv ! i = (cn, LoopHead)"
    and "cn' = handle_connection io clock evs (enter sv cn)"
  shows "(\<exists>as sv'. list_all (acts_for i) as \<and> run_actions as sv = Some sv' \<and>
            sv_coord sv' = cn_coord cn' \<and> sv_files sv' = cn_files cn' \<and> cn_sent (fst (sv_threads sv' ! i)) = cn_sent cn' \<and>
            (\<forall>j. j \<noteq> i \<longrightarrow> sv_threads sv' ! j = sv_threads sv ! j)) \<and>
         (sv_liveness sv = LivenessHead \<and> c_running (sv_coord sv) \<longrightarrow>
            run_actions (LivenessCheck # Tick now # replicate (length (fs_workers (c_store (sv_coord sv))) + 1) Mark) sv
              = Some (sv\<lparr>sv_coord := liveness_pass now (sv_coord sv)\<rparr>)) \<and>
         (c_running (sv_coord sv) \<and> \<not> sv_stopping sv \<longrightarrow>
            run_actions [Stop, Shut] sv = Some (sv\<lparr>sv_coord := fst (stop (sv_coord sv))\<rparr>))"
proof (intro conjI impI)
  have "stands i sv (enter sv cn) LoopHead" using assms(1,2) by (simp add: stands_def)
  from solo_connection [OF this, of io clock evs] obtain sv' ph where sv': "solo i sv sv'" "stands i sv' cn' ph"
    unfolding assms(3) by blast
  then show "\<exists>as sv'. list_all (acts_for i) as \<and> run_actions as sv = Some sv' \<and>
      sv_coord sv' = cn_coord cn' \<and> sv_files sv' = cn_files cn' \<and> cn_sent (fst (sv_threads sv' ! i)) = cn_sent cn' \<and>
      (\<forall>j. j \<noteq> i \<longrightarrow> sv_threads sv' ! j = sv_threads sv ! j)"
    using stands_coord [OF sv'(2)] by (auto simp: solo_def others_kept_def stands_def enter_def)
next
  assume "sv_liveness sv = LivenessHead \<and> c_running (sv_coord sv)"
  then show "run_actions (LivenessCheck # Tick now # replicate (length (fs_workers (c_store (sv_coord sv))) + 1) Mark) sv
        = Some (sv\<lparr>sv_coord := liveness_pass now (sv_coord sv)\<rparr>)"
    using marks_run [of "sv\<lparr>sv_liveness := Marking now (fs_workers (c_store (sv_coord sv)))\<rparr>" now]
    by (simp add: liveness_check_def tick_step_def snapshot_workers liveness_pass_def fold_mark_expired)
next
  assume "c_running (sv_coord sv) \<and> \<not> sv_stopping sv"
  then show "run_actions [Stop, Shut] sv = Some (sv\<lparr>sv_coord := fst (stop (sv_coord sv))\<rparr>)"
    by (simp add: stop_step_def shut_step_def stop_def split_beta)
qed

theorem thread_alone_is_sequential_witness:
  "\<exists>as sv sv'. server_reachable sv \<and> list_all (acts_for 0) as \<and> run_actions as sv = Some sv' \<and> c_store (sv_coord sv') = ex_store"
proof -
  let ?c = "ex_coord (FleetStateStore_init (StrongId 1) (Generation 1))"
  obtain sv where sv: "server_reachable sv" "stands 0 sv (connection_new ?c (\<lambda>_. None)) LoopHead"
    using ex_server_accepts by blast
  then obtain cn where cn: "0 < length (sv_threads sv)" "sv_threads sv ! 0 = (cn, LoopHead)" "enter sv cn = connection_new ?c (\<lambda>_. None)"
    by (auto simp: stands_def)
  let ?cn = "handle_connection ex_io (\<lambda>_. 1000) [Received (concat (map send_message ex_messages))] (enter sv cn)"
  have "c_store (cn_coord ?cn) = ex_store"
    unfolding cn(3) by (rule ex_traffic) (simp_all add: ex_coord_def)
  moreover obtain as sv' where "list_all (acts_for 0) as" "run_actions as sv = Some sv'" "sv_coord sv' = cn_coord ?cn"
    using thread_alone_is_sequential [OF cn(1,2) refl, of ex_io "\<lambda>_. 1000" "[Received (concat (map send_message ex_messages))]" 0]
    by blast
  ultimately show ?thesis using sv(1) by metis
qed

subsection \<open>Between threads\<close>

lemma lost_worker_refused:
  assumes "om_find (fs_workers s) w = Some wr"
  shows "om_find (fs_workers (fst (mark_worker_lost w now s))) w = Some (lost_record wr)"
    and "snd (ingest_snapshot w obs pol later (fst (mark_worker_lost w now s)))
           = Inl (error_result NotAuthoritative ''worker is fenced/lost'')"
proof -
  show lost: "om_find (fs_workers (fst (mark_worker_lost w now s))) w = Some (lost_record wr)"
    using assms by (simp add: mark_lost_workers)
  then show "snd (ingest_snapshot w obs pol later (fst (mark_worker_lost w now s)))
      = Inl (error_result NotAuthoritative ''worker is fenced/lost'')"
    using ingest_fenced [of "wr_boot wr" "fst (mark_worker_lost w now s)" w obs pol later]
    by (simp add: fenced_at_def lost_record_def)
qed

text \<open>C34: The end of an old connection locks out a new incarnation. A connection thread that once read a
  REGISTER of a worker marks the worker id lost when its connection ends, whoever holds the id by
  then: the incarnation registered on another connection is fenced, and its snapshots are refused.\<close>

theorem late_close_fences_new_incarnation:
  assumes "i < length (sv_threads sv)" "sv_threads sv ! i = (cn, Closing)" "cn_worker_bound cn"
    and "c_running (sv_coord sv)" "om_find (fs_workers (c_store (sv_coord sv))) (cn_connected_worker cn) = Some wr"
  shows "\<exists>sv'. run_actions [Close i, Lose i now] sv = Some sv' \<and>
           om_find (fs_workers (c_store (sv_coord sv'))) (cn_connected_worker cn) = Some (lost_record wr) \<and>
           snd (ingest_snapshot (cn_connected_worker cn) obs pol later (c_store (sv_coord sv')))
             = Inl (error_result NotAuthoritative ''worker is fenced/lost'')"
  using assms lost_worker_refused [OF assms(5)] by (simp add: close_step_def lose_step_def Let_def)

definition ex_restarted :: FleetStateStore where
  "ex_restarted = run_ops [MarkLost (StrongId 5) 9000, Register (ex_registration\<lparr>reg_worker_boot := StrongId 8\<rparr>) 9500] ex_store"

lemma ex_restarted_worker:
  "map_option (\<lambda>wr. (wr_boot wr, wr_fenced wr, wr_lost wr)) (om_find (fs_workers ex_restarted) (StrongId 5))
     = Some (StrongId 8, False, False)"
  by code_simp

theorem late_close_fences_new_incarnation_witness:
  "\<exists>sv' wr. run_actions [Close 0, Lose 0 9600] ((server_new (ex_coord ex_restarted) (\<lambda>_. None))
       \<lparr>sv_threads := [((connection_new (ex_coord ex_store) (\<lambda>_. None))\<lparr>cn_worker_bound := True, cn_connected_worker := StrongId 5\<rparr>, Closing)]\<rparr>)
       = Some sv' \<and>
     om_find (fs_workers (c_store (sv_coord sv'))) (StrongId 5) = Some wr \<and> wr_boot wr = StrongId 8 \<and> wr_fenced wr"
proof -
  obtain wr where wr: "om_find (fs_workers ex_restarted) (StrongId 5) = Some wr" "wr_boot wr = StrongId 8"
    using ex_restarted_worker by auto
  let ?cn = "(connection_new (ex_coord ex_store) (\<lambda>_. None))\<lparr>cn_worker_bound := True, cn_connected_worker := StrongId 5\<rparr>"
  let ?sv = "(server_new (ex_coord ex_restarted) (\<lambda>_. None))\<lparr>sv_threads := [(?cn, Closing)]\<rparr>"
  have "om_find (fs_workers (c_store (sv_coord ?sv))) (cn_connected_worker ?cn) = Some wr" "c_running (sv_coord ?sv)"
    using wr by (simp_all add: server_new_def ex_coord_def)
  with late_close_fences_new_incarnation [of 0 ?sv ?cn wr 9600 "[]" ObservationPolicy_default 9700]
  obtain sv' where "run_actions [Close 0, Lose 0 9600] ?sv = Some sv'"
    "om_find (fs_workers (c_store (sv_coord sv'))) (StrongId 5) = Some (lost_record wr)" by auto
  then show ?thesis using wr(2) by (intro exI conjI) (assumption, assumption, simp_all add: lost_record_def)
qed

text \<open>C35: The liveness thread decides on a snapshot it took earlier: a worker that was late in the snapshot is
  marked lost and fenced even if a heartbeat or a new registration came in since, and its snapshots
  are refused.\<close>

theorem liveness_decides_on_old_snapshot:
  assumes "sv_liveness sv = Marking now ((w, old) # ws)" "expired now (co_heartbeat_timeout_ms (c_opts (sv_coord sv))) old"
    and "om_find (fs_workers (c_store (sv_coord sv))) w = Some wr"
  shows "\<exists>sv'. act Mark sv = Some sv' \<and> om_find (fs_workers (c_store (sv_coord sv'))) w = Some (lost_record wr) \<and>
           snd (ingest_snapshot w obs pol later (c_store (sv_coord sv')))
             = Inl (error_result NotAuthoritative ''worker is fenced/lost'')"
  using assms lost_worker_refused [OF assms(3)] by (simp add: mark_step_def mark_expired_def)

definition ex_ticked :: server where
  "ex_ticked = the (run_actions [LivenessCheck, Tick 9000] (server_new (ex_coord ex_store) (\<lambda>_. None)))"

theorem liveness_decides_on_old_snapshot_witness:
  "\<exists>sv' wr. act Mark (ex_ticked\<lparr>sv_coord := ex_coord (run_op (Heartbeat (StrongId 5) (StrongId 7) (Generation 1) 9000 (Generation 1)) ex_store)\<rparr>)
       = Some sv' \<and> om_find (fs_workers (c_store (sv_coord sv'))) (StrongId 5) = Some wr \<and> wr_last_heartbeat wr = 9000 \<and> wr_fenced wr"
proof -
  let ?s = "run_op (Heartbeat (StrongId 5) (StrongId 7) (Generation 1) 9000 (Generation 1)) ex_store"
  have "map_option wr_last_heartbeat (om_find (fs_workers ?s) (StrongId 5)) = Some 9000" by code_simp
  then obtain wr where wr: "om_find (fs_workers ?s) (StrongId 5) = Some wr" "wr_last_heartbeat wr = 9000" by auto
  have "map (\<lambda>(w, r). (w, expired 9000 5000 r)) (fs_workers ex_store) = [(StrongId 5, True)]" by code_simp
  then obtain old where old: "fs_workers ex_store = [(StrongId 5, old)]" "expired 9000 5000 old" by auto
  have "sv_liveness ex_ticked = Marking 9000 [(StrongId 5, old)]"
    using old(1) by (simp add: ex_ticked_def liveness_check_def tick_step_def server_new_def ex_coord_def snapshot_workers)
  with liveness_decides_on_old_snapshot [of "ex_ticked\<lparr>sv_coord := ex_coord ?s\<rparr>" 9000 "StrongId 5" old "[]" wr "[]" ObservationPolicy_default 9700] wr old(2)
  show ?thesis by (auto simp: ex_coord_def ex_options_def lost_record_def)
qed


subsection \<open>Stopping\<close>

text \<open>
  Once \<^verbatim>\<open>running_\<close> is cleared no thread starts another round. A thread inside a receive, an accept or a sleep
  may still come back with work; after that its steps are counted.
\<close>

definition open_ends :: "server \<Rightarrow> nat" where
  "open_ends sv =
     length (filter (\<lambda>th. snd th = Receiving) (sv_threads sv)) +
     (if sv_accepting sv = InAccept then 1 else 0) + (if sv_liveness sv = Sleeping then 1 else 0)"

definition phase_work :: "phase \<Rightarrow> nat" where
  "phase_work ph =
     (case ph of LoopHead \<Rightarrow> 2 | Receiving \<Rightarrow> 0 | Handling fs res \<Rightarrow> length fs + 3 | Closing \<Rightarrow> 1 | Losing \<Rightarrow> 1 | Finished \<Rightarrow> 0)"

definition liveness_work :: "liveness \<Rightarrow> nat" where
  "liveness_work l =
     (case l of LivenessHead \<Rightarrow> 1 | Sleeping \<Rightarrow> 0 | Marking now ws \<Rightarrow> length ws + 2 | LivenessEnded \<Rightarrow> 0)"

definition work :: "server \<Rightarrow> nat" where
  "work sv =
     (\<Sum>th\<leftarrow>sv_threads sv. phase_work (snd th)) + (if sv_accepting sv = AcceptHead then 1 else 0) +
     liveness_work (sv_liveness sv) + (if sv_stopping sv then 1 else 0)"

definition all_finished :: "server \<Rightarrow> bool" where
  "all_finished sv \<longleftrightarrow>
     list_all (\<lambda>th. snd th = Finished) (sv_threads sv) \<and> sv_accepting sv = AcceptEnded \<and>
     sv_liveness sv = LivenessEnded \<and> \<not> sv_stopping sv"

definition stopped :: "server \<Rightarrow> bool" where
  "stopped sv \<longleftrightarrow>
     \<not> c_running (sv_coord sv) \<and> (sv_stopping sv \<or> l_sock (c_listener (sv_coord sv)) = invalid_socket)"

lemma sum_list_work_update:
  "i < length ths \<Longrightarrow> phase_work ph < phase_work (snd (ths ! i)) \<Longrightarrow>
     (\<Sum>th\<leftarrow>ths[i := (cn, ph)]. phase_work (snd th)) < (\<Sum>th\<leftarrow>ths. phase_work (snd th))"
proof (induction ths arbitrary: i)
  case (Cons th ths)
  then show ?case by (cases i) auto
qed simp

lemma receiving_update:
  "i < length ths \<Longrightarrow> ph \<noteq> Receiving \<Longrightarrow>
     length (filter (\<lambda>th. snd th = Receiving) (ths[i := (cn, ph)])) + (if snd (ths ! i) = Receiving then 1 else 0)
       = length (filter (\<lambda>th. snd th = Receiving) ths)"
proof (induction ths arbitrary: i)
  case (Cons th ths)
  then show ?case by (cases i) auto
qed simp

text \<open>The relation that every step of a stopped server descends.\<close>

definition closer :: "(server \<times> server) set" where
  "closer = measures [open_ends, work]"

lemma wf_closer: "wf closer"
  by (simp add: closer_def)

lemma leave_closer:
  assumes "i < length (sv_threads sv)" "sv_threads sv ! i = (cn0, ph0)" "ph \<noteq> Receiving"
    and "ph0 = Receiving \<or> phase_work ph < phase_work ph0"
  shows "(leave i cn ph sv, sv) \<in> closer"
  using assms receiving_update [of i "sv_threads sv" ph cn] sum_list_work_update [of i "sv_threads sv" ph cn]
  by (cases "ph0 = Receiving") (simp_all add: closer_def open_ends_def work_def)

lemma handle_frame_listener: "c_listener (cn_coord (snd (handle_frame io clock f cn))) = c_listener (cn_coord cn)"
proof (cases "decode_message (frame_payload f)")
  case (Inr msg)
  obtain c' fs' reply where d: "dispatch io (clock (cn_readings cn)) msg (cn_coord cn, cn_files cn) = ((c', fs'), reply)"
    by (metis surj_pair)
  then have "c_listener c' = c_listener (cn_coord cn)"
    by (auto simp: dispatch_def Let_def split: if_splits MessageType.splits prod.splits)
  with Inr d show ?thesis by (simp add: handle_frame_def Let_def)
qed (simp add: handle_frame_def)

lemma mark_expired_keeps [simp]:
  "c_running (mark_expired now wid wr c) = c_running c" "c_listener (mark_expired now wid wr c) = c_listener c"
  by (simp_all add: mark_expired_def)


lemma accept_stepE:
  assumes "accept_step ready acc sv = Some sv'"
  obtains ths where "sv' = sv\<lparr>sv_accepting := AcceptHead, sv_threads := sv_threads sv @ ths\<rparr>" "\<forall>th\<in>set ths. snd th = LoopHead"
proof (cases "fst (tcp_accept ready acc (c_listener (sv_coord sv)))")
  case (Inl e)
  with assms that [of "[]"] show thesis by (simp add: accept_step_def split: if_splits)
next
  case (Inr st)
  with assms that [of "[(connection_new (sv_coord sv) (sv_files sv), LoopHead)]"] show thesis
    by (simp add: accept_step_def split: if_splits)
qed

lemma mark_stepE:
  assumes "mark_step sv = Some sv'"
  obtains now wid wr ws where "sv_liveness sv = Marking now ((wid, wr) # ws)"
      "sv' = sv\<lparr>sv_coord := mark_expired now wid wr (sv_coord sv), sv_liveness := Marking now ws\<rparr>"
  | now where "sv_liveness sv = Marking now []" "sv' = sv\<lparr>sv_liveness := LivenessHead\<rparr>"
  using assms by (auto simp: mark_step_def split: liveness.splits list.splits)

lemma stopped_thread_act:
  assumes "stopped sv" "act a sv = Some sv'" "\<exists>i. acts_for i a"
  shows "stopped sv' \<and> (sv', sv) \<in> closer"
proof (cases a)
  case (Check i)
  with assms(2) have "check_step i sv = Some sv'" by simp
  then show ?thesis
    by (rule check_stepE) (use assms(1) in \<open>auto intro!: leave_closer simp: phase_work_def stopped_def\<close>)
next
  case (Recv i ev)
  with assms(2) have "recv_step i ev sv = Some sv'" by simp
  then show ?thesis
    by (rule recv_stepE) (use assms(1) in \<open>auto intro!: leave_closer simp: stopped_def\<close>)
next
  case (HandleFrame i io clock)
  with assms(2) have "frame_step i io clock sv = Some sv'" by simp
  then show ?thesis
  proof (cases rule: frame_stepE)
    case (frame cn f fs res ok cn1)
    with handle_frame_running [of io clock f "enter sv cn"] handle_frame_listener [of io clock f "enter sv cn"] assms(1)
    show ?thesis by (auto intro!: leave_closer simp: phase_work_def stopped_def)
  qed (use assms(1) in \<open>auto intro!: leave_closer simp: phase_work_def stopped_def\<close>)
next
  case (Close i)
  with assms(2) have "close_step i sv = Some sv'" by simp
  then show ?thesis
    by (rule close_stepE) (use assms(1) in \<open>auto intro!: leave_closer simp: phase_work_def stopped_def\<close>)
next
  case (Lose i now)
  with assms(2) have "lose_step i now sv = Some sv'" by simp
  then show ?thesis
    by (rule lose_stepE) (use assms(1) in \<open>auto intro!: leave_closer simp: phase_work_def stopped_def\<close>)
qed (use assms(3) in simp_all)

lemma stopped_act:
  assumes "stopped sv" "act a sv = Some sv'"
  shows "stopped sv' \<and> (sv', sv) \<in> closer"
proof (cases a)
  case AcceptCheck
  with assms have "sv_accepting sv = AcceptHead" "sv' = sv\<lparr>sv_accepting := AcceptEnded\<rparr>"
    by (auto simp: accept_check_def stopped_def split: if_splits)
  with assms(1) show ?thesis by (simp add: stopped_def closer_def open_ends_def work_def split del: if_split)
next
  case (Accept ready acc)
  with assms(2) have accept: "accept_step ready acc sv = Some sv'" by simp
  then have "sv_accepting sv = InAccept" by (simp add: accept_step_def split: if_splits)
  moreover obtain ths where "sv' = sv\<lparr>sv_accepting := AcceptHead, sv_threads := sv_threads sv @ ths\<rparr>" "\<forall>th\<in>set ths. snd th = LoopHead"
    by (rule accept_stepE [OF accept])
  ultimately show ?thesis using assms(1) by (simp add: stopped_def closer_def open_ends_def filter_empty_conv)
next
  case LivenessCheck
  with assms have "sv_liveness sv = LivenessHead" "sv' = sv\<lparr>sv_liveness := LivenessEnded\<rparr>"
    by (auto simp: liveness_check_def stopped_def split: if_splits)
  with assms(1) show ?thesis by (simp add: stopped_def closer_def open_ends_def work_def liveness_work_def split del: if_split)
next
  case (Tick now)
  with assms(2) have "sv_liveness sv = Sleeping" "\<exists>ws. sv' = sv\<lparr>sv_liveness := Marking now ws\<rparr>"
    by (auto simp: tick_step_def split: if_splits)
  with assms(1) show ?thesis by (auto simp: stopped_def closer_def open_ends_def split del: if_split)
next
  case Mark
  with assms(2) have "mark_step sv = Some sv'" by simp
  then show ?thesis
    by (rule mark_stepE)
      (use assms(1) in \<open>simp_all add: stopped_def closer_def open_ends_def work_def liveness_work_def split del: if_split\<close>)
next
  case Stop
  with assms show ?thesis by (auto simp: stop_step_def stopped_def)
next
  case Shut
  with assms(2) have "sv_stopping sv"
    "sv' = sv\<lparr>sv_coord := (sv_coord sv)\<lparr>c_listener := fst (close_listener (c_listener (sv_coord sv)))\<rparr>, sv_stopping := False\<rparr>"
    by (auto simp: shut_step_def split: if_splits)
  moreover have "l_sock (fst (close_listener l)) = invalid_socket" for l by (simp add: close_listener_def)
  ultimately show ?thesis using assms(1) by (simp add: stopped_def closer_def open_ends_def work_def split del: if_split)
qed (use assms stopped_thread_act in fastforce)+

lemma stopped_run: "stopped sv \<Longrightarrow> run_actions as sv = Some sv' \<Longrightarrow> stopped sv'"
  by (induction as arbitrary: sv) (auto split: option.splits dest: stopped_act)

text \<open>No thread waits for another: as long as one has not returned, some step is possible.\<close>

lemma thread_step:
  assumes "i < length (sv_threads sv)" "snd (sv_threads sv ! i) \<noteq> Finished"
  shows "\<exists>a sv'. act a sv = Some sv'"
proof -
  obtain cn ph where th: "sv_threads sv ! i = (cn, ph)" by force
  show ?thesis
  proof (cases ph)
    case LoopHead
    with assms th have "\<exists>sv'. act (Check i) sv = Some sv'" by (simp add: check_step_def)
    then show ?thesis by blast
  next
    case Receiving
    with assms th have "\<exists>sv'. act (Recv i NoData) sv = Some sv'" by (simp add: recv_step_def Let_def)
    then show ?thesis by blast
  next
    case (Handling fs res)
    with assms th have "\<exists>sv'. act (HandleFrame i io clock) sv = Some sv'" for io clock
      by (auto simp: frame_step_def Let_def split: list.split feed_result.split prod.split bool.split)
    then show ?thesis by blast
  next
    case Closing
    with assms th have "\<exists>sv'. act (Close i) sv = Some sv'" by (simp add: close_step_def)
    then show ?thesis by blast
  next
    case Losing
    with assms th have "\<exists>sv'. act (Lose i 0) sv = Some sv'" by (simp add: lose_step_def Let_def)
    then show ?thesis by blast
  next
    case Finished
    with assms th show ?thesis by simp
  qed
qed

lemma loop_thread_step:
  assumes "sv_accepting sv \<noteq> AcceptEnded \<or> sv_liveness sv \<noteq> LivenessEnded \<or> sv_stopping sv"
  shows "\<exists>a sv'. act a sv = Some sv'"
proof -
  have "\<exists>sv'. act AcceptCheck sv = Some sv'" if "sv_accepting sv = AcceptHead" using that by (simp add: accept_check_def)
  moreover have "\<exists>sv'. act (Accept False (Inr 0)) sv = Some sv'" if "sv_accepting sv = InAccept"
    using that by (simp add: accept_step_def split: sum.split)
  moreover have "\<exists>sv'. act LivenessCheck sv = Some sv'" if "sv_liveness sv = LivenessHead" using that by (simp add: liveness_check_def)
  moreover have "\<exists>sv'. act (Tick 0) sv = Some sv'" if "sv_liveness sv = Sleeping" using that by (simp add: tick_step_def)
  moreover have "\<exists>sv'. act Mark sv = Some sv'" if "sv_liveness sv = Marking now ws" for now ws
    using that by (auto simp: mark_step_def split: list.split)
  moreover have "\<exists>sv'. act Shut sv = Some sv'" if "sv_stopping sv" using that by (simp add: shut_step_def)
  ultimately show ?thesis using assms by (cases "sv_accepting sv"; cases "sv_liveness sv") blast+
qed

lemma some_step: "\<not> all_finished sv \<Longrightarrow> \<exists>a sv'. act a sv = Some sv'"
  using thread_step [of _ sv] loop_thread_step [of sv] by (auto simp: all_finished_def list_all_length)

lemma stopped_finishes:
  "stopped sv \<Longrightarrow> \<exists>as sv'. run_actions as sv = Some sv' \<and> all_finished sv'"
proof (induction sv rule: wf_induct_rule [OF wf_closer])
  case (1 sv)
  show ?case
  proof (cases "all_finished sv")
    case True
    then show ?thesis by (intro exI [of _ "[]"]) simp
  next
    case False
    then obtain a sv1 where a: "act a sv = Some sv1" using some_step by blast
    with 1(1) [of sv1] stopped_act [OF 1(2) a] obtain as sv' where "run_actions as sv1 = Some sv'" "all_finished sv'" by blast
    with a show ?thesis by (intro exI [of _ "a # as"]) simp
  qed
qed

lemma stopped_no_infinite_run:
  assumes "stopped (f 0)" "\<forall>n. act (as n) (f n) = Some (f (Suc n))"
  shows False
proof -
  have "stopped (f n)" for n
    using assms stopped_act by (induction n) blast+
  with assms(2) stopped_act have "(f (Suc n), f n) \<in> closer" for n by blast
  with wf_closer show False by (auto simp: wf_iff_no_infinite_down_chain)
qed



end
