(* ===== verification/Save_Steps.thy ===== *)
theory Save_Steps
  imports Persistence
begin

text \<open>
  \<^verbatim>\<open>save_snapshot\<close> of \<^verbatim>\<open>persistence/store.hpp\<close> call by call. \<open>Persistence\<close> has the whole save as one function of the
  files; here each call of the C library is a step, so that a crash between two calls and a second
  save at the same time can be looked at. An open stream refers to a file and not to its name, so
  names and files are apart: a name leads to a file number, and the file has the contents. Whether a call
  succeeds is an argument of its step; a rename also fails when there is nothing of that name.
\<close>

subsection \<open>The disk\<close>

record disk =
  names :: "string \<rightharpoonup> nat"
  contents :: "nat \<Rightarrow> bytes"
  fresh :: nat

text \<open>The files as \<open>Persistence\<close> sees them.\<close>

definition files_of :: "disk \<Rightarrow> files" where
  "files_of d p = map_option (contents d) (names d p)"

text \<open>Every file has one name, and the next number is not in use.\<close>

definition disk_ok :: "disk \<Rightarrow> bool" where
  "disk_ok d \<longleftrightarrow>
     (\<forall>p q n. names d p = Some n \<and> names d q = Some n \<longrightarrow> p = q) \<and> (\<forall>p n. names d p = Some n \<longrightarrow> n < fresh d)"

text \<open>Opening for writing empties the file of that name, or makes a new one.\<close>

definition open_for_write :: "string \<Rightarrow> disk \<Rightarrow> nat \<times> disk" where
  "open_for_write p d =
     (case names d p of
        Some n \<Rightarrow> (n, d\<lparr>contents := (contents d)(n := [])\<rparr>)
      | None \<Rightarrow> (fresh d, \<lparr>names = (names d)(p \<mapsto> fresh d), contents = (contents d)(fresh d := []), fresh = fresh d + 1\<rparr>))"

text \<open>Writing at a position replaces what is there and extends the file; a gap is filled with zeros.\<close>

definition write_at :: "nat \<Rightarrow> nat \<Rightarrow> bytes \<Rightarrow> disk \<Rightarrow> disk" where
  "write_at n pos data d =
     d\<lparr>contents := (contents d)(n :=
         take pos (contents d n) @ replicate (pos - length (contents d n)) 0 @ data @
         drop (pos + length data) (contents d n))\<rparr>"

definition remove_name :: "string \<Rightarrow> disk \<Rightarrow> disk" where
  "remove_name p d = d\<lparr>names := (names d)(p := None)\<rparr>"

definition rename_to :: "string \<Rightarrow> string \<Rightarrow> disk \<Rightarrow> disk" where
  "rename_to p q d = d\<lparr>names := (names d)(q := names d p, p := None)\<rparr>"

subsection \<open>A save in progress\<close>

text \<open>The call that comes next; while the file is written, its number and how much is written.\<close>

datatype save_at =
    Opening | Writing nat nat | Renaming | Removing | RenamingAgain | Discarding Error | Saved ResultVoid

record saver =
  sa_path :: string
  sa_bytes :: bytes
  sa_at :: save_at

definition saver_new :: "string \<Rightarrow> StateSnapshot \<Rightarrow> saver" where
  "saver_new path s = \<lparr>sa_path = path, sa_bytes = store_bytes s, sa_at = Opening\<rparr>"

definition sa_tmp :: "saver \<Rightarrow> string" where
  "sa_tmp sa = sa_path sa @ ''.tmp''"

text \<open>\<open>Fwrite n\<close> is up to \<open>n\<close> more bytes on their way to the disk, in \<^verbatim>\<open>fwrite\<close>, \<^verbatim>\<open>fflush\<close> or \<^verbatim>\<open>fclose\<close>; \<open>Fclose\<close> ends the
  stream, with what \<^verbatim>\<open>fflush\<close> and \<^verbatim>\<open>fclose\<close> returned; the others are the calls of their names.\<close>

datatype save_call = Fopen bool | Fwrite nat | Fclose bool bool | Rename bool | Remove bool

fun save_step :: "save_call \<Rightarrow> saver \<times> disk \<Rightarrow> (saver \<times> disk) option" where
  "save_step (Fopen success) (sa, d) =
     (if sa_at sa \<noteq> Opening then None
      else if \<not> success
      then Some (sa\<lparr>sa_at := Saved (void_of_error (error_result Io ''cannot open temp file for write''))\<rparr>, d)
      else case open_for_write (sa_tmp sa) d of (n, d1) \<Rightarrow> Some (sa\<lparr>sa_at := Writing n 0\<rparr>, d1))"
| "save_step (Fwrite m) (sa, d) =
     (case sa_at sa of
        Writing n k \<Rightarrow>
          let data = take m (drop k (sa_bytes sa))
          in Some (sa\<lparr>sa_at := Writing n (k + length data)\<rparr>, write_at n k data d)
      | _ \<Rightarrow> None)"
| "save_step (Fclose flush close) (sa, d) =
     (case sa_at sa of
        Writing n k \<Rightarrow>
          if k \<noteq> length (sa_bytes sa) \<or> \<not> flush \<or> \<not> close
          then Some (sa\<lparr>sa_at := Discarding (error_result Io ''failed to write store file'')\<rparr>, d)
          else Some (sa\<lparr>sa_at := Renaming\<rparr>, d)
      | _ \<Rightarrow> None)"
| "save_step (Rename success) (sa, d) =
     (let renamed = Some (sa\<lparr>sa_at := Saved void_ok_result\<rparr>, rename_to (sa_tmp sa) (sa_path sa) d);
          possible = (success \<and> names d (sa_tmp sa) \<noteq> None)
      in case sa_at sa of
           Renaming \<Rightarrow> if possible then renamed else Some (sa\<lparr>sa_at := Removing\<rparr>, d)
         | RenamingAgain \<Rightarrow>
             if possible then renamed
             else Some (sa\<lparr>sa_at := Discarding (error_result Io ''failed to atomically replace store file'')\<rparr>, d)
         | _ \<Rightarrow> None)"
| "save_step (Remove success) (sa, d) =
     (case sa_at sa of
        Removing \<Rightarrow>
          Some (sa\<lparr>sa_at := RenamingAgain\<rparr>, if success then remove_name (sa_path sa) d else d)
      | Discarding e \<Rightarrow>
          Some (sa\<lparr>sa_at := Saved (void_of_error e)\<rparr>, if success then remove_name (sa_tmp sa) d else d)
      | _ \<Rightarrow> None)"

fun save_run :: "save_call list \<Rightarrow> saver \<times> disk \<Rightarrow> (saver \<times> disk) option" where
  "save_run [] sd = Some sd"
| "save_run (c # cs) sd = (case save_step c sd of None \<Rightarrow> None | Some sd1 \<Rightarrow> save_run cs sd1)"

text \<open>Several saves at once: each call is made by one of them.\<close>

definition saves_step :: "nat \<times> save_call \<Rightarrow> saver list \<times> disk \<Rightarrow> (saver list \<times> disk) option" where
  "saves_step = (\<lambda>(i, c) (sas, d).
     if i \<ge> length sas then None
     else case save_step c (sas ! i, d) of
            None \<Rightarrow> None
          | Some (sa, d1) \<Rightarrow> Some (sas[i := sa], d1))"

fun saves_run :: "(nat \<times> save_call) list \<Rightarrow> saver list \<times> disk \<Rightarrow> (saver list \<times> disk) option" where
  "saves_run [] st = Some st"
| "saves_run (ic # ics) st = (case saves_step ic st of None \<Rightarrow> None | Some st1 \<Rightarrow> saves_run ics st1)"

subsection \<open>The disk operations on the files\<close>

lemma files_of_eq_None [simp]: "files_of d p = None \<longleftrightarrow> names d p = None"
  by (simp add: files_of_def)

lemma disk_okD: "disk_ok d \<Longrightarrow> names d p = Some n \<Longrightarrow> names d q = Some n \<Longrightarrow> p = q"
  by (auto simp: disk_ok_def)

lemma disk_ok_fresh: "disk_ok d \<Longrightarrow> names d p \<noteq> Some (fresh d)"
  by (auto simp: disk_ok_def)

lemma open_for_write_files:
  assumes "disk_ok d" "open_for_write p d = (n, d1)"
  shows "disk_ok d1" "names d1 p = Some n" "files_of d1 = (files_of d)(p \<mapsto> [])"
proof -
  show "disk_ok d1" "names d1 p = Some n"
    using assms disk_ok_fresh [OF assms(1)]
    by (auto simp: open_for_write_def disk_ok_def less_Suc_eq split: option.splits if_splits)
  show "files_of d1 = (files_of d)(p \<mapsto> [])"
  proof (rule ext)
    fix q
    have "names d q \<noteq> Some n" if "q \<noteq> p"
      using that assms disk_ok_fresh [OF assms(1), of q] disk_okD [OF assms(1), of q n p]
      by (auto simp: open_for_write_def split: option.splits)
    with assms(2) show "files_of d1 q = ((files_of d)(p \<mapsto> [])) q"
      by (cases "q = p") (auto simp: open_for_write_def files_of_def map_option_case split: option.splits)
  qed
qed

lemma files_of_contents_upd:
  assumes "disk_ok d" "names d p = Some n" "names d' = names d" "contents d' = (contents d)(n := bs)"
  shows "files_of d' = (files_of d)(p \<mapsto> bs)"
proof (rule ext)
  fix q
  show "files_of d' q = ((files_of d)(p \<mapsto> bs)) q"
  proof (cases "q = p")
    case False
    then have "names d q \<noteq> Some n" using disk_okD [OF assms(1,2)] by blast
    with False assms(3,4) show ?thesis by (cases "names d q") (simp_all add: files_of_def)
  qed (use assms in \<open>simp add: files_of_def\<close>)
qed

lemma write_at_files:
  assumes "disk_ok d" "names d p = Some n"
  shows "disk_ok (write_at n k data d)" "names (write_at n k data d) = names d"
    "contents d n = take k bs \<Longrightarrow> k \<le> length bs \<Longrightarrow> data = take m (drop k bs) \<Longrightarrow>
       files_of (write_at n k data d) = (files_of d)(p \<mapsto> take (k + length data) bs)"
proof -
  show "disk_ok (write_at n k data d)" "names (write_at n k data d) = names d"
    using assms(1) by (auto simp: write_at_def disk_ok_def)
  assume c: "contents d n = take k bs" "k \<le> length bs" "data = take m (drop k bs)"
  have "take (length data) (drop k bs) = data" unfolding c(3) by (simp add: min_def)
  then have "take k bs @ data = take (k + length data) bs" by (simp add: take_add)
  with c have "contents (write_at n k data d) = (contents d)(n := take (k + length data) bs)"
    by (simp add: write_at_def)
  then show "files_of (write_at n k data d) = (files_of d)(p \<mapsto> take (k + length data) bs)"
    by (intro files_of_contents_upd [OF assms]) (simp_all add: write_at_def)
qed

lemma remove_name_files:
  "disk_ok d \<Longrightarrow> disk_ok (remove_name p d)" "files_of (remove_name p d) = (files_of d)(p := None)"
  by (auto simp: remove_name_def disk_ok_def files_of_def)

lemma rename_to_files:
  assumes "p \<noteq> q"
  shows "disk_ok d \<Longrightarrow> disk_ok (rename_to p q d)" "files_of (rename_to p q d) = io_rename p q (files_of d)"
  using assms by (auto simp: rename_to_def disk_ok_def files_of_def io_rename_def split: if_splits)

subsection \<open>A save that nobody disturbs\<close>

text \<open>What the disk holds at each call of a save that began on the files \<open>f\<close>.\<close>

definition lone :: "string \<Rightarrow> StateSnapshot \<Rightarrow> files \<Rightarrow> saver \<times> disk \<Rightarrow> bool" where
  "lone path s f = (\<lambda>(sa, d).
     disk_ok d \<and> sa_path sa = path \<and> sa_bytes sa = store_bytes s \<and>
     (let bs = store_bytes s; written = (\<lambda>k. f(path @ ''.tmp'' \<mapsto> take k bs)); full = f(path @ ''.tmp'' \<mapsto> bs)
      in case sa_at sa of
           Opening \<Rightarrow> files_of d = f
         | Writing n k \<Rightarrow> names d (path @ ''.tmp'') = Some n \<and> k \<le> length bs \<and> files_of d = written k
         | Renaming \<Rightarrow> files_of d = full
         | Removing \<Rightarrow> files_of d = full
         | RenamingAgain \<Rightarrow> \<exists>ok. files_of d = io_remove ok path full
         | Discarding e \<Rightarrow>
             e = error_result Io ''failed to write store file'' \<and> (\<exists>k\<le>length bs. files_of d = written k) \<or>
             e = error_result Io ''failed to atomically replace store file'' \<and> (\<exists>ok. files_of d = io_remove ok path full)
         | Saved r \<Rightarrow> \<exists>io. (files_of d, r) = save_snapshot io path s f))"

lemma files_of_contents: "names d p = Some n \<Longrightarrow> files_of d p = Some bs \<Longrightarrow> contents d n = bs"
  by (simp add: files_of_def)

text \<open>A save in which every call does its work, and what it comes to when some do not.\<close>

definition all_well :: "StateSnapshot \<Rightarrow> save_io" where
  "all_well s =
     \<lparr>sio_fopen = True, sio_fwrite = length (store_bytes s), sio_fflush = True, sio_fclose = True, sio_rename = True,
      sio_remove = True, sio_rename2 = True, sio_remove_tmp = True\<rparr>"

lemma save_outcomes:
  fixes path s f
  defines "tmp \<equiv> path @ ''.tmp''" and "full \<equiv> f(path @ ''.tmp'' \<mapsto> store_bytes s)"
  shows "save_snapshot ((all_well s)\<lparr>sio_fopen := False\<rparr>) path s f
      = (f, void_of_error (error_result Io ''cannot open temp file for write''))"
    and "k \<le> length (store_bytes s) \<Longrightarrow>
      save_snapshot ((all_well s)\<lparr>sio_fwrite := k, sio_fflush := False, sio_remove_tmp := ok\<rparr>) path s f
      = (io_remove ok tmp (f(tmp \<mapsto> take k (store_bytes s))), void_of_error (error_result Io ''failed to write store file''))"
    and "save_snapshot (all_well s) path s f = (io_rename tmp path full, void_ok_result)"
    and "save_snapshot ((all_well s)\<lparr>sio_rename := False, sio_remove := ok\<rparr>) path s f
      = (io_rename tmp path (io_remove ok path full), void_ok_result)"
    and "save_snapshot ((all_well s)\<lparr>sio_rename := False, sio_remove := ok, sio_rename2 := False, sio_remove_tmp := ok'\<rparr>) path s f
      = (io_remove ok' tmp (io_remove ok path full),
         void_of_error (error_result Io ''failed to atomically replace store file''))"
  by (simp_all add: save_snapshot_def all_well_def Let_def tmp_def full_def)

lemma save_outcomes_exist:
  "\<exists>io. (f, void_of_error (error_result Io ''cannot open temp file for write'')) = save_snapshot io path s f"
  "k \<le> length (store_bytes s) \<Longrightarrow>
     \<exists>io. (io_remove ok (path @ ''.tmp'') (f(path @ ''.tmp'' \<mapsto> take k (store_bytes s))),
           void_of_error (error_result Io ''failed to write store file'')) = save_snapshot io path s f"
  "\<exists>io. (io_rename (path @ ''.tmp'') path (f(path @ ''.tmp'' \<mapsto> store_bytes s)), void_ok_result) = save_snapshot io path s f"
  "\<exists>io. (io_rename (path @ ''.tmp'') path (io_remove ok path (f(path @ ''.tmp'' \<mapsto> store_bytes s))), void_ok_result)
     = save_snapshot io path s f"
  "\<exists>io. (io_remove ok' (path @ ''.tmp'') (io_remove ok path (f(path @ ''.tmp'' \<mapsto> store_bytes s))),
         void_of_error (error_result Io ''failed to atomically replace store file'')) = save_snapshot io path s f"
  using save_outcomes(1) save_outcomes(2) save_outcomes(3) save_outcomes(4) save_outcomes(5) by metis+

lemma lone_rename:
  assumes "lone path s f (sa, d)" "save_step (Rename success) (sa, d) = Some (sa', d')"
  shows "lone path s f (sa', d')"
proof -
  let ?tmp = "path @ ''.tmp''" and ?full = "f(path @ ''.tmp'' \<mapsto> store_bytes s)"
  have ok: "disk_ok d" "sa_path sa = path" "sa_bytes sa = store_bytes s" "sa_tmp sa = ?tmp"
    using assms(1) by (auto simp: lone_def sa_tmp_def Let_def)
  note ren = rename_to_files [OF tmp_not_path(1), where d = d]
  have at: "sa_at sa = Renaming \<and> files_of d = ?full \<or>
      sa_at sa = RenamingAgain \<and> (\<exists>rm. files_of d = io_remove rm path ?full)"
    using assms by (auto simp: lone_def Let_def split: save_at.splits)
  then have "files_of d ?tmp = Some (store_bytes s)" by (auto simp: io_remove_def)
  then have tmp: "\<exists>n. names d ?tmp = Some n" by (auto simp: files_of_def)
  have saved: "lone path s f (sa\<lparr>sa_at := Saved void_ok_result\<rparr>, rename_to ?tmp path d)"
    using at
  proof
    assume "sa_at sa = Renaming \<and> files_of d = ?full"
    with ok(1-3) ren save_outcomes_exist(3) show ?thesis by (simp add: lone_def Let_def)
  next
    assume "sa_at sa = RenamingAgain \<and> (\<exists>rm. files_of d = io_remove rm path ?full)"
    then obtain rm where "files_of d = io_remove rm path ?full" by blast
    with ok(1-3) ren save_outcomes_exist(4) show ?thesis by (simp add: lone_def Let_def)
  qed
  from at show ?thesis
  proof
    assume "sa_at sa = Renaming \<and> files_of d = ?full"
    with assms(2) ok tmp saved show ?thesis by (cases success) (auto simp: lone_def Let_def)
  next
    assume "sa_at sa = RenamingAgain \<and> (\<exists>rm. files_of d = io_remove rm path ?full)"
    with assms(2) ok tmp saved show ?thesis by (cases success) (auto simp: lone_def Let_def)
  qed
qed

lemma lone_remove:
  assumes "lone path s f (sa, d)" "save_step (Remove success) (sa, d) = Some (sa', d')"
  shows "lone path s f (sa', d')"
proof -
  have ok: "disk_ok d" "sa_path sa = path" "sa_bytes sa = store_bytes s" "sa_tmp sa = path @ ''.tmp''"
    using assms(1) by (auto simp: lone_def sa_tmp_def Let_def)
  have rm: "files_of (if success then remove_name p d else d) = io_remove success p (files_of d)"
    "disk_ok (if success then remove_name p d else d)" for p
    using remove_name_files [where d = d] ok(1) by (simp_all add: io_remove_def)
  show ?thesis
  proof (cases "sa_at sa")
    case Removing
    with assms ok rm show ?thesis by (auto simp: lone_def Let_def)
  next
    case (Discarding e)
    with assms have "sa' = sa\<lparr>sa_at := Saved (void_of_error e)\<rparr>" "d' = (if success then remove_name (path @ ''.tmp'') d else d)"
      using ok(4) by auto
    moreover have "\<exists>io. (io_remove success (path @ ''.tmp'') (files_of d), void_of_error e) = save_snapshot io path s f"
      using assms(1) Discarding save_outcomes_exist(2,5) by (auto simp: lone_def Let_def)
    ultimately show ?thesis using ok rm by (simp add: lone_def Let_def split del: if_split)
  qed (use assms(2) in auto)
qed

lemma lone_step:
  assumes "lone path s f (sa, d)" "save_step c (sa, d) = Some (sa', d')"
  shows "lone path s f (sa', d')"
proof -
  let ?tmp = "path @ ''.tmp''" and ?bs = "store_bytes s"
  have ok: "disk_ok d" "sa_path sa = path" "sa_bytes sa = ?bs" "sa_tmp sa = ?tmp"
    using assms(1) by (auto simp: lone_def sa_tmp_def Let_def)
  show ?thesis
  proof (cases c)
    case (Fopen success)
    obtain n d1 where o: "open_for_write ?tmp d = (n, d1)" by force
    with open_for_write_files [OF ok(1) o] assms Fopen ok save_outcomes_exist(1) show ?thesis
      by (cases success) (auto simp: lone_def Let_def split: if_splits)
  next
    case (Fwrite m)
    then obtain n k where w: "sa_at sa = Writing n k" "names d ?tmp = Some n" "k \<le> length ?bs"
      "files_of d = f(?tmp \<mapsto> take k ?bs)"
      using assms ok by (auto simp: lone_def Let_def split: save_at.splits)
    then have "contents d n = take k ?bs" using files_of_contents [of d ?tmp n] by simp
    with write_at_files [OF ok(1) w(2)] w assms(2) Fwrite ok show ?thesis
      by (auto simp: lone_def Let_def)
  next
    case (Fclose flush close)
    with assms ok show ?thesis by (auto simp: lone_def Let_def split: save_at.splits if_splits)
  qed (use assms lone_rename lone_remove in blast)+
qed


lemma lone_start: "disk_ok d \<Longrightarrow> lone path s (files_of d) (saver_new path s, d)"
  by (simp add: lone_def saver_new_def Let_def)

lemma lone_run: "lone path s f (sa, d) \<Longrightarrow> save_run cs (sa, d) = Some (sa', d') \<Longrightarrow> lone path s f (sa', d')"
proof (induction cs arbitrary: sa d)
  case (Cons c cs)
  then obtain sa1 d1 where "save_step c (sa, d) = Some (sa1, d1)" "save_run cs (sa1, d1) = Some (sa', d')"
    by (auto split: option.splits)
  with Cons.IH [of sa1 d1] lone_step [OF Cons.prems(1)] show ?case by blast
qed simp

lemma save_run_append:
  "save_run (cs @ cs') sd = (case save_run cs sd of None \<Rightarrow> None | Some sd1 \<Rightarrow> save_run cs' sd1)"
  by (induction cs arbitrary: sd) (simp_all split: option.split)

text \<open>The calls of a save for given outcomes.\<close>

definition calls_of :: "save_io \<Rightarrow> StateSnapshot \<Rightarrow> save_call list" where
  "calls_of io s =
     (if \<not> sio_fopen io then [Fopen False]
      else [Fopen True, Fwrite (sio_fwrite io), Fclose (sio_fflush io) (sio_fclose io)] @
        (if sio_fwrite io < length (store_bytes s) \<or> \<not> sio_fflush io \<or> \<not> sio_fclose io then [Remove (sio_remove_tmp io)]
         else if sio_rename io then [Rename True]
         else [Rename False, Remove (sio_remove io), Rename (sio_rename2 io)] @
           (if sio_rename2 io then [] else [Remove (sio_remove_tmp io)])))"

text \<open>The file is open and written as far as \<^verbatim>\<open>fwrite\<close> got.\<close>

lemma run_until_written:
  assumes "disk_ok d"
  obtains n d1 where
    "save_run [Fopen True, Fwrite m] (saver_new path s, d)
       = Some ((saver_new path s)\<lparr>sa_at := Writing n (min m (length (store_bytes s)))\<rparr>, d1)"
    "disk_ok d1" "names d1 (path @ ''.tmp'') = Some n"
    "files_of d1 = (files_of d)(path @ ''.tmp'' \<mapsto> take m (store_bytes s))"
proof -
  obtain n d0 where o: "open_for_write (path @ ''.tmp'') d = (n, d0)" by force
  note d0 = open_for_write_files [OF assms o]
  then have "contents d0 n = take 0 (store_bytes s)" using files_of_contents [OF d0(2)] by simp
  note d1 = write_at_files(1,2) [OF d0(1,2)] write_at_files(3) [OF d0(1,2) this, of "take m (store_bytes s)" m]
  have "take (min m (length (store_bytes s))) (store_bytes s) = take m (store_bytes s)" by (simp add: min_def)
  with d0 d1 o that [of n "write_at n 0 (take m (store_bytes s)) d0"] show thesis
    by (simp add: saver_new_def sa_tmp_def Let_def min.commute)
qed

lemma remove_if_files:
  "files_of (if ok then remove_name p d else d) = io_remove ok p (files_of d)"
  "names (if ok then remove_name p d else d) = (if ok then (names d)(p := None) else names d)"
  by (simp_all add: io_remove_def remove_name_def files_of_def fun_eq_iff)

text \<open>The calls after the stream is closed.\<close>

lemma run_after_write:
  assumes "sa_at sa = Writing n k" "k \<noteq> length (sa_bytes sa) \<or> \<not> flush \<or> \<not> close"
  shows "save_run [Fclose flush close, Remove ok] (sa, d) =
    Some (sa\<lparr>sa_at := Saved (void_of_error (error_result Io ''failed to write store file''))\<rparr>,
          if ok then remove_name (sa_tmp sa) d else d)"
  using assms by (simp add: sa_tmp_def)

lemma run_renames:
  assumes "sa_at sa = Renaming" "names d (sa_tmp sa) \<noteq> None"
  shows "save_run [Rename True] (sa, d) = Some (sa\<lparr>sa_at := Saved void_ok_result\<rparr>, rename_to (sa_tmp sa) (sa_path sa) d)"
    and "save_run [Rename False, Remove ok, Rename True] (sa, d) =
      Some (sa\<lparr>sa_at := Saved void_ok_result\<rparr>,
            rename_to (sa_tmp sa) (sa_path sa) (if ok then remove_name (sa_path sa) d else d))"
    and "save_run [Rename False, Remove ok, Rename False, Remove ok'] (sa, d) =
      Some (sa\<lparr>sa_at := Saved (void_of_error (error_result Io ''failed to atomically replace store file''))\<rparr>,
            (let d1 = if ok then remove_name (sa_path sa) d else d in if ok' then remove_name (sa_tmp sa) d1 else d1))"
  using assms by (auto simp: sa_tmp_def remove_name_def Let_def)

lemma calls_of_run:
  assumes "disk_ok d"
  shows "\<exists>sa d'. save_run (calls_of io s) (saver_new path s, d) = Some (sa, d') \<and>
           sa_at sa = Saved (snd (save_snapshot io path s (files_of d))) \<and>
           files_of d' = fst (save_snapshot io path s (files_of d))"
proof (cases "sio_fopen io")
  case False
  then show ?thesis by (simp add: calls_of_def saver_new_def save_snapshot_def Let_def)
next
  case True
  obtain n d1 where d1: "save_run [Fopen True, Fwrite (sio_fwrite io)] (saver_new path s, d)
       = Some ((saver_new path s)\<lparr>sa_at := Writing n (min (sio_fwrite io) (length (store_bytes s)))\<rparr>, d1)"
    "disk_ok d1" "names d1 (path @ ''.tmp'') = Some n"
    "files_of d1 = (files_of d)(path @ ''.tmp'' \<mapsto> take (sio_fwrite io) (store_bytes s))"
    using run_until_written [OF assms] by blast
  let ?w = "(saver_new path s)\<lparr>sa_at := Writing n (min (sio_fwrite io) (length (store_bytes s)))\<rparr>"
  have sa: "sa_path (saver_new path s) = path" "sa_tmp (saver_new path s) = path @ ''.tmp''"
    "sa_bytes (saver_new path s) = store_bytes s" "\<And>x. sa_tmp (sa_at_update x (saver_new path s)) = path @ ''.tmp''"
    by (simp_all add: saver_new_def sa_tmp_def)
  have rest: "save_run ([Fopen True, Fwrite (sio_fwrite io)] @ cs) (saver_new path s, d) = save_run cs (?w, d1)" for cs
    unfolding save_run_append d1(1) by simp
  show ?thesis
  proof (cases "sio_fwrite io < length (store_bytes s) \<or> \<not> sio_fflush io \<or> \<not> sio_fclose io")
    case bad: True
    have "calls_of io s = [Fopen True, Fwrite (sio_fwrite io)] @ [Fclose (sio_fflush io) (sio_fclose io), Remove (sio_remove_tmp io)]"
      using True bad by (simp add: calls_of_def)
    moreover have "save_run [Fclose (sio_fflush io) (sio_fclose io), Remove (sio_remove_tmp io)] (?w, d1) =
      Some ((saver_new path s)\<lparr>sa_at := Saved (void_of_error (error_result Io ''failed to write store file''))\<rparr>,
            if sio_remove_tmp io then remove_name (path @ ''.tmp'') d1 else d1)"
      using run_after_write [of ?w n _ "sio_fflush io" "sio_fclose io" "sio_remove_tmp io" d1] bad sa by auto
    moreover have "save_snapshot io path s (files_of d) = (io_remove (sio_remove_tmp io) (path @ ''.tmp'') (files_of d1),
        void_of_error (error_result Io ''failed to write store file''))"
      using True bad d1(4) by (auto simp: save_snapshot_def Let_def min_def)
    ultimately show ?thesis by (simp add: rest remove_if_files del: save_run.simps append.simps)
  next
    case good: False
    then have full: "files_of d1 = (files_of d)(path @ ''.tmp'' \<mapsto> store_bytes s)" using d1(4) by simp
    let ?r = "(saver_new path s)\<lparr>sa_at := Renaming\<rparr>"
    have closed: "save_run (Fclose (sio_fflush io) (sio_fclose io) # cs) (?w, d1) = save_run cs (?r, d1)" for cs
      using good sa by simp
    have r: "sa_at ?r = Renaming" "names d1 (sa_tmp ?r) \<noteq> None" using sa d1(3) by simp_all
    note run = run_renames [OF r]
    note files = rename_to_files [OF tmp_not_path(1)] remove_if_files
    show ?thesis
    proof (cases "sio_rename io")
      case ren: True
      have "calls_of io s = [Fopen True, Fwrite (sio_fwrite io)] @ Fclose (sio_fflush io) (sio_fclose io) # [Rename True]"
        using True good ren by (simp add: calls_of_def)
      moreover have "save_snapshot io path s (files_of d) = (io_rename (path @ ''.tmp'') path (files_of d1), void_ok_result)"
        using True good ren full by (simp add: save_snapshot_def Let_def)
      ultimately show ?thesis
        by (simp add: rest closed run(1) sa files del: save_run.simps append.simps)
    next
      case ren: False
      have calls: "calls_of io s = [Fopen True, Fwrite (sio_fwrite io)] @ Fclose (sio_fflush io) (sio_fclose io) #
          (if sio_rename2 io then [Rename False, Remove (sio_remove io), Rename True]
           else [Rename False, Remove (sio_remove io), Rename False, Remove (sio_remove_tmp io)])"
        using True good ren by (simp add: calls_of_def)
      have saved: "save_snapshot io path s (files_of d) =
          (let fs = io_remove (sio_remove io) path (files_of d1)
           in if sio_rename2 io then (io_rename (path @ ''.tmp'') path fs, void_ok_result)
              else (io_remove (sio_remove_tmp io) (path @ ''.tmp'') fs,
                    void_of_error (error_result Io ''failed to atomically replace store file'')))"
        using True good ren full by (simp add: save_snapshot_def Let_def)
      show ?thesis
        unfolding calls saved
        by (cases "sio_rename2 io")
          (simp_all add: rest closed run(2,3) sa files Let_def del: save_run.simps append.simps split del: if_split)
    qed
  qed
qed

text \<open>C16: A save taken call by call, with nobody else at the disk, has the outcomes of save_snapshot and no others:
  every way the calls can go ends in the files and the result that save_snapshot has for some outcomes
  of the calls, and for all outcomes there are calls that end there.\<close>

theorem save_steps_refine_save_snapshot:
  assumes "disk_ok d"
  shows "(\<forall>cs sa d' r. save_run cs (saver_new path s, d) = Some (sa, d') \<and> sa_at sa = Saved r \<longrightarrow>
            (\<exists>io. save_snapshot io path s (files_of d) = (files_of d', r))) \<and>
         (\<forall>io. \<exists>cs sa d'. save_run cs (saver_new path s, d) = Some (sa, d') \<and>
            sa_at sa = Saved (snd (save_snapshot io path s (files_of d))) \<and>
            files_of d' = fst (save_snapshot io path s (files_of d)))"
proof (intro conjI allI impI)
  fix cs sa d' r
  assume run: "save_run cs (saver_new path s, d) = Some (sa, d') \<and> sa_at sa = Saved r"
  then have "lone path s (files_of d) (sa, d')" using lone_run [OF lone_start [OF assms]] by blast
  with run show "\<exists>io. save_snapshot io path s (files_of d) = (files_of d', r)"
    by (auto simp: lone_def Let_def intro: sym)
next
  fix io
  show "\<exists>cs sa d'. save_run cs (saver_new path s, d) = Some (sa, d') \<and>
      sa_at sa = Saved (snd (save_snapshot io path s (files_of d))) \<and>
      files_of d' = fst (save_snapshot io path s (files_of d))"
    using calls_of_run [OF assms] by blast
qed

lemma save_snapshot_lost:
  "fst (save_snapshot io path s f) path \<in> {f path, Some (store_bytes s)} \<or>
   fst (save_snapshot io path s f) path = None \<and>
   snd (save_snapshot io path s f) = void_of_error (error_result Io ''failed to atomically replace store file'')"
  by (simp add: save_snapshot_def Let_def io_remove_def io_rename_def)

text \<open>C15: A crash in the middle of a save. Whatever call a save has come to, if no other save is at work, the file at the
  path is the old one or the complete new one, or it is gone: that needs a rename that failed, and until
  the save itself gives up the complete new state is in the temporary file. No other file changes.\<close>

theorem crash_leaves_old_or_new:
  assumes "disk_ok d" "save_run cs (saver_new path s, d) = Some (sa, d')"
  shows "(files_of d' path \<in> {files_of d path, Some (store_bytes s)} \<or>
          files_of d' path = None \<and>
            (sa_at sa \<in> {RenamingAgain, Discarding (error_result Io ''failed to atomically replace store file'')} \<and>
               files_of d' (path @ ''.tmp'') = Some (store_bytes s) \<or>
             sa_at sa = Saved (void_of_error (error_result Io ''failed to atomically replace store file'')))) \<and>
         (p = path \<or> p = path @ ''.tmp'' \<or> files_of d' p = files_of d p)"
proof -
  have lone: "lone path s (files_of d) (sa, d')" by (rule lone_run [OF lone_start [OF assms(1)] assms(2)])
  show ?thesis
  proof (cases "sa_at sa")
    case (Saved r)
    with lone have "\<exists>io. (files_of d', r) = save_snapshot io path s (files_of d)" by (auto simp: lone_def Let_def)
    then obtain io where "(files_of d', r) = save_snapshot io path s (files_of d)" by blast
    then have "files_of d' = fst (save_snapshot io path s (files_of d))" "r = snd (save_snapshot io path s (files_of d))"
      by (metis fst_conv) (metis \<open>(files_of d', r) = _\<close> snd_conv)
    with Saved save_snapshot_lost [of io path s "files_of d"] save_snapshot_others [of p path io s "files_of d"]
    show ?thesis by (auto simp del: files_of_eq_None)
  qed (use lone in \<open>auto simp: lone_def Let_def io_remove_def simp del: files_of_eq_None split: if_splits\<close>)
qed


definition ex_disk :: disk where
  "ex_disk = \<lparr>names = [''f'' \<mapsto> 0], contents = (\<lambda>_. [1, 2, 3]), fresh = 1\<rparr>"

definition ex_saved :: StateSnapshot where
  "ex_saved = snapshot (FleetStateStore_init (StrongId 1) (Generation 1))"

lemma ex_disk_ok: "disk_ok ex_disk"
  by (auto simp: ex_disk_def disk_ok_def)

theorem save_steps_refine_save_snapshot_witness:
  "\<exists>cs sa d'. save_run cs (saver_new ''f'' ex_saved, ex_disk) = Some (sa, d') \<and> sa_at sa = Saved void_ok_result \<and>
     files_of d' ''f'' = Some (store_bytes ex_saved)"
proof -
  have well: "save_snapshot (all_well ex_saved) ''f'' ex_saved (files_of ex_disk) =
      (io_rename ''f.tmp'' ''f'' ((files_of ex_disk)(''f.tmp'' \<mapsto> store_bytes ex_saved)), void_ok_result)"
    using save_outcomes(3) [of ex_saved "''f''" "files_of ex_disk"] by simp
  obtain cs sa d' where "save_run cs (saver_new ''f'' ex_saved, ex_disk) = Some (sa, d')"
    "sa_at sa = Saved void_ok_result"
    "files_of d' = io_rename ''f.tmp'' ''f'' ((files_of ex_disk)(''f.tmp'' \<mapsto> store_bytes ex_saved))"
    using conjunct2 [OF save_steps_refine_save_snapshot [OF ex_disk_ok, of "''f''" ex_saved], THEN spec, of "all_well ex_saved"]
    unfolding well by auto
  moreover from this(3) have "files_of d' ''f'' = Some (store_bytes ex_saved)" by (simp add: io_rename_def)
  ultimately show ?thesis by blast
qed

theorem crash_leaves_old_or_new_witness:
  "\<exists>sa d'. save_run [Fopen True, Fwrite 5] (saver_new ''f'' ex_saved, ex_disk) = Some (sa, d') \<and>
     sa_at sa = Writing 1 (min 5 (length (store_bytes ex_saved))) \<and> files_of d' ''f'' = Some [1, 2, 3]"
proof -
  obtain sa d' where run: "save_run [Fopen True, Fwrite 5] (saver_new ''f'' ex_saved, ex_disk) = Some (sa, d')"
    "sa_at sa = Writing 1 (min 5 (length (store_bytes ex_saved)))" "files_of d' ''f'' \<noteq> Some (store_bytes ex_saved)"
    by (simp add: saver_new_def sa_tmp_def open_for_write_def ex_disk_def write_at_def Let_def files_of_def store_bytes_def
        kStoreMagic_def put_u32_def min.commute)
  with crash_leaves_old_or_new [OF ex_disk_ok run(1), of "''f''"] show ?thesis
    by (auto simp: files_of_def ex_disk_def)
qed

subsection \<open>Two saves at once\<close>

text \<open>C36: Two saves at the same time can delete the state. Nothing keeps two connections from saving at once, and both
  use one temporary name: if the second has written its file before the first renames, the second finds
  nothing to rename, takes that for a refusal to overwrite, removes the file the first has just put
  in place and fails again. No call failed that could have succeeded, both results read as ok, and
  there is no state file any more.\<close>

theorem concurrent_saves_delete_state:
  "\<exists>sa1 sa2 r d'. saves_run
      [(0, Fopen True), (0, Fwrite (length (store_bytes s1))), (0, Fclose True True),
       (1, Fopen True), (1, Fwrite (length (store_bytes s2))), (1, Fclose True True),
       (0, Rename True), (1, Rename True), (1, Remove True), (1, Rename True), (1, Remove True)]
      ([saver_new path s1, saver_new path s2], d) = Some ([sa1, sa2], d') \<and>
    sa_at sa1 = Saved void_ok_result \<and> sa_at sa2 = Saved r \<and> void_ok r \<and>
    files_of d' path = None \<and> files_of d' (path @ ''.tmp'') = None \<and>
    load_snapshot lio path (files_of d') = Inl (error_result Io ''cannot open store file'')"
proof (cases "names d (path @ ''.tmp'')")
  case None
  then show ?thesis
    by (simp add: saves_step_def saver_new_def sa_tmp_def open_for_write_def write_at_def rename_to_def remove_name_def
        files_of_def load_snapshot_def Let_def)
next
  case (Some n)
  then show ?thesis
    by (simp add: saves_step_def saver_new_def sa_tmp_def open_for_write_def write_at_def rename_to_def remove_name_def
        files_of_def load_snapshot_def Let_def)
qed

end
