(* ===== verification/Cuda.thy ===== *)
theory Cuda
  imports Complex_Main Device_Backend "HOL-Library.Signed_Division"
begin

text \<open>
  \<^verbatim>\<open>cuda/cuda_validation.cpp\<close>, \<^verbatim>\<open>cuda/cuda_backend.cpp\<close> and \<^verbatim>\<open>cuda/cuda_disabled.cpp\<close>: the validation
  run on a device and the backend that probes CUDA devices. The CUDA runtime is not part of the
  repository; what its calls return is an input of the model. A \<^verbatim>\<open>cudaError_t\<close> is \<open>None\<close> for
  \<^verbatim>\<open>cudaSuccess\<close> and otherwise the text of \<^verbatim>\<open>cudaGetErrorString\<close>.
\<close>

type_synonym cudaError = "string option"

subsection \<open>The kernel and the comparison with the reference\<close>

definition kElements :: nat where
  "kElements = 1048576"

definition kBlock :: nat where
  "kBlock = 256"

definition kMaxJustifiedDelta :: int where
  "kMaxJustifiedDelta = 16 * 1024 * 1024"

text \<open>The values of a \<^verbatim>\<open>float\<close>.\<close>

datatype f32 = NaN | Infinite bool | Finite rat

text \<open>
  One thread of the kernel. The inputs are integers below 97, so the product and the sum are exact.
\<close>

definition add_scaled_kernel :: "(nat \<Rightarrow> rat) \<Rightarrow> nat \<Rightarrow> nat \<times> nat \<Rightarrow> (nat \<Rightarrow> rat) \<Rightarrow> nat \<Rightarrow> rat" where
  "add_scaled_kernel inp n th out =
     (case th of (block, thread) \<Rightarrow>
        let i = block * kBlock + thread in if i < n then out(i := inp i * 2 + 1) else out)"

definition grid_blocks :: nat where
  "grid_blocks = (kElements + kBlock - 1) div kBlock"

definition h_in :: "nat \<Rightarrow> rat" where
  "h_in i = of_nat (i mod 97)"

text \<open>
  The test \<^verbatim>\<open>fabs(h_out[i] - ref) > 1e-5f\<close>; the constant is the \<^verbatim>\<open>float\<close> nearest to 0.00001. Computing
  the difference exactly gives the same answer: when the output is within a factor of two of the
  reference, which is an integer from 1 to 193, the \<^verbatim>\<open>float\<close> difference is exact, and otherwise it
  is at least one half before and after rounding. A comparison with NaN is false.
\<close>

definition tolerance :: rat where
  "tolerance = 10995116 / 2 ^ 40"

definition mismatch :: "(nat \<Rightarrow> f32) \<Rightarrow> nat \<Rightarrow> bool" where
  "mismatch h_out i =
     (case h_out i of
        NaN \<Rightarrow> False
      | Infinite _ \<Rightarrow> True
      | Finite x \<Rightarrow> \<bar>x - (h_in i * 2 + 1)\<bar> > tolerance)"

subsection \<open>The validation run\<close>

record CudaValidationResult =
  v_ok :: bool
  v_elements :: nat
  v_baseline_free :: u64
  v_baseline_used :: u64
  v_after_free :: u64
  v_after_used :: u64
  v_delta_free :: i64
  v_memory_baseline_restored :: bool
  v_alloc_ok :: bool
  v_h2d_ok :: bool
  v_kernel_ok :: bool
  v_sync_ok :: bool
  v_d2h_ok :: bool
  v_verify_ok :: bool
  v_detail :: string

definition CudaValidationResult_default :: CudaValidationResult where
  "CudaValidationResult_default =
     \<lparr>v_ok = False, v_elements = 0, v_baseline_free = 0, v_baseline_used = 0, v_after_free = 0, v_after_used = 0,
      v_delta_free = 0, v_memory_baseline_restored = False, v_alloc_ok = False, v_h2d_ok = False, v_kernel_ok = False,
      v_sync_ok = False, v_d2h_ok = False, v_verify_ok = False, v_detail = ''''\<rparr>"

text \<open>What the calls of the run return, in their order; memory queries give the free and the total bytes.\<close>

record validation_calls =
  vc_set_device :: cudaError
  vc_mem_before :: "string + u64 \<times> u64"
  vc_malloc_in :: "string + u64"
  vc_malloc_out :: "string + u64"
  vc_h2d :: cudaError
  vc_launch :: cudaError
  vc_sync :: cudaError
  vc_d2h :: "string + (nat \<Rightarrow> f32)"
  vc_free_in :: cudaError
  vc_free_out :: cudaError
  vc_mem_after :: "string + u64 \<times> u64"

text \<open>The lambda \<^verbatim>\<open>fail\<close> keeps the first message.\<close>

definition note_failure :: "string \<Rightarrow> string \<Rightarrow> string" where
  "note_failure detail msg = (if detail = '''' then msg else detail)"

text \<open>The end of the run, after the copy back: verification, release, and the memory comparison.\<close>

definition finish_validation :: "validation_calls \<Rightarrow> (nat \<Rightarrow> f32) \<Rightarrow> u64 \<Rightarrow> CudaValidationResult \<Rightarrow> CudaValidationResult" where
  "finish_validation vc h_out free_b r0 =
     (let bad = find (mismatch h_out) [0..<kElements];
          d1 = (case bad of None \<Rightarrow> '''' | Some i \<Rightarrow>
                  note_failure '''' (''D2H result did not match CPU reference at element '' @ dec_string i));
          r1 = r0\<lparr>v_verify_ok := (bad = None)\<rparr>;
          d2 = (case vc_free_out vc of None \<Rightarrow> d1 | Some e \<Rightarrow> note_failure d1 (''cudaFree failed: '' @ e))
      in case vc_mem_after vc of
           Inl e \<Rightarrow> r1\<lparr>v_ok := False, v_detail := note_failure d2 (''cudaMemGetInfo(after) failed: '' @ e)\<rparr>
         | Inr (free_after, total_after) \<Rightarrow>
             (let delta = free_after - free_b;
                  restored = (\<bar>sint delta\<bar> \<le> kMaxJustifiedDelta);
                  ok = (v_alloc_ok r1 \<and> v_h2d_ok r1 \<and> v_kernel_ok r1 \<and> v_sync_ok r1 \<and> v_d2h_ok r1 \<and> v_verify_ok r1 \<and> restored)
              in r1\<lparr>v_after_free := free_after, v_after_used := total_after - free_after, v_delta_free := delta,
                    v_memory_baseline_restored := restored, v_ok := ok,
                    v_detail := (if ok then ''CUDA validation OK: alloc, H2D, kernel, sync, D2H, CPU verify, free; mem delta '' @
                                            int_string (sint delta) @ '' bytes (bounded).''
                                 else d2)\<rparr>))"

text \<open>The result, the device pointers allocated, and the device pointers passed to \<^verbatim>\<open>cudaFree\<close>.\<close>

definition run_cuda_validation :: "validation_calls \<Rightarrow> CudaValidationResult \<times> u64 list \<times> u64 list" where
  "run_cuda_validation vc =
     (let r = CudaValidationResult_default\<lparr>v_elements := kElements\<rparr>
      in case vc_set_device vc of
           Some e \<Rightarrow> (r\<lparr>v_detail := ''cudaSetDevice failed: '' @ e\<rparr>, [], [])
         | None \<Rightarrow>
       (case vc_mem_before vc of
           Inl e \<Rightarrow> (r\<lparr>v_detail := ''cudaMemGetInfo(meminfo) failed: '' @ e\<rparr>, [], [])
         | Inr (free_b, total_b) \<Rightarrow>
       (let r1 = r\<lparr>v_baseline_free := free_b, v_baseline_used := total_b - free_b\<rparr>
        in case vc_malloc_in vc of
           Inl e \<Rightarrow> (r1\<lparr>v_detail := ''cudaMalloc(d_in) failed: '' @ e\<rparr>, [], [])
         | Inr d_in \<Rightarrow>
       (let r2 = r1\<lparr>v_alloc_ok := True\<rparr>
        in case vc_malloc_out vc of
           Inl e \<Rightarrow> (r2\<lparr>v_detail := ''cudaMalloc(d_out) failed: '' @ e\<rparr>, [d_in], [d_in])
         | Inr d_out \<Rightarrow>
       (case vc_h2d vc of
           Some e \<Rightarrow> (r2\<lparr>v_detail := ''cudaMemcpy H2D failed: '' @ e\<rparr>, [d_in, d_out], [d_in, d_out])
         | None \<Rightarrow>
       (let r3 = r2\<lparr>v_h2d_ok := True\<rparr>
        in case vc_launch vc of
           Some e \<Rightarrow> (r3\<lparr>v_detail := ''kernel launch failed: '' @ e\<rparr>, [d_in, d_out], [d_in, d_out])
         | None \<Rightarrow>
       (let r4 = r3\<lparr>v_kernel_ok := True\<rparr>
        in case vc_sync vc of
           Some e \<Rightarrow> (r4\<lparr>v_detail := ''cudaDeviceSynchronize failed: '' @ e\<rparr>, [d_in, d_out], [d_in, d_out])
         | None \<Rightarrow>
       (let r5 = r4\<lparr>v_sync_ok := True\<rparr>
        in case vc_d2h vc of
           Inl e \<Rightarrow> (r5\<lparr>v_detail := ''cudaMemcpy D2H failed: '' @ e\<rparr>, [d_in, d_out], [d_in, d_out])
         | Inr h_out \<Rightarrow>
             (finish_validation vc h_out free_b (r5\<lparr>v_d2h_ok := True\<rparr>), [d_in, d_out], [d_in, d_out])))))))))"

subsection \<open>The backend\<close>

record cudaDeviceProp =
  prop_pciDomainID :: i32
  prop_pciBusID :: i32
  prop_pciDeviceID :: i32
  prop_major :: i32
  prop_minor :: i32
  prop_totalGlobalMem :: u64

text \<open>What the CUDA runtime answers; the functions are from device ordinals.\<close>

record cuda_runtime =
  rt_device_count :: "string + i32"
  rt_properties :: "i32 \<Rightarrow> string + cudaDeviceProp"
  rt_driver_version :: "string + i32"
  rt_runtime_version :: "string + i32"
  rt_set_device :: "i32 \<Rightarrow> cudaError"
  rt_free_null :: "i32 \<Rightarrow> cudaError"
  rt_mem_info :: "i32 \<Rightarrow> string + u64 \<times> u64"
  rt_validation :: "i32 \<Rightarrow> validation_calls"

definition arch_for :: "u32 \<Rightarrow> u32 \<Rightarrow> string" where
  "arch_for major minor =
     (if major \<ge> 12 then ''blackwell'' else if major = 9 then ''hopper'' else if major = 8 then ''ampere''
      else if major = 7 then ''volta'' else if major = 6 then ''pascal'' else ''cuda'')"

definition driver_major :: "i32 \<Rightarrow> u32" where
  "driver_major v = word_of_int (sint v sdiv 1000)"

definition runtime_major :: "i32 \<Rightarrow> u32" where
  "runtime_major v = word_of_int (sint v sdiv 1000)"

definition runtime_minor :: "i32 \<Rightarrow> u32" where
  "runtime_minor v = word_of_int ((sint v sdiv 10) smod 100)"

text \<open>A variable initialised with 0 that a failing query leaves as it is.\<close>

definition or_zero :: "string + i32 \<Rightarrow> i32" where
  "or_zero q = (case q of Inl _ \<Rightarrow> 0 | Inr v \<Rightarrow> v)"

definition cuda_driver_summary :: "cuda_runtime \<Rightarrow> string" where
  "cuda_driver_summary rt =
     (let dv = or_zero (rt_driver_version rt); rv = or_zero (rt_runtime_version rt)
      in take 127 (''CUDA driver='' @ int_string (sint dv) @ '' runtime='' @ int_string (sint rv) @
           '' devices='' @ int_string (sint (or_zero (rt_device_count rt))) @
           '' driverVersion='' @ dec_string (unat (driver_major dv)) @ ''.0'' @
           '' runtimeVersion='' @ dec_string (unat (runtime_major rv)) @ ''.'' @ dec_string (unat (runtime_minor rv))) @
         (if isl (rt_driver_version rt) \<or> isl (rt_runtime_version rt) then '' (version query incomplete)'' else ''''))"

definition cuda_available :: "cuda_runtime \<Rightarrow> bool" where
  "cuda_available rt = (case rt_device_count rt of Inl _ \<Rightarrow> False | Inr count \<Rightarrow> sint count > 0)"

definition cuda_device :: "cuda_runtime \<Rightarrow> i32 \<Rightarrow> cudaDeviceProp \<Rightarrow> EnumeratedDevice" where
  "cuda_device rt ord prop =
     (let rv = or_zero (rt_runtime_version rt)
      in EnumeratedDevice_default
           \<lparr>ed_ordinal := ord, ed_present := True,
            ed_identity := DeviceIdentity_default
              \<lparr>di_vendor := Nvidia, di_vendor_name := ''NVIDIA'',
               di_pci := \<lparr>pci_domain = prop_pciDomainID prop, pci_bus = ucast (prop_pciBusID prop),
                          pci_device = ucast (prop_pciDeviceID prop), pci_function = 0\<rparr>,
               di_architecture := arch_for (prop_major prop) (prop_minor prop),
               di_compute_capability := \<lparr>cc_major = prop_major prop, cc_minor = prop_minor prop\<rparr>,
               di_total_physical_memory := prop_totalGlobalMem prop, di_numa_node := - 1,
               di_driver_version := int_string (sint (or_zero (rt_driver_version rt))),
               di_runtime_version := \<lparr>rv_major = runtime_major rv, rv_minor = runtime_minor rv\<rparr>\<rparr>\<rparr>)"

definition cuda_enumerate :: "cuda_runtime \<Rightarrow> EnumeratedDevice list Result" where
  "cuda_enumerate rt =
     (case rt_device_count rt of
        Inl e \<Rightarrow> Inl (error_result Unsupported (''cudaGetDeviceCount failed: '' @ e))
      | Inr count \<Rightarrow>
          Inr (List.map_filter
                 (\<lambda>ord. case rt_properties rt ord of Inl _ \<Rightarrow> None | Inr prop \<Rightarrow> Some (cuda_device rt ord prop))
                 (map word_of_nat [0..<nat (sint count)])))"

definition make_cap :: "u64 \<Rightarrow> string \<Rightarrow> CapabilityKind \<Rightarrow> string \<Rightarrow> string \<Rightarrow> Capability" where
  "make_cap i name kind val desc =
     \<lparr>cap_id = StrongId i, cap_name = name, cap_kind = kind, cap_value = val, cap_description = desc\<rparr>"

definition cuda_capabilities :: "DeviceIdentity \<Rightarrow> u64 \<Rightarrow> u64 \<Rightarrow> i32 \<Rightarrow> Capability list" where
  "cuda_capabilities iden total_b free_b rv =
     (let cc = di_compute_capability iden
      in [make_cap 1 capname_vendor DISCOVERED ''nvidia'' ''vendor reported by CUDA'',
          make_cap 2 capname_architecture DISCOVERED (di_architecture iden) ''architecture from compute capability'',
          make_cap 3 capname_compute_capability DISCOVERED (cc_to_string cc) ''compute capability'',
          make_cap 4 capname_total_memory DISCOVERED (dec_string (unat total_b)) ''total physical memory bytes'',
          make_cap 5 capname_usable_memory DISCOVERED (dec_string (unat free_b)) ''free memory bytes at probe'',
          make_cap 6 capname_cuda_available DISCOVERED ''true'' ''CUDA runtime initialized'',
          make_cap 7 capname_runtime DISCOVERED
            (dec_string (unat (runtime_major rv)) @ ''.'' @ dec_string (unat (runtime_minor rv))) ''CUDA runtime version'',
          make_cap 8 capname_dtypes DISCOVERED ''fp32'' ''validated dtype (fp32)'',
          make_cap 9 capname_tensor_cores INFERRED (if cc_major cc \<ge> 7 then ''true'' else ''false'')
            ''tensor cores inferred from compute capability'',
          make_cap 10 capname_unified_addressing DISCOVERED (if cc_major cc \<ge> 6 then ''true'' else ''false'')
            ''unified addressing (historical, discovered)'',
          make_cap 11 capname_graphs INFERRED ''true'' ''CUDA graphs inferred for CUDA >= 10'',
          make_cap 12 capname_cooperative_launch CapabilityKind.UNKNOWN ''unknown'' ''not queried via CUDA runtime'',
          make_cap 13 capname_kernel_execution VALIDATED ''true'' ''a real CUDA kernel executed and synchronized'',
          make_cap 14 capname_memory_roundtrip VALIDATED ''true'' ''H2D + D2H round-trip verified against CPU reference'',
          make_cap 15 capname_driver DISCOVERED (di_driver_version iden) ''CUDA driver version'',
          make_cap 16 capname_numa CapabilityKind.UNKNOWN ''unknown'' ''NUMA node not surfaced by CUDA runtime''])"

text \<open>The runtime version is not queried when the driver version query failed.\<close>

definition cuda_probe :: "cuda_runtime \<Rightarrow> EnumeratedDevice \<Rightarrow> DeviceProbe Result" where
  "cuda_probe rt dev =
     (case rt_set_device rt (ed_ordinal dev) of
        Some e \<Rightarrow> Inl (error_result Unsupported (''cudaSetDevice failed: '' @ e))
      | None \<Rightarrow>
          (case rt_free_null rt (ed_ordinal dev) of
             Some e \<Rightarrow> Inl (error_result Unsupported ''CUDA context initialization failed'')
           | None \<Rightarrow>
               (let rv = (if isl (rt_driver_version rt) then 0 else or_zero (rt_runtime_version rt))
                in case rt_mem_info rt (ed_ordinal dev) of
                     Inl e \<Rightarrow> Inl (error_result Unsupported ''cudaMemGetInfo failed'')
                   | Inr (free_b, total_b) \<Rightarrow>
                       (let v = fst (run_cuda_validation (rt_validation rt (ed_ordinal dev)))
                        in Inr (DeviceProbe_default
                             \<lparr>p_enumerated := True, p_present := True, p_cuda_init_ok := True,
                              p_driver_runtime_ok := \<not> isl (rt_driver_version rt) \<and> \<not> isl (rt_runtime_version rt),
                              p_total_memory := total_b, p_free_memory := free_b, p_used_memory := total_b - free_b,
                              p_identity := ed_identity dev, p_core_validation_ok := v_ok v,
                              p_validation_detail := v_detail v, p_memory_alloc_ok := v_alloc_ok v,
                              p_h2d_ok := v_h2d_ok v, p_kernel_exec_ok := v_kernel_ok v, p_sync_ok := v_sync_ok v,
                              p_d2h_ok := v_d2h_ok v, p_verify_ok := v_verify_ok v,
                              p_capabilities := cuda_capabilities (ed_identity dev) total_b free_b rv\<rparr>)))))"

definition cuda_backend :: "cuda_runtime \<Rightarrow> DeviceBackend" where
  "cuda_backend rt =
     \<lparr>be_name = ''cuda'', be_available = cuda_available rt, be_enumerate = cuda_enumerate rt, be_probe = cuda_probe rt\<rparr>"

text \<open>\<open>None\<close> stands for a build without CUDA, where the entry points of \<^verbatim>\<open>cuda_disabled.cpp\<close> are linked.\<close>

definition make_cuda_backend :: "cuda_runtime option \<Rightarrow> DeviceBackend option" where
  "make_cuda_backend host =
     (case host of
        None \<Rightarrow> None
      | Some rt \<Rightarrow> if cuda_available rt then Some (cuda_backend rt) else None)"

definition host_cuda_summary :: "cuda_runtime option \<Rightarrow> string" where
  "host_cuda_summary host =
     (case host of None \<Rightarrow> ''CUDA backend not built (GPUFLEETAGENT_HAVE_CUDA=0)'' | Some rt \<Rightarrow> cuda_driver_summary rt)"

subsection \<open>The backend keeps the interface\<close>

interpretation cuda: device_backend "cuda_backend rt" for rt
  by unfold_locales
    (auto simp: cuda_backend_def cuda_probe_def Let_def split: option.splits sum.splits prod.splits)

subsection \<open>The grid\<close>

definition run_grid :: "(nat \<times> nat) list \<Rightarrow> (nat \<Rightarrow> rat) \<Rightarrow> (nat \<Rightarrow> rat) \<Rightarrow> nat \<Rightarrow> rat" where
  "run_grid threads inp out = fold (add_scaled_kernel inp kElements) threads out"

lemma run_grid_threads:
  "run_grid threads inp out i =
     (if i < kElements \<and> (\<exists>(b, t)\<in>set threads. i = b * kBlock + t) then inp i * 2 + 1 else out i)"
proof (induction threads arbitrary: out)
  case (Cons th threads)
  obtain b t where "th = (b, t)" by force
  then show ?case
    using Cons.IH [of "add_scaled_kernel inp kElements th out"]
    by (auto simp: run_grid_def add_scaled_kernel_def Let_def)
qed (simp add: run_grid_def)

text \<open>In whatever order the threads of the grid run, every element is written and nothing else.\<close>

lemma run_grid_result:
  assumes "set threads = {0..<grid_blocks} \<times> {0..<kBlock}"
  shows "run_grid threads inp out i = (if i < kElements then inp i * 2 + 1 else out i)"
proof -
  have "\<exists>(b, t)\<in>set threads. i = b * kBlock + t" if "i < kElements"
  proof (rule bexI [of _ "(i div kBlock, i mod kBlock)"])
    have "i div 256 < 4096" using that by (simp add: kElements_def)
    then show "(i div kBlock, i mod kBlock) \<in> set threads"
      by (simp add: assms grid_blocks_def kElements_def kBlock_def)
  qed (simp add: kBlock_def)
  then show ?thesis by (auto simp: run_grid_threads)
qed

subsection \<open>The verdict\<close>

lemma find_none_iff: "find P [0..<n] = None \<longleftrightarrow> (\<forall>i<n. \<not> P i)"
  by (auto simp: find_None_iff)

definition output_acceptable :: "(nat \<Rightarrow> f32) \<Rightarrow> bool" where
  "output_acceptable h_out \<longleftrightarrow>
     (\<forall>i<kElements. h_out i = NaN \<or> (\<exists>x. h_out i = Finite x \<and> \<bar>x - (h_in i * 2 + 1)\<bar> \<le> tolerance))"

lemma no_mismatch: "find (mismatch h_out) [0..<kElements] = None \<longleftrightarrow> output_acceptable h_out"
proof -
  have "\<not> mismatch h_out i \<longleftrightarrow> h_out i = NaN \<or> (\<exists>x. h_out i = Finite x \<and> \<bar>x - (h_in i * 2 + 1)\<bar> \<le> tolerance)" for i
    by (cases "h_out i") (auto simp: mismatch_def)
  then show ?thesis by (simp add: find_none_iff output_acceptable_def)
qed

end
