(* ===== verification/Cli.thy ===== *)
theory Cli
  imports Agent Cuda
begin

text \<open>
  \<^verbatim>\<open>tools/gpufleet.cpp\<close>: the command line tool. A command is a function from the parameters and
  what the outside world answers (the connection, the files) to what it prints, how it ends and the
  files it leaves.
\<close>

subsection \<open>Numbers from strings\<close>

text \<open>
  The conversions of the C++ library: leading white space, an optional sign, then decimal digits up
  to the first other character. \<open>None\<close> is the exception thrown when there is no digit or the value is
  out of range.
\<close>

definition c_isspace :: "char \<Rightarrow> bool" where
  "c_isspace c \<longleftrightarrow> c \<in> {CHR '' '', CHR 0x09, CHR 0x0A, CHR 0x0B, CHR 0x0C, CHR 0x0D}"

definition c_isdigit :: "char \<Rightarrow> bool" where
  "c_isdigit c \<longleftrightarrow> 48 \<le> (of_char c :: nat) \<and> (of_char c :: nat) \<le> 57"

definition digits_value :: "string \<Rightarrow> nat" where
  "digits_value ds = foldl (\<lambda>a c. 10 * a + (of_char c - 48)) 0 ds"

definition read_decimal :: "string \<Rightarrow> (bool \<times> nat) option" where
  "read_decimal s =
     (let s1 = dropWhile c_isspace s;
          (neg, s2) = (case s1 of
             [] \<Rightarrow> (False, [])
           | c # cs \<Rightarrow> if c = CHR ''-'' then (True, cs) else if c = CHR ''+'' then (False, cs) else (False, s1));
          ds = takeWhile c_isdigit s2
      in if ds = [] then None else Some (neg, digits_value ds))"

definition stoi :: "string \<Rightarrow> int option" where
  "stoi s =
     (case read_decimal s of
        None \<Rightarrow> None
      | Some (neg, n) \<Rightarrow>
          (let v = (if neg then - int n else int n)
           in if - (2 ^ 31) \<le> v \<and> v < 2 ^ 31 then Some v else None))"

definition stoull :: "string \<Rightarrow> u64 option" where
  "stoull s =
     (case read_decimal s of
        None \<Rightarrow> None
      | Some (neg, n) \<Rightarrow>
          if n \<ge> 2 ^ 64 then None
          else Some (if neg then - word_of_nat n else word_of_nat n))"

subsection \<open>Parameters\<close>

record Params =
  pr_host :: string
  pr_port :: u16
  pr_state :: string
  pr_device :: string
  pr_worker :: string
  pr_reason :: string
  pr_source :: string
  pr_backend :: string
  pr_node :: string
  pr_worker_id :: string
  pr_boot :: string
  pr_json :: bool
  pr_command :: string

definition Params_default :: Params where
  "Params_default =
     \<lparr>pr_host = ''127.0.0.1'', pr_port = 0, pr_state = '''', pr_device = '''', pr_worker = '''', pr_reason = '''',
      pr_source = ''admin'', pr_backend = ''synthetic'', pr_node = ''1'', pr_worker_id = ''1'', pr_boot = '''',
      pr_json = False, pr_command = ''''\<rparr>"

text \<open>The options that take a value; a port that is no number throws.\<close>

definition set_option :: "string \<Rightarrow> (string \<Rightarrow> Params \<Rightarrow> Params option) option" where
  "set_option a =
     (if a = ''--host'' then Some (\<lambda>v p. Some (p\<lparr>pr_host := v\<rparr>))
      else if a = ''--port'' then Some (\<lambda>v p. map_option (\<lambda>n. p\<lparr>pr_port := word_of_int n\<rparr>) (stoi v))
      else if a = ''--state'' then Some (\<lambda>v p. Some (p\<lparr>pr_state := v\<rparr>))
      else if a = ''--device'' then Some (\<lambda>v p. Some (p\<lparr>pr_device := v\<rparr>))
      else if a = ''--worker'' then Some (\<lambda>v p. Some (p\<lparr>pr_worker := v\<rparr>))
      else if a = ''--reason'' then Some (\<lambda>v p. Some (p\<lparr>pr_reason := v\<rparr>))
      else if a = ''--source'' then Some (\<lambda>v p. Some (p\<lparr>pr_source := v\<rparr>))
      else if a = ''--backend'' then Some (\<lambda>v p. Some (p\<lparr>pr_backend := v\<rparr>))
      else if a = ''--node-id'' then Some (\<lambda>v p. Some (p\<lparr>pr_node := v\<rparr>))
      else if a = ''--worker-id'' then Some (\<lambda>v p. Some (p\<lparr>pr_worker_id := v\<rparr>))
      else if a = ''--boot-id'' then Some (\<lambda>v p. Some (p\<lparr>pr_boot := v\<rparr>))
      else None)"

datatype parsed = Parsed Params | ParseHelp | ParseThrows

text \<open>\<^verbatim>\<open>next()\<close> is the following argument, or the empty string after the last one.\<close>

fun parse_args :: "Params \<Rightarrow> string list \<Rightarrow> parsed" where
  "parse_args p [] = Parsed p"
| "parse_args p (a # args) =
     (case set_option a of
        Some assign \<Rightarrow>
          (case args of
             [] \<Rightarrow> (case assign '''' p of None \<Rightarrow> ParseThrows | Some p' \<Rightarrow> Parsed p')
           | v # rest \<Rightarrow> (case assign v p of None \<Rightarrow> ParseThrows | Some p' \<Rightarrow> parse_args p' rest))
      | None \<Rightarrow>
          if a = ''--json'' then parse_args (p\<lparr>pr_json := True\<rparr>) args
          else if a = ''--help'' \<or> a = ''-h'' then ParseHelp
          else if pr_command p = '''' then parse_args (p\<lparr>pr_command := a\<rparr>) args
          else parse_args p args)"

definition parse :: "string list \<Rightarrow> parsed" where
  "parse args = parse_args Params_default args"

subsection \<open>Printing\<close>

fun jesc :: "string \<Rightarrow> string" where
  "jesc [] = []"
| "jesc (c # s) =
     (if c = CHR 0x22 then [CHR 0x5C, CHR 0x22]
      else if c = CHR 0x5C then [CHR 0x5C, CHR 0x5C]
      else if c = CHR 0x0A then [CHR 0x5C, CHR ''n'']
      else if c = CHR 0x09 then [CHR 0x5C, CHR ''t'']
      else [c]) @ jesc s"

definition J :: "string \<Rightarrow> string" where
  "J s = [CHR 0x22] @ jesc s @ [CHR 0x22]"

text \<open>A literal member name with its colon; \<^verbatim>\<open>std::endl\<close>; the ternaries that print a flag.\<close>

definition jkey :: "string \<Rightarrow> string" where
  "jkey k = [CHR 0x22] @ k @ [CHR 0x22] @ '':''"

definition endl :: string where
  "endl = [CHR 0x0A]"

definition bool_string :: "bool \<Rightarrow> string" where
  "bool_string b = (if b then ''true'' else ''false'')"

definition print_node :: "NodeRecord \<Rightarrow> bool \<Rightarrow> string" where
  "print_node n json =
     (if json
      then ''{'' @ jkey ''node'' @ id_to_string (nr_node n) @ '','' @ jkey ''gen'' @ gen_to_string (nr_generation n) @ ''}''
      else ''node '' @ id_to_string (nr_node n) @ '' gen '' @ gen_to_string (nr_generation n))"

definition print_worker :: "WorkerRecord \<Rightarrow> bool \<Rightarrow> string" where
  "print_worker w json =
     (if json
      then ''{'' @ jkey ''worker'' @ id_to_string (wr_worker w) @ '','' @ jkey ''boot'' @ id_to_string (wr_boot w) @
           '','' @ jkey ''node'' @ id_to_string (wr_node w) @ '','' @ jkey ''alive'' @ bool_string (wr_alive w) @
           '','' @ jkey ''fenced'' @ bool_string (wr_fenced w) @ '','' @ jkey ''lost'' @ bool_string (wr_lost w) @
           '','' @ jkey ''os'' @ J (wr_os_platform w) @
           '','' @ jkey ''devices'' @ dec_string (length (wr_device_identities w)) @ ''}''
      else ''worker '' @ id_to_string (wr_worker w) @ '' boot '' @ id_to_string (wr_boot w) @
           '' node '' @ id_to_string (wr_node w))"

definition print_device :: "DeviceState \<Rightarrow> bool \<Rightarrow> string" where
  "print_device d json =
     (let key = canonical_device_identity (ds_identity d)
      in if json
         then ''{'' @ jkey ''id'' @ id_to_string (ds_device_id d) @ '','' @ jkey ''key'' @ J key @
              '','' @ jkey ''vendor'' @ J (AcceleratorVendor_to_string (di_vendor (ds_identity d))) @
              '','' @ jkey ''pci'' @ J (PciAddress_to_string (di_pci (ds_identity d))) @
              '','' @ jkey ''arch'' @ J (di_architecture (ds_identity d)) @
              '','' @ jkey ''health'' @ J (HealthState_to_string (ds_health d)) @
              '','' @ jkey ''eligibility'' @ J (EligibilityState_to_string (ds_eligibility d)) @
              '','' @ jkey ''present'' @ bool_string (ds_present d) @
              '','' @ jkey ''drain'' @ J (DrainState_to_string (ds_drain d)) @
              '','' @ jkey ''quarantined'' @ bool_string (ds_quarantined d) @
              '','' @ jkey ''fresh'' @ bool_string (ds_observation_fresh d) @
              '','' @ jkey ''totalMem'' @ dec_string (unat (ds_total_memory d)) @
              '','' @ jkey ''usedMem'' @ dec_string (unat (ds_used_memory d)) @
              '','' @ jkey ''freeMem'' @ dec_string (unat (ds_free_memory d)) @ ''}''
         else ''device '' @ id_to_string (ds_device_id d) @ '' key='' @ key @
              '' '' @ AcceleratorVendor_to_string (di_vendor (ds_identity d)) @
              '' pci='' @ PciAddress_to_string (di_pci (ds_identity d)) @
              '' arch='' @ di_architecture (ds_identity d) @ '' health='' @ HealthState_to_string (ds_health d) @
              '' elig='' @ EligibilityState_to_string (ds_eligibility d) @
              '' fresh='' @ (if ds_observation_fresh d then ''yes'' else ''no''))"

subsection \<open>Talking to the coordinator\<close>

text \<open>The loop of at most \<open>n\<close> receives, and the request on the result of \<^verbatim>\<open>TcpStream::connect\<close>; the
  second component is what was sent.\<close>

fun reply_loop :: "nat \<Rightarrow> bytes \<Rightarrow> tcp_stream \<Rightarrow> Message Result" where
  "reply_loop 0 buf st = Inl (error_result Io ''no reply from coordinator'')"
| "reply_loop (Suc n) buf st =
     (case recv_some_opt st of
        (RecvError e, st1) \<Rightarrow> Inl (error_result Io (''recv: '' @ message e))
      | (NoData, st1) \<Rightarrow> reply_loop n buf st1
      | (Received data, st1) \<Rightarrow>
          if data = [] then Inl (error_result Io ''connection closed before reply'')
          else (case drain_frames (buf @ data) of
                  (fs, rest, res) \<Rightarrow>
                    (case first_message fs of
                       Some m \<Rightarrow> Inr m
                     | None \<Rightarrow>
                         (case res of
                            FrameError perr \<Rightarrow> Inl (error_result Io (''frame error: '' @ perr))
                          | _ \<Rightarrow> reply_loop n rest st1))))"

definition request :: "tcp_stream Result \<Rightarrow> Message \<Rightarrow> Message Result \<times> bytes" where
  "request conn req =
     (case conn of
        Inl e \<Rightarrow> (Inl (error_result Io (''connect: '' @ message e)), [])
      | Inr st \<Rightarrow>
          (case send_all (encode_frame (m_type req) (encode_message req)) st of
             (st1, sr) \<Rightarrow>
               (if \<not> void_ok sr then Inl (error_result Io (''send: '' @ message (void_error sr)))
                else reply_loop 64 [] st1, ts_out st1)))"

text \<open>\<^verbatim>\<open>fetch_snapshot\<close> ends the process when it fails: \<open>Inl\<close> is what it prints on the error stream.\<close>

definition fetch_snapshot :: "tcp_stream Result \<Rightarrow> string + StateSnapshot" where
  "fetch_snapshot conn =
     (case fst (request conn (Message_default\<lparr>m_type := SNAPSHOT_REQUEST\<rparr>)) of
        Inl e \<Rightarrow> Inl (''error: '' @ message e @ endl)
      | Inr r \<Rightarrow>
          if m_type r \<noteq> SNAPSHOT_RESPONSE then Inl (''error: unexpected reply'' @ endl)
          else (case decode_snapshot (m_payload r) of
                  Inl e \<Rightarrow> Inl (''error: snapshot decode failed: '' @ message e @ endl)
                | Inr s \<Rightarrow> Inr s))"

subsection \<open>Commands\<close>

datatype exit_status = Exit int | Running | Terminated

record outcome =
  x_out :: string
  x_err :: string
  x_status :: exit_status
  x_files :: files

text \<open>What a command may ask of the outside world.\<close>

record cli_env =
  env_conn :: "tcp_stream Result"
  env_files :: files
  env_save :: save_io
  env_load :: load_io
  env_bound :: "TcpListener Result"
  env_cuda :: "cuda_runtime option"
  env_time :: Timestamp
  env_pid :: u64
  env_attempts :: "attempt list"

definition finish :: "cli_env \<Rightarrow> string \<Rightarrow> int \<Rightarrow> outcome" where
  "finish env out n = \<lparr>x_out = out, x_err = '''', x_status = Exit n, x_files = env_files env\<rparr>"

definition fail_with :: "cli_env \<Rightarrow> string \<Rightarrow> int \<Rightarrow> outcome" where
  "fail_with env err n = \<lparr>x_out = '''', x_err = err, x_status = Exit n, x_files = env_files env\<rparr>"

definition with_snapshot :: "cli_env \<Rightarrow> (StateSnapshot \<Rightarrow> outcome) \<Rightarrow> outcome" where
  "with_snapshot env k = (case fetch_snapshot (env_conn env) of Inl err \<Rightarrow> fail_with env err 2 | Inr s \<Rightarrow> k s)"

definition cmd_run_coordinator :: "cli_env \<Rightarrow> Params \<Rightarrow> outcome" where
  "cmd_run_coordinator env p =
     (case start (env_bound env) (env_load env) (env_files env)
             (Coordinator_new (CoordinatorOptions_default
                \<lparr>co_bind_host := pr_host p, co_port := pr_port p, co_state_file := pr_state p\<rparr>)) of
        (coord, r) \<Rightarrow>
          if \<not> void_ok r then fail_with env (''coordinator error: '' @ message (void_error r) @ endl) 2
          else \<lparr>x_out = ''coordinator 127.0.0.1:'' @ dec_string (unat (co_port (c_opts coord))) @
                         '' epoch='' @ gen_to_string (fs_epoch (c_store coord)) @ endl,
                x_err = '''', x_status = Running, x_files = env_files env\<rparr>)"

definition cmd_run_agent :: "cli_env \<Rightarrow> Params \<Rightarrow> outcome" where
  "cmd_run_agent env p =
     (case (stoull (pr_node p), stoull (pr_worker_id p), if pr_boot p = '''' then Some 0 else stoull (pr_boot p)) of
        (Some node, Some worker, Some boot) \<Rightarrow>
          (let opts = AgentOptions_default
                 \<lparr>opt_coordinator_host := pr_host p, opt_coordinator_port := pr_port p, opt_node := StrongId node,
                  opt_worker := StrongId worker, opt_boot := StrongId boot, opt_backend := pr_backend p\<rparr>;
               agent = WorkerAgent_new opts (env_time env) (env_pid env) 0
           in finish env (''agent worker='' @ id_to_string (opt_worker opts) @
                          '' boot='' @ id_to_string (opt_boot (wa_opts agent)) @
                          '' backend='' @ opt_backend opts @ endl)
                (if void_ok (snd (run_agent (env_attempts env) agent)) then 0 else 2))
      | _ \<Rightarrow> \<lparr>x_out = '''', x_err = '''', x_status = Terminated, x_files = env_files env\<rparr>)"

definition cmd_snapshot :: "cli_env \<Rightarrow> Params \<Rightarrow> outcome" where
  "cmd_snapshot env p = with_snapshot env (\<lambda>s.
     finish env
       ((if pr_json p
         then ''{'' @ jkey ''epoch'' @ gen_to_string (sn_epoch s) @
              '','' @ jkey ''workers'' @ dec_string (length (sn_workers s)) @
              '','' @ jkey ''devices'' @ dec_string (length (sn_devices s)) @ ''}''
         else ''epoch='' @ gen_to_string (sn_epoch s) @ '' coordinator='' @ id_to_string (sn_coordinator s) @ endl @
              concat (map (\<lambda>(wk, wr). print_worker wr False @ endl) (sn_workers s)) @
              concat (map (\<lambda>(key, d). print_device d False @ endl) (sn_devices s))) @ endl) 0)"

text \<open>The \<open>first\<close> flag of the listing loops puts a comma before every element but the first.\<close>

fun commas :: "string list \<Rightarrow> string" where
  "commas [] = ''''"
| "commas [x] = x"
| "commas (x # xs) = x @ '','' @ commas xs"

definition cmd_list :: "cli_env \<Rightarrow> Params \<Rightarrow> string \<Rightarrow> outcome" where
  "cmd_list env p kind = with_snapshot env (\<lambda>s.
     finish env
       ((if pr_json p then ''['' else '''') @
        (if kind = ''nodes'' then commas (map (\<lambda>(nk, n). print_node n (pr_json p)) (sn_nodes s))
         else if kind = ''workers'' then commas (map (\<lambda>(wk, w). print_worker w (pr_json p)) (sn_workers s))
         else commas (map (\<lambda>(key, d). print_device d (pr_json p)) (sn_devices s))) @
        (if pr_json p then '']'' else '''') @ endl) 0)"

definition cmd_health :: "cli_env \<Rightarrow> outcome" where
  "cmd_health env = with_snapshot env (\<lambda>s.
     finish env (concat (map (\<lambda>(key, d).
       HealthState_to_string (ds_health d) @ '' '' @ EligibilityState_to_string (ds_eligibility d) @ '' '' @ key @ endl)
       (sn_devices s))) 0)"

definition cmd_eligibility :: "cli_env \<Rightarrow> outcome" where
  "cmd_eligibility env = with_snapshot env (\<lambda>s.
     finish env (concat (map (\<lambda>(key, d).
       EligibilityState_to_string (ds_eligibility d) @ '' '' @ key @ '' ['' @
       commas (map EligibilityReason_to_string (ds_eligibility_reasons d)) @ '']'' @ endl)
       (sn_devices s))) 0)"

definition cmd_capabilities :: "cli_env \<Rightarrow> outcome" where
  "cmd_capabilities env = with_snapshot env (\<lambda>s.
     finish env (concat (map (\<lambda>(key, d).
       ''device '' @ key @ '':'' @ endl @
       concat (map (\<lambda>c. ''  '' @ cap_name c @ ''='' @ cap_value c @ '' ['' @ CapabilityKind_to_string (cap_kind c) @ '']'' @ endl)
         (ds_capabilities d)))
       (sn_devices s))) 0)"

definition cmd_changes :: "cli_env \<Rightarrow> outcome" where
  "cmd_changes env = with_snapshot env (\<lambda>s.
     finish env (concat (map (\<lambda>c.
       ChangeKind_to_string (cr_kind c) @ '' device='' @ id_to_string (cr_device_id c) @
       '' at='' @ int_string (sint (cr_at c)) @ '' gen='' @ gen_to_string (cr_generation c) @
       '' epoch='' @ gen_to_string (cr_epoch c) @ endl)
       (sn_change_log s))) 0)"

text \<open>\<^verbatim>\<open>std::string::find\<close> compared with \<^verbatim>\<open>npos\<close>.\<close>

fun str_contains :: "string \<Rightarrow> string \<Rightarrow> bool" where
  "str_contains [] t = (t = [])"
| "str_contains (c # s) t = (take (length t) (c # s) = t \<or> str_contains s t)"

definition cmd_inspect_device :: "cli_env \<Rightarrow> Params \<Rightarrow> outcome" where
  "cmd_inspect_device env p = with_snapshot env (\<lambda>s.
     finish env (concat (map (\<lambda>(key, d). print_device d (pr_json p) @ endl)
       (filter (\<lambda>(key, d). \<not> (pr_device p \<noteq> '''' \<and> \<not> str_contains key (pr_device p))) (sn_devices s)))) 0)"

definition cmd_inspect_worker :: "cli_env \<Rightarrow> Params \<Rightarrow> outcome" where
  "cmd_inspect_worker env p = with_snapshot env (\<lambda>s.
     finish env (concat (map (\<lambda>(wk, w). print_worker w (pr_json p) @ endl)
       (filter (\<lambda>(wk, w). \<not> (pr_worker p \<noteq> '''' \<and> id_to_string wk \<noteq> pr_worker p)) (sn_workers s)))) 0)"

definition admin_message :: "Params \<Rightarrow> string \<Rightarrow> Message" where
  "admin_message p which =
     (if which = ''save'' then Message_default\<lparr>m_type := SAVE\<rparr>
      else if which = ''drain''
      then Message_default\<lparr>m_type := DRAIN, m_payload := encode_drain_target (pr_device p) DrainState.DRAINING\<rparr>
      else if which = ''undrain''
      then Message_default\<lparr>m_type := UNDRAIN, m_payload := encode_drain_target (pr_device p) ACTIVE\<rparr>
      else if which = ''quarantine''
      then Message_default\<lparr>m_type := MessageType.QUARANTINE,
             m_payload := encode_quarantine (pr_device p) (pr_reason p) (pr_source p) (Generation 1)\<rparr>
      else if which = ''clear-quarantine''
      then Message_default\<lparr>m_type := CLEAR_QUARANTINE, m_payload := encode_identity_target (pr_device p)\<rparr>
      else Message_default)"

definition cmd_admin :: "cli_env \<Rightarrow> Params \<Rightarrow> string \<Rightarrow> outcome" where
  "cmd_admin env p which =
     (case fst (request (env_conn env) (admin_message p which)) of
        Inl e \<Rightarrow> fail_with env (''error: '' @ message e @ endl) 2
      | Inr r \<Rightarrow> finish env ((if m_ok r then ''ok'' else ''rejected: '' @ m_reason r) @ endl) (if m_ok r then 0 else 1))"

definition cmd_recover :: "cli_env \<Rightarrow> Params \<Rightarrow> outcome" where
  "cmd_recover env p =
     (case load_snapshot (env_load env) (pr_state p) (env_files env) of
        Inl e \<Rightarrow> fail_with env (''recover failed: '' @ message e @ endl) 2
      | Inr snap \<Rightarrow>
          finish env (''recovered epoch='' @ gen_to_string (sn_epoch snap) @
            '' workers='' @ dec_string (length (sn_workers snap)) @ '' devices='' @ dec_string (length (sn_devices snap)) @
            '' digest='' @ dec_string (unat (snapshot_digest snap)) @ endl) 0)"

definition cmd_save_local :: "cli_env \<Rightarrow> Params \<Rightarrow> outcome" where
  "cmd_save_local env p = with_snapshot env (\<lambda>s.
     case save_snapshot (env_save env) (pr_state p) s (env_files env) of
       (fs, r) \<Rightarrow>
         if \<not> void_ok r then (fail_with env (''save failed: '' @ message (void_error r) @ endl) 2)\<lparr>x_files := fs\<rparr>
         else (finish env (''saved '' @ pr_state p @ '' digest='' @ dec_string (unat (snapshot_digest s)) @ endl) 0)
                \<lparr>x_files := fs\<rparr>)"

definition cmd_info :: "cli_env \<Rightarrow> outcome" where
  "cmd_info env =
     finish env (''GPU Fleet Agent '' @ version_string @ '' by '' @ kPublisher @ endl @
       ''protocol='' @ dec_string (unat protocol_version) @ '' store_schema='' @ dec_string (unat store_schema_version) @ endl @
       ''cuda: '' @ host_cuda_summary (env_cuda env) @ endl) 0"

definition usage :: string where
  "usage = ''GPU Fleet Agent CLI'' @ endl @
     ''commands: run-coordinator run-agent list-devices list-workers list-nodes '' @ endl @
     ''inspect-device inspect-worker health eligibility capabilities changes snapshot save '' @ endl @
     ''drain undrain quarantine clear-quarantine recover info'' @ endl"

definition run_command :: "cli_env \<Rightarrow> Params \<Rightarrow> outcome" where
  "run_command env p =
     (let c = pr_command p
      in if c = ''run-coordinator'' then cmd_run_coordinator env p
         else if c = ''run-agent'' then cmd_run_agent env p
         else if c = ''snapshot'' then cmd_snapshot env p
         else if c = ''list-devices'' then cmd_list env p ''devices''
         else if c = ''list-workers'' then cmd_list env p ''workers''
         else if c = ''list-nodes'' then cmd_list env p ''nodes''
         else if c = ''health'' then cmd_health env
         else if c = ''eligibility'' then cmd_eligibility env
         else if c = ''capabilities'' then cmd_capabilities env
         else if c = ''changes'' then cmd_changes env
         else if c = ''inspect-device'' then cmd_inspect_device env p
         else if c = ''inspect-worker'' then cmd_inspect_worker env p
         else if c \<in> {''drain'', ''undrain'', ''quarantine'', ''clear-quarantine''} then cmd_admin env p c
         else if c = ''save'' then cmd_save_local env p
         else if c = ''recover'' then cmd_recover env p
         else if c = ''info'' then cmd_info env
         else finish env usage 1)"

definition main :: "cli_env \<Rightarrow> string list \<Rightarrow> outcome" where
  "main env args =
     (case parse args of
        Parsed p \<Rightarrow> run_command env p
      | ParseHelp \<Rightarrow> finish env usage 0
      | ParseThrows \<Rightarrow> \<lparr>x_out = '''', x_err = '''', x_status = Terminated, x_files = env_files env\<rparr>)"

end
