(* ===== verification/Example_Programs.thy ===== *)
theory Example_Programs
  imports Cli
begin

text \<open>
  The programs of \<^verbatim>\<open>examples/\<close> and \<^verbatim>\<open>consumer/main.cpp\<close>. Each is a \<^verbatim>\<open>main\<close> over the library: what it prints and
  how it ends. A build without CUDA, the answers of the CUDA runtime and those of the C library on
  files are arguments, as everywhere.
\<close>

type_synonym ran = "string \<times> exit_status"

definition line :: "string \<Rightarrow> string" where
  "line s = s @ endl"

text \<open>The conversion \<^verbatim>\<open>%-<n>s\<close> of printf.\<close>

definition pad_right :: "nat \<Rightarrow> string \<Rightarrow> string" where
  "pad_right n s = s @ replicate (n - length s) (CHR '' '')"

definition ok_or_err :: "ResultVoid \<Rightarrow> string" where
  "ok_or_err r = (if void_ok r then ''ok'' else ''err'')"

definition accepted_or_rejected :: "'a Result \<Rightarrow> string" where
  "accepted_or_rejected r = (case r of Inl _ \<Rightarrow> ''rejected'' | Inr _ \<Rightarrow> ''accepted'')"

subsection \<open>What the programs share\<close>

text \<open>The members of a registration before they are assigned.\<close>

definition Registration_default :: Registration where
  "Registration_default =
     \<lparr>reg_node = StrongId 0, reg_worker = StrongId 0, reg_worker_boot = StrongId 0,
      reg_agent_version = \<lparr>sv_major = 0, sv_minor = 0, sv_patch = 0\<rparr>, reg_protocol_version = 0,
      reg_os_platform = '''', reg_driver_version = '''', reg_runtime_version = \<lparr>rv_major = 0, rv_minor = 0\<rparr>,
      reg_enumerated_devices = [], reg_supported_capabilities = [],
      reg_registration_generation = Generation 0, reg_epoch = Generation 0\<rparr>"

definition example_registration :: Registration where
  "example_registration = Registration_default
     \<lparr>reg_worker := StrongId 10, reg_worker_boot := StrongId 100, reg_protocol_version := 1,
      reg_registration_generation := Generation 1, reg_epoch := Generation 1\<rparr>"

definition example_key :: string where
  "example_key = ''nvidia|NVIDIA|GPU-1|0000:01:00.0|blackwell|12.0|34359738368|13040''"

subsection \<open>The store\<close>

definition coordinator_epoch_rollover_main :: ran where
  "coordinator_epoch_rollover_main =
     (let reg = example_registration;
          s0 = FleetStateStore_init (StrongId 1) (Generation 1);
          s1 = fst (register_worker reg 1000 s0);
          s2 = fst (roll_epoch (Generation 2) s1);
          stale = reg\<lparr>reg_epoch := Generation 1\<rparr>;
          r = snd (register_worker stale 2000 s2)
      in (line ''=== coordinator epoch rollover ==='' @
          line (''epoch before = '' @ gen_to_string (fs_epoch s1)) @
          line (''epoch after = '' @ gen_to_string (fs_epoch s2)) @
          line (''stale epoch registration -> '' @ accepted_or_rejected r), Exit 0))"

definition drain_undrain_main :: ran where
  "drain_undrain_main =
     (let s1 = fst (register_worker example_registration 1000 (FleetStateStore_init (StrongId 1) (Generation 1)));
          d = set_drain (StrongId 10) example_key DRAINING 2000 s1;
          u = set_drain (StrongId 10) example_key ACTIVE 3000 (fst d)
      in (line ''=== drain / undrain ==='' @
          line (''drain -> '' @ ok_or_err (snd d)) @
          line (''undrain -> '' @ ok_or_err (snd u)), Exit 0))"

definition quarantine_recovery_main :: ran where
  "quarantine_recovery_main =
     (let s0 = FleetStateStore_init (StrongId 1) (Generation 1);
          q = QuarantineRecord_default
                \<lparr>q_reason := ''repeated validation failure'', q_source := ''operator'', q_generation := Generation 1,
                 q_at := 2000, q_authority := Generation 1\<rparr>;
          r = set_quarantine (StrongId 10) example_key q 2000 s0;
          c = clear_quarantine (StrongId 10) example_key (Generation 1) 3000 (fst r)
      in (line ''=== quarantine / recovery ==='' @
          line (''quarantine -> '' @ ok_or_err (snd r)) @
          line (''clear -> '' @ ok_or_err (snd c)), Exit 0))"

definition stale_authority_rejection_main :: ran where
  "stale_authority_rejection_main =
     (let reg = example_registration;
          s1 = fst (register_worker reg 1000 (FleetStateStore_init (StrongId 1) (Generation 1)));
          r1 = register_worker (reg\<lparr>reg_epoch := Generation 0\<rparr>) 1000 s1;
          r2 = register_worker (reg\<lparr>reg_worker_boot := StrongId 555\<rparr>) 1000 (fst r1)
      in (line ''=== stale authority rejection ==='' @
          line (''stale epoch  -> '' @ accepted_or_rejected (snd r1)) @
          line (''stale boot   -> '' @ accepted_or_rejected (snd r2)), Exit 0))"

text \<open>Looking up a worker that the snapshot lacks throws, and nothing catches it.\<close>

definition worker_restart_main :: ran where
  "worker_restart_main =
     (let reg = example_registration;
          title = line ''=== worker restart (WorkerBootId fencing) ==='';
          s1 = fst (register_worker reg 1000 (FleetStateStore_init (StrongId 1) (Generation 1)))
      in case om_find (sn_workers (snapshot s1)) (StrongId 10) of
           None \<Rightarrow> (title, Terminated)
         | Some w1 \<Rightarrow>
             (let (s2, r) = register_worker reg 1100 s1;
                  out = title @ line (''boot after start = '' @ id_to_string (wr_boot w1)) @
                        line (''stale re-register same gen -> '' @ accepted_or_rejected r);
                  s3 = fst (mark_worker_lost (StrongId 10) 1200 s2);
                  s4 = fst (register_worker
                         (reg\<lparr>reg_worker_boot := StrongId 999, reg_registration_generation := Generation 2\<rparr>) 1300 s3)
              in case om_find (sn_workers (snapshot s4)) (StrongId 10) of
                   None \<Rightarrow> (out, Terminated)
                 | Some w2 \<Rightarrow>
                     (out @ line (''fresh boot after restart = '' @ id_to_string (wr_boot w2) @ '' (old boot is fenced)''),
                      Exit 0)))"

definition json_snapshot_main :: ran where
  "json_snapshot_main =
     (let snap = snapshot (FleetStateStore_init (StrongId 1) (Generation 1))
      in (line ''=== JSON snapshot ==='' @
          line (''{'' @ jkey ''epoch'' @ gen_to_string (sn_epoch snap) @ '','' @ jkey ''workers'' @
                dec_string (length (sn_workers snap)) @ '','' @ jkey ''devices'' @ dec_string (length (sn_devices snap)) @ ''}''),
          Exit 0))"

definition persistence_recovery_main :: "bool \<Rightarrow> save_io \<Rightarrow> load_io \<Rightarrow> bool \<Rightarrow> files \<Rightarrow> ran \<times> files" where
  "persistence_recovery_main removed sio lio removed_after fs =
     (let path = ''example_state.gfle'';
          snap = snapshot (FleetStateStore_init (StrongId 1) (Generation 1));
          saved = save_snapshot sio path snap (io_remove removed path fs);
          l = load_snapshot lio path (fst saved)
      in ((line ''=== persistence / recovery ==='' @
           line (''save -> '' @ ok_or_err (snd saved)) @
           line (case l of
                   Inl _ \<Rightarrow> ''load -> err, digest=0''
                 | Inr got \<Rightarrow> ''load -> ok, digest='' @ dec_string (unat (snapshot_digest got))), Exit 0),
          io_remove removed_after path (fst saved)))"

definition consumer_main :: ran where
  "consumer_main =
     (let reg = Registration_default
            \<lparr>reg_worker := StrongId 42, reg_worker_boot := StrongId 7, reg_protocol_version := protocol_version,
             reg_registration_generation := Generation 1, reg_epoch := Generation 1\<rparr>
      in case register_worker reg 1000 (FleetStateStore_init (StrongId 1) (Generation 1)) of
           (s, Inl e) \<Rightarrow> (line (''register failed: '' @ message e), Exit 1)
         | (s, Inr _) \<Rightarrow>
             (let snap = snapshot s
              in (line (''consumer ok: workers='' @ dec_string (length (sn_workers snap)) @ '' devices='' @
                    dec_string (length (sn_devices snap)) @ '' epoch='' @ gen_to_string (sn_epoch snap)), Exit 0)))"

subsection \<open>The evaluators\<close>

definition execution_eligibility_main :: ran where
  "execution_eligibility_main =
     (let in1 = EligibilityInput_default
            \<lparr>ei_health := HEALTHY, ei_observation_fresh := True, ei_cuda_available := True, ei_device_present := True,
             ei_sufficient_memory := True, ei_available_memory := 24 * 1024 * 1024 * 1024\<rparr>;
          r1 = evaluate_eligibility in1;
          r2 = evaluate_eligibility (in1\<lparr>ei_observation_fresh := False\<rparr>)
      in (line ''=== execution eligibility ==='' @
          line (''fresh+healthy => '' @ EligibilityState_to_string (er_state r1)) @
          line (''stale         => '' @ EligibilityState_to_string (er_state r2) @ '' reasons=['' @
            concat (map (\<lambda>x. EligibilityReason_to_string x @ '','') (er_reasons r2)) @ '']''), Exit 0))"

definition health_transition_main :: ran where
  "health_transition_main =
     (let ok = HealthSignals_default
            \<lparr>hs_enumerated := True, hs_device_present := True, hs_was_known := True, hs_driver_runtime_ok := True,
             hs_cuda_init_ok := True, hs_memory_alloc_ok := True, hs_kernel_exec_ok := True, hs_sync_ok := True,
             hs_mem_roundtrip_ok := True, hs_last_validation_ok := True\<rparr>
      in (line ''=== health transition ==='' @
          line (''all ok     => '' @ HealthState_to_string (hr_state (evaluate_health ok))) @
          line (''going stale=> '' @ HealthState_to_string (hr_state (evaluate_health (ok\<lparr>hs_observation_stale := True\<rparr>)))) @
          line (''5 failures => '' @ HealthState_to_string (hr_state (evaluate_health
            (ok\<lparr>hs_observation_stale := False, hs_consecutive_failures := 5\<rparr>)))), Exit 0))"

definition healthy_probe :: DeviceProbe where
  "healthy_probe = DeviceProbe_default
     \<lparr>p_enumerated := True, p_present := True, p_driver_runtime_ok := True, p_cuda_init_ok := True,
      p_memory_alloc_ok := True, p_h2d_ok := True, p_kernel_exec_ok := True, p_sync_ok := True,
      p_d2h_ok := True, p_verify_ok := True, p_core_validation_ok := True,
      p_identity := DeviceIdentity_default
        \<lparr>di_vendor := Nvidia, di_architecture := ''blackwell'',
         di_compute_capability := \<lparr>cc_major = 12, cc_minor = 0\<rparr>,
         di_total_physical_memory := 32 * 1024 * 1024 * 1024, di_driver_version := ''13040''\<rparr>\<rparr>"

definition stale_observation_main :: ran where
  "stale_observation_main =
     (let policy = ObservationPolicy_default\<lparr>pol_freshness_threshold_ms := 1000\<rparr>;
          meta = \<lparr>om_device_id = StrongId 1, om_observation_generation = Generation 1,
                  om_health_generation = Generation 1, om_observed_at = 1000, om_source_worker_boot = StrongId 1,
                  om_source_worker = StrongId 1, om_source_node = StrongId 1, om_epoch = Generation 1,
                  om_device_generation = Generation 1\<rparr>;
          o1 = normalize_observation healthy_probe meta;
          a = apply_observation DeviceState_default o1 policy 1500 (Generation 1);
          b = apply_observation DeviceState_default o1 policy 100000 (Generation 1)
      in (line ''=== stale observation ==='' @
          line (''fresh (now=1500) => '' @ EligibilityState_to_string (ds_eligibility (ao_state a))) @
          line (''stale (now=100000) => '' @ EligibilityState_to_string (ds_eligibility (ao_state b))), Exit 0))"

subsection \<open>The backends\<close>

definition capability_line :: "Capability \<Rightarrow> string" where
  "capability_line c =
     line (pad_right 20 (cap_name c) @ '' = '' @ pad_right 8 (cap_value c) @ '' ['' @ CapabilityKind_to_string (cap_kind c) @ '']'')"

definition capability_inspection_main :: ran where
  "capability_inspection_main =
     (let backend = SyntheticDeviceBackend_new 1 (32 * 1024 * 1024 * 1024)
      in case synthetic_enumerate backend of
           Inl _ \<Rightarrow> ('''', Exit 1)
         | Inr ev \<Rightarrow>
             (case synthetic_probe backend (hd ev) of
                Inl _ \<Rightarrow> ('''', Exit 1)
              | Inr probe \<Rightarrow>
                  (line ''=== capability inspection ==='' @ concat (map capability_line (p_capabilities probe)), Exit 0)))"

definition synthetic_line :: "EnumeratedDevice \<Rightarrow> string" where
  "synthetic_line d =
     line (''synthetic['' @ int_string (sint (ed_ordinal d)) @ ''] id='' @ di_uuid (ed_identity d) @ '' cc='' @
       sm_string (di_compute_capability (ed_identity d)) @ '' mem='' @ dec_string (unat (di_total_physical_memory (ed_identity d))))"

definition cuda_line :: "EnumeratedDevice \<Rightarrow> string" where
  "cuda_line d =
     line (''cuda['' @ int_string (sint (ed_ordinal d)) @ ''] pci='' @ PciAddress_to_string (di_pci (ed_identity d)) @ '' arch='' @
       di_architecture (ed_identity d) @ '' cc='' @ sm_string (di_compute_capability (ed_identity d)) @ '' mem='' @
       dec_string (unat (di_total_physical_memory (ed_identity d))))"

definition local_device_discovery_main :: "cuda_runtime option \<Rightarrow> ran" where
  "local_device_discovery_main host =
     (line ''=== local device discovery ==='' @
      (case synthetic_enumerate (SyntheticDeviceBackend_new 2 (24 * 1024 * 1024 * 1024)) of
         Inl _ \<Rightarrow> ''''
       | Inr ev \<Rightarrow> concat (map synthetic_line ev)) @
      (case make_cuda_backend host of
         None \<Rightarrow> line ''(no CUDA backend available)''
       | Some cuda \<Rightarrow> (case be_enumerate cuda of Inl _ \<Rightarrow> '''' | Inr cud \<Rightarrow> concat (map cuda_line cud))), Exit 0)"

text \<open>This program is built only with CUDA.\<close>

definition hardware_validation_main :: "cuda_runtime \<Rightarrow> ran" where
  "hardware_validation_main rt =
     (line ''=== hardware validation (RTX 5090, sm_120) ==='' @
      (if \<not> cuda_available rt then line ''no CUDA device present''
       else let r = fst (run_cuda_validation (rt_validation rt 0))
            in line (''ok='' @ (if v_ok r then ''1'' else ''0'') @ '' detail='' @ v_detail r)), Exit 0)"

subsection \<open>What they print\<close>

text \<open>The runs on the store, and what the labels of the programs announce.\<close>

lemma store_programs_print:
  "coordinator_epoch_rollover_main =
     (line ''=== coordinator epoch rollover ==='' @ line ''epoch before = 1'' @ line ''epoch after = 2'' @
      line ''stale epoch registration -> rejected'', Exit 0)"
  "stale_authority_rejection_main =
     (line ''=== stale authority rejection ==='' @ line ''stale epoch  -> rejected'' @ line ''stale boot   -> rejected'', Exit 0)"
  "worker_restart_main =
     (line ''=== worker restart (WorkerBootId fencing) ==='' @ line ''boot after start = 100'' @
      line ''stale re-register same gen -> rejected'' @
      line ''fresh boot after restart = 999 (old boot is fenced)'', Exit 0)"
  "consumer_main = (line ''consumer ok: workers=1 devices=0 epoch=1'', Exit 0)"
  by code_simp+

lemma evaluator_programs_print:
  "execution_eligibility_main =
     (line ''=== execution eligibility ==='' @ line ''fresh+healthy => ELIGIBLE'' @
      line ''stale         => STALE reasons=[stale_observation,]'', Exit 0)"
  "health_transition_main =
     (line ''=== health transition ==='' @ line ''all ok     => HEALTHY'' @ line ''going stale=> RECOVERING'' @
      line ''5 failures => UNHEALTHY'', Exit 0)"
  by code_simp+

text \<open>Neither program creates a device, so the store refuses all four commands as not found; a
  \<^verbatim>\<open>Result<void>\<close> made from an error still counts as ok, and that is what is printed.\<close>

lemma commands_for_unknown_devices_print_ok:
  "drain_undrain_main = (line ''=== drain / undrain ==='' @ line ''drain -> ok'' @ line ''undrain -> ok'', Exit 0)"
  "quarantine_recovery_main = (line ''=== quarantine / recovery ==='' @ line ''quarantine -> ok'' @ line ''clear -> ok'', Exit 0)"
  by code_simp+


text \<open>A file system that obeys: the state is saved, loaded with the digest of what was saved, and the
  file is removed again.\<close>

lemma fresh_snapshot_wf: "StateSnapshot_wf (snapshot (FleetStateStore_init (StrongId 1) (Generation 1)))"
  by (simp add: StateSnapshot_wf_def snapshot_def FleetStateStore_init_def om_ok_def)

lemma fresh_snapshot_length: "length (encode_snapshot (snapshot (FleetStateStore_init (StrongId 1) (Generation 1)))) \<le> 2 ^ 31"
  by (simp add: encode_snapshot_def snapshot_def FleetStateStore_init_def)

lemma fresh_snapshot_accounting:
  "snapshot (FleetStateStore_init cid ep)\<lparr>sn_accounting := Accounting_zero\<rparr> = snapshot (FleetStateStore_init cid ep)"
  by (simp add: snapshot_def FleetStateStore_init_def recompute_accounting_locked_def Accounting_zero_def)

lemma persistence_recovery_prints:
  fixes sio lio fs removed
  defines "snap \<equiv> snapshot (FleetStateStore_init (StrongId 1) (Generation 1))"
  assumes "sio_fopen sio" "length (store_bytes snap) \<le> sio_fwrite sio" "sio_fflush sio" "sio_fclose sio" "sio_rename sio"
    "lio_ftell lio" "length (store_bytes snap) \<le> lio_fread lio"
  shows "fst (persistence_recovery_main removed sio lio True fs) =
      (line ''=== persistence / recovery ==='' @ line ''save -> ok'' @
       line (''load -> ok, digest='' @ dec_string (unat (snapshot_digest snap))), Exit 0)"
    "snd (persistence_recovery_main removed sio lio True fs) ''example_state.gfle'' = None"
proof -
  let ?path = "''example_state.gfle''"
  let ?saved = "save_snapshot sio ?path snap (io_remove removed ?path fs)"
  have "fst ?saved ?path = Some (store_bytes snap)"
    unfolding save_snapshot_path using assms by simp
  then have load: "load_snapshot lio ?path (fst ?saved) = Inr (snap\<lparr>sn_accounting := Accounting_zero\<rparr>)"
    by (rule load_store_file) (use assms fresh_snapshot_wf fresh_snapshot_length in simp_all)
  have save: "void_ok (snd ?saved)"
    using assms by (simp add: save_snapshot_def Let_def void_ok_def void_ok_result_def)
  show "fst (persistence_recovery_main removed sio lio True fs) =
      (line ''=== persistence / recovery ==='' @ line ''save -> ok'' @
       line (''load -> ok, digest='' @ dec_string (unat (snapshot_digest snap))), Exit 0)"
    using load save fresh_snapshot_accounting unfolding persistence_recovery_main_def snap_def [symmetric]
    by (simp add: Let_def ok_or_err_def snap_def)
  show "snd (persistence_recovery_main removed sio lio True fs) ?path = None"
    by (simp add: persistence_recovery_main_def Let_def io_remove_def)
qed


text \<open>The observation of the stale-observation program makes the device eligible while it is fresh, and
  stale once its age passes the threshold.\<close>

lemma stale_observation_prints:
  "stale_observation_main =
     (line ''=== stale observation ==='' @ line ''fresh (now=1500) => ELIGIBLE'' @ line ''stale (now=100000) => STALE'', Exit 0)"
proof -
  let ?pol = "ObservationPolicy_default\<lparr>pol_freshness_threshold_ms := 1000\<rparr>"
  let ?n = "normalize_observation healthy_probe \<lparr>om_device_id = StrongId 1, om_observation_generation = Generation 1,
      om_health_generation = Generation 1, om_observed_at = 1000, om_source_worker_boot = StrongId 1,
      om_source_worker = StrongId 1, om_source_node = StrongId 1, om_epoch = Generation 1,
      om_device_generation = Generation 1\<rparr>"
  have fresh: "observation_is_fresh DeviceState_default ?n ?pol 1500" "\<not> observation_is_fresh DeviceState_default ?n ?pol 100000"
    by (simp_all add: observation_is_fresh_def normalize_observation_def ObservationPolicy_default_def DeviceState_default_def)
  have n: "probe_evidence ?n" "policy_met ?n ?pol" "pol_required_capabilities ?pol = []"
    by (simp_all add: probe_evidence_def policy_met_def normalize_observation_def healthy_probe_def DeviceProbe_default_def
        ObservationPolicy_default_def)
  have "ds_eligibility (ao_state (apply_observation DeviceState_default ?n ?pol 1500 (Generation 1))) = ELIGIBLE"
    using fresh n by (simp add: apply_ELIGIBLE DeviceState_default_def)
  moreover have "ds_eligibility (ao_state (apply_observation DeviceState_default ?n ?pol 100000 (Generation 1))) = STALE"
    using fresh(2) n by (subst apply_observation_eligibility)
      (simp add: evaluate_eligibility_def staleness_def hard_gate_def eligibility_input_def EligibilityInput_default_def
        DeviceState_default_def probe_evidence_def)
  ultimately show ?thesis
    by (simp only: stale_observation_main_def Let_def) (simp add: EligibilityState_to_string_def)
qed

lemma capability_inspection_prints:
  "capability_inspection_main =
     (line ''=== capability inspection ==='' @ line ''vendor               = synthetic [inferred]'' @
      line ''kernel_execution     = true     [validated]'', Exit 0)"
  by (simp add: capability_inspection_main_def SyntheticDeviceBackend_new_def synthetic_enumerate_def synthetic_probe_def
      Let_def capability_line_def pad_right_def CapabilityKind_to_string_def line_def numeral_eq_Suc)

text \<open>One line for each synthetic device, whatever the CUDA side says.\<close>

lemma example_numbers:
  "dec_string 0 = ''0''" "dec_string (Suc 0) = ''1''" "dec_string 12 = ''12''" "dec_string 25769803776 = ''25769803776''"
  by (simp_all add: dec_string_def digits_of.simps digit_char_def)

lemma local_device_discovery_prints:
  "make_cuda_backend host = None \<Longrightarrow>
     local_device_discovery_main host =
       (line ''=== local device discovery ==='' @
        line ''synthetic[0] id=synthetic:0:25769803776 cc=sm_120 mem=25769803776'' @
        line ''synthetic[1] id=synthetic:1:25769803776 cc=sm_120 mem=25769803776'' @
        line ''(no CUDA backend available)'', Exit 0)"
  by (simp add: local_device_discovery_main_def SyntheticDeviceBackend_new_def synthetic_enumerate_def synthetic_device_def
      synthetic_line_def identity_for_def sm_string_def example_numbers int_string_def
      EnumeratedDevice_default_def DeviceIdentity_default_def upt_rec [of 0] upt_rec [of "Suc 0"] upt_rec [of 2])

end
