(* ===== verification/Benchmark.thy ===== *)
theory Benchmark
  imports Example_Programs Ingest
begin

text \<open>
  \<^verbatim>\<open>benchmarks/benchmark.cpp\<close>: the work of each of its loops, without the timing. A loop of \<open>n\<close> rounds is a
  function of \<open>n\<close> to the store it leaves or to what it adds up in its sink; the program runs them for
  the numbers below. The eight threads of the last loop call one store whose methods hold its mutex, so a run
  of them is a schedule: a list of thread numbers, one for each call.
\<close>

subsection \<open>The loops\<close>

definition bench_N :: nat where
  "bench_N = 20000"

definition mkobs :: "WorkerBootId \<Rightarrow> WorkerId \<Rightarrow> ObservationGeneration \<Rightarrow> DeviceObservation" where
  "mkobs boot worker og =
     \<lparr>o_device_id = StrongId 1, o_observation_generation = og, o_health_generation = Generation 1, o_observed_at = 5000,
      o_source_worker_boot = boot, o_source_worker = worker, o_source_node = StrongId 1, o_epoch = Generation 1,
      o_device_generation = Generation 1,
      o_identity = DeviceIdentity_default
        \<lparr>di_vendor := Nvidia, di_architecture := ''blackwell'', di_compute_capability := \<lparr>cc_major = 12, cc_minor = 0\<rparr>,
         di_total_physical_memory := 32 * 1024 * 1024 * 1024, di_driver_version := ''13040''\<rparr>,
      o_health = HealthState.UNKNOWN, o_health_explanation = '''', o_total_memory = 32 * 1024 * 1024 * 1024,
      o_used_memory = 0, o_free_memory = 24 * 1024 * 1024 * 1024, o_temperature_c = None, o_power_w = None,
      o_capabilities = [], o_core_validation_ok = True, o_validation_detail = '''', o_enumerated = True, o_present = True,
      o_driver_runtime_ok = True, o_cuda_init_ok = True, o_memory_alloc_ok = True, o_h2d_ok = True, o_kernel_exec_ok = True,
      o_sync_ok = True, o_d2h_ok = True, o_verify_ok = True\<rparr>"

text \<open>The registration of round \<open>i\<close>: one worker, a new boot id every time.\<close>

definition bench_registration :: "nat \<Rightarrow> Registration" where
  "bench_registration i = Registration_default
     \<lparr>reg_worker := StrongId 10, reg_worker_boot := StrongId (100 + word_of_nat i), reg_protocol_version := 1,
      reg_registration_generation := Generation 1, reg_epoch := Generation 1\<rparr>"

definition register_rounds :: "nat \<Rightarrow> FleetStateStore \<Rightarrow> FleetStateStore" where
  "register_rounds n s = fold (\<lambda>i s. fst (register_worker (bench_registration i) 1000 s)) [0..<n] s"

definition bench_policy :: ObservationPolicy where
  "bench_policy = ObservationPolicy_default\<lparr>pol_freshness_threshold_ms := 1000000\<rparr>"

definition ingest_round :: "nat \<Rightarrow> FleetStateStore \<Rightarrow> FleetStateStore" where
  "ingest_round i s =
     fst (ingest_snapshot (StrongId 10) [mkobs (StrongId 100) (StrongId 10) (Generation (1 + word_of_nat i))] bench_policy
            (100000 + word_of_nat i) s)"

definition ingest_rounds :: "nat \<Rightarrow> FleetStateStore \<Rightarrow> FleetStateStore" where
  "ingest_rounds n s = fold ingest_round [0..<n] (fst (register_worker (bench_registration 0) 1000 s))"

definition health_rounds :: "nat \<Rightarrow> nat" where
  "health_rounds n =
     (let hs = HealthSignals_default
            \<lparr>hs_enumerated := True, hs_device_present := True, hs_was_known := True, hs_driver_runtime_ok := True,
             hs_cuda_init_ok := True, hs_memory_alloc_ok := True, hs_kernel_exec_ok := True, hs_sync_ok := True,
             hs_mem_roundtrip_ok := True, hs_last_validation_ok := True\<rparr>
      in fold (\<lambda>_ sink. sink + (if hr_state (evaluate_health hs) = HEALTHY then 1 else 0)) [0..<n] 0)"

definition eligibility_rounds :: "nat \<Rightarrow> nat" where
  "eligibility_rounds n =
     (let i = EligibilityInput_default
            \<lparr>ei_health := HEALTHY, ei_observation_fresh := True, ei_cuda_available := True, ei_device_present := True\<rparr>
      in fold (\<lambda>_ sink. sink + (if er_state (evaluate_eligibility i) = ELIGIBLE then 1 else 0)) [0..<n] 0)"

definition capability_rounds :: "nat \<Rightarrow> nat" where
  "capability_rounds n =
     fold (\<lambda>_ sink. sink + length (map (\<lambda>k. \<lparr>cap_id = StrongId 0, cap_name = ''cap'' @ dec_string k,
               cap_kind = CapabilityKind.DISCOVERED, cap_value = '''', cap_description = ''''\<rparr>) [0..<16])) [0..<n] 0"

definition lookup_rounds :: "nat \<Rightarrow> nat" where
  "lookup_rounds n =
     (let key = (\<lambda>i. ''dev'' @ dec_string i);
          devmap = fold (\<lambda>i m. om_put (key i) DeviceState_default m) [0..<1000] [];
          keys = map key [0..<1000]
      in fold (\<lambda>i sink. sink + (if om_find devmap (keys ! (i mod 1000)) = None then 0 else 1)) [0..<n] 0)"

definition serialization_rounds :: "nat \<Rightarrow> FleetStateStore \<Rightarrow> nat" where
  "serialization_rounds n s =
     (let snap = snapshot s in fold (\<lambda>_ sink. sink + length (encode_snapshot snap)) [0..<n] 0)"

definition restore_rounds :: "nat \<Rightarrow> FleetStateStore \<Rightarrow> FleetStateStore" where
  "restore_rounds n s =
     (let snap = snapshot s
      in fold (\<lambda>_ s2. fst (restore snap s2)) [0..<n] (FleetStateStore_init (StrongId 1) (Generation 1)))"

definition diff_rounds :: "nat \<Rightarrow> nat" where
  "diff_rounds n =
     (let a = DeviceState_default\<lparr>ds_present := True, ds_health := HEALTHY\<rparr>;
          b = DeviceState_default\<lparr>ds_present := True, ds_health := DEGRADED, ds_eligibility := DEGRADED_ELIGIBLE\<rparr>
      in fold (\<lambda>_ sink. sink + length (diff_device_state a b 1 (Generation 1) (Generation 1))) [0..<n] 0)"

definition protocol_rounds :: "nat \<Rightarrow> nat" where
  "protocol_rounds n =
     (let m = Message_default\<lparr>m_type := HEARTBEAT, m_worker_boot := StrongId 99\<rparr>; b = encode_message m
      in fold (\<lambda>_ sink. sink + length (encode_frame (m_type m) b) + (case decode_message b of Inl _ \<Rightarrow> 0 | Inr _ \<Rightarrow> 1)) [0..<n] 0)"

text \<open>The calls of the threads in the order of the schedule; \<open>done_by t\<close> is the number of rounds thread \<open>t\<close> has made.\<close>

fun ingest_schedule :: "nat list \<Rightarrow> (nat \<Rightarrow> nat) \<Rightarrow> FleetStateStore \<Rightarrow> FleetStateStore" where
  "ingest_schedule [] done_by s = s"
| "ingest_schedule (t # ts) done_by s = ingest_schedule ts (done_by(t := done_by t + 1)) (ingest_round (done_by t) s)"

definition concurrent_rounds :: "nat list \<Rightarrow> FleetStateStore" where
  "concurrent_rounds ts =
     ingest_schedule ts (\<lambda>_. 0)
       (fst (register_worker (bench_registration 0) 1000 (FleetStateStore_init (StrongId 1) (Generation 1))))"

subsection \<open>What the registrations do\<close>

text \<open>Once the worker is registered under the boot of round 0 every registration is refused: round 0 because its
  generation was seen, every other round because the worker is alive under another boot.\<close>

definition registered :: "FleetStateStore \<Rightarrow> bool" where
  "registered s \<longleftrightarrow>
     fs_epoch s = Generation 1 \<and>
     (\<exists>wr. om_find (fs_workers s) (StrongId 10) = Some wr \<and> wr_boot wr = StrongId 100 \<and>
           wr_registration_generation wr = Generation 1 \<and> wr_alive wr \<and> \<not> wr_lost wr \<and> \<not> wr_fenced wr)"

lemma first_registration:
  "registered (fst (register_worker (bench_registration 0) 1000 (FleetStateStore_init (StrongId 1) (Generation 1))))"
  by (simp add: registered_def register_worker_def bench_registration_def Registration_default_def FleetStateStore_init_def
      new_worker_record_def update_worker_devices_locked_def om_find_emplace)

lemma register_again: "registered s \<Longrightarrow> fst (register_worker (bench_registration i) 1000 s) = s"
  by (auto simp: registered_def register_worker_def bench_registration_def Registration_default_def)

lemma register_again_refused: "registered s \<Longrightarrow> \<exists>e. snd (register_worker (bench_registration i) 1000 s) = Inl e"
  by (auto simp: registered_def register_worker_def bench_registration_def Registration_default_def)

lemma registered_rounds: "registered s \<Longrightarrow> fold (\<lambda>i s. fst (register_worker (bench_registration i) 1000 s)) is s = s"
  by (induction "is") (simp_all add: register_again)

subsection \<open>What the snapshots do\<close>

definition bench_key :: string where
  "bench_key = obs_key (mkobs (StrongId 0) (StrongId 0) (Generation 0))"

lemma mkobs_key [simp]: "canonical_device_identity (o_identity (mkobs b w g)) = bench_key"
  by (simp add: bench_key_def obs_key_def mkobs_def)

lemma mkobs_fields [simp]:
  "o_epoch (mkobs b w g) = Generation 1" "o_source_worker_boot (mkobs b w g) = b" "o_source_worker (mkobs b w g) = w"
  "o_observation_generation (mkobs b w g) = g" "o_device_generation (mkobs b w g) = Generation 1"
  "o_health_generation (mkobs b w g) = Generation 1"
  by (simp_all add: mkobs_def)

text \<open>After \<open>g\<close> accepted snapshots: the worker is live, and its device is at generation \<open>g\<close>.\<close>

definition bench_at :: "nat \<Rightarrow> FleetStateStore \<Rightarrow> bool" where
  "bench_at g s \<longleftrightarrow>
     registered s \<and> owned_keys (StrongId 10) s = (if g = 0 then [] else [bench_key]) \<and>
     (case om_find (fs_devices s) bench_key of
        None \<Rightarrow> g = 0
      | Some d \<Rightarrow> g \<noteq> 0 \<and> ds_source_worker_boot d = StrongId 100 \<and> ds_observation_generation d = Generation (word_of_nat g) \<and>
                  ds_generation d = Generation 1 \<and> ds_health_generation d = Generation 1)"

lemma bench_observed_fields:
  "ds_source_worker_boot (observed p ob pol now ep) = o_source_worker_boot ob"
  "ds_observation_generation (observed p ob pol now ep) = o_observation_generation ob"
  "ds_generation (observed p ob pol now ep) = o_device_generation ob"
  "ds_health_generation (observed p ob pol now ep) = o_health_generation ob"
  by (simp_all add: observed_def)

lemma bench_judge:
  assumes "bench_at g s" "g < 2 ^ 64" "i + 1 < 2 ^ 64"
  shows "judge_observation (StrongId 10) (StrongId 100) (mkobs (StrongId 100) (StrongId 10) (Generation (1 + word_of_nat i))) s
           = (if i < g then Skip else Accept)"
proof -
  have "(1 + word_of_nat i :: u64) = word_of_nat (i + 1)" by simp
  then have "(1 + word_of_nat i :: u64) \<le> word_of_nat g \<longleftrightarrow> i + 1 \<le> g"
    using assms(2,3) by (simp add: word_le_nat_alt unat_of_nat del: of_nat_add of_nat_Suc)
  with assms(1) show ?thesis
    by (auto simp: bench_at_def registered_def judge_observation_def prior_state_def less_eq_Generation_def less_Generation_def Let_def
        split: option.splits)
qed


lemma vanish_fields:
  "ds_source_worker_boot (vanish_device d) = ds_source_worker_boot d"
  "ds_observation_generation (vanish_device d) = ds_observation_generation d"
  "ds_generation (vanish_device d) = ds_generation d" "ds_health_generation (vanish_device d) = ds_health_generation d"
  by (simp_all add: vanish_device_def)

text \<open>One round, whether its observation is a new one or one seen before.\<close>

lemma ingest_round_new:
  assumes "bench_at g s" "g < 2 ^ 64" "i + 1 < 2 ^ 64" "g \<le> i"
  shows "bench_at (i + 1) (ingest_round i s) \<and>
         fs_accepted_observations (ingest_round i s) = fs_accepted_observations s + 1"
proof -
  let ?ob = "mkobs (StrongId 100) (StrongId 10) (Generation (1 + word_of_nat i))"
  let ?now = "100000 + word_of_nat i :: Timestamp"
  let ?s1 = "commit_observation (StrongId 10) bench_policy ?now ?ob s"
  obtain wr where wr: "om_find (fs_workers s) (StrongId 10) = Some wr" "wr_boot wr = StrongId 100" "\<not> wr_lost wr" "\<not> wr_fenced wr"
    using assms(1) by (auto simp: bench_at_def registered_def)
  have accept: "judge_observation (StrongId 10) (wr_boot wr) ?ob s = Accept"
    using bench_judge [OF assms(1-3)] assms(4) wr(2) by simp
  have owned: "owned_keys (StrongId 10) ?s1 = [bench_key]"
    using assms(1) wr(1) by (auto simp: bench_at_def owned_keys_def commit_workers om_find_modify split: option.splits if_splits)
  have "ingest_round i s = ?s1\<lparr>fs_workers := om_modify (StrongId 10)
      (\<lambda>wr. wr\<lparr>wr_last_heartbeat := ?now, wr_alive := True\<rparr>) (fs_workers ?s1)\<rparr>"
    using wr accept owned by (simp add: ingest_round_def ingest_snapshot_def disappear_def)
  then show ?thesis
    using assms(1) wr owned
    by (auto simp: bench_at_def registered_def om_find_modify commit_workers bench_observed_fields owned_keys_def
        split: option.splits if_splits)
qed

lemma ingest_round_seen:
  assumes "bench_at g s" "g < 2 ^ 64" "i < g"
  shows "bench_at g (ingest_round i s) \<and>
         fs_accepted_observations (ingest_round i s) = fs_accepted_observations s \<and>
         om_find (fs_devices (ingest_round i s)) bench_key = map_option vanish_device (om_find (fs_devices s) bench_key)"
proof -
  let ?ob = "mkobs (StrongId 100) (StrongId 10) (Generation (1 + word_of_nat i))"
  let ?now = "100000 + word_of_nat i :: Timestamp"
  obtain wr where wr: "om_find (fs_workers s) (StrongId 10) = Some wr" "wr_boot wr = StrongId 100" "\<not> wr_lost wr" "\<not> wr_fenced wr"
    using assms(1) by (auto simp: bench_at_def registered_def)
  have skip: "judge_observation (StrongId 10) (wr_boot wr) ?ob s = Skip"
    using bench_judge [OF assms(1,2), of i] assms(2,3) wr(2) by simp
  have owned: "owned_keys (StrongId 10) s = [bench_key]" using assms(1,3) by (simp add: bench_at_def)
  let ?s1 = "disappear {} ?now bench_key s"
  have "ingest_round i s = ?s1\<lparr>fs_workers := om_modify (StrongId 10)
      (\<lambda>wr. wr\<lparr>wr_last_heartbeat := ?now, wr_alive := True\<rparr>) (fs_workers ?s1)\<rparr>"
    using wr skip owned by (simp add: ingest_round_def ingest_snapshot_def)
  then show ?thesis
    using assms(1) wr owned
    by (auto simp: bench_at_def registered_def om_find_modify disappear_devices vanish_fields owned_keys_def
        split: option.splits if_splits)
qed


lemma bench_start:
  "bench_at 0 (fst (register_worker (bench_registration 0) 1000 (FleetStateStore_init (StrongId 1) (Generation 1))))"
  "fs_accepted_observations (fst (register_worker (bench_registration 0) 1000 (FleetStateStore_init (StrongId 1) (Generation 1)))) = 0"
  using first_registration
  by (simp_all add: bench_at_def owned_keys_def register_worker_def bench_registration_def Registration_default_def
      FleetStateStore_init_def new_worker_record_def update_worker_devices_locked_def om_find_emplace)

lemma ingest_round_any:
  assumes "bench_at g s" "fs_accepted_observations s = word_of_nat g" "i \<le> g" "g + 1 < 2 ^ 64"
  shows "bench_at (max g (i + 1)) (ingest_round i s) \<and>
         fs_accepted_observations (ingest_round i s) = word_of_nat (max g (i + 1))"
proof (cases "i = g")
  case True
  with ingest_round_new [OF assms(1), of i] assms(2,4) show ?thesis by (simp add: max_def add.commute)
next
  case False
  with assms(3) have "i < g" "max g (i + 1) = g" by simp_all
  with ingest_round_seen [OF assms(1), of i] assms(2,4) show ?thesis by simp
qed

lemma ingest_schedule_counts:
  assumes "bench_at g s" "fs_accepted_observations s = word_of_nat g" "\<forall>t. d t \<le> g" "g + length ts < 2 ^ 64"
  shows "\<exists>g'. fs_accepted_observations (ingest_schedule ts d s) = word_of_nat g' \<and>
           (\<forall>t. d t + count_list ts t \<le> g') \<and> (g' = g \<or> (\<exists>t. g' = d t + count_list ts t))"
  using assms
proof (induction ts arbitrary: g d s)
  case (Cons t ts)
  let ?g = "max g (d t + 1)" and ?d = "d(t := d t + 1)"
  have round: "bench_at ?g (ingest_round (d t) s)" "fs_accepted_observations (ingest_round (d t) s) = word_of_nat ?g"
    using ingest_round_any [OF Cons.prems(1,2), of "d t"] Cons.prems(3,4) by auto
  have "\<forall>u. ?d u \<le> ?g" using Cons.prems(3) by (simp add: le_max_iff_disj)
  moreover have "?g + length ts < 2 ^ 64" using Cons.prems(4) spec [OF Cons.prems(3), of t] by (cases "d t + 1 \<le> g") simp_all
  ultimately obtain g' where g': "fs_accepted_observations (ingest_schedule ts ?d (ingest_round (d t) s)) = word_of_nat g'"
    "\<forall>u. ?d u + count_list ts u \<le> g'" "g' = ?g \<or> (\<exists>u. g' = ?d u + count_list ts u)"
    using Cons.IH [OF round, of ?d] by blast
  have same: "?d u + count_list ts u = d u + count_list (t # ts) u" for u by simp
  have "g' = g \<or> (\<exists>u. g' = d u + count_list (t # ts) u)"
  proof (cases "g' = ?g")
    case True
    show ?thesis
    proof (cases "g' = g")
      case False
      with True have "g' = d t + 1" by (simp add: max_def split: if_splits)
      moreover have "d t + 1 + count_list ts t \<le> g'" using spec [OF g'(2), of t] by simp
      ultimately have "g' = d t + count_list (t # ts) t" by simp
      then show ?thesis by blast
    qed simp
  next
    case False
    with g'(3) same show ?thesis by metis
  qed
  with g'(1,2) show ?case unfolding ingest_schedule.simps same by blast
qed auto

text \<open>C25: Threads that report the same generations. When k threads ingest the snapshots of generations 1 to n of one
  device, each thread in increasing order, every generation is accepted exactly once whatever the schedule:
  the store has accepted n observations after k * n calls.\<close>

theorem concurrent_ingestion_accepts_once:
  assumes "\<forall>t. count_list ts t = (if t < k then n else 0)" "0 < k" "k * n < 2 ^ 64"
  shows "accepted_observations (concurrent_rounds ts) = word_of_nat n \<and> length ts = k * n"
proof -
  have "set ts \<subseteq> {..<k}" using assms(1) by (metis count_list_0_iff lessThan_iff subsetI)
  then have len: "length ts = k * n"
    using sum_count_set [of ts "{..<k}"] assms(1) by simp
  obtain g where g: "fs_accepted_observations (concurrent_rounds ts) = word_of_nat g"
    "\<forall>t. count_list ts t \<le> g" "g = 0 \<or> (\<exists>t. g = count_list ts t)"
    using ingest_schedule_counts [OF bench_start(1), of "\<lambda>_. 0" ts] bench_start(2) len assms(3)
    by (auto simp: concurrent_rounds_def)
  have "n \<le> g" using spec [OF g(2), of 0] assms(1,2) by simp
  moreover have "g \<le> n" using g(3) assms(1) by auto
  ultimately show ?thesis using g(1) len by (simp add: accepted_observations_def)
qed

theorem concurrent_ingestion_accepts_once_witness:
  "accepted_observations (concurrent_rounds [0, 1, 1, 0, 0, 1]) = 3"
proof -
  have "\<forall>t. count_list [0, 1, 1, 0, 0, 1 :: nat] t = (if t < 2 then 3 else 0)" by (auto simp: less_2_cases_iff)
  from concurrent_ingestion_accepts_once [OF this] show ?thesis by simp
qed

text \<open>The registration loop measures refusals and the ingestion loop acceptances: after the first of any number of
  registrations the store does not change any more and every further one is refused; every snapshot of
  the following loop is accepted.\<close>

theorem benchmark_loops:
  assumes "0 < n" "n < 2 ^ 64"
  defines "s1 \<equiv> register_rounds 1 (FleetStateStore_init (StrongId 1) (Generation 1))"
  shows "register_rounds n (FleetStateStore_init (StrongId 1) (Generation 1)) = s1 \<and>
         (\<forall>i. \<exists>e. register_worker (bench_registration i) 1000 s1 = (s1, Inl e)) \<and>
         accepted_observations (ingest_rounds n s1) = word_of_nat n"
proof (intro conjI allI)
  have s1: "s1 = fst (register_worker (bench_registration 0) 1000 (FleetStateStore_init (StrongId 1) (Generation 1)))"
    by (simp add: s1_def register_rounds_def)
  then have reg: "registered s1" using first_registration by simp
  have "[0..<n] = 0 # [1..<n]" using assms(1) by (simp add: upt_conv_Cons)
  then show "register_rounds n (FleetStateStore_init (StrongId 1) (Generation 1)) = s1"
    using registered_rounds [OF reg] s1 by (simp add: register_rounds_def)
  show "\<exists>e. register_worker (bench_registration i) 1000 s1 = (s1, Inl e)" for i
    using register_again [OF reg, of i] register_again_refused [OF reg, of i] by (metis prod.collapse)
  have "m \<le> n \<Longrightarrow> bench_at m (fold ingest_round [0..<m] s1) \<and>
      fs_accepted_observations (fold ingest_round [0..<m] s1) = word_of_nat m" for m
  proof (induction m)
    case 0
    then show ?case using bench_start s1 by simp
  next
    case (Suc m)
    then show ?case using ingest_round_any [of m "fold ingest_round [0..<m] s1" m] assms(2) by simp
  qed
  from this [of n] show "accepted_observations (ingest_rounds n s1) = word_of_nat n"
    using register_again [OF reg, of 0] by (simp add: ingest_rounds_def accepted_observations_def)
qed

theorem benchmark_loops_witness:
  "accepted_observations (ingest_rounds 20000 (register_rounds 1 (FleetStateStore_init (StrongId 1) (Generation 1)))) = 20000"
  using benchmark_loops [of 20000] by simp

end
