(* ===== verification/Cuda_Properties.thy ===== *)
theory Cuda_Properties
  imports Cuda
begin

text \<open>
  The properties of the CUDA validation run and of the CUDA backend: what a passed validation means,
  that the run releases what it allocates, that a device which computes the kernel passes, and what
  makes a probed device eligible.
\<close>

text \<open>Every call of the run up to the copy back succeeds and delivers \<open>h_out\<close>.\<close>

definition steps_pass :: "validation_calls \<Rightarrow> (nat \<Rightarrow> f32) \<Rightarrow> bool" where
  "steps_pass vc h_out \<longleftrightarrow>
     vc_set_device vc = None \<and> \<not> isl (vc_mem_before vc) \<and> \<not> isl (vc_malloc_in vc) \<and> \<not> isl (vc_malloc_out vc) \<and>
     vc_h2d vc = None \<and> vc_launch vc = None \<and> vc_sync vc = None \<and> vc_d2h vc = Inr h_out"

definition memory_restored :: "validation_calls \<Rightarrow> bool" where
  "memory_restored vc \<longleftrightarrow>
     \<not> isl (vc_mem_after vc) \<and> \<bar>sint (fst (projr (vc_mem_after vc)) - fst (projr (vc_mem_before vc)))\<bar> \<le> kMaxJustifiedDelta"

lemma run_steps_pass:
  assumes "steps_pass vc h_out"
  shows "\<exists>r0. fst (run_cuda_validation vc) = finish_validation vc h_out (fst (projr (vc_mem_before vc))) r0 \<and>
              v_alloc_ok r0 \<and> v_h2d_ok r0 \<and> v_kernel_ok r0 \<and> v_sync_ok r0 \<and> v_d2h_ok r0"
proof -
  obtain f t d_in d_out where "vc_mem_before vc = Inr (f, t)" "vc_malloc_in vc = Inr d_in" "vc_malloc_out vc = Inr d_out"
    using assms by (cases "vc_mem_before vc"; cases "vc_malloc_in vc"; cases "vc_malloc_out vc") (auto simp: steps_pass_def)
  with assms show ?thesis by (simp add: steps_pass_def run_cuda_validation_def Let_def) (rule exI, rule conjI [OF refl], simp)
qed

lemma run_step_fails:
  assumes "\<not> (\<exists>h_out. steps_pass vc h_out)"
  shows "\<not> v_ok (fst (run_cuda_validation vc))" "\<not> v_d2h_ok (fst (run_cuda_validation vc))"
  using assms
  by (auto simp: steps_pass_def run_cuda_validation_def CudaValidationResult_default_def Let_def
      split: option.split sum.split)

lemma finish_fields [simp]:
  "v_alloc_ok (finish_validation vc h f r) = v_alloc_ok r" "v_h2d_ok (finish_validation vc h f r) = v_h2d_ok r"
  "v_kernel_ok (finish_validation vc h f r) = v_kernel_ok r" "v_sync_ok (finish_validation vc h f r) = v_sync_ok r"
  "v_d2h_ok (finish_validation vc h f r) = v_d2h_ok r"
  "v_verify_ok (finish_validation vc h f r) = output_acceptable h"
  by (auto simp: finish_validation_def Let_def no_mismatch split: sum.split)

lemma validation_verdict:
  "v_ok (fst (run_cuda_validation vc)) \<longleftrightarrow> (\<exists>h_out. steps_pass vc h_out \<and> output_acceptable h_out) \<and> memory_restored vc"
proof (cases "\<exists>h_out. steps_pass vc h_out")
  case True
  then obtain h_out where h: "steps_pass vc h_out" by blast
  then have only: "steps_pass vc h \<longleftrightarrow> h = h_out" for h by (auto simp: steps_pass_def)
  from run_steps_pass [OF h] obtain r0 where
    "fst (run_cuda_validation vc) = finish_validation vc h_out (fst (projr (vc_mem_before vc))) r0"
    "v_alloc_ok r0" "v_h2d_ok r0" "v_kernel_ok r0" "v_sync_ok r0" "v_d2h_ok r0" by blast
  then show ?thesis
    by (auto simp: finish_validation_def memory_restored_def only no_mismatch Let_def split: sum.split)
qed (use run_step_fails in blast)

lemma validation_evidence:
  "(v_alloc_ok (fst (run_cuda_validation vc)) \<and> v_kernel_ok (fst (run_cuda_validation vc)) \<and>
    v_sync_ok (fst (run_cuda_validation vc)) \<and> v_d2h_ok (fst (run_cuda_validation vc)) \<and> v_verify_ok (fst (run_cuda_validation vc)))
   \<longleftrightarrow> (\<exists>h_out. steps_pass vc h_out \<and> output_acceptable h_out)"
proof (cases "\<exists>h_out. steps_pass vc h_out")
  case True
  then obtain h_out where h: "steps_pass vc h_out" by blast
  then have only: "steps_pass vc h \<longleftrightarrow> h = h_out" for h by (auto simp: steps_pass_def)
  with run_steps_pass [OF h] show ?thesis by auto
qed (use run_step_fails in blast)

text \<open>C29: A validation run releases exactly the device memory it allocated, on every path, and it reports ok
  exactly when every CUDA call it makes up to the copy back succeeds, every element copied back is
  within the tolerance of the reference or is NaN, and the free memory afterwards is within 16 MiB
  of what it was before.\<close>

theorem validation_sound:
  "(case run_cuda_validation vc of (r, allocated, freed) \<Rightarrow>
      freed = allocated \<and>
      (v_ok r \<longleftrightarrow> (\<exists>h_out. steps_pass vc h_out \<and> output_acceptable h_out) \<and> memory_restored vc))"
proof -
  have "case run_cuda_validation vc of (r, allocated, freed) \<Rightarrow> freed = allocated"
    by (simp add: run_cuda_validation_def Let_def split: option.split sum.split)
  with validation_verdict [of vc] show ?thesis by (simp add: split_beta)
qed

text \<open>C30: A device that computes the kernel passes: when every thread of the launched grid runs, in any order,
  every element of the output is the reference value, and a run whose calls succeed and which
  returns the memory reports ok.\<close>

theorem correct_device_validates:
  assumes "set threads = {0..<grid_blocks} \<times> {0..<kBlock}"
    and "steps_pass vc (\<lambda>i. Finite (run_grid threads h_in out i))" "memory_restored vc"
  shows "v_ok (fst (run_cuda_validation vc))"
proof -
  have "output_acceptable (\<lambda>i. Finite (run_grid threads h_in out i))"
    by (simp add: output_acceptable_def run_grid_result [OF assms(1)] tolerance_def)
  with assms(2,3) show ?thesis by (auto simp: validation_verdict)
qed

definition ex_calls :: "(nat \<Rightarrow> f32) \<Rightarrow> validation_calls" where
  "ex_calls h_out =
     \<lparr>vc_set_device = None, vc_mem_before = Inr (1000, 2000), vc_malloc_in = Inr 1, vc_malloc_out = Inr 2, vc_h2d = None,
      vc_launch = None, vc_sync = None, vc_d2h = Inr h_out, vc_free_in = None, vc_free_out = None,
      vc_mem_after = Inr (900, 2000)\<rparr>"

lemma ex_calls_pass: "steps_pass (ex_calls h) h" "memory_restored (ex_calls h)"
proof -
  have "sint (- 100 :: i64) = - 100" by code_simp
  then show "memory_restored (ex_calls h)"
    by (simp add: memory_restored_def ex_calls_def kMaxJustifiedDelta_def)
qed (simp add: steps_pass_def ex_calls_def)

theorem correct_device_validates_witness:
  "v_ok (fst (run_cuda_validation (ex_calls
     (\<lambda>i. Finite (run_grid (List.product [0..<grid_blocks] [0..<kBlock]) h_in (\<lambda>_. 0) i)))))"
  by (rule correct_device_validates) (auto intro: ex_calls_pass)

text \<open>C31: A probed CUDA device becomes ELIGIBLE exactly when it is neither quarantined nor draining, the
  observation is fresh, both version queries succeeded, the validation run got its output and the
  output was acceptable, and the policy is met. The verdict of the run plays no part: a device that
  leaks memory in the run, and so fails it, is ELIGIBLE all the same.\<close>

theorem cuda_device_eligibility:
  assumes "cuda_probe rt dev = Inr p" "n = normalize_observation p meta"
    and "vc = rt_validation rt (ed_ordinal dev)"
  shows "ds_eligibility (ao_state (apply_observation d n pol now ep)) = EligibilityState.ELIGIBLE \<longleftrightarrow>
     \<not> ds_quarantined d \<and> ds_drain d = ACTIVE \<and> observation_is_fresh d n pol now \<and>
     \<not> isl (rt_driver_version rt) \<and> \<not> isl (rt_runtime_version rt) \<and>
     (\<exists>h_out. steps_pass vc h_out \<and> output_acceptable h_out) \<and>
     policy_met n pol \<and> pol_required_capabilities pol = []"
proof -
  have "probe_evidence n \<longleftrightarrow> \<not> isl (rt_driver_version rt) \<and> \<not> isl (rt_runtime_version rt) \<and>
      (\<exists>h_out. steps_pass vc h_out \<and> output_acceptable h_out)"
    using assms validation_evidence [of vc]
    by (auto simp: probe_evidence_def normalize_observation_def cuda_probe_def Let_def
        split: option.splits sum.splits prod.splits)
  then show ?thesis by (auto simp: apply_ELIGIBLE)
qed

definition ex_leaking :: cuda_runtime where
  "ex_leaking =
     \<lparr>rt_device_count = Inr 1, rt_properties = (\<lambda>_. Inl ''none''), rt_driver_version = Inr 12040, rt_runtime_version = Inr 12040,
      rt_set_device = (\<lambda>_. None), rt_free_null = (\<lambda>_. None), rt_mem_info = (\<lambda>_. Inr (1000, 2000)),
      rt_validation = (\<lambda>_. (ex_calls (\<lambda>i. Finite (h_in i * 2 + 1)))\<lparr>vc_mem_after := Inl ''lost''\<rparr>)\<rparr>"

definition ex_meta :: ObservationMetadata where
  "ex_meta =
     \<lparr>om_device_id = StrongId 1, om_observation_generation = Generation 1, om_health_generation = Generation 1,
      om_observed_at = 1000, om_source_worker_boot = StrongId 7, om_source_worker = StrongId 5, om_source_node = StrongId 3,
      om_epoch = Generation 1, om_device_generation = Generation 1\<rparr>"

theorem cuda_device_eligibility_witness:
  "\<not> v_ok (fst (run_cuda_validation (rt_validation ex_leaking 0))) \<and>
   ds_eligibility (ao_state (apply_observation DeviceState_default
     (normalize_observation (projr (cuda_probe ex_leaking (EnumeratedDevice_default\<lparr>ed_ordinal := 0\<rparr>))) ex_meta)
     ObservationPolicy_default 1000 (Generation 1))) = EligibilityState.ELIGIBLE"
proof
  let ?vc = "rt_validation ex_leaking 0" and ?dev = "EnumeratedDevice_default\<lparr>ed_ordinal := 0\<rparr>"
  have "\<not> memory_restored ?vc" by (simp add: ex_leaking_def memory_restored_def)
  then show "\<not> v_ok (fst (run_cuda_validation ?vc))" by (simp add: validation_verdict)
  obtain p where p: "cuda_probe ex_leaking ?dev = Inr p" "p_identity p = DeviceIdentity_default"
    "p_total_memory p = 2000" "p_free_memory p = 1000"
    by (simp add: cuda_probe_def ex_leaking_def EnumeratedDevice_default_def Let_def)
  let ?n = "normalize_observation p ex_meta"
  have "steps_pass ?vc (\<lambda>i. Finite (h_in i * 2 + 1)) \<and> output_acceptable (\<lambda>i. Finite (h_in i * 2 + 1))"
    by (simp add: steps_pass_def ex_leaking_def ex_calls_def output_acceptable_def tolerance_def)
  moreover have "observation_is_fresh DeviceState_default ?n ObservationPolicy_default 1000"
    by (simp add: observation_is_fresh_def normalize_observation_def ex_meta_def DeviceState_default_def ObservationPolicy_default_def)
  moreover have "policy_met ?n ObservationPolicy_default" "pol_required_capabilities ObservationPolicy_default = []"
    by (simp_all add: policy_met_def ObservationPolicy_default_def normalize_observation_def p)
  ultimately show "ds_eligibility (ao_state (apply_observation DeviceState_default
     (normalize_observation (projr (cuda_probe ex_leaking ?dev)) ex_meta) ObservationPolicy_default 1000 (Generation 1))) = EligibilityState.ELIGIBLE"
    using cuda_device_eligibility [OF p(1) refl refl, of DeviceState_default ex_meta ObservationPolicy_default 1000 "Generation 1"] p(1)
    by (auto simp: DeviceState_default_def ex_leaking_def)
qed

end
