(* ===== verification/Cli_Properties.thy ===== *)
theory Cli_Properties
  imports Cli Agent_Properties
begin

text \<open>
  The properties of the command line tool: what it sends and what it reports when it talks to a
  running coordinator, what its arguments mean, and what its JSON strings are worth.
\<close>

subsection \<open>A request and its reply\<close>

lemma reply_loop_read_loop:
  "read_loop n buf msg st = ((m, st'), void_ok_result) \<Longrightarrow> reply_loop n buf st = Inr m"
  by (induction n arbitrary: buf st)
    (auto simp: void_ok_result_def void_of_error_def error_result_def
      split: prod.splits recv_result.splits option.splits feed_result.splits if_splits)

lemma request_arrives:
  assumes "ready st" "ts_recvs st = map RecvBytes cs" "arrives cs reply"
  shows "request (Inr st) m = (Inr reply, ts_out st @ send_message m)"
proof -
  have "read_loop 64 [] Message_default (st\<lparr>ts_out := x\<rparr>) = ((reply, st\<lparr>ts_recvs := [], ts_out := x\<rparr>), void_ok_result)" for x
    using read_one_message_arrives [of cs reply "st\<lparr>ts_out := x\<rparr>" "[]" Message_default] assms
    by (simp add: read_one_message_def)
  from reply_loop_read_loop [OF this] show ?thesis
    using assms(1) by (simp add: request_def send_all_out send_message_def)
qed

text \<open>
  The socket \<open>st\<close> of a command is connected to the running coordinator \<open>c\<close>: what the command
  sends arrives there, and the first reply arrives here, each in any pieces. The connection the
  coordinator then has is \<open>cn\<close>.
\<close>

definition served ::
  "save_io \<Rightarrow> (nat \<Rightarrow> Timestamp) \<Rightarrow> Coordinator \<Rightarrow> files \<Rightarrow> Message \<Rightarrow> tcp_stream \<Rightarrow> connection \<Rightarrow> bool" where
  "served io clock c fs m st cn \<longleftrightarrow>
     c_running c \<and> sendable m \<and> ready st \<and> ts_out st = [] \<and>
     (\<exists>ds cs. concat ds = snd (request (Inr st) m) \<and> [] \<notin> set ds \<and>
              cn = handle_connection io clock (map Received ds) (connection_new c fs) \<and>
              ts_recvs st = map RecvBytes cs \<and> arrives cs (hd (cn_sent cn)))"

lemma served_dispatch:
  assumes "served io clock c fs m st cn" "m_type m \<noteq> REGISTER"
  shows "cn_coord cn = fst (fst (dispatch io (clock 0) m (c, fs)))"
    and "request (Inr st) m = (Inr (snd (dispatch io (clock 0) m (c, fs))), send_message m)"
proof -
  from assms(1) obtain ds cs where s: "c_running c" "sendable m" "ready st" "ts_out st = []"
    "concat ds = snd (request (Inr st) m)" "[] \<notin> set ds"
    "cn = handle_connection io clock (map Received ds) (connection_new c fs)"
    "ts_recvs st = map RecvBytes cs" "arrives cs (hd (cn_sent cn))"
    by (auto simp: served_def)
  have req: "request (Inr st) m = (Inr (hd (cn_sent cn)), send_message m)"
    using request_arrives [OF s(3,8,9), of m] s(4) by simp
  have "cn\<lparr>cn_buf := []\<rparr> = fold (deliver_one io clock) [m] ((connection_new c fs)\<lparr>cn_buf := []\<rparr>)"
    unfolding s(7) using s(1,2,5,6) req by (intro handle_messages) (simp_all add: connection_new_def)
  then have run: "cn\<lparr>cn_buf := []\<rparr> = deliver_one io clock m (connection_new c fs)" by (simp add: connection_new_def)
  from arg_cong [OF run, of cn_coord] show "cn_coord cn = fst (fst (dispatch io (clock 0) m (c, fs)))"
    using assms(2) by (simp add: deliver_one_def connection_new_def Let_def split_beta)
  from arg_cong [OF run, of cn_sent] have "cn_sent cn = [snd (dispatch io (clock 0) m (c, fs))]"
    using assms(2) by (simp add: deliver_one_def connection_new_def Let_def split_beta)
  with req show "request (Inr st) m = (Inr (snd (dispatch io (clock 0) m (c, fs))), send_message m)" by simp
qed

subsection \<open>Administrative commands\<close>

text \<open>The store operation each command stands for.\<close>

definition admin_op :: "Params \<Rightarrow> string \<Rightarrow> Timestamp \<Rightarrow> FleetStateStore \<Rightarrow> store_op" where
  "admin_op p which now s =
     (let dev = pr_device p; owner = find_owner dev (fs_workers s) (StrongId 0)
      in if which = ''drain'' then SetDrain owner dev DrainState.DRAINING now
         else if which = ''undrain'' then SetDrain owner dev ACTIVE now
         else if which = ''quarantine''
         then SetQuarantine owner dev
                (QuarantineRecord_default\<lparr>q_reason := pr_reason p, q_source := pr_source p, q_generation := Generation 1,
                   q_at := now, q_authority := fs_epoch s\<rparr>) now
         else ClearQuarantine (StrongId 0) dev (fs_epoch s) now)"

lemmas admin_decodes = decode_encode_drain_target decode_encode_quarantine decode_encode_identity_target

lemma admin_dispatch:
  assumes "which \<in> {''drain'', ''undrain'', ''quarantine'', ''clear-quarantine''}"
    and "length (pr_device p) \<le> 1024" "length (pr_reason p) \<le> 512" "length (pr_source p) \<le> 128"
  shows "c_store (fst (fst (dispatch io now (admin_message p which) (c, fs)))) = run_op (admin_op p which now (c_store c)) (c_store c)"
    and "m_ok (snd (dispatch io now (admin_message p which) (c, fs)))"
    and "m_type (admin_message p which) \<noteq> REGISTER"
proof -
  show "c_store (fst (fst (dispatch io now (admin_message p which) (c, fs)))) = run_op (admin_op p which now (c_store c)) (c_store c)"
    using assms by (auto simp: dispatch_store message_op_def run_opt_def admin_message_def admin_op_def admin_decodes Let_def)
  show "m_ok (snd (dispatch io now (admin_message p which) (c, fs)))"
    using assms by (auto simp: dispatch_def dispatch_defs admin_message_def admin_decodes Let_def ack_void_ok void_ops_ok
        respond_ack_def split_beta)
  show "m_type (admin_message p which) \<noteq> REGISTER"
    using assms(1) by (auto simp: admin_message_def)
qed

lemma admin_command_run:
  assumes "served io clock c fs (admin_message p which) st cn" "env_conn env = Inr st"
    and "which \<in> {''drain'', ''undrain'', ''quarantine'', ''clear-quarantine''}"
    and "length (pr_device p) \<le> 1024" "length (pr_reason p) \<le> 512" "length (pr_source p) \<le> 128"
  shows "cmd_admin env p which = finish env (''ok'' @ endl) 0"
    and "c_store (cn_coord cn) = run_op (admin_op p which (clock 0) (c_store c)) (c_store c)"
proof -
  note served = served_dispatch [OF assms(1) admin_dispatch(3) [OF assms(3-6)]]
  show "cmd_admin env p which = finish env (''ok'' @ endl) 0"
    using served(2) admin_dispatch(2) [OF assms(3-6)] assms(2) by (simp add: cmd_admin_def)
  show "c_store (cn_coord cn) = run_op (admin_op p which (clock 0) (c_store c)) (c_store c)"
    using served(1) admin_dispatch(1) [OF assms(3-6)] by simp
qed


lemma served_whole:
  assumes "c_running c" "sendable m" "m_type m \<noteq> REGISTER" "reply = snd (dispatch io (clock 0) m (c, fs))" "sendable reply"
  shows "served io clock c fs m (ex_stream [RecvBytes (send_message reply)])
           (handle_connection io clock [Received (send_message m)] (connection_new c fs))"
proof -
  let ?st = "ex_stream [RecvBytes (send_message reply)]"
  let ?cn = "handle_connection io clock [Received (send_message m)] (connection_new c fs)"
  have st: "ready ?st" "ts_out ?st = []" by (simp_all add: ex_stream_def ready_def stream_open_def)
  have "?cn\<lparr>cn_buf := []\<rparr> = fold (deliver_one io clock) [m] ((connection_new c fs)\<lparr>cn_buf := []\<rparr>)"
    using handle_messages [of "[m]" "[send_message m]" "connection_new c fs" io clock] assms(1,2)
    by (simp add: connection_new_def)
  from arg_cong [OF this, of cn_sent] have sent: "cn_sent ?cn = [reply]"
    using assms(3,4) by (simp add: deliver_one_def connection_new_def Let_def split_beta)
  have "request (Inr ?st) m = (Inr reply, send_message m)"
    using request_arrives [OF st(1) _ arrives_whole [OF assms(5)]] st(2) by (simp add: ex_stream_def)
  then have "concat [send_message m] = snd (request (Inr ?st) m)" "[] \<notin> set [send_message m]" by simp_all
  moreover have "ts_recvs ?st = map RecvBytes [send_message reply]" by (simp add: ex_stream_def)
  moreover have "arrives [send_message reply] (hd (cn_sent ?cn))" using sent arrives_whole [OF assms(5)] by simp
  ultimately show ?thesis
    unfolding served_def using assms(1,2) st by (metis list.simps(8) list.simps(9))
qed

definition ex_params :: Params where
  "ex_params = Params_default\<lparr>pr_device := ex_key, pr_reason := ''ecc''\<rparr>"

definition ex_env :: "Message \<Rightarrow> cli_env" where
  "ex_env reply = \<lparr>env_conn = Inr (ex_stream [RecvBytes (send_message reply)]), env_files = (\<lambda>_. None), env_save = ex_io,
     env_load = \<lparr>lio_ftell = True, lio_fread = 100000\<rparr>, env_bound = Inr ex_listener, env_cuda = None,
     env_time = 1000, env_pid = 1, env_attempts = []\<rparr>"

lemma ex_params_bounds:
  "length (pr_device ex_params) \<le> 1024" "length (pr_reason ex_params) \<le> 512" "length (pr_source ex_params) \<le> 128"
  by code_simp+

lemma admin_sendable:
  assumes "which \<in> {''drain'', ''undrain'', ''quarantine'', ''clear-quarantine''}"
  shows "sendable (admin_message p which)"
proof (rule sendable_payload)
  show "length (m_payload (admin_message p which)) \<le> 10000"
    using assms length_put_string [of 1024 "pr_device p"] length_put_string [of 512 "pr_reason p"]
      length_put_string [of 128 "pr_source p"]
    by (auto simp: admin_message_def encode_drain_target_def encode_quarantine_def encode_identity_target_def)
qed (use assms in \<open>auto simp: admin_message_def Message_default_def\<close>)

lemma admin_reply_sendable:
  assumes "which \<in> {''drain'', ''undrain'', ''quarantine'', ''clear-quarantine''}"
    and "length (pr_device p) \<le> 1024" "length (pr_reason p) \<le> 512" "length (pr_source p) \<le> 128"
  shows "sendable (snd (dispatch io now (admin_message p which) (c, fs)))"
  using assms
  by (intro sendable_payload)
    (auto simp: dispatch_def dispatch_defs admin_message_def admin_decodes Let_def ack_void_ok void_ops_ok
        respond_ack_def Message_default_def split_beta)



definition ex_observed_twice :: FleetStateStore where
  "ex_observed_twice = run_op (Ingest (StrongId 5) [(ex_observation 2 2000)\<lparr>o_device_generation := Generation 2\<rparr>]
     ObservationPolicy_default 2000) ex_store"

lemma ex_observed_twice_device: "map_option ds_generation (om_find (fs_devices ex_observed_twice) ex_key) = Some (Generation 2)"
  by code_simp


subsection \<open>Reading the state\<close>

lemma snapshot_request_sendable: "sendable (Message_default\<lparr>m_type := SNAPSHOT_REQUEST\<rparr>)"
  by (rule sendable_payload) (simp_all add: Message_default_def)

lemma fetch_served:
  assumes "served io clock c fs (Message_default\<lparr>m_type := SNAPSHOT_REQUEST\<rparr>) st cn" "StateSnapshot_wf (snapshot (c_store c))"
  shows "fetch_snapshot (Inr st) = Inr ((snapshot (c_store c))\<lparr>sn_accounting := Accounting_zero\<rparr>)" "cn_coord cn = c"
  using served_dispatch [OF assms(1)] decode_encode_snapshot [OF assms(2)]
  by (simp_all add: fetch_snapshot_def dispatch_def Let_def)

lemma store_bytes_accounting [simp]: "store_bytes (s\<lparr>sn_accounting := a\<rparr>) = store_bytes s"
  by (simp add: store_bytes_def encode_snapshot_def)



subsection \<open>Arguments\<close>

lemma digit_char_value:
  assumes "d < 10"
  shows "c_isdigit (digit_char d)" "(of_char (digit_char d) :: nat) = 48 + d"
proof -
  have "d \<in> {0, 1, 2, 3, 4, 5, 6, 7, 8, 9}" using assms by auto
  then show "c_isdigit (digit_char d)" "(of_char (digit_char d) :: nat) = 48 + d"
    by (auto simp: digit_char_def c_isdigit_def)
qed

lemma dec_string_digits: "list_all c_isdigit (dec_string n)"
  by (auto simp: list_all_iff dec_string_def digit_char_value dest!: digits_of_less [of 10, simplified])

lemma dec_string_nonempty: "dec_string n \<noteq> []"
  by (simp add: dec_string_def digits_of.simps [of 10 n])

lemma foldl_digit_chars:
  "(\<And>d. d \<in> set ds \<Longrightarrow> d < 10) \<Longrightarrow>
     foldl (\<lambda>a c. 10 * a + (of_char c - 48)) x (map digit_char ds) = foldl (\<lambda>a d. a * 10 + d) (x :: nat) ds"
  by (induction ds arbitrary: x) (simp_all add: digit_char_value mult.commute)

lemma digits_value_dec_string: "digits_value (dec_string n) = n"
proof -
  have "digits_value (dec_string n) = value_of 10 (digits_of 10 n)"
    unfolding digits_value_def dec_string_def value_of_def
    by (rule foldl_digit_chars) (rule digits_of_less, simp_all)
  then show ?thesis by (simp add: value_of_digits_of)
qed

lemma digit_not_sign: "c_isdigit c \<Longrightarrow> \<not> c_isspace c \<and> c \<noteq> CHR ''-'' \<and> c \<noteq> CHR ''+''"
  by (auto simp: c_isdigit_def c_isspace_def)

lemma read_decimal_dec_string: "read_decimal (dec_string n) = Some (False, n)"
proof -
  obtain c cs where s: "dec_string n = c # cs" using dec_string_nonempty by (cases "dec_string n") auto
  with dec_string_digits [of n] have c: "c_isdigit c" and cs: "list_all c_isdigit (c # cs)" by simp_all
  from cs have "takeWhile c_isdigit cs = cs" by (simp add: takeWhile_eq_all_conv list_all_iff)
  with s c digit_not_sign [OF c] show ?thesis
    using digits_value_dec_string [of n] by (simp add: read_decimal_def del: takeWhile_eq_all_conv)
qed

text \<open>Arguments that spell out every parameter.\<close>

definition spelled_out :: "Params \<Rightarrow> string list" where
  "spelled_out p =
     [''--host'', pr_host p, ''--port'', dec_string (unat (pr_port p)), ''--state'', pr_state p, ''--device'', pr_device p,
      ''--worker'', pr_worker p, ''--reason'', pr_reason p, ''--source'', pr_source p, ''--backend'', pr_backend p,
      ''--node-id'', pr_node p, ''--worker-id'', pr_worker_id p, ''--boot-id'', pr_boot p] @
     (if pr_json p then [''--json''] else []) @ [pr_command p]"

lemma stoi_port: "stoi (dec_string (unat (w :: u16))) = Some (int (unat w))"
proof -
  have "unat w < 2 ^ 16" by (rule order_less_le_trans [OF unsigned_less]) simp
  then show ?thesis by (simp add: stoi_def read_decimal_dec_string)
qed

text \<open>Every value of every parameter can be given on the command line: the arguments that spell out a
  parameter record are parsed into that record, whatever the option values are (option names,
  empty strings), as long as the command is not itself an option.\<close>

theorem arguments_express_every_parameter:
  assumes "pr_command p \<noteq> ''''" "set_option (pr_command p) = None" "pr_command p \<notin> {''--json'', ''--help'', ''-h''}"
  shows "parse (spelled_out p) = Parsed p"
  using assms
  by (simp add: parse_def spelled_out_def set_option_def stoi_port Params_default_def word_of_int_uint)

theorem arguments_express_every_parameter_witness:
  "parse (spelled_out (Params_default\<lparr>pr_port := 7400, pr_device := ''--port'', pr_command := ''drain''\<rparr>))
     = Parsed (Params_default\<lparr>pr_port := 7400, pr_device := ''--port'', pr_command := ''drain''\<rparr>)"
  by (rule arguments_express_every_parameter) (simp_all add: set_option_def)

subsection \<open>JSON strings\<close>

text \<open>
  A reader of JSON strings, after the opening quote: the contents and what follows the closing quote.
  Control characters and escapes other than those written here are errors.
\<close>

fun scan_json :: "string \<Rightarrow> (string \<times> string) option" where
  "scan_json [] = None"
| "scan_json (c # cs) =
     (if c = CHR 0x22 then Some ([], cs)
      else if c = CHR 0x5C
      then (case cs of
              [] \<Rightarrow> None
            | e # cs' \<Rightarrow>
                if e = CHR 0x22 \<or> e = CHR 0x5C then map_option (apfst (Cons e)) (scan_json cs')
                else if e = CHR ''n'' then map_option (apfst (Cons (CHR 0x0A))) (scan_json cs')
                else if e = CHR ''t'' then map_option (apfst (Cons (CHR 0x09))) (scan_json cs')
                else None)
      else if (of_char c :: nat) < 32 then None
      else map_option (apfst (Cons c)) (scan_json cs))"

lemma scan_jesc:
  "scan_json (jesc s @ CHR 0x22 # rest) =
     (if list_all (\<lambda>c. 32 \<le> (of_char c :: nat) \<or> c \<in> {CHR 0x0A, CHR 0x09}) s then Some (s, rest) else None)"
  by (induction s) auto

text \<open>A printed string is read back by a JSON reader as the string, with nothing of what follows taken
  into it and no way to end it early, exactly when its only control characters are newline and tab;
  with any other control character the output is not JSON.\<close>

theorem printed_strings_scan_back:
  "scan_json (tl (J s) @ rest) =
     (if list_all (\<lambda>c. 32 \<le> (of_char c :: nat) \<or> c \<in> {CHR 0x0A, CHR 0x09}) s then Some (s, rest) else None)"
  by (simp add: J_def scan_jesc)

end
