(* ===== verification/Fleet_Properties.thy ===== *)
theory Fleet_Properties
  imports Fleet_Examples Ingest
begin

text \<open>
  The properties of the fleet store, each with an instance on the example fleet where it has
  hypotheses. The proofs apply the lemmas of \<open>Fleet_Safety\<close>.
\<close>

lemma ex_store_reachable: "reachable ex_store"
proof -
  have "reachable s \<Longrightarrow> reachable (run_ops ops s)" for ops s
    by (induction ops arbitrary: s) (auto intro: reachable.step)
  then show ?thesis by (simp add: ex_store_def reachable.start)
qed

lemma reachable_justified: "reachable s \<Longrightarrow> om_find (fs_devices s) k = Some d \<Longrightarrow> device_justified d"
  using justified.inv_reachable by (auto simp: justified.all_devices_def)

text \<open>C1: In every store that any sequence of operations and recoveries can produce, a device
  marked ELIGIBLE or DEGRADED_ELIGIBLE has a fresh observation, is present, is not quarantined,
  is not draining, and its health is HEALTHY or DEGRADED.\<close>

theorem eligible_devices_are_justified:
  assumes "reachable s" "om_find (fs_devices s) k = Some d"
    and "ds_eligibility d \<in> {EligibilityState.ELIGIBLE, EligibilityState.DEGRADED_ELIGIBLE}"
  shows "ds_observation_fresh d \<and> ds_present d \<and> \<not> ds_quarantined d \<and> ds_drain d = ACTIVE \<and>
         ds_health d \<in> {HealthState.HEALTHY, HealthState.DEGRADED}"
  using reachable_justified [OF assms(1,2)] assms(3) by (auto simp: device_justified_def)

theorem eligible_devices_are_justified_witness:
  "\<exists>d. om_find (fs_devices ex_store) ex_key = Some d \<and> ds_eligibility d = EligibilityState.ELIGIBLE \<and>
       ds_observation_fresh d \<and> ds_health d \<in> {HealthState.HEALTHY, HealthState.DEGRADED}"
proof -
  obtain d where "om_find (fs_devices ex_store) ex_key = Some d" "ds_eligibility d = EligibilityState.ELIGIBLE"
    using ex_store_device_eligible by auto
  with eligible_devices_are_justified [OF ex_store_reachable, of ex_key d] show ?thesis by auto
qed

text \<open>C5: Each store operation acts on the entry under each key as a run of the single-device machine,
  using only the events that the operation allows: observations of a registered, unfenced worker
  that carry its boot, its identity and the current epoch; losses only of keys the worker owns;
  drain and quarantine events only for the named device.\<close>

theorem store_refines_device_machine:
  "device_run (op_events s op k) (om_find (fs_devices s) k) (om_find (fs_devices (run_op op s)) k)"
  by (rule run_op_device_run [rule_format])

text \<open>C18: A quarantined device stays quarantined, and is never eligible, across every sequence of
  operations that does not clear the quarantine of that device.\<close>

theorem quarantine_is_sticky:
  assumes "reachable s" "om_find (fs_devices s) k = Some d" "ds_quarantined d"
    and "\<forall>op\<in>set ops. \<forall>w e now. op \<noteq> ClearQuarantine w k e now"
  shows "\<exists>d'. om_find (fs_devices (run_ops ops s)) k = Some d' \<and> ds_quarantined d' \<and>
              ds_eligibility d' \<notin> {EligibilityState.ELIGIBLE, EligibilityState.DEGRADED_ELIGIBLE}"
proof -
  have "\<forall>op\<in>set ops. \<not> clears op k"
    using assms(4) by (auto simp: clears_def split: store_op.splits)
  then have "quarantined_at (om_find (fs_devices (run_ops ops s)) k)"
    by (rule run_ops_quarantined) (use assms(2,3) in \<open>auto simp: quarantined_at_def\<close>)
  moreover have "justified.all_devices (run_ops ops s)"
    by (rule justified.inv_run_ops) (rule justified.inv_reachable [OF assms(1)])
  ultimately show ?thesis
    by (fastforce simp: quarantined_at_def justified.all_devices_def device_justified_def)
qed

definition ex_quarantine :: QuarantineRecord where
  "ex_quarantine = \<lparr>q_reason = ''ecc'', q_source = ''operator'', q_generation = Generation 1, q_at = 1100,
                    q_device_id = StrongId 9, q_authority = Generation 1\<rparr>"

definition ex_quarantined :: FleetStateStore where
  "ex_quarantined = run_op (SetQuarantine (StrongId 5) ex_key ex_quarantine 1100) ex_store"

lemma ex_quarantined_device: "map_option ds_quarantined (om_find (fs_devices ex_quarantined) ex_key) = Some True"
  by code_simp

theorem quarantine_is_sticky_witness:
  "\<exists>d. om_find (fs_devices (run_ops [Ingest (StrongId 5) [ex_observation 2 2000] ObservationPolicy_default 2000]
         ex_quarantined)) ex_key = Some d \<and> ds_quarantined d"
proof -
  obtain d where "om_find (fs_devices ex_quarantined) ex_key = Some d" "ds_quarantined d"
    using ex_quarantined_device by auto
  moreover have "reachable ex_quarantined"
    unfolding ex_quarantined_def by (rule reachable.step) (rule ex_store_reachable)
  ultimately show ?thesis
    using quarantine_is_sticky [of ex_quarantined ex_key d
        "[Ingest (StrongId 5) [ex_observation 2 2000] ObservationPolicy_default 2000]"]
    by auto
qed

text \<open>The drain state of a device changes only through a drain operation on that device: new
  observations, lost workers and quarantine keep it.\<close>

theorem drain_is_sticky:
  assumes "om_find (fs_devices s) k = Some d"
    and "\<forall>op\<in>set ops. \<forall>w x now. op \<noteq> SetDrain w k x now"
  shows "\<exists>d'. om_find (fs_devices (run_ops ops s)) k = Some d' \<and> ds_drain d' = ds_drain d"
proof -
  have "\<forall>op\<in>set ops. \<not> drains op k"
    using assms(2) by (auto simp: drains_def split: store_op.splits)
  then have "drain_at (ds_drain d) (om_find (fs_devices (run_ops ops s)) k)"
    by (rule run_ops_drain) (use assms(1) in \<open>auto simp: drain_at_def\<close>)
  then show ?thesis by (auto simp: drain_at_def)
qed

lemma ex_store_drain: "map_option ds_drain (om_find (fs_devices ex_store) ex_key) = Some ACTIVE"
  by code_simp

theorem drain_is_sticky_witness:
  "\<exists>d. om_find (fs_devices (run_ops [MarkLost (StrongId 5) 3000] ex_store)) ex_key = Some d \<and> ds_drain d = ACTIVE"
proof -
  obtain d where "om_find (fs_devices ex_store) ex_key = Some d" "ds_drain d = ACTIVE"
    using ex_store_drain by auto
  with drain_is_sticky [of ex_store ex_key d "[MarkLost (StrongId 5) 3000]"] show ?thesis by auto
qed

text \<open>C4: Ingesting changes the entry under a key only for a registered worker that is neither lost nor
  fenced, and only if the worker owned the key or sent an observation of that key carrying the
  current coordinator epoch, the registered boot of the worker and the worker's own identity.\<close>

theorem ingest_needs_authority:
  assumes "om_find (fs_devices (fst (ingest_snapshot w obs pol now s))) k \<noteq> om_find (fs_devices s) k"
  shows "\<exists>wr. om_find (fs_workers s) w = Some wr \<and> \<not> wr_lost wr \<and> \<not> wr_fenced wr \<and>
     (k \<in> set (wr_device_identities wr) \<or>
      (\<exists>ob\<in>set obs. canonical_device_identity (o_identity ob) = k \<and> o_epoch ob = fs_epoch s \<and>
                    o_source_worker_boot ob = wr_boot wr \<and> o_source_worker ob = w))"
proof -
  have "device_run (op_events s (Ingest w obs pol now) k) (om_find (fs_devices s) k)
          (om_find (fs_devices (fst (ingest_snapshot w obs pol now s))) k)"
    using run_op_device_run [rule_format, of s "Ingest w obs pol now" k] by simp
  with assms obtain e where "op_events s (Ingest w obs pol now) k e"
    by (metis device_run_none)
  then show ?thesis
    by (cases e) (auto simp: op_events_def authoritative_def ingest_events_def owned_keys_def)
qed

lemma ex_ingest_changes:
  "om_find (fs_devices (fst (ingest_snapshot (StrongId 5) [ex_observation 2 2000] ObservationPolicy_default 2000 ex_store))) ex_key
     \<noteq> om_find (fs_devices ex_store) ex_key"
  by code_simp

theorem ingest_needs_authority_witness:
  "\<exists>wr. om_find (fs_workers ex_store) (StrongId 5) = Some wr \<and> \<not> wr_lost wr \<and> \<not> wr_fenced wr"
  using ingest_needs_authority [OF ex_ingest_changes] by blast

text \<open>A snapshot of a live worker in which every observation carries the current epoch, the registered
  boot and the worker's own id, the devices are distinct, and the generations of each are newer than
  what the same boot reported before, is accepted as a whole: every observed device takes the state
  of its observation, every other device the worker owns is marked as disappeared, and all other
  devices are unchanged.\<close>

theorem snapshot_commits_every_observation:
  assumes "om_find (fs_workers s) w = Some wr" "\<not> wr_lost wr" "\<not> wr_fenced wr" "distinct (map obs_key obs)"
    and "\<forall>ob\<in>set obs. o_epoch ob = fs_epoch s \<and> o_source_worker_boot ob = wr_boot wr \<and> o_source_worker ob = w"
    and "\<forall>ob\<in>set obs. \<forall>d. om_find (fs_devices s) (obs_key ob) = Some d \<and> ds_source_worker_boot d = wr_boot wr \<longrightarrow>
           ds_observation_generation d < o_observation_generation ob \<and> ds_generation d \<le> o_device_generation ob \<and>
           ds_health_generation d \<le> o_health_generation ob"
  shows "\<exists>s' ao. ingest_snapshot w obs pol now s = (s', Inr ao) \<and>
           (\<forall>k. om_find (fs_devices s') k =
              (case find (\<lambda>ob. obs_key ob = k) obs of
                 Some ob \<Rightarrow> Some (observed (om_find (fs_devices s) k) ob pol now (fs_epoch s))
               | None \<Rightarrow> if k \<in> set (owned_keys w s) then map_option vanish_device (om_find (fs_devices s) k)
                         else om_find (fs_devices s) k))"
proof -
  have "judge_observation w (wr_boot wr) ob s = Accept" if "ob \<in> set obs" for ob
    using that assms(5,6) by (intro judge_newer) auto
  with ingest_all_accepted [OF assms(1-4)] show ?thesis by (simp add: ingested_def)
qed

theorem snapshot_commits_every_observation_witness:
  "\<exists>s' ao. ingest_snapshot (StrongId 5) [ex_observation 2 2000] ObservationPolicy_default 2000 ex_store = (s', Inr ao)"
proof -
  have "map_option (\<lambda>wr. (wr_lost wr, wr_fenced wr, wr_boot wr)) (om_find (fs_workers ex_store) (StrongId 5))
      = Some (False, False, StrongId 7)" "fs_epoch ex_store = Generation 1"
    "map_option (\<lambda>d. (ds_observation_generation d, ds_generation d, ds_health_generation d)) (om_find (fs_devices ex_store) ex_key)
      = Some (Generation 1, Generation 1, Generation 1)" by code_simp+
  then obtain wr d where "om_find (fs_workers ex_store) (StrongId 5) = Some wr" "\<not> wr_lost wr" "\<not> wr_fenced wr"
    "wr_boot wr = StrongId 7" "fs_epoch ex_store = Generation 1" "om_find (fs_devices ex_store) ex_key = Some d"
    "ds_observation_generation d = Generation 1" "ds_generation d = Generation 1" "ds_health_generation d = Generation 1"
    by auto
  then show ?thesis
    using snapshot_commits_every_observation [of ex_store "StrongId 5" wr "[ex_observation 2 2000]" ObservationPolicy_default 2000]
    by (auto simp: ex_observation_def obs_key_def less_Generation_def less_eq_Generation_def)
qed

text \<open>A snapshot is accepted only if every observation in it, duplicates included, carries the
  current epoch, the registered boot and the identity of the worker that sent it.\<close>

theorem accepted_snapshot_is_current:
  assumes "snd (ingest_snapshot w obs pol now s) = Inr ao" "ob \<in> set obs"
  shows "\<exists>wr. om_find (fs_workers s) w = Some wr \<and> o_epoch ob = fs_epoch s \<and>
              o_source_worker_boot ob = wr_boot wr \<and> o_source_worker ob = w"
proof -
  obtain wr where wr: "om_find (fs_workers s) w = Some wr"
    using assms(1) by (auto simp: ingest_snapshot_def split: option.splits)
  moreover obtain s1 res where "ingest_loop w (wr_boot wr) pol now obs {} AppliedObservation_default s = (s1, res)"
    by (metis surj_pair)
  ultimately show ?thesis
    using assms by (cases res) (auto simp: ingest_snapshot_def split: if_splits dest: ingest_loop_current)
qed

lemma ex_ingest_accepted:
  "\<not> isl (snd (ingest_snapshot (StrongId 5) [ex_observation 2 2000] ObservationPolicy_default 2000 ex_store))"
  by code_simp

theorem accepted_snapshot_is_current_witness:
  "o_epoch (ex_observation 2 2000) = fs_epoch ex_store"
proof -
  obtain ao where
    "snd (ingest_snapshot (StrongId 5) [ex_observation 2 2000] ObservationPolicy_default 2000 ex_store) = Inr ao"
    using ex_ingest_accepted by (metis isl_def sum.collapse(2))
  from accepted_snapshot_is_current [OF this, of "ex_observation 2 2000"] show ?thesis by auto
qed


abbreviation ex_reingest :: store_op where
  "ex_reingest \<equiv> Ingest (StrongId 5) [ex_observation 2 2000] ObservationPolicy_default 2000"

lemma ex_reingest_boot:
  "map_option (\<lambda>d. (ds_source_worker_boot d, ds_observation_generation d)) (om_find (fs_devices ex_store) ex_key)
     = Some (StrongId 7, Generation 1)"
  "map_option (\<lambda>d. (ds_source_worker_boot d, ds_observation_generation d)) (om_find (fs_devices (run_op ex_reingest ex_store)) ex_key)
     = Some (StrongId 7, Generation 2)"
  by code_simp+


text \<open>C40: A snapshot in which every observation is a duplicate for the same incarnation is accepted, and
  every known device the worker owns is then marked LOST and INELIGIBLE although it was reported:
  a skipped observation is not entered into the set of seen keys.\<close>

theorem replayed_snapshot_loses_devices:
  assumes "om_find (fs_workers s) w = Some wr" "\<not> wr_lost wr" "\<not> wr_fenced wr"
    and "\<And>ob. ob \<in> set obs \<Longrightarrow> judge_observation w (wr_boot wr) ob s = Skip"
    and "k \<in> set (wr_device_identities wr)" "om_find (fs_devices s) k = Some d"
  shows "\<exists>d'. om_find (fs_devices (fst (ingest_snapshot w obs pol now s))) k = Some d' \<and>
              ds_health d' = HealthState.LOST \<and> ds_eligibility d' = EligibilityState.INELIGIBLE \<and>
              snd (ingest_snapshot w obs pol now s) = Inr AppliedObservation_default"
proof -
  have "ingest_loop w (wr_boot wr) pol now obs {} AppliedObservation_default s
      = (s, Inr ({}, AppliedObservation_default))"
    by (rule ingest_loop_skips) (rule assms(4))
  with assms show ?thesis
    by (auto simp: ingest_snapshot_def Let_def fold_disappear_devices owned_keys_def vanish_device_def)
qed

lemma ex_replay_skips:
  "judge_observation (StrongId 5) (StrongId 7) (ex_observation 1 1000) ex_store = Skip"
  "map_option (\<lambda>wr. (wr_boot wr, wr_lost wr, wr_fenced wr, ex_key \<in> set (wr_device_identities wr)))
     (om_find (fs_workers ex_store) (StrongId 5)) = Some (StrongId 7, False, False, True)"
  by code_simp+

theorem replayed_snapshot_loses_devices_witness:
  "\<exists>d. om_find (fs_devices (fst (ingest_snapshot (StrongId 5) [ex_observation 1 1000]
          ObservationPolicy_default 1000 ex_store))) ex_key = Some d \<and> ds_health d = HealthState.LOST"
proof -
  obtain wr where wr: "om_find (fs_workers ex_store) (StrongId 5) = Some wr" "\<not> wr_lost wr" "\<not> wr_fenced wr"
    "wr_boot wr = StrongId 7" "ex_key \<in> set (wr_device_identities wr)"
    using ex_replay_skips(2) by auto
  obtain d where "om_find (fs_devices ex_store) ex_key = Some d" using ex_store_drain by auto
  with replayed_snapshot_loses_devices [OF wr(1-3) _ wr(5), of "[ex_observation 1 1000]" d
      ObservationPolicy_default 1000]
  show ?thesis using ex_replay_skips(1) wr(4) by auto
qed


abbreviation ex_reregister :: store_op where
  "ex_reregister \<equiv> Register (ex_registration\<lparr>reg_registration_generation := Generation 2\<rparr>) 5000"

text \<open>C22: Registration, on every branch. A registration is accepted exactly when it carries the current
  epoch and a non-zero protocol version and either the worker is unknown, or it is the same boot
  with a newer registration generation, or it is another boot and the recorded incarnation is
  fenced, lost or not alive. A refused registration leaves the store as it is; an accepted one
  records the boot and the generation, marks the worker alive and not lost, takes over the
  enumerated devices and returns the generation plus one.\<close>

theorem register_worker_behaviour:
  "case register_worker reg now s of
     (s', Inl e) \<Rightarrow> s' = s \<and>
       \<not> (reg_epoch reg = fs_epoch s \<and> reg_protocol_version reg \<noteq> 0 \<and>
          (case om_find (fs_workers s) (reg_worker reg) of
             None \<Rightarrow> True
           | Some wr \<Rightarrow> if wr_boot wr = reg_worker_boot reg
                        then wr_registration_generation wr < reg_registration_generation reg
                        else \<not> worker_live wr))
   | (s', Inr rid) \<Rightarrow>
       reg_epoch reg = fs_epoch s \<and> reg_protocol_version reg \<noteq> 0 \<and>
       (case om_find (fs_workers s) (reg_worker reg) of
          None \<Rightarrow> True
        | Some wr \<Rightarrow> if wr_boot wr = reg_worker_boot reg
                     then wr_registration_generation wr < reg_registration_generation reg
                     else \<not> worker_live wr) \<and>
       rid = StrongId (gen_value (reg_registration_generation reg) + 1) \<and>
       (\<exists>wr'. om_find (fs_workers s') (reg_worker reg) = Some wr' \<and> wr_boot wr' = reg_worker_boot reg \<and>
              wr_registration_generation wr' = reg_registration_generation reg \<and> wr_alive wr' \<and>
              \<not> wr_lost wr' \<and> wr_last_heartbeat wr' = now \<and>
              wr_device_identities wr' = reg_enumerated_devices reg) \<and>
       fs_devices s' = fs_devices s \<and> fs_change_log s' = fs_change_log s"
  by (auto simp: register_worker_def registration_id_def reaffirmed_def new_worker_record_def
      update_worker_devices_locked_def worker_live_def om_find_emplace not_le not_less split: option.splits if_splits)

text \<open>An operation that names one worker leaves the records of all other workers as they are.\<close>

theorem other_workers_untouched:
  assumes "op_worker op \<noteq> Some w"
  shows "om_find (fs_workers (run_op op s)) w = om_find (fs_workers s) w"
  using assms by (rule run_op_other_workers)

theorem other_workers_untouched_witness:
  "om_find (fs_workers (run_op ex_reregister ex_store)) (StrongId 6) = om_find (fs_workers ex_store) (StrongId 6)"
  by (rule other_workers_untouched) (simp add: ex_registration_def)




text \<open>C21: After recovery from any snapshot a device is neither fresh nor eligible, and it stays so until an
  observation of that device is ingested, whatever other operations run in between.\<close>

theorem recovered_devices_need_observation:
  assumes "\<forall>op\<in>set ops. \<forall>w obs pol now. op = Ingest w obs pol now \<longrightarrow>
             (\<forall>ob\<in>set obs. canonical_device_identity (o_identity ob) \<noteq> k)"
    and "om_find (fs_devices (run_ops ops (fst (restore sn s)))) k = Some d" "snapshot_maps_ok sn" "reachable s"
  shows "\<not> ds_observation_fresh d \<and>
         ds_eligibility d \<notin> {EligibilityState.ELIGIBLE, EligibilityState.DEGRADED_ELIGIBLE}"
proof -
  have "\<forall>op\<in>set ops. \<not> observes op k"
    using assms(1) by (auto simp: observes_def split: store_op.splits)
  then have "not_fresh_at (om_find (fs_devices (run_ops ops (fst (restore sn s)))) k)"
    by (rule run_ops_not_fresh) (auto simp: not_fresh_at_def restore_devices)
  moreover have "justified.all_devices (run_ops ops (fst (restore sn s)))"
    by (rule justified.inv_run_ops, rule justified.inv_restore) (use assms justified.inv_reachable in auto)
  ultimately show ?thesis
    using assms(2) by (fastforce simp: not_fresh_at_def justified.all_devices_def device_justified_def)
qed

definition ex_recovered :: FleetStateStore where
  "ex_recovered = run_ops [SetDrain (StrongId 5) ex_key DrainState.DRAINING 6000, SetDrain (StrongId 5) ex_key ACTIVE 6100]
     (fst (restore (snapshot ex_store) (FleetStateStore_init (StrongId 1) (Generation 1))))"

lemma ex_recovered_device: "om_find (fs_devices ex_recovered) ex_key \<noteq> None"
  by code_simp

lemma reachable_snapshot_maps_ok:
  assumes "reachable s"
  shows "snapshot_maps_ok (snapshot s)"
  using maps.inv_reachable [OF assms]
  by (auto simp: snapshot_maps_ok_def snapshot_def store_maps_ok_def worker_keys_ok_def om_entries_find)

theorem recovered_devices_need_observation_witness:
  "\<exists>d. om_find (fs_devices ex_recovered) ex_key = Some d \<and> ds_eligibility d \<noteq> EligibilityState.ELIGIBLE"
proof -
  obtain d where d: "om_find (fs_devices ex_recovered) ex_key = Some d" using ex_recovered_device by auto
  show ?thesis
    using recovered_devices_need_observation [OF _ d [unfolded ex_recovered_def]
        reachable_snapshot_maps_ok [OF ex_store_reachable] reachable.start] d
    by auto
qed

text \<open>C24: The accounting is exact, modulo the width of the counters: the number of workers, of live workers
  (alive, neither lost nor fenced), of all other workers, of devices, and of devices in each
  counted eligibility state; live and stale workers add up to the registered ones.\<close>

theorem accounting_exact:
  "let a = accounting s; n = (\<lambda>x. word_of_nat (length (filter (\<lambda>(k, d). ds_eligibility d = x) (fs_devices s))))
   in acc_registered_workers a = word_of_nat (length (fs_workers s)) \<and>
      acc_live_workers a = word_of_nat (length (filter (\<lambda>(k, wr). worker_live wr) (fs_workers s))) \<and>
      acc_stale_workers a = word_of_nat (length (filter (\<lambda>(k, wr). \<not> worker_live wr) (fs_workers s))) \<and>
      acc_live_workers a + acc_stale_workers a = acc_registered_workers a \<and>
      acc_active_registrations a = acc_live_workers a \<and>
      acc_devices a = word_of_nat (length (fs_devices s)) \<and>
      acc_eligible_devices a = n EligibilityState.ELIGIBLE \<and>
      acc_degraded_devices a = n EligibilityState.DEGRADED_ELIGIBLE \<and>
      acc_quarantined_devices a = n EligibilityState.QUARANTINED \<and>
      acc_drained_devices a = n EligibilityState.DRAINING \<and>
      acc_accepted_observations a = fs_accepted_observations s"
proof -
  have "word_of_nat (length (filter (\<lambda>(k, wr). worker_live wr) ws)) +
      word_of_nat (length (filter (\<lambda>(k, wr). \<not> worker_live wr) ws)) = (word_of_nat (length ws) :: u64)"
    for ws :: "(WorkerId, WorkerRecord) omap"
    by (induction ws) auto
  then show ?thesis
    by (simp add: Let_def accounting_def recompute_accounting_locked_def count_workers count_devices
        Accounting_zero_def)
qed

definition ex_policy :: ObservationPolicy where
  "ex_policy = ObservationPolicy_default\<lparr>pol_required_architecture := ''Hopper''\<rparr>"

definition ex_refused :: FleetStateStore where
  "ex_refused = run_ops [Register ex_registration 1000, Ingest (StrongId 5) [ex_observation 1 1000] ex_policy 1000]
     (FleetStateStore_init (StrongId 1) (Generation 1))"

text \<open>Draining and re-activating a device drops the policy from its eligibility: a device whose
  observation was refused because the policy requires another architecture becomes ELIGIBLE.\<close>

theorem undrain_bypasses_policy:
  "map_option ds_eligibility (om_find (fs_devices ex_refused) ex_key) = Some EligibilityState.INELIGIBLE \<and>
   map_option ds_eligibility (om_find (fs_devices (run_ops [SetDrain (StrongId 5) ex_key DrainState.DRAINING 1100,
      SetDrain (StrongId 5) ex_key ACTIVE 1200] ex_refused)) ex_key) = Some EligibilityState.ELIGIBLE"
  by code_simp

end
