(* ===== verification/Wire_Properties.thy ===== *)
theory Wire_Properties
  imports Coordinator
begin

text \<open>
  The properties of the wire format and of the state file: frames survive any chunking, damage is
  refused, messages and payloads round-trip, and a save leaves the old file or the new one.
\<close>

text \<open>A stream of encoded frames, cut into arbitrary chunks and followed by the beginning of another
  frame, is decoded into exactly those frames, in order; the beginning stays in the buffer and no
  error is raised.\<close>

theorem frames_survive_chunking:
  assumes "list_all frame_wf fs" "concat cs = encode_frames fs @ tail" "length tail < kFrameHeader + kFrameTrailer"
  shows "feed_chunks [] cs = (fs, tail, NeedMore)"
  using feed_chunks_frames [OF assms(1,2)] assms(3) by (simp add: kFrameHeader_def kFrameTrailer_def)

theorem frames_survive_chunking_witness:
  "feed_chunks [] [take 3 (encode_frame HELLO [1, 2]), drop 3 (encode_frame HELLO [1, 2]), [71]]
     = ([\<lparr>frame_type = HELLO, frame_payload = [1, 2]\<rparr>], [71], NeedMore)"
  using frames_survive_chunking [of "[\<lparr>frame_type = HELLO, frame_payload = [1, 2]\<rparr>]"
      "[take 3 (encode_frame HELLO [1, 2]), drop 3 (encode_frame HELLO [1, 2]), [71]]" "[71]"]
  by (simp add: frame_wf_def kMaxPayloadLength_def encode_frames_def kFrameHeader_def)

text \<open>C13: A frame in which up to four consecutive payload bytes were changed is refused with a checksum
  error whatever follows it, and nothing is consumed; so is a frame whose checksum was changed.\<close>

theorem damaged_frame_refused:
  assumes "length (a @ w @ b) \<le> unat kMaxPayloadLength" "length w' = length w" "length w \<le> 4" "w' \<noteq> w"
    and "frame = encode_frame t (a @ w @ b)" "put_u32 c \<noteq> drop (length frame - kFrameTrailer) frame"
    and "damaged = take (kFrameHeader + length a) frame @ w' @ drop (kFrameHeader + length (a @ w)) frame \<or>
         damaged = take (length frame - kFrameTrailer) frame @ put_u32 c"
  shows "feed [] (damaged @ rest) = (damaged @ rest, FrameError ''frame crc mismatch'')"
proof -
  let ?p = "a @ w @ b"
  have f: "frame = frame_body t ?p @ put_u32 (crc32 (frame_body t ?p))" by (simp add: assms(5) encode_frame_body)
  from assms(7) have "examine (damaged @ rest) = (FrameError ''frame crc mismatch'', 0)"
  proof
    assume "damaged = take (kFrameHeader + length a) frame @ w' @ drop (kFrameHeader + length (a @ w)) frame"
    then have "damaged = frame_body t (a @ w' @ b) @ put_u32 (crc32 (frame_body t ?p))"
      using assms(2) by (simp add: f frame_body_def kFrameHeader_def)
    with corrupt_payload_detected [OF assms(1-4)] show ?thesis by simp
  next
    assume "damaged = take (length frame - kFrameTrailer) frame @ put_u32 c"
    moreover have "c \<noteq> crc32 (frame_body t ?p)" using assms(6) by (auto simp: f kFrameTrailer_def)
    ultimately show ?thesis using corrupt_crc_detected [OF assms(1)] by (simp add: f kFrameTrailer_def)
  qed
  then show ?thesis by (simp add: feed_def)
qed

theorem damaged_frame_refused_witness:
  "snd (feed [] (take 12 (encode_frame HELLO [1, 2, 3]) @ [9] @ drop 13 (encode_frame HELLO [1, 2, 3])))
     = FrameError ''frame crc mismatch''"
proof -
  let ?f = "encode_frame HELLO [1, 2, 3]"
  have "put_u32 0 \<noteq> put_u32 1" by (simp add: put_u32_def)
  then obtain c where "put_u32 c \<noteq> drop (length ?f - kFrameTrailer) ?f" by metis
  then show ?thesis
    using damaged_frame_refused [of "[1]" "[2]" "[3]" "[9]" ?f HELLO c "take 12 ?f @ [9] @ drop 13 ?f" "[]"]
    by (simp add: kMaxPayloadLength_def kFrameHeader_def)
qed

text \<open>Decoding an encoded message gives the message back, for every message whose reason and payload
  fit the bounds; whatever decodes satisfies those bounds, so the encoding is injective on what a
  peer can decode.\<close>

theorem message_roundtrip:
  assumes "Message_wf m"
  shows "decode_message (encode_message m) = Inr m \<and>
         (decode_message bs = Inr m' \<longrightarrow> Message_wf m' \<and> (encode_message m' = encode_message m \<longrightarrow> m' = m))"
  using assms decode_encode_message decode_message_wf encode_message_inj by blast

theorem message_roundtrip_witness:
  "decode_message (encode_message (Message_default\<lparr>m_type := DRAIN, m_payload := [1, 2], m_reason := ''r''\<rparr>))
     = Inr (Message_default\<lparr>m_type := DRAIN, m_payload := [1, 2], m_reason := ''r''\<rparr>)"
  using message_roundtrip [of "Message_default\<lparr>m_type := DRAIN, m_payload := [1, 2], m_reason := ''r''\<rparr>"]
  by (simp add: Message_wf_def)



text \<open>After a save the file at the path is the old one or the complete new one, except when renaming
  over it failed twice after the old file was removed, which loses it; no other file but the
  temporary one changes.\<close>

theorem save_leaves_old_or_new:
  "(fst (save_snapshot io path s fs) path \<in> {fs path, Some (store_bytes s)} \<or>
    fst (save_snapshot io path s fs) path = None \<and> sio_remove io \<and> \<not> sio_rename io \<and> \<not> sio_rename2 io) \<and>
   (p = path \<or> p = path @ ''.tmp'' \<or> fst (save_snapshot io path s fs) p = fs p)"
proof -
  have "fst (save_snapshot io path s fs) path \<in> {fs path, Some (store_bytes s)} \<or>
    fst (save_snapshot io path s fs) path = None \<and> sio_remove io \<and> \<not> sio_rename io \<and> \<not> sio_rename2 io"
    unfolding save_snapshot_path by (auto split: if_splits)
  then show ?thesis using save_snapshot_others [of p path io s fs] by blast
qed

text \<open>What send_all puts on the wire is always a prefix of the data, in order and without gaps or
  repetitions, however the socket splits it up; if the socket only takes partial writes or asks to
  retry, it is the whole data.\<close>

theorem send_all_delivers:
  assumes "stream_open (ts_stream st)" "send_all data st = (st', r)"
  shows "\<exists>sent rest. data = sent @ rest \<and> ts_out st' = ts_out st @ sent \<and> (r = void_ok_result \<longrightarrow> rest = []) \<and>
           (list_all passing (ts_sends st) \<longrightarrow> r = void_ok_result)"
proof -
  obtain sent evs r' where loop: "send_loop (ts_sends st) data = (sent, evs, r')" by (metis prod_cases3)
  with assms have eq: "r = r'" "ts_out st' = ts_out st @ sent" by (auto simp: send_all_def)
  from send_loop_prefix [OF loop] obtain rest where rest: "data = sent @ rest" "r' = void_ok_result \<longrightarrow> rest = []" by blast
  have "list_all passing (ts_sends st) \<longrightarrow> r' = void_ok_result"
    using send_loop_complete [of "ts_sends st" data] loop by auto
  with rest eq show ?thesis by blast
qed

theorem send_all_delivers_witness:
  "ts_out (fst (send_all [1, 2, 3] \<lparr>ts_stream = \<lparr>sock = 4\<rparr>, ts_sends = [SendBytes 1, SendFail WSAEWOULDBLOCK, SendBytes 2],
      ts_recvs = [], ts_out = []\<rparr>)) = [1, 2, 3]"
proof -
  let ?st = "\<lparr>ts_stream = \<lparr>sock = 4\<rparr>, ts_sends = [SendBytes 1, SendFail WSAEWOULDBLOCK, SendBytes 2], ts_recvs = [], ts_out = []\<rparr>"
  obtain st' r where s: "send_all [1, 2, 3] ?st = (st', r)" by fastforce
  from send_all_delivers [OF _ s] have "ts_out st' = [1, 2, 3]" by (auto simp: stream_open_def passing_def)
  with s show ?thesis by simp
qed

text \<open>No socket is leaked or closed twice: connect, bind and accept either hand the one socket they
  opened to the object they return or close it before they fail, and however a stream is moved and
  closed, its handle is closed exactly once.\<close>

theorem sockets_have_one_owner:
  assumes "cc_socket cc \<noteq> Inr invalid_socket" "acc \<noteq> Inr invalid_socket"
  shows "(case tcp_connect cc of (Inr st, opened, closed) \<Rightarrow> opened = [sock st] \<and> closed = [] \<and> stream_open st
            | (Inl e, opened, closed) \<Rightarrow> closed = opened) \<and>
         (case tcp_bind bc of (Inr l, opened, closed) \<Rightarrow> opened = [l_sock l] \<and> closed = []
            | (Inl e, opened, closed) \<Rightarrow> closed = opened) \<and>
         (case tcp_accept ready acc l of (Inr st, opened, closed) \<Rightarrow> opened = [sock st] \<and> closed = [] \<and> stream_open st
            | (Inl e, opened, closed) \<Rightarrow> closed = opened) \<and>
         (let (this, other) = move_construct s; (this1, c1) = close_stream this; (this2, c2) = close_stream this1;
              (other1, c3) = close_stream other
          in c1 @ c2 @ c3 = (if stream_open s then [sock s] else [])) \<and>
         (let ((this, other), c1) = move_assign s t; (this1, c2) = close_stream this; (other1, c3) = close_stream other
          in c1 @ c2 @ c3 = (if stream_open s then [sock s] else []) @ (if stream_open t then [sock t] else [])) \<and>
         (let ((this, other), c1) = listener_move_assign l k; (this1, c2) = close_listener this; (other1, c3) = close_listener other
          in l_port this1 = l_port k \<and>
             c1 @ c2 @ c3 = filter (\<lambda>h. h \<noteq> invalid_socket) [l_sock l, l_sock k])"
proof (intro conjI)
  show "case tcp_connect cc of (Inr st, opened, closed) \<Rightarrow> opened = [sock st] \<and> closed = [] \<and> stream_open st
          | (Inl e, opened, closed) \<Rightarrow> closed = opened"
    using assms(1) by (cases "cc_socket cc"; cases "cc_connect cc")
      (simp_all add: tcp_connect_def wrap_socket_def stream_open_def)
  show "case tcp_bind bc of (Inr l, opened, closed) \<Rightarrow> opened = [l_sock l] \<and> closed = []
          | (Inl e, opened, closed) \<Rightarrow> closed = opened"
    by (cases "bc_socket bc"; cases "bc_bind bc"; cases "bc_listen bc") (simp_all add: tcp_bind_def)
  show "case tcp_accept ready acc l of (Inr st, opened, closed) \<Rightarrow> opened = [sock st] \<and> closed = [] \<and> stream_open st
          | (Inl e, opened, closed) \<Rightarrow> closed = opened"
    using assms(2) by (cases acc) (simp_all add: tcp_accept_def wrap_socket_def stream_open_def)
qed (simp_all add: move_construct_def move_assign_def close_stream_def stream_open_def
    listener_move_assign_def close_listener_def)

theorem sockets_have_one_owner_witness:
  "case tcp_connect \<lparr>cc_socket = Inr 7, cc_resolves = True, cc_connect = Some WSAEWOULDBLOCK, cc_select_ready = False, cc_so_error = 0\<rparr> of
     (Inr st, opened, closed) \<Rightarrow> opened = [sock st] \<and> closed = [] \<and> stream_open st
   | (Inl e, opened, closed) \<Rightarrow> closed = opened"
  using sockets_have_one_owner [of "\<lparr>cc_socket = Inr 7, cc_resolves = True, cc_connect = Some WSAEWOULDBLOCK,
      cc_select_ready = False, cc_so_error = 0\<rparr>" "Inr 7"]
  by simp


end
