(* ===== verification/Device_Properties.thy ===== *)
theory Device_Properties
  imports Pipeline
begin

text \<open>
  The properties of the per-device decisions: which signals make a device healthy, which inputs make
  it eligible, what one observation needs to make it eligible, and what its key identifies.
\<close>

text \<open>evaluate_health answers HEALTHY exactly when the device is not quarantined or drained, is present,
  has no fatal error, has a working driver and CUDA, has fewer consecutive failures than the
  threshold, has a fresh observation, passed allocation, kernel, synchronisation and round trip, and
  its temperature and power are within limits; it answers DEGRADED exactly when only the limits are
  exceeded.\<close>

theorem health_decision:
  "(hr_state (evaluate_health s) = HealthState.HEALTHY \<longleftrightarrow>
      \<not> hs_quarantined s \<and> \<not> hs_explicitly_drained s \<and> hs_device_present s \<and> \<not> hs_fatal_error s \<and>
      hs_driver_runtime_ok s \<and> hs_cuda_init_ok s \<and> hs_consecutive_failures s < hs_failure_threshold s \<and>
      \<not> hs_observation_stale s \<and> hs_memory_alloc_ok s \<and> hs_kernel_exec_ok s \<and> hs_sync_ok s \<and>
      hs_mem_roundtrip_ok s \<and> hs_temperature_within_limits s \<and> hs_power_within_limits s) \<and>
   (hr_state (evaluate_health s) = HealthState.DEGRADED \<longleftrightarrow>
      core_proven s \<and> \<not> (hs_temperature_within_limits s \<and> hs_power_within_limits s))"
  unfolding evaluate_health_HEALTHY evaluate_health_DEGRADED core_proven_def by blast

text \<open>evaluate_eligibility answers ELIGIBLE or DEGRADED_ELIGIBLE exactly when every gate is open
  (no quarantine, no drain, a live worker that did not restart, matching generations, a fresh
  observation, presence, CUDA, driver, architecture, memory, capabilities) and the device is HEALTHY
  or DEGRADED respectively; it gives a reason exactly when it does not answer ELIGIBLE, and never
  more than one.\<close>

theorem eligibility_decision:
  "(er_state (evaluate_eligibility i) = EligibilityState.ELIGIBLE \<longleftrightarrow> gates_open i \<and> ei_health i = HealthState.HEALTHY) \<and>
   (er_state (evaluate_eligibility i) = EligibilityState.DEGRADED_ELIGIBLE \<longleftrightarrow>
      gates_open i \<and> ei_health i = HealthState.DEGRADED) \<and>
   (er_reasons (evaluate_eligibility i) = [] \<longleftrightarrow> er_state (evaluate_eligibility i) = EligibilityState.ELIGIBLE) \<and>
   length (er_reasons (evaluate_eligibility i)) \<le> 1"
  using evaluate_eligibility_ELIGIBLE evaluate_eligibility_DEGRADED evaluate_eligibility_reasons
    evaluate_eligibility_one_reason by blast


text \<open>A policy that requires any capability can never be met: a device for which everything else is in
  order and which reports every required capability, with a known kind, is INELIGIBLE for a
  capability mismatch.\<close>

theorem required_capability_never_matches:
  assumes "pol_required_capabilities pol \<noteq> []"
    and "\<forall>req \<in> set (pol_required_capabilities pol).
           \<exists>c \<in> set (o_capabilities n). cap_name c = req \<and> cap_kind c \<noteq> CapabilityKind.UNKNOWN"
    and "\<not> ds_quarantined p" "ds_drain p = ACTIVE" "observation_is_fresh p n pol now" "probe_evidence n" "policy_met n pol"
  shows "ds_eligibility (ao_state (apply_observation p n pol now ep)) = EligibilityState.INELIGIBLE \<and>
         ds_eligibility_reasons (ao_state (apply_observation p n pol now ep)) = [CAPABILITY_MISMATCH]"
  using assms
  by (auto simp: apply_defs eligibility_input_def EligibilityInput_default_def architecture_matches_def Let_def
      evaluate_eligibility_def staleness_def hard_gate_def capability_loop_eq probe_evidence_def policy_met_def not_less)

definition ex_capable :: DeviceObservation where
  "ex_capable =
     \<lparr>o_device_id = StrongId 9, o_observation_generation = Generation 1, o_health_generation = Generation 1,
      o_observed_at = 1000, o_source_worker_boot = StrongId 7, o_source_worker = StrongId 5,
      o_source_node = StrongId 3, o_epoch = Generation 1, o_device_generation = Generation 1,
      o_identity = DeviceIdentity_default, o_health = HealthState.UNKNOWN, o_health_explanation = '''',
      o_total_memory = 100, o_used_memory = 10, o_free_memory = 90, o_temperature_c = None,
      o_power_w = None,
      o_capabilities = [\<lparr>cap_id = StrongId 1, cap_name = ''fp16'', cap_kind = CapabilityKind.VALIDATED,
        cap_value = '''', cap_description = ''''\<rparr>],
      o_core_validation_ok = True, o_validation_detail = '''',
      o_enumerated = True, o_present = True, o_driver_runtime_ok = True, o_cuda_init_ok = True,
      o_memory_alloc_ok = True, o_h2d_ok = True, o_kernel_exec_ok = True, o_sync_ok = True,
      o_d2h_ok = True, o_verify_ok = True\<rparr>"

theorem required_capability_never_matches_witness:
  "ds_eligibility (ao_state (apply_observation DeviceState_default ex_capable
     (ObservationPolicy_default\<lparr>pol_required_capabilities := [''fp16'']\<rparr>) 1000 (Generation 1)))
   = EligibilityState.INELIGIBLE"
  using required_capability_never_matches [of "ObservationPolicy_default\<lparr>pol_required_capabilities := [''fp16'']\<rparr>"
      ex_capable DeviceState_default 1000 "Generation 1"]
  by (simp add: ex_capable_def ObservationPolicy_default_def DeviceState_default_def observation_is_fresh_def
      probe_evidence_def policy_met_def)

text \<open>C32: The canonical identity, which is the key of a device in the store, determines the vendor name,
  UUID, PCI address, architecture, compute capability, memory size and driver version, as long as
  the vendor name, UUID and architecture contain no bar; devices that differ in their MIG partition
  or parent only always share a key.\<close>

theorem canonical_identity_determines:
  assumes "bar_free d" "bar_free e"
  shows "(canonical_device_identity d = canonical_device_identity e \<longrightarrow>
           AcceleratorVendor_to_string (di_vendor d) = AcceleratorVendor_to_string (di_vendor e) \<and>
           di_vendor_name d = di_vendor_name e \<and> di_uuid d = di_uuid e \<and> di_pci d = di_pci e \<and>
           di_architecture d = di_architecture e \<and> di_compute_capability d = di_compute_capability e \<and>
           di_total_physical_memory d = di_total_physical_memory e \<and> di_driver_version d = di_driver_version e) \<and>
         canonical_device_identity (d\<lparr>di_mig := m, di_parent_device := q\<rparr>) = canonical_device_identity d"
  using canonical_fields [OF assms] PciAddress_to_string_inj cc_to_string_inj dec_string_unat_inj
  by (auto simp: canonical_device_identity_def)

theorem canonical_identity_determines_witness:
  "canonical_device_identity (DeviceIdentity_default\<lparr>di_uuid := ''A''\<rparr>)
     \<noteq> canonical_device_identity (DeviceIdentity_default\<lparr>di_uuid := ''B''\<rparr>)"
  using canonical_identity_determines [of "DeviceIdentity_default\<lparr>di_uuid := ''A''\<rparr>"
      "DeviceIdentity_default\<lparr>di_uuid := ''B''\<rparr>"]
  by (auto simp: bar_free_def DeviceIdentity_default_def)

end
