(* ===== verification/Spec2Isabelle.thy ===== *)
theory Spec2Isabelle
  imports Agent_Properties Server_Properties Save_Steps Example_Programs Benchmark Cuda_Properties Cli_Properties Fleet_Properties Coordinator_Properties Wire_Properties Device_Properties
begin

text \<open>
  GPU Fleet Agent: a verification library of the program under \<^verbatim>\<open>src/\<close>.

  \<^bold>\<open>The program.\<close> A coordinator keeps the state of a fleet of accelerators. On each machine a worker
  agent enumerates and probes its devices, registers with the coordinator over TCP, and publishes
  snapshots of observations and heartbeats. The coordinator judges each observation against the
  registered incarnation of the worker, derives the health and the eligibility of every device,
  records changes, declares workers lost that stop sending heartbeats, obeys drain, quarantine and
  save commands, and recovers its state from a file. A command line tool runs both sides and sends
  the commands.

  \<^bold>\<open>Values and encodings.\<close> \<open>Prelude\<close> names the fixed-width integers (\<open>u64\<close> is a 64-bit word; signed
  values are the same words read by \<^term>\<open>sint\<close>; a \<^verbatim>\<open>double\<close> is its bit pattern, because the program only
  stores and copies it) and the number printers. \<open>Core_Types\<close> has the identifiers, generations, versions
  and results of \<^verbatim>\<open>core/\<close> and \<^verbatim>\<open>types/\<close>; a \<^verbatim>\<open>Result<T>\<close> is a sum, and \<^verbatim>\<open>Result<void>\<close> is the record of
  its two members, since the difference matters. Enumerations keep the source's constructors and have
  one more, \<open>OTHER\<close>, for the values a cast can produce. \<open>Crc32\<close> is the checksum with the lemma that
  a change within 32 consecutive bits changes it. \<open>Byte_Codec\<close> is the writer and the bounded reader of
  \<^verbatim>\<open>core/codec.hpp\<close> with the locales \<open>bounded_reader\<close>, \<open>codec\<close> and \<open>enum_code\<close>, interpreted for every
  encoded type. \<open>Ordered_Map\<close> is \<^verbatim>\<open>std::map\<close> as a sorted association list, behind the locale \<open>std_map\<close>.

  \<^bold>\<open>Devices.\<close> \<open>Identity\<close>, \<open>Health\<close>, \<open>Eligibility\<close>, \<open>Observation\<close> and \<open>Pipeline\<close> follow the headers of the
  same names: the canonical key of a device, the health and eligibility evaluators, the observation
  data with the change records, and the application of one observation to a device state.
  \<open>Device_Backend\<close> is the backend interface, as the record of the virtual functions and the locale
  \<open>device_backend\<close>, with the synthetic backend as one interpretation; \<open>Cuda\<close> is the CUDA backend, the
  other one, with the validation run and its kernel. The answers of the CUDA runtime are the fields of
  two records.

  \<^bold>\<open>The store.\<close> \<open>Fleet_State\<close> is the class \<^verbatim>\<open>FleetStateStore\<close>: one record for its members and one function for
  each method. Every method holds the one mutex throughout, so a run of the program is a sequence of
  operations. \<open>Fleet_Safety\<close> is that state machine: the operations as a datatype, reachability, the
  machine of a single device as an inductive relation that the store refines, and the locales
  \<open>store_invariant\<close> and \<open>device_invariant\<close> under which the invariants are proved once. \<open>Ingest\<close> describes
  the effect of a whole snapshot; \<open>Fleet_Examples\<close> is a small fleet for the instances.

  \<^bold>\<open>The wire and the file.\<close> \<open>Registration\<close>, \<open>Protocol\<close>, \<open>Framing\<close>, \<open>Observation_Codec\<close>, \<open>Snapshot_Codec\<close> and
  \<open>Persistence\<close> are the codecs, the incremental frame decoder and the state file. The file system is a map
  from paths to contents, and the outcome of each call of the C library is an argument. \<open>Save_Steps\<close> has the save
  call by call on a disk of named files, for crashes and for saves at the same time. \<open>Transport\<close> is
  \<^verbatim>\<open>transport/transport.cpp\<close>: what the socket calls return is an argument as well, and the handles passed to
  \<^verbatim>\<open>closesocket\<close> are recorded.

  \<^bold>\<open>The processes.\<close> \<open>Coordinator\<close> is the dispatcher, the connection loop, the liveness pass, start, stop,
  load and save, each as one function. \<open>Server\<close> is the same coordinator as the threads it runs: the accept
  thread, one thread for every connection, the liveness thread and the caller of stop take steps on a
  shared state in any order, a step being what happens between two points where another thread may come in.
  \<open>Agent\<close> is the worker agent, from its constructor to the reconnect loop. \<open>Cli\<close> is the
  tool with all its commands: arguments to output, exit status and files. \<open>Example_Programs\<close> has the
  programs of \<^verbatim>\<open>examples/\<close> and \<^verbatim>\<open>consumer/\<close> with what they print, \<open>Benchmark\<close> the loops of \<^verbatim>\<open>benchmarks/\<close>.

  \<^bold>\<open>What is shown.\<close> \<open>Fleet_Properties\<close>: eligibility is always justified by a fresh observation, presence,
  health and the absence of quarantine and drain; only the registered, unfenced incarnation of a worker
  in the current epoch changes a device; the store refines the machine of single devices; quarantine and
  drain are sticky; generations do not go back; recovered devices need a new observation; accounting is exact.
  \<open>Coordinator_Properties\<close>: the same safety for arbitrary bytes on a connection, independence of chunking,
  order of dispatch, recovery from the saved file, the exact effect of a liveness pass.
  \<open>Server_Properties\<close>: the safety in every interleaving, the agreement of a thread that runs alone with the
  sequential functions, the two races on a restarted worker, and that stopping ends every thread.
  \<open>Agent_Properties\<close>: the handshake, and the way of an observation from the probe into the store.
  \<open>Cli_Properties\<close>: the commands against a running coordinator. \<open>Wire_Properties\<close>: frames survive chunking, damage
  is refused, a save leaves the old or the new file, sends are complete, sockets have one owner.
  \<open>Save_Steps\<close>: a save call by call has the outcomes of the save as one function, a crash leaves the old or the new
  file, and two saves at once can leave none. \<open>Benchmark\<close>: threads that report the same generations are
  accepted once for each generation.
  \<open>Cuda_Properties\<close>: what a passed validation means. \<open>Device_Properties\<close>: the decisions on one device.
  Where the code does not do what it means to, the theorem states what it does.

  \<^bold>\<open>Bounds.\<close> There is no fuel: loops over buffers and lists recurse on them, the frame loop terminates
  because every frame takes at least 15 bytes, the agent reads at most 64 (in a session round 16) times
  for a message because the source does, and the reconnect loop and a session run over the list of what
  the outside does to them, which ends when \<^verbatim>\<open>stop\<close> is called. The threads of a stopped coordinator descend a
  lexicographic measure: the receives, accepts and sleeps still under way, then the steps left to take.

  \<^bold>\<open>Not modelled.\<close> Sleeps and the joins of \<^verbatim>\<open>stop\<close>, which have no state; in \<open>Server\<close> a save is part of the step of its
  frame, and \<open>Save_Steps\<close> looks at saves that overlap; the start of Winsock by a static constructor;
  hash functions and stream operators of the value types; the clock readings and rates of the benchmark; the tests. Rounding of
  \<^verbatim>\<open>float\<close> values is not modelled; \<open>Cuda\<close> says why the comparison it makes does not depend on it.
\<close>

end
